(* ===== verification/Json.thy ===== *)
theory Json
  imports Prelude
begin

text \<open>
  JavaScript values and their JSON texts: the conversions of the language the pages use
  (truthiness, \<open>ToNumber\<close>, \<open>ToString\<close>), \<open>JSON.stringify\<close> and
  \<open>JSON.parse\<close>. A number is \<open>NaN\<close>, an infinity or a decimal \<open>Dec m e\<close>, which stands for
  \<open>m / 10 ^ e\<close>; a decimal of at most 15 digits is the double the engine holds, a longer one
  is kept exactly where the engine rounds. An object is the list of its properties in order
  of insertion; where a text gives a property twice, the last one counts.
\<close>

subsection \<open>Values\<close>

datatype jsnum = NaN | Infty bool | Dec int nat

datatype jsval =
    Undefined
  | Null
  | Bool bool
  | Num jsnum
  | Str string
  | Arr "jsval list"
  | Obj "(string \<times> jsval) list"

abbreviation JInt :: "int \<Rightarrow> jsval" where
  "JInt i \<equiv> Num (Dec i 0)"

abbreviation quote :: char where "quote \<equiv> CHR 0x22"
abbreviation backslash :: char where "backslash \<equiv> CHR 0x5C"

definition obj_get :: "string \<Rightarrow> (string \<times> jsval) list \<Rightarrow> jsval" where
  "obj_get k kvs = (case map_of (rev kvs) k of None \<Rightarrow> Undefined | Some v \<Rightarrow> v)"

fun num_zero :: "jsnum \<Rightarrow> bool" where
  "num_zero (Dec m e) = (m = 0)"
| "num_zero _ = False"

fun truthy :: "jsval \<Rightarrow> bool" where
  "truthy Undefined = False"
| "truthy Null = False"
| "truthy (Bool b) = b"
| "truthy (Num n) = (n \<noteq> NaN \<and> \<not> num_zero n)"
| "truthy (Str s) = (s \<noteq> [])"
| "truthy (Arr _) = True"
| "truthy (Obj _) = True"

text \<open>\<open>a || b\<close> and \<open>a && b\<close> return an operand.\<close>

definition js_or :: "jsval \<Rightarrow> jsval \<Rightarrow> jsval" where
  "js_or a b = (if truthy a then a else b)"

fun num_lt :: "jsnum \<Rightarrow> jsnum \<Rightarrow> bool" where
  "num_lt NaN _ = False"
| "num_lt _ NaN = False"
| "num_lt (Infty neg) (Infty neg') = (neg \<and> \<not> neg')"
| "num_lt (Infty neg) (Dec _ _) = neg"
| "num_lt (Dec _ _) (Infty neg) = (\<not> neg)"
| "num_lt (Dec m e) (Dec m' e') = (m * 10 ^ e' < m' * 10 ^ e)"

text \<open>\<open>a >= b\<close> is false as soon as an operand is \<open>NaN\<close>.\<close>

definition num_ge :: "jsnum \<Rightarrow> jsnum \<Rightarrow> bool" where
  "num_ge a b \<longleftrightarrow> a \<noteq> NaN \<and> b \<noteq> NaN \<and> \<not> num_lt a b"

lemma num_lt_Int [simp]: "num_lt (Dec i 0) (Dec j 0) \<longleftrightarrow> i < j"
  by simp

lemma num_ge_Int [simp]: "num_ge (Dec i 0) (Dec j 0) \<longleftrightarrow> j \<le> i"
  by (auto simp: num_ge_def)


subsection \<open>Numbers as texts\<close>

definition strip_zeros :: "string \<Rightarrow> string" where
  "strip_zeros ds = rev (dropWhile (\<lambda>c. c = CHR ''0'') (rev ds))"

text \<open>\<open>Number::toString\<close> of the language, radix 10.\<close>

fun number_to_string :: "jsnum \<Rightarrow> string" where
  "number_to_string NaN = ''NaN''"
| "number_to_string (Infty neg) = (if neg then ''-Infinity'' else ''Infinity'')"
| "number_to_string (Dec m e) =
     (if m = 0 then ''0'' else
      let sgn = (if m < 0 then ''-'' else []);
          all = show_nat (nat \<bar>m\<bar>);
          ds = strip_zeros all;
          k = length ds;
          n = int (length all) - int e
      in sgn @
        (if int k \<le> n \<and> n \<le> 21 then ds @ replicate (nat n - k) (CHR ''0'')
         else if 0 < n \<and> n \<le> 21 then take (nat n) ds @ ''.'' @ drop (nat n) ds
         else if -6 < n \<and> n \<le> 0 then ''0.'' @ replicate (nat (- n)) (CHR ''0'') @ ds
         else (if k = 1 then ds else take 1 ds @ ''.'' @ drop 1 ds) @
              (if n - 1 < 0 then ''e-'' else ''e+'') @ show_nat (nat \<bar>n - 1\<bar>)))"

declare number_to_string.simps(3) [simp del]

lemma strip_zeros_pad: "strip_zeros ds @ replicate (length ds - length (strip_zeros ds)) (CHR ''0'') = ds"
proof -
  let ?z = "\<lambda>c. c = CHR ''0''"
  let ?t = "takeWhile ?z (rev ds)"
  have zeros: "replicate (length ?t) (CHR ''0'') = ?t"
    by (rule replicate_length_same) (auto dest: set_takeWhileD)
  have "ds = rev (?t @ dropWhile ?z (rev ds))"
    by (simp only: takeWhile_dropWhile_id rev_rev_ident)
  then have split: "ds = strip_zeros ds @ rev ?t"
    by (simp only: strip_zeros_def rev_append)
  then have "length ds = length (strip_zeros ds) + length ?t"
    by (metis length_append length_rev)
  then have "length ds - length (strip_zeros ds) = length ?t" by simp
  then show ?thesis
    using split zeros by (metis rev_replicate)
qed

lemma strip_zeros_length: "length (strip_zeros ds) \<le> length ds"
  unfolding strip_zeros_def by (metis length_dropWhile_le length_rev)

lemma show_nat_length: "n < 10 ^ k \<Longrightarrow> 0 < k \<Longrightarrow> length (show_nat n) \<le> k"
proof (induction n arbitrary: k rule: show_nat.induct)
  case (1 n)
  show ?case
  proof (cases "n < 10")
    case True
    with "1.prems" show ?thesis by (simp add: show_nat.simps [of n])
  next
    case False
    with "1.prems" obtain j where k: "k = Suc j" and j: "0 < j"
      by (cases k; cases "k - 1") auto
    have "n div 10 < 10 ^ j"
      using "1.prems"(1) k by (simp add: less_mult_imp_div_less mult.commute)
    with "1.IH" [OF False _ j] have "length (show_nat (n div 10)) \<le> j" by simp
    with False k show ?thesis by (simp add: show_nat.simps [of n])
  qed
qed

lemma number_to_string_int:
  assumes "\<bar>i\<bar> < 10 ^ 21"
  shows "number_to_string (Dec i 0) = show_int i"
proof (cases "i = 0")
  case True
  then show ?thesis by (simp add: show_int_def number_to_string.simps)
next
  case False
  have "nat \<bar>i\<bar> < 10 ^ 21" using assms by (simp add: nat_less_iff)
  then have len: "length (show_nat (nat \<bar>i\<bar>)) \<le> 21"
    by (rule show_nat_length) simp
  have k: "int (length (strip_zeros (show_nat (nat \<bar>i\<bar>)))) \<le> int (length (show_nat (nat \<bar>i\<bar>)))"
    by (simp add: strip_zeros_length)
  have "number_to_string (Dec i 0) = (if i < 0 then ''-'' else []) @ show_nat (nat \<bar>i\<bar>)"
    using False len k by (simp add: number_to_string.simps Let_def strip_zeros_pad)
  then show ?thesis by (auto simp: show_int_def)
qed


subsection \<open>Conversion to a text\<close>

fun to_str :: "jsval \<Rightarrow> string" where
  "to_str Undefined = ''undefined''"
| "to_str Null = ''null''"
| "to_str (Bool b) = (if b then ''true'' else ''false'')"
| "to_str (Num n) = number_to_string n"
| "to_str (Str s) = s"
| "to_str (Arr vs) =
     join_with '','' (map (\<lambda>v. if v = Undefined \<or> v = Null then [] else to_str v) vs)"
| "to_str (Obj _) = ''[object Object]''"

lemma to_str_Int: "\<bar>i\<bar> < 10 ^ 21 \<Longrightarrow> to_str (JInt i) = show_int i"
  by (simp add: number_to_string_int)

end
