(* ===== verification/Json_Text.thy ===== *)
theory Json_Text
  imports Json
begin

text \<open>
  \<open>JSON.stringify\<close> and \<open>JSON.parse\<close>, as texts. The parser is recursive descent with fuel;
  the length of the text is enough (\<open>json_parse_stringify\<close> shows that it never runs out on a
  printed value), and what it accepts is read back as the value that was printed.
\<close>

subsection \<open>Printing\<close>

definition quote_char :: "char \<Rightarrow> string" where
  "quote_char c =
     (let n = of_char c :: nat in
      if c = quote then [backslash, quote]
      else if c = backslash then [backslash, backslash]
      else if n = 8 then [backslash, CHR ''b'']
      else if n = 12 then [backslash, CHR ''f'']
      else if n = 10 then [backslash, CHR ''n'']
      else if n = 13 then [backslash, CHR ''r'']
      else if n = 9 then [backslash, CHR ''t'']
      else if n < 32 then [backslash] @ ''u00'' @ [hex_char (n div 16), hex_char (n mod 16)]
      else [c])"

definition quote_string :: "string \<Rightarrow> string" where
  "quote_string s = quote # concat (map quote_char s) @ [quote]"

text \<open>A non-finite number prints as \<open>null\<close>, as does \<open>undefined\<close> in an array.\<close>

fun num_text :: "jsnum \<Rightarrow> string" where
  "num_text (Dec m e) = number_to_string (Dec m e)"
| "num_text _ = ''null''"

fun json_text :: "jsval \<Rightarrow> string" where
  "json_text Undefined = ''null''"
| "json_text Null = ''null''"
| "json_text (Bool b) = (if b then ''true'' else ''false'')"
| "json_text (Num n) = num_text n"
| "json_text (Str s) = quote_string s"
| "json_text (Arr vs) = ''['' @ join_with '','' (map json_text vs) @ '']''"
| "json_text (Obj kvs) =
     ''{'' @ join_with '',''
       (map (\<lambda>kv. quote_string (fst kv) @ '':'' @ json_text (snd kv))
         (filter (\<lambda>kv. snd kv \<noteq> Undefined) kvs)) @ ''}''"

text \<open>A property whose value is \<open>undefined\<close> is left out; \<open>undefined\<close> itself has no text.\<close>

definition json_stringify :: "jsval \<Rightarrow> string option" where
  "json_stringify v = (if v = Undefined then None else Some (json_text v))"


subsection \<open>Parsing\<close>

definition is_json_ws :: "char \<Rightarrow> bool" where
  "is_json_ws c \<longleftrightarrow> (of_char c :: nat) \<in> {32, 9, 10, 13}"

definition skip_ws :: "string \<Rightarrow> string" where
  "skip_ws s = dropWhile is_json_ws s"

text \<open>UTF-8 encoding of a code point.\<close>

definition utf8_encode :: "nat \<Rightarrow> string" where
  "utf8_encode n =
     (if n < 128 then [char_of n]
      else if n < 2048 then [char_of (192 + n div 64), char_of (128 + n mod 64)]
      else if n < 65536 then
        [char_of (224 + n div 4096), char_of (128 + n div 64 mod 64), char_of (128 + n mod 64)]
      else [char_of (240 + n div 262144), char_of (128 + n div 4096 mod 64),
            char_of (128 + n div 64 mod 64), char_of (128 + n mod 64)])"

definition hex4 :: "string \<Rightarrow> nat option" where
  "hex4 s =
     (case map hex_val (take 4 s) of
        [Some a, Some b, Some c, Some d] \<Rightarrow> Some (4096 * a + 256 * b + 16 * c + d)
      | _ \<Rightarrow> None)"

text \<open>
  What follows a backslash: the decoded text and the number of characters read. Two
  surrogate escapes in a row are one character.
\<close>

definition read_escape :: "string \<Rightarrow> (string \<times> nat) option" where
  "read_escape s =
     (case s of [] \<Rightarrow> None
      | c # r \<Rightarrow>
        if c = quote \<or> c = backslash \<or> c = CHR ''/'' then Some ([c], 1)
        else if c = CHR ''b'' then Some ([char_of (8::nat)], 1)
        else if c = CHR ''f'' then Some ([char_of (12::nat)], 1)
        else if c = CHR ''n'' then Some ([char_of (10::nat)], 1)
        else if c = CHR ''r'' then Some ([char_of (13::nat)], 1)
        else if c = CHR ''t'' then Some ([char_of (9::nat)], 1)
        else if c = CHR ''u'' then
          (case hex4 r of None \<Rightarrow> None
           | Some hi \<Rightarrow>
               if 55296 \<le> hi \<and> hi < 56320 \<and> take 2 (drop 4 r) = [backslash, CHR ''u''] then
                 (case hex4 (drop 6 r) of
                    Some lo \<Rightarrow>
                      if 56320 \<le> lo \<and> lo < 57344
                      then Some (utf8_encode (65536 + (hi - 55296) * 1024 + (lo - 56320)), 11)
                      else Some (utf8_encode hi, 5)
                  | None \<Rightarrow> None)
               else Some (utf8_encode hi, 5))
        else None)"

function parse_chars :: "string \<Rightarrow> (string \<times> string) option" where
  "parse_chars [] = None"
| "parse_chars (c # s) =
     (if c = quote then Some ([], s)
      else if c = backslash then
        (case read_escape s of None \<Rightarrow> None
         | Some (t, n) \<Rightarrow> map_option (map_prod ((@) t) id) (parse_chars (drop n s)))
      else if (of_char c :: nat) < 32 then None
      else map_option (map_prod ((#) c) id) (parse_chars s))"
  by pat_completeness auto
termination
  by (relation "measure length") auto

definition dec_huge :: "int \<Rightarrow> nat \<Rightarrow> bool" where
  "dec_huge m e \<longleftrightarrow> (2 ^ 1024 - 2 ^ 970) * 10 ^ e \<le> \<bar>m\<bar>"

text \<open>A literal beyond the range of doubles is an infinity.\<close>

definition make_dec :: "bool \<Rightarrow> string \<Rightarrow> string \<Rightarrow> int \<Rightarrow> jsnum" where
  "make_dec neg ip fp x =
     (let m = int (read_digits (ip @ fp)) * (if neg then -1 else 1);
          e = int (length fp) - x;
          m' = (if e < 0 then m * 10 ^ nat (- e) else m);
          e' = nat e
      in if dec_huge m' e' then Infty neg else Dec m' e')"

definition parse_frac :: "string \<Rightarrow> (string \<times> string) option" where
  "parse_frac s =
     (case s of [] \<Rightarrow> Some ([], s)
      | c # r \<Rightarrow>
        if c = CHR ''.'' then
          (if takeWhile is_digit r = [] then None
           else Some (takeWhile is_digit r, dropWhile is_digit r))
        else Some ([], s))"

definition parse_exp :: "string \<Rightarrow> (int \<times> string) option" where
  "parse_exp s =
     (case s of [] \<Rightarrow> Some (0, s)
      | c # r \<Rightarrow>
        if c = CHR ''e'' \<or> c = CHR ''E'' then
          (let neg = (r \<noteq> [] \<and> hd r = CHR ''-'');
               r' = (if r \<noteq> [] \<and> (hd r = CHR ''-'' \<or> hd r = CHR ''+'') then tl r else r)
           in if takeWhile is_digit r' = [] then None
              else Some ((if neg then -1 else 1) * int (read_digits (takeWhile is_digit r')),
                         dropWhile is_digit r'))
        else Some (0, s))"

definition parse_number :: "string \<Rightarrow> (jsnum \<times> string) option" where
  "parse_number s =
     (let neg = (s \<noteq> [] \<and> hd s = CHR ''-'');
          s1 = (if neg then tl s else s);
          ip = takeWhile is_digit s1
      in if ip = [] \<or> (hd ip = CHR ''0'' \<and> 1 < length ip) then None
         else (case parse_frac (dropWhile is_digit s1) of None \<Rightarrow> None
               | Some (fp, s2) \<Rightarrow>
                   (case parse_exp s2 of None \<Rightarrow> None
                    | Some (x, s3) \<Rightarrow> Some (make_dec neg ip fp x, s3))))"

text \<open>The three words of the grammar.\<close>

definition parse_word :: "string \<Rightarrow> (jsval \<times> string) option" where
  "parse_word s =
     (if take 4 s = ''null'' then Some (Null, drop 4 s)
      else if take 4 s = ''true'' then Some (Bool True, drop 4 s)
      else if take 5 s = ''false'' then Some (Bool False, drop 5 s)
      else map_option (map_prod Num id) (parse_number s))"

fun parse_value :: "nat \<Rightarrow> string \<Rightarrow> (jsval \<times> string) option"
and parse_elems :: "nat \<Rightarrow> string \<Rightarrow> (jsval list \<times> string) option"
and parse_members :: "nat \<Rightarrow> string \<Rightarrow> ((string \<times> jsval) list \<times> string) option" where
  "parse_value 0 s = None"
| "parse_value (Suc f) s =
     (case skip_ws s of [] \<Rightarrow> None
      | c # r \<Rightarrow>
        if c = quote then map_option (map_prod Str id) (parse_chars r)
        else if c = CHR ''['' then
          (case skip_ws r of [] \<Rightarrow> None
           | d # r' \<Rightarrow> if d = CHR '']'' then Some (Arr [], r')
                      else map_option (map_prod Arr id) (parse_elems f r))
        else if c = CHR ''{'' then
          (case skip_ws r of [] \<Rightarrow> None
           | d # r' \<Rightarrow> if d = CHR ''}'' then Some (Obj [], r')
                      else map_option (map_prod Obj id) (parse_members f r))
        else parse_word (c # r))"
| "parse_elems 0 s = None"
| "parse_elems (Suc f) s =
     (case parse_value f s of None \<Rightarrow> None
      | Some (v, s1) \<Rightarrow>
        (case skip_ws s1 of [] \<Rightarrow> None
         | c # r \<Rightarrow>
           if c = CHR '']'' then Some ([v], r)
           else if c = CHR '','' then map_option (map_prod ((#) v) id) (parse_elems f r)
           else None))"
| "parse_members 0 s = None"
| "parse_members (Suc f) s =
     (case skip_ws s of [] \<Rightarrow> None
      | q # s0 \<Rightarrow>
        if q \<noteq> quote then None else
        (case parse_chars s0 of None \<Rightarrow> None
         | Some (k, s1) \<Rightarrow>
           (case skip_ws s1 of [] \<Rightarrow> None
            | c # s2 \<Rightarrow>
              if c \<noteq> CHR '':'' then None else
              (case parse_value f s2 of None \<Rightarrow> None
               | Some (v, s3) \<Rightarrow>
                 (case skip_ws s3 of [] \<Rightarrow> None
                  | d # r \<Rightarrow>
                    if d = CHR ''}'' then Some ([(k, v)], r)
                    else if d = CHR '','' then map_option (map_prod ((#) (k, v)) id) (parse_members f r)
                    else None)))))"

text \<open>\<open>JSON.parse\<close>: the whole text is one value between white space.\<close>

definition json_parse :: "string \<Rightarrow> jsval option" where
  "json_parse s =
     (case parse_value (Suc (length s)) s of
        Some (v, r) \<Rightarrow> if skip_ws r = [] then Some v else None
      | None \<Rightarrow> None)"

subsection \<open>What is printed is read back\<close>

lemma hex4_small:
  "n < 32 \<Longrightarrow> hex4 (CHR ''0'' # CHR ''0'' # hex_char (n div 16) # hex_char (n mod 16) # r) = Some n"
proof -
  assume n: "n < 32"
  have z: "hex_val (CHR ''0'') = Some 0" by (simp add: hex_val_def)
  have "hex_val (hex_char (n div 16)) = Some (n div 16)" "hex_val (hex_char (n mod 16)) = Some (n mod 16)"
    using n by simp_all
  then show ?thesis by (simp add: hex4_def z)
qed

lemma char_of_controls:
  "char_of (8::nat) = CHR 0x08" "char_of (12::nat) = CHR 0x0C"
  "char_of (10::nat) = CHR 0x0A" "char_of (13::nat) = CHR 0x0D" "char_of (9::nat) = CHR 0x09"
  by code_simp+

lemma append_single: "(@) [x] = (#) x"
  by (rule ext) simp

lemma parse_chars_quote_simple:
  "c \<in> {quote, backslash, CHR 0x08, CHR 0x0C, CHR 0x0A, CHR 0x0D, CHR 0x09} \<Longrightarrow>
   parse_chars (quote_char c @ r) = map_option (map_prod ((#) c) id) (parse_chars r)"
  by (elim insertE emptyE; hypsubst;
      simp add: quote_char_def read_escape_def char_of_controls append_single)

lemma parse_chars_quote_char:
  "parse_chars (quote_char c @ r) = map_option (map_prod ((#) c) id) (parse_chars r)"
proof -
  let ?n = "of_char c :: nat"
  have ctl: "c = CHR 0x08 \<longleftrightarrow> ?n = 8" "c = CHR 0x0C \<longleftrightarrow> ?n = 12" "c = CHR 0x0A \<longleftrightarrow> ?n = 10"
    "c = CHR 0x0D \<longleftrightarrow> ?n = 13" "c = CHR 0x09 \<longleftrightarrow> ?n = 9"
    by (simp_all add: of_char_inject [symmetric, of c])
  consider (simple) "c \<in> {quote, backslash, CHR 0x08, CHR 0x0C, CHR 0x0A, CHR 0x0D, CHR 0x09}"
    | (esc) "c \<noteq> quote" "c \<noteq> backslash" "?n \<notin> {8, 12, 10, 13, 9}" "?n < 32"
    | (raw) "c \<noteq> quote" "c \<noteq> backslash" "\<not> ?n < 32"
    by (auto simp: ctl)
  then show ?thesis
  proof cases
    case simple
    then show ?thesis by (rule parse_chars_quote_simple)
  next
    case esc
    have h: "hex4 (CHR ''0'' # CHR ''0'' # hex_char (?n div 16) # hex_char (?n mod 16) # r) = Some ?n"
      using esc(4) by (rule hex4_small)
    have u: "utf8_encode ?n = [c]" using esc(4) by (simp add: utf8_encode_def)
    have q: "quote_char c = backslash # CHR ''u'' # CHR ''0'' # CHR ''0'' #
                [hex_char (?n div 16), hex_char (?n mod 16)]"
      using esc by (auto simp: quote_char_def Let_def)
    have "read_escape (CHR ''u'' # CHR ''0'' # CHR ''0'' # hex_char (?n div 16) # hex_char (?n mod 16) # r)
            = Some ([c], 5)"
      using h u esc(4) by (simp add: read_escape_def)
    then show ?thesis unfolding q by (simp add: append_single)
  next
    case raw
    then have "?n \<noteq> 8" "?n \<noteq> 12" "?n \<noteq> 10" "?n \<noteq> 13" "?n \<noteq> 9" by auto
    with raw have "quote_char c = [c]" by (simp add: quote_char_def Let_def)
    with raw show ?thesis by simp
  qed
qed

lemma parse_chars_quoted:
  "parse_chars (concat (map quote_char s) @ quote # rest) = Some (s, rest)"
  by (induction s) (simp_all add: parse_chars_quote_char)

definition value_end :: "string \<Rightarrow> bool" where
  "value_end r \<longleftrightarrow> r = [] \<or> hd r \<in> {CHR '','', CHR '']'', CHR ''}'', CHR 0x0A}"

fun num_ok :: "jsnum \<Rightarrow> bool" where
  "num_ok (Dec m e) =
     (if e = 0 then \<bar>m\<bar> < 10 ^ 21
      else m mod 10 \<noteq> 0 \<and> \<bar>m\<bar> < 10 ^ 21 \<and> e < length (show_nat (nat \<bar>m\<bar>)) + 6)"
| "num_ok _ = False"

lemma value_end_not_digit: "value_end r \<Longrightarrow> r = [] \<or> \<not> is_digit (hd r)"
  by (auto simp: value_end_def is_digit_def)

lemma parse_tail_end: "value_end r \<Longrightarrow> parse_frac r = Some ([], r) \<and> parse_exp r = Some (0, r)"
  by (cases r) (auto simp: parse_frac_def parse_exp_def value_end_def)

lemma not_huge: "\<bar>m\<bar> < 10 ^ 21 \<Longrightarrow> \<not> dec_huge m e"
proof -
  assume "\<bar>m\<bar> < 10 ^ 21"
  also have "(10::int) ^ 21 \<le> (2 ^ 1024 - 2 ^ 970) * 1" by simp
  also have "\<dots> \<le> (2 ^ 1024 - 2 ^ 970) * 10 ^ e" by (rule mult_left_mono) simp_all
  finally show ?thesis by (simp add: dec_huge_def del: power_numeral)
qed
lemma minus_not_digit: "\<not> is_digit (CHR ''-'')" by (simp add: is_digit_def)

lemma show_nat_leading: "\<not> (hd (show_nat n) = CHR ''0'' \<and> 1 < length (show_nat n))"
  using show_nat_hd_zero [of n] by (cases "n = 0") auto

lemma show_nat_no_minus: "hd (show_nat n @ r) \<noteq> CHR ''-''"
  by (metis hd_append2 hd_in_set minus_not_digit show_nat_digits show_nat_not_Nil)

lemma digits_take:
  assumes "r = [] \<or> \<not> is_digit (hd r)"
  shows "takeWhile is_digit (show_nat n @ r) = show_nat n"
    and "dropWhile is_digit (show_nat n @ r) = r"
  using takeWhile_all_append [OF show_nat_digits assms] dropWhile_all_append [OF show_nat_digits assms]
  by blast+

lemma show_nat_append_not_Nil: "show_nat n @ r \<noteq> []" by simp

lemma parse_number_int:
  assumes "\<bar>i\<bar> < 10 ^ 21" "value_end r"
  shows "parse_number (show_int i @ r) = Some (Dec i 0, r)"
proof -
  have t: "parse_frac r = Some ([], r)" "parse_exp r = Some (0, r)"
    using parse_tail_end [OF assms(2)] by auto
  note d = digits_take [OF value_end_not_digit [OF assms(2)]]
  have m: "make_dec neg (show_nat n) [] 0 = Dec (int n * (if neg then -1 else 1)) 0"
    if "int n < 10 ^ 21" for neg n
    using that not_huge [of "int n * (if neg then -1 else 1)" 0]
    by (simp add: make_dec_def read_digits_show_nat)
  show ?thesis
  proof (cases "i < 0")
    case True
    then show ?thesis using assms(1) show_nat_leading [of "nat (- i)"]
      by (simp add: parse_number_def show_int_def d t m Let_def)
  next
    case False
    then show ?thesis using assms(1) show_nat_leading [of "nat i"] show_nat_no_minus [of "nat i" r]
      by (simp add: parse_number_def show_int_def d t m Let_def)
  qed
qed

lemma strip_zeros_id: "ds \<noteq> [] \<Longrightarrow> last ds \<noteq> CHR ''0'' \<Longrightarrow> strip_zeros ds = ds"
  by (cases ds rule: rev_cases) (simp_all add: strip_zeros_def)

lemma last_show_nat: "last (show_nat n) = digit_char (n mod 10)"
  by (subst show_nat.simps) simp

lemma digit_char_inject: "a < 10 \<Longrightarrow> b < 10 \<Longrightarrow> digit_char a = digit_char b \<longleftrightarrow> a = b"
  by (metis digit_val_digit_char)

lemma strip_zeros_show_nat: "n mod 10 \<noteq> 0 \<Longrightarrow> strip_zeros (show_nat n) = show_nat n"
  by (rule strip_zeros_id)
     (simp_all add: last_show_nat digit_char_zero [symmetric] digit_char_inject)

lemma read_digits_zeros: "read_digits (replicate k (CHR ''0'') @ ds) = read_digits ds"
proof (induction k)
  case (Suc k)
  have "digit_val (CHR ''0'') = 0" by (simp add: digit_val_def)
  with Suc show ?case by (simp add: read_digits_def)
qed simp

text \<open>A fraction prints as its integer digits, a point and the rest.\<close>

lemma number_to_string_frac:
  assumes "m mod 10 \<noteq> 0" "\<bar>m\<bar> < 10 ^ 21" "0 < e" "e < length (show_nat (nat \<bar>m\<bar>)) + 6"
  shows "\<exists>ip fp. number_to_string (Dec m e) = (if m < 0 then ''-'' else []) @ ip @ CHR ''.'' # fp
     \<and> ip \<noteq> [] \<and> (hd ip = CHR ''0'' \<longrightarrow> length ip = 1) \<and> fp \<noteq> [] \<and> length fp = e
     \<and> (\<forall>c \<in> set (ip @ fp). is_digit c) \<and> read_digits (ip @ fp) = nat \<bar>m\<bar>"
proof -
  let ?a = "nat \<bar>m\<bar>"
  let ?ds = "show_nat ?a"
  have m0: "m \<noteq> 0" using assms(1) by auto
  have amod: "?a mod 10 \<noteq> 0" using assms(1) dvd_nat_abs_iff [of 10 m] by (simp add: dvd_eq_mod_eq_0)
  have len: "length ?ds \<le> 21" using assms(2) by (intro show_nat_length) (simp_all add: nat_less_iff)
  have k: "strip_zeros ?ds = ?ds" by (rule strip_zeros_show_nat [OF amod])
  have dig: "\<forall>c \<in> set ?ds. is_digit c" by (rule show_nat_digits)
  show ?thesis
  proof (cases "e < length ?ds")
    case True
    let ?p = "length ?ds - e"
    have n: "nat (int (length ?ds) - int e) = ?p" using True by simp
    have c1: "\<not> (int (length ?ds) \<le> int (length ?ds) - int e \<and> int (length ?ds) - int e \<le> 21)"
      using assms(3) by linarith
    have c2: "0 < int (length ?ds) - int e \<and> int (length ?ds) - int e \<le> 21"
      using True len by linarith
    have "number_to_string (Dec m e) =
        (if m < 0 then ''-'' else []) @ take ?p ?ds @ CHR ''.'' # drop ?p ?ds"
      unfolding number_to_string.simps Let_def k n using m0 assms(3) by (simp only: c1 c2 if_False if_True) simp
    moreover have "hd (take ?p ?ds) = CHR ''0'' \<longrightarrow> length (take ?p ?ds) = 1"
      using show_nat_hd_zero [of ?a] amod True by (auto simp: hd_take)
    moreover have "\<forall>c \<in> set (take ?p ?ds @ drop ?p ?ds). is_digit c" using dig by simp
    moreover have "read_digits (take ?p ?ds @ drop ?p ?ds) = ?a" by (simp add: read_digits_show_nat)
    moreover have "take ?p ?ds \<noteq> []" "drop ?p ?ds \<noteq> []" "length (drop ?p ?ds) = e"
      using True assms(3) by simp_all
    ultimately show ?thesis by blast
  next
    case False
    let ?z = "replicate (e - length ?ds) (CHR ''0'')"
    have n: "nat (- (int (length ?ds) - int e)) = e - length ?ds" by simp
    have c1: "\<not> (int (length ?ds) \<le> int (length ?ds) - int e \<and> int (length ?ds) - int e \<le> 21)"
      using assms(3) by linarith
    have c2: "\<not> (0 < int (length ?ds) - int e \<and> int (length ?ds) - int e \<le> 21)"
      using False by linarith
    have c3: "- 6 < int (length ?ds) - int e \<and> int (length ?ds) - int e \<le> 0"
      using False assms(4) by linarith
    have "number_to_string (Dec m e) =
        (if m < 0 then ''-'' else []) @ ''0'' @ CHR ''.'' # (?z @ ?ds)"
      unfolding number_to_string.simps Let_def k n using m0 by (simp only: c1 c2 c3 if_False if_True) simp
    moreover have "\<forall>c \<in> set (''0'' @ ?z @ ?ds). is_digit c" using dig by (auto simp: is_digit_def)
    moreover have "read_digits (''0'' @ ?z @ ?ds) = ?a"
      using read_digits_zeros [of "Suc (e - length ?ds)" ?ds] by (simp add: read_digits_show_nat)
    moreover have "''0'' \<noteq> []" "hd ''0'' = CHR ''0'' \<longrightarrow> length ''0'' = 1" "?z @ ?ds \<noteq> []" "length (?z @ ?ds) = e"
      using False by simp_all
    ultimately show ?thesis by blast
  qed
qed

lemma parse_number_frac:
  assumes "m mod 10 \<noteq> 0" "\<bar>m\<bar> < 10 ^ 21" "0 < e" "e < length (show_nat (nat \<bar>m\<bar>)) + 6"
    and r: "value_end r"
  shows "parse_number (number_to_string (Dec m e) @ r) = Some (Dec m e, r)"
proof -
  obtain ip fp where t: "number_to_string (Dec m e) = (if m < 0 then ''-'' else []) @ ip @ CHR ''.'' # fp"
    and ip: "ip \<noteq> []" "hd ip = CHR ''0'' \<longrightarrow> length ip = 1" and fp: "fp \<noteq> []" "length fp = e"
    and dig: "\<forall>c \<in> set (ip @ fp). is_digit c" and rd: "read_digits (ip @ fp) = nat \<bar>m\<bar>"
    using number_to_string_frac [OF assms(1-4)] by blast
  have point: "\<not> is_digit (CHR ''.'')" by (simp add: is_digit_def)
  have i: "takeWhile is_digit (ip @ CHR ''.'' # fp @ r) = ip"
    "dropWhile is_digit (ip @ CHR ''.'' # fp @ r) = CHR ''.'' # fp @ r"
    using dig point by (auto intro!: takeWhile_all_append dropWhile_all_append)
  have f: "takeWhile is_digit (fp @ r) = fp" "dropWhile is_digit (fp @ r) = r"
    using dig takeWhile_all_append [of fp is_digit r] dropWhile_all_append [of fp is_digit r]
      value_end_not_digit [OF r] by auto
  have hd: "hd (ip @ q) \<noteq> CHR ''-''" for q
    using ip(1) dig minus_not_digit by (metis UnCI hd_append2 hd_in_set set_append)
  have "make_dec (m < 0) ip fp 0 = Dec m e"
    using rd fp(2) not_huge [OF assms(2)] by (simp add: make_dec_def)
  then show ?thesis
    using t ip fp(1) i f hd [of "CHR ''.'' # fp @ r"] parse_tail_end [OF r]
    by (cases "m < 0") (simp_all add: parse_number_def parse_frac_def Let_def)
qed

lemma parse_number_num_text:
  assumes "num_ok n" "value_end r"
  shows "parse_number (num_text n @ r) = Some (n, r)"
proof (cases n)
  case (Dec m e)
  with assms show ?thesis
    by (cases "e = 0")
       (simp_all add: number_to_string_int parse_number_int parse_number_frac)
qed (use assms in auto)

text \<open>A value that has a text of its own: no \<open>undefined\<close>, no non-finite number.\<close>

fun json_ok :: "jsval \<Rightarrow> bool" where
  "json_ok Undefined = False"
| "json_ok Null = True"
| "json_ok (Bool _) = True"
| "json_ok (Num n) = num_ok n"
| "json_ok (Str _) = True"
| "json_ok (Arr vs) = list_all json_ok vs"
| "json_ok (Obj kvs) = list_all (\<lambda>(_, v). json_ok v) kvs"

definition member_text :: "string \<times> jsval \<Rightarrow> string" where
  "member_text kv = quote_string (fst kv) @ '':'' @ json_text (snd kv)"

lemma json_text_Obj:
  assumes "json_ok (Obj kvs)"
  shows "json_text (Obj kvs) = ''{'' @ join_with '','' (map member_text kvs) @ ''}''"
proof -
  have "filter (\<lambda>kv. snd kv \<noteq> Undefined) kvs = kvs"
    using assms by (induction kvs) auto
  then show ?thesis by (simp add: member_text_def [abs_def])
qed

text \<open>How a printed value starts: never with white space or a closing bracket.\<close>

definition starts_number :: "string \<Rightarrow> bool" where
  "starts_number s \<longleftrightarrow> s \<noteq> [] \<and> (hd s = CHR ''-'' \<or> is_digit (hd s))"

definition starts_value :: "string \<Rightarrow> bool" where
  "starts_value s \<longleftrightarrow> s \<noteq> [] \<and> hd s \<in> {quote, CHR ''['', CHR ''{'', CHR ''n'', CHR ''t'', CHR ''f''}
     \<or> starts_number s"

lemma starts_value_skip: "starts_value s \<Longrightarrow> skip_ws (s @ r) = s @ r"
  by (cases s) (auto simp: starts_value_def starts_number_def skip_ws_def is_json_ws_def is_digit_def)

lemma starts_number_show_nat: "starts_number (show_nat k @ r)"
  using show_nat_digits [of k] by (cases "show_nat k") (auto simp: starts_number_def)

lemma num_text_starts:
  assumes "num_ok n"
  shows "starts_number (num_text n)"
proof (cases n)
  case (Dec m e)
  show ?thesis
  proof (cases "e = 0")
    case True
    with Dec assms starts_number_show_nat [of _ "[]"] show ?thesis
      by (auto simp: number_to_string_int show_int_def starts_number_def)
  next
    case False
    with Dec assms obtain ip fp where
      "num_text n = (if m < 0 then ''-'' else []) @ ip @ CHR ''.'' # fp" "ip \<noteq> []"
      "\<forall>c \<in> set (ip @ fp). is_digit c"
      using number_to_string_frac [of m e] by auto
    then show ?thesis by (cases ip) (auto simp: starts_number_def)
  qed
qed (use assms in simp_all)

lemma json_text_starts: "json_ok v \<Longrightarrow> starts_value (json_text v)"
proof (cases v)
  case (Num n)
  assume "json_ok v"
  with Num show ?thesis by (simp add: num_text_starts starts_value_def)
qed (auto simp: starts_value_def quote_string_def)

text \<open>A number is none of the three words.\<close>

lemma parse_word_num:
  assumes "num_ok n" "value_end r"
  shows "parse_word (num_text n @ r) = Some (Num n, r)"
proof -
  obtain c t where t: "num_text n = c # t" "c = CHR ''-'' \<or> is_digit c"
    using num_text_starts [OF assms(1)] by (cases "num_text n") (auto simp: starts_number_def)
  then have "c \<noteq> CHR ''n''" "c \<noteq> CHR ''t''" "c \<noteq> CHR ''f''" by (auto simp: is_digit_def)
  then show ?thesis
    using parse_number_num_text [OF assms] t by (simp add: parse_word_def)
qed

definition reads_back :: "jsval \<Rightarrow> bool" where
  "reads_back v \<longleftrightarrow> (\<forall>f r. value_end r \<longrightarrow> length (json_text v) \<le> f \<longrightarrow>
     parse_value (Suc f) (json_text v @ r) = Some (v, r))"

lemma value_end_punct [simp]:
  "value_end (CHR '','' # r)" "value_end (CHR '']'' # r)" "value_end (CHR ''}'' # r)"
  by (simp_all add: value_end_def)

lemma skip_ws_punct [simp]:
  "skip_ws (CHR '','' # r) = CHR '','' # r" "skip_ws (CHR '']'' # r) = CHR '']'' # r"
  "skip_ws (CHR ''}'' # r) = CHR ''}'' # r" "skip_ws (CHR '':'' # r) = CHR '':'' # r"
  "skip_ws (quote # r) = quote # r" "skip_ws (CHR ''['' # r) = CHR ''['' # r"
  "skip_ws (CHR ''{'' # r) = CHR ''{'' # r"
  by (simp_all add: skip_ws_def is_json_ws_def)

lemma json_text_length: "json_ok v \<Longrightarrow> 0 < length (json_text v)"
  using json_text_starts [of v] by (auto simp: starts_value_def starts_number_def)

lemma reads_backD: "reads_back v \<Longrightarrow> value_end r \<Longrightarrow> length (json_text v) < f \<Longrightarrow>
   parse_value f (json_text v @ r) = Some (v, r)"
  by (cases f) (auto simp: reads_back_def)

lemma parse_elems_text:
  assumes "vs \<noteq> []" "\<forall>v \<in> set vs. json_ok v \<and> reads_back v"
    "length (join_with '','' (map json_text vs)) + 2 \<le> f"
  shows "parse_elems f (join_with '','' (map json_text vs) @ CHR '']'' # r) = Some (vs, r)"
  using assms
proof (induction vs arbitrary: f rule: list_nonempty_induct)
  case (single v)
  then show ?case by (cases f) (simp_all add: reads_backD)
next
  case (cons v vs)
  then obtain g where f: "f = Suc g" by (cases f) auto
  from cons.hyps obtain w ws where vs: "vs = w # ws" by (cases vs) auto
  have "parse_elems g (join_with '','' (map json_text vs) @ CHR '']'' # r) = Some (vs, r)"
    by (rule cons.IH) (use cons.prems f vs json_text_length in auto)
  then show ?case
    using cons.prems f vs by (simp add: reads_backD)
qed

lemma parse_members_text:
  assumes "kvs \<noteq> []" "\<forall>kv \<in> set kvs. json_ok (snd kv) \<and> reads_back (snd kv)"
    "length (join_with '','' (map member_text kvs)) + 2 \<le> f"
  shows "parse_members f (join_with '','' (map member_text kvs) @ CHR ''}'' # r) = Some (kvs, r)"
  using assms
proof (induction kvs arbitrary: f rule: list_nonempty_induct)
  case (single kv)
  then show ?case
    by (cases f; cases kv)
       (simp_all add: reads_backD member_text_def quote_string_def parse_chars_quoted)
next
  case (cons kv kvs)
  then obtain g where f: "f = Suc g" by (cases f) auto
  from cons.hyps obtain w ws where vs: "kvs = w # ws" by (cases kvs) auto
  have "parse_members g (join_with '','' (map member_text kvs) @ CHR ''}'' # r) = Some (kvs, r)"
    by (rule cons.IH) (use cons.prems f vs in \<open>auto simp: member_text_def quote_string_def\<close>)
  then show ?case
    using cons.prems f vs
    by (cases kv) (simp add: reads_backD member_text_def [of kv] member_text_def [of "(_,_)"] quote_string_def parse_chars_quoted)
qed

lemma elems_not_close:
  assumes "vs \<noteq> []" "\<forall>v \<in> set vs. json_ok v"
  shows "\<exists>c t. skip_ws (join_with '','' (map json_text vs) @ r) = c # t \<and> c \<noteq> CHR '']''"
proof -
  obtain v ws where vs: "vs = v # ws" using assms(1) by (cases vs) auto
  then have "starts_value (json_text v)" using assms(2) json_text_starts by simp
  moreover have "\<exists>q. join_with '','' (map json_text vs) = json_text v @ q"
    by (cases ws) (simp_all add: vs)
  ultimately show ?thesis
    using starts_value_skip [of "json_text v"]
    by (cases "json_text v") (auto simp: starts_value_def starts_number_def is_digit_def)
qed

lemma members_not_close:
  assumes "kvs \<noteq> []"
  shows "\<exists>t. skip_ws (join_with '','' (map member_text kvs) @ r) = quote # t"
  using assms by (cases kvs; cases "tl kvs") (auto simp: member_text_def quote_string_def)

lemma json_reads_back: "json_ok v \<Longrightarrow> reads_back v"
proof (induction v rule: jsval.induct)
  case (Num n)
  obtain c t where t: "num_text n = c # t" "c = CHR ''-'' \<or> is_digit c"
    using num_text_starts [of n] Num by (cases "num_text n") (auto simp: starts_number_def)
  then have c: "c \<noteq> quote" "c \<noteq> CHR ''[''" "c \<noteq> CHR ''{''" by (auto simp: is_digit_def)
  have "skip_ws (num_text n @ r) = num_text n @ r" for r
    using num_text_starts [of n] Num by (simp add: starts_value_skip starts_value_def)
  then show ?case
    using parse_word_num [of n] Num t c by (auto simp: reads_back_def)
next
  case (Str s)
  show ?case by (simp add: reads_back_def quote_string_def parse_chars_quoted)
next
  case (Arr vs)
  then have ok: "\<forall>v \<in> set vs. json_ok v \<and> reads_back v" by (auto simp: list_all_iff)
  show ?case
  proof (cases "vs = []")
    case False
    let ?j = "join_with '','' (map json_text vs)"
    have "parse_value (Suc f) (json_text (Arr vs) @ r) = Some (Arr vs, r)"
      if "length (json_text (Arr vs)) \<le> f" for f r
    proof -
      have "\<forall>v \<in> set vs. json_ok v" using ok by blast
      then obtain c t where "skip_ws (?j @ CHR '']'' # r) = c # t" "c \<noteq> CHR '']''"
        using elems_not_close [OF False] by blast
      moreover have "parse_elems f (?j @ CHR '']'' # r) = Some (vs, r)"
        by (rule parse_elems_text [OF False ok]) (use that in simp)
      ultimately show ?thesis by simp
    qed
    then show ?thesis by (simp only: reads_back_def) blast
  qed (simp add: reads_back_def)
next
  case (Obj kvs)
  then have ok: "\<forall>kv \<in> set kvs. json_ok (snd kv) \<and> reads_back (snd kv)"
    by (auto simp: list_all_iff snds.simps)
  show ?case
  proof (cases "kvs = []")
    case False
    let ?j = "join_with '','' (map member_text kvs)"
    have jt: "json_text (Obj kvs) = ''{'' @ ?j @ ''}''" by (rule json_text_Obj [OF Obj.prems])
    have "parse_value (Suc f) (json_text (Obj kvs) @ r) = Some (Obj kvs, r)"
      if "length (json_text (Obj kvs)) \<le> f" for f r
    proof -
      obtain t where "skip_ws (?j @ CHR ''}'' # r) = quote # t"
        using members_not_close [OF False] by blast
      moreover have "parse_members f (?j @ CHR ''}'' # r) = Some (kvs, r)"
        by (rule parse_members_text [OF False ok]) (use that jt in simp)
      ultimately show ?thesis by (simp add: jt del: json_text.simps)
    qed
    then show ?thesis by (simp only: reads_back_def) blast
  qed (simp add: reads_back_def)
qed (auto simp: reads_back_def skip_ws_def is_json_ws_def parse_word_def)

theorem json_parse_text:
  assumes "json_ok v"
  shows "json_parse (json_text v) = Some v"
proof -
  have "parse_value (Suc (length (json_text v))) (json_text v @ []) = Some (v, [])"
    using json_reads_back [OF assms] by (auto simp: reads_back_def value_end_def)
  then show ?thesis by (simp add: json_parse_def skip_ws_def)
qed

text \<open>With the line feed that an encoder writes behind a value.\<close>

lemma parse_value_line:
  assumes "json_ok v"
  shows "parse_value (Suc (length (json_text v @ [CHR 0x0A]))) (json_text v @ [CHR 0x0A]) = Some (v, [CHR 0x0A])"
proof -
  have "value_end [CHR 0x0A]" by (simp add: value_end_def)
  then show ?thesis using json_reads_back [OF assms] unfolding reads_back_def by fastforce
qed

lemma json_parse_line: "json_ok v \<Longrightarrow> json_parse (json_text v @ [CHR 0x0A]) = Some v"
  using parse_value_line [of v] by (simp add: json_parse_def skip_ws_def is_json_ws_def)

end
