(* ===== verification/Encodings.thy ===== *)
theory Encodings
  imports Json_Text
begin

text \<open>
  The text encodings a token passes through on its way from the server to a page: base64url
  without padding as the server writes it, \<open>window.atob\<close>, percent escapes and
  \<open>decodeURIComponent\<close> as the page undoes it. A locale \<open>codec\<close> states what an encoding
  promises, and two codecs in a row are a codec.
\<close>

subsection \<open>The interface of an encoding\<close>

locale codec =
  fixes enc :: "'a \<Rightarrow> 'b"
    and dec :: "'b \<Rightarrow> 'a option"
    and valid :: "'a \<Rightarrow> bool"
  assumes dec_enc: "valid x \<Longrightarrow> dec (enc x) = Some x"
begin

lemma enc_inject: "valid x \<Longrightarrow> valid y \<Longrightarrow> enc x = enc y \<longleftrightarrow> x = y"
  by (metis dec_enc option.inject)

end

locale codec_chain = one: codec enc1 dec1 valid1 + two: codec enc2 dec2 valid2
  for enc1 :: "'a \<Rightarrow> 'b" and dec1 valid1 and enc2 :: "'b \<Rightarrow> 'c" and dec2 valid2 +
  assumes between: "valid1 x \<Longrightarrow> valid2 (enc1 x)"
begin

lemma chain_dec_enc: "valid1 x \<Longrightarrow> Option.bind (dec2 (enc2 (enc1 x))) dec1 = Some x"
  by (simp add: two.dec_enc [OF between] one.dec_enc)

end

sublocale codec_chain \<subseteq> chain: codec "\<lambda>x. enc2 (enc1 x)" "\<lambda>s. Option.bind (dec2 s) dec1" valid1
  by unfold_locales (rule chain_dec_enc)


subsection \<open>Base64\<close>

definition b64_digit :: "nat \<Rightarrow> char" where
  "b64_digit n =
     (if n < 26 then char_of (65 + n)
      else if n < 52 then char_of (71 + n)
      else if n < 62 then char_of (n - 4)
      else if n = 62 then CHR ''+'' else CHR ''/'')"

definition b64_val :: "char \<Rightarrow> nat option" where
  "b64_val c =
     (let n = of_char c in
      if 65 \<le> n \<and> n \<le> 90 then Some (n - 65)
      else if 97 \<le> n \<and> n \<le> 122 then Some (n - 71)
      else if 48 \<le> n \<and> n \<le> 57 then Some (n + 4)
      else if c = CHR ''+'' then Some 62
      else if c = CHR ''/'' then Some 63
      else None)"

text \<open>Three octets are four sextets; the rest of one or two octets is two or three.\<close>

fun b64_sextets :: "nat list \<Rightarrow> nat list" where
  "b64_sextets (a # b # c # r) =
     a div 4 # (a mod 4 * 16 + b div 16) # (b mod 16 * 4 + c div 64) # c mod 64 # b64_sextets r"
| "b64_sextets [a, b] = [a div 4, a mod 4 * 16 + b div 16, b mod 16 * 4]"
| "b64_sextets [a] = [a div 4, a mod 4 * 16]"
| "b64_sextets [] = []"

fun b64_octets :: "nat list \<Rightarrow> nat list" where
  "b64_octets (a # b # c # d # r) =
     (a * 4 + b div 16) # (b mod 16 * 16 + c div 4) # (c mod 4 * 64 + d) # b64_octets r"
| "b64_octets [a, b, c] = [a * 4 + b div 16, b mod 16 * 16 + c div 4]"
| "b64_octets [a, b] = [a * 4 + b div 16]"
| "b64_octets _ = []"

definition url_char :: "char \<Rightarrow> char" where
  "url_char c = (if c = CHR ''+'' then CHR ''-'' else if c = CHR ''/'' then CHR ''_'' else c)"

text \<open>What the token library of the server writes: the URL alphabet, no padding.\<close>

definition base64url_encode :: "string \<Rightarrow> string" where
  "base64url_encode s = map (url_char \<circ> b64_digit) (b64_sextets (map of_char s))"

text \<open>
  \<open>window.atob\<close>, the forgiving decoder of the HTML standard: white space is dropped, up to
  two padding signs are optional, and a remainder of one character is an error. The result
  is the list of code units, each below 256.
\<close>

definition is_ascii_ws :: "char \<Rightarrow> bool" where
  "is_ascii_ws c \<longleftrightarrow> (of_char c :: nat) \<in> {9, 10, 12, 13, 32}"

definition drop_padding :: "string \<Rightarrow> string" where
  "drop_padding s =
     (if length s mod 4 \<noteq> 0 then s
      else if s \<noteq> [] \<and> last s = CHR ''='' then
        (if butlast s \<noteq> [] \<and> last (butlast s) = CHR ''='' then butlast (butlast s) else butlast s)
      else s)"

definition atob :: "string \<Rightarrow> string option" where
  "atob s =
     (let t = drop_padding (filter (\<lambda>c. \<not> is_ascii_ws c) s) in
      if length t mod 4 = 1 \<or> (\<exists>c \<in> set t. b64_val c = None) then None
      else Some (map char_of (b64_octets (map (\<lambda>c. the (b64_val c)) t))))"

lemma b64_val_digit [simp]: "n < 64 \<Longrightarrow> b64_val (b64_digit n) = Some n"
  by (auto simp: b64_digit_def b64_val_def Let_def)

lemma b64_digit_code:
  "n < 64 \<Longrightarrow> (of_char (b64_digit n) :: nat) \<in> {43, 47} \<union> {48..57} \<union> {65..90} \<union> {97..122}"
  by (auto simp: b64_digit_def)

lemma b64_digit_plain:
  assumes "n < 64"
  shows "\<not> is_ascii_ws (b64_digit n)" "b64_digit n \<noteq> CHR ''=''" "b64_digit n \<noteq> CHR ''.''"
    "b64_digit n \<noteq> CHR ''-''" "b64_digit n \<noteq> CHR ''_''"
  using b64_digit_code [OF assms] by (auto simp: is_ascii_ws_def)

lemma sextet_bounds:
  "a < 256 \<Longrightarrow> a div 4 < (64::nat)" "b < 256 \<Longrightarrow> a mod 4 * 16 + b div 16 < (64::nat)"
  "c < 256 \<Longrightarrow> b mod 16 * 4 + c div 64 < (64::nat)" "b mod 16 * 4 < (64::nat)" "a mod 4 * 16 < (64::nat)"
proof -
  show "a < 256 \<Longrightarrow> a div 4 < (64::nat)" by (rule div_lt) simp
  have a: "a mod 4 \<le> 3" and b: "b mod 16 \<le> 15" by (simp_all add: less_Suc_eq_le [symmetric])
  show "b < 256 \<Longrightarrow> a mod 4 * 16 + b div 16 < (64::nat)"
    using a div_lt [of b 16 16] by simp
  show "c < 256 \<Longrightarrow> b mod 16 * 4 + c div 64 < (64::nat)"
    using b div_lt [of c 64 4] by simp
  show "b mod 16 * 4 < (64::nat)" "a mod 4 * 16 < (64::nat)" using a b by simp_all
qed

lemma b64_sextets_bound: "\<forall>n \<in> set ns. n < 256 \<Longrightarrow> \<forall>n \<in> set (b64_sextets ns). n < 64"
  by (induction ns rule: b64_sextets.induct) (simp_all add: sextet_bounds)

lemma octet_parts:
  "b < 256 \<Longrightarrow> a div 4 * 4 + (a mod 4 * 16 + b div 16) div 16 = (a::nat)"
  "b < 256 \<Longrightarrow> c < 256 \<Longrightarrow>
     (a mod 4 * 16 + b div 16) mod 16 * 16 + (b mod 16 * 4 + c div 64) div 4 = (b::nat)"
  "c < 256 \<Longrightarrow> (b mod 16 * 4 + c div 64) mod 4 * 64 + c mod 64 = (c::nat)"
proof -
  have d: "b div 16 < 16" if "b < 256" using that by (intro div_lt) simp
  have e: "c div 64 < 4" if "c < 256" using that by (intro div_lt) simp
  show "b < 256 \<Longrightarrow> a div 4 * 4 + (a mod 4 * 16 + b div 16) div 16 = a"
    using d by simp
  show "b < 256 \<Longrightarrow> c < 256 \<Longrightarrow>
     (a mod 4 * 16 + b div 16) mod 16 * 16 + (b mod 16 * 4 + c div 64) div 4 = b"
    using d e by simp
  show "c < 256 \<Longrightarrow> (b mod 16 * 4 + c div 64) mod 4 * 64 + c mod 64 = c"
    using e by simp
qed

lemma b64_octets_sextets: "\<forall>n \<in> set ns. n < 256 \<Longrightarrow> b64_octets (b64_sextets ns) = ns"
proof (induction ns rule: b64_sextets.induct)
  case (1 a b c r)
  then show ?case
    using octet_parts(1) [of b a] octet_parts(2) [of b c a] octet_parts(3) [of c b] by simp
next
  case (2 a b)
  then show ?case using octet_parts(1) [of b a] octet_parts(2) [of b 0 a] by simp
next
  case (3 a)
  then show ?case using octet_parts(1) [of 0 a] by simp
qed simp

lemma b64_sextets_length: "length (b64_sextets ns) mod 4 \<noteq> 1"
  by (induction ns rule: b64_sextets.induct) auto

text \<open>The page's two \<open>replace\<close> calls: the URL alphabet back to the standard one.\<close>

definition replace_all :: "char \<Rightarrow> char \<Rightarrow> string \<Rightarrow> string" where
  "replace_all a b s = map (\<lambda>c. if c = a then b else c) s"

lemma replace_base64url:
  "replace_all (CHR ''_'') (CHR ''/'') (replace_all (CHR ''-'') (CHR ''+'') (base64url_encode s))
     = map b64_digit (b64_sextets (map of_char s))"
proof -
  have "\<forall>n \<in> set (b64_sextets (map of_char s)). n < 64"
    by (rule b64_sextets_bound) auto
  then show ?thesis
    using b64_digit_plain by (auto simp: base64url_encode_def replace_all_def url_char_def)
qed

lemma drop_padding_plain: "CHR ''='' \<notin> set s \<Longrightarrow> drop_padding s = s"
  by (cases s rule: rev_cases) (auto simp: drop_padding_def)

lemma atob_encoded: "atob (map b64_digit (b64_sextets (map of_char s))) = Some s"
proof -
  let ?ns = "b64_sextets (map of_char s)"
  have b: "\<forall>n \<in> set ?ns. n < 64" by (rule b64_sextets_bound) auto
  have f: "filter (\<lambda>c. \<not> is_ascii_ws c) (map b64_digit ?ns) = map b64_digit ?ns"
    using b b64_digit_plain(1) by (auto simp: filter_id_conv)
  have p: "drop_padding (map b64_digit ?ns) = map b64_digit ?ns"
    using b b64_digit_plain(2) by (intro drop_padding_plain) (force simp: in_set_conv_nth)
  have v: "map (\<lambda>c. the (b64_val c)) (map b64_digit ?ns) = ?ns"
    using b by (simp add: map_idI)
  have ok: "\<not> (\<exists>c \<in> set (map b64_digit ?ns). b64_val c = None)" using b by auto
  have "b64_octets ?ns = map of_char s" by (rule b64_octets_sextets) auto
  moreover have "map char_of (map of_char s :: nat list) = s" by (simp add: map_idI)
  ultimately have "map char_of (b64_octets ?ns) = s" by simp
  then show ?thesis
    using b64_sextets_length [of "map of_char s"] ok
    by (simp add: atob_def f p v Let_def del: map_map)
qed

lemma atob_base64url:
  "atob (replace_all (CHR ''_'') (CHR ''/'') (replace_all (CHR ''-'') (CHR ''+'') (base64url_encode s))) = Some s"
  by (simp add: replace_base64url atob_encoded)

lemma base64url_plain:
  "CHR ''.'' \<notin> set (base64url_encode s)" "CHR '':'' \<notin> set (base64url_encode s)" "CHR 0x0A \<notin> set (base64url_encode s)"
proof -
  have b: "n < 64" if "n \<in> set (b64_sextets (map of_char s))" for n
    using b64_sextets_bound [of "map of_char s"] that by auto
  have "b64_digit n \<noteq> CHR '':''" "b64_digit n \<noteq> CHR 0x0A" if "n < 64" for n
    using b64_digit_code [OF that] by auto
  with b64_digit_plain(3) b
  show "CHR ''.'' \<notin> set (base64url_encode s)" "CHR '':'' \<notin> set (base64url_encode s)" "CHR 0x0A \<notin> set (base64url_encode s)"
    by (force simp: base64url_encode_def url_char_def split: if_splits)+
qed


subsection \<open>UTF-8 and percent escapes\<close>

text \<open>The length of a sequence, from its first octet; 0 where none starts with it.\<close>

definition utf8_len :: "char \<Rightarrow> nat" where
  "utf8_len c =
     (let b = of_char c :: nat in
      if b < 128 then 1
      else if 194 \<le> b \<and> b < 224 then 2
      else if 224 \<le> b \<and> b < 240 then 3
      else if 240 \<le> b \<and> b < 245 then 4
      else 0)"

text \<open>Continuation octets; overlong forms, surrogates and code points past U+10FFFF are out.\<close>

definition utf8_seq_ok :: "string \<Rightarrow> bool" where
  "utf8_seq_ok s =
     (case map of_char s :: nat list of
        [] \<Rightarrow> False
      | [a] \<Rightarrow> True
      | a # b # r \<Rightarrow>
          list_all (\<lambda>x. 128 \<le> x \<and> x < 192) (b # r) \<and>
          (a = 224 \<longrightarrow> 160 \<le> b) \<and> (a = 237 \<longrightarrow> b < 160) \<and>
          (a = 240 \<longrightarrow> 144 \<le> b) \<and> (a = 244 \<longrightarrow> b < 144))"

function utf8_valid :: "string \<Rightarrow> bool" where
  "utf8_valid [] = True"
| "utf8_valid (c # s) =
     (let n = utf8_len c in
      n \<noteq> 0 \<and> n \<le> length (c # s) \<and> utf8_seq_ok (take n (c # s)) \<and> utf8_valid (drop (n - 1) s))"
  by pat_completeness auto
termination
  by (relation "measure length") auto

lemma utf8_valid_ascii: "\<forall>c \<in> set s. ascii_char c \<Longrightarrow> utf8_valid s"
  by (induction s) (simp_all add: ascii_char_def utf8_len_def utf8_seq_ok_def)

text \<open>\<open>'%' + ('00' + c.charCodeAt(0).toString(16)).slice(-2)\<close> for a code unit below 256.\<close>

definition hex_of :: "nat \<Rightarrow> string" where
  "hex_of n = (if n < 16 then [hex_char n] else [hex_char (n div 16), hex_char (n mod 16)])"

definition slice_last :: "nat \<Rightarrow> string \<Rightarrow> string" where
  "slice_last k s = drop (length s - k) s"

definition percent :: "char \<Rightarrow> string" where
  "percent c = CHR ''%'' # slice_last 2 (''00'' @ hex_of (of_char c))"

definition pct_octet :: "string \<Rightarrow> char option" where
  "pct_octet s =
     (case s of
        p # h # l # _ \<Rightarrow>
          (if p \<noteq> CHR ''%'' then None
           else (case (hex_val h, hex_val l) of
                   (Some a, Some b) \<Rightarrow> Some (char_of (16 * a + b))
                 | _ \<Rightarrow> None))
      | _ \<Rightarrow> None)"

fun pct_octets :: "nat \<Rightarrow> string \<Rightarrow> string option" where
  "pct_octets 0 s = Some []"
| "pct_octets (Suc n) s =
     (case pct_octet s of None \<Rightarrow> None
      | Some c \<Rightarrow> map_option ((#) c) (pct_octets n (drop 3 s)))"

text \<open>\<open>decodeURIComponent\<close>; \<open>None\<close> is its \<open>URIError\<close>.\<close>

function decode_uri :: "string \<Rightarrow> string option" where
  "decode_uri [] = Some []"
| "decode_uri (c # s) =
     (if c \<noteq> CHR ''%'' then map_option ((#) c) (decode_uri s)
      else (case pct_octet (c # s) of None \<Rightarrow> None
            | Some b \<Rightarrow>
                (let n = utf8_len b in
                 if n = 0 then None
                 else (case pct_octets n (c # s) of None \<Rightarrow> None
                       | Some bs \<Rightarrow>
                           if utf8_seq_ok bs
                           then map_option ((@) bs) (decode_uri (drop (3 * n - 1) s))
                           else None))))"
  by pat_completeness auto
termination
  by (relation "measure length") auto

lemma char_of_48: "char_of (48::nat) = CHR ''0''"
  by code_simp

lemma percent_eq:
  "percent c = [CHR ''%'', hex_char (of_char c div 16), hex_char (of_char c mod 16)]"
  by (auto simp: percent_def hex_of_def slice_last_def hex_char_def char_of_48)

lemma pct_octet_percent [simp]: "pct_octet (percent c @ r) = Some c"
proof -
  have "(of_char c :: nat) div 16 < 16" by (rule div_lt) simp
  then show ?thesis by (simp add: percent_eq pct_octet_def)
qed

lemma percent_length [simp]: "length (percent c) = 3"
  by (simp add: percent_eq)

lemma percent_Cons: "\<exists>t. percent c = CHR ''%'' # t \<and> length t = 2"
  by (simp add: percent_eq)

lemma pct_octets_percent:
  "pct_octets (length s) (concat (map percent s) @ r) = Some s"
  by (induction s) simp_all

lemma utf8_len_le: "utf8_len c \<le> 4"
  by (simp add: utf8_len_def Let_def)

lemma decode_uri_percent: "utf8_valid s \<Longrightarrow> decode_uri (concat (map percent s)) = Some s"
proof (induction s rule: utf8_valid.induct)
  case (2 c s)
  let ?n = "utf8_len c"
  let ?t = "take ?n (c # s)" and ?d = "drop (?n - 1) s"
  from "2.prems" have n: "?n \<noteq> 0" "?n \<le> length (c # s)" "utf8_seq_ok ?t" "utf8_valid ?d"
    by (simp_all add: Let_def)
  have split: "c # s = ?t @ ?d" using n(1) by (cases ?n) simp_all
  have IH: "decode_uri (concat (map percent ?d)) = Some ?d"
    using "2.IH" n by simp
  obtain t where t: "percent c = CHR ''%'' # t" "length t = 2" using percent_Cons by blast
  have all: "concat (map percent (c # s)) = concat (map percent ?t) @ concat (map percent ?d)"
    by (subst split) simp
  have o: "pct_octets ?n (concat (map percent (c # s))) = Some ?t"
    unfolding all using pct_octets_percent [of ?t "concat (map percent ?d)"] n(2) by simp
  have len: "length (concat (map percent ?t)) = 3 * ?n"
  proof -
    have "length (concat (map percent u)) = 3 * length u" for u by (induction u) simp_all
    then show ?thesis using n(2) by simp
  qed
  have "drop (3 * ?n) (concat (map percent (c # s))) = concat (map percent ?d)"
    unfolding all using len by simp
  moreover obtain k where k: "3 * ?n = 3 + k"
    using n(1) by (metis Suc_leI le_Suc_ex mult_le_mono2 nat_mult_1_right neq0_conv One_nat_def)
  ultimately have dr: "drop (3 * ?n - 1) (t @ concat (map percent s)) = concat (map percent ?d)"
    using t by (simp add: eval_nat_numeral)
  have first: "pct_octet (CHR ''%'' # t @ concat (map percent s)) = Some c"
    using pct_octet_percent [of c "concat (map percent s)"] t by simp
  show ?case
    using n o first dr IH split by (simp add: t Let_def)
qed simp

interpretation base64url: codec base64url_encode
  "\<lambda>t. atob (replace_all (CHR ''_'') (CHR ''/'') (replace_all (CHR ''-'') (CHR ''+'') t))" "\<lambda>_. True"
  by unfold_locales (rule atob_base64url)

interpretation percent_escapes: codec "\<lambda>s. concat (map percent s)" decode_uri utf8_valid
  by unfold_locales (rule decode_uri_percent)

interpretation json: codec json_text json_parse json_ok
  by unfold_locales (rule json_parse_text)

text \<open>
  The way of a payload from the server to the page. Printing and base64url are a chain; the
  page undoes the second link in two steps, \<open>atob\<close> and the percent detour, which is the
  identity on UTF-8.
\<close>

interpretation payload: codec_chain json_text json_parse json_ok base64url_encode
  "\<lambda>t. atob (replace_all (CHR ''_'') (CHR ''/'') (replace_all (CHR ''-'') (CHR ''+'') t))" "\<lambda>_. True"
  by unfold_locales simp


text \<open>A compact token: header, payload and signature, the payload in base64url.\<close>

definition jwt_compact :: "string \<Rightarrow> string \<Rightarrow> string \<Rightarrow> string" where
  "jwt_compact header payload signature =
     header @ CHR ''.'' # base64url_encode payload @ CHR ''.'' # signature"

lemma jwt_compact_not_Nil [simp]: "jwt_compact h p g \<noteq> []"
  by (simp add: jwt_compact_def)

end
