(* ===== verification/Js_Numbers.thy ===== *)
theory Js_Numbers
  imports Json_Text
begin

text \<open>
  From texts to numbers, as the pages do it: \<open>String.prototype.trim\<close>, \<open>Number\<close>,
  \<open>parseInt\<close> and the conversion of a value to a number in a comparison.
\<close>


subsection \<open>Texts to numbers\<close>

text \<open>
  White space of the language: the ASCII ones, the no-break space, the byte order mark and the
  space separators and line separators of Unicode, by their UTF-8 forms.
\<close>

definition wide_spaces :: "string list" where
  "wide_spaces = map (map char_of)
     ([[225, 154, 128], [226, 128, 168], [226, 128, 169], [226, 128, 175], [226, 129, 159],
       [227, 128, 128], [239, 187, 191]] @ map (\<lambda>k. [226, 128, 128 + k]) [0..<11] :: nat list list)"

definition ws_prefix :: "string \<Rightarrow> nat" where
  "ws_prefix s =
     (case s of [] \<Rightarrow> 0
      | c # _ \<Rightarrow>
        if (of_char c :: nat) \<in> {9, 10, 11, 12, 13, 32} then 1
        else if map of_char (take 2 s) = [194, 160 :: nat] then 2
        else if take 3 s \<in> set wide_spaces then 3
        else 0)"

lemma ws_prefix_pos: "0 < ws_prefix s \<Longrightarrow> s \<noteq> []"
  by (cases s) (simp_all add: ws_prefix_def)

function js_ltrim :: "string \<Rightarrow> string" where
  "js_ltrim s = (if ws_prefix s = 0 then s else js_ltrim (drop (ws_prefix s) s))"
  by pat_completeness auto
termination
  by (relation "measure length") (auto intro!: diff_less dest: ws_prefix_pos)

declare js_ltrim.simps [simp del]

definition ws_suffix :: "string \<Rightarrow> nat" where
  "ws_suffix s =
     (if s = [] then 0
      else if (of_char (last s) :: nat) \<in> {9, 10, 11, 12, 13, 32} then 1
      else if map of_char (drop (length s - 2) s) = [194, 160 :: nat] then 2
      else if drop (length s - 3) s \<in> set wide_spaces then 3
      else 0)"

lemma ws_suffix_pos: "0 < ws_suffix s \<Longrightarrow> s \<noteq> []"
  by (cases s) (simp_all add: ws_suffix_def)

function js_rtrim :: "string \<Rightarrow> string" where
  "js_rtrim s = (if ws_suffix s = 0 then s else js_rtrim (take (length s - ws_suffix s) s))"
  by pat_completeness auto
termination
  by (relation "measure length") (auto intro!: diff_less dest: ws_suffix_pos)

declare js_rtrim.simps [simp del]

definition js_trim :: "string \<Rightarrow> string" where
  "js_trim s = js_rtrim (js_ltrim s)"

text \<open>
  \<open>Number(s)\<close>: the empty text is 0, a radix prefix is allowed without a sign, a decimal
  literal may leave out the digits on one side of the point, and all of the text must be used.
\<close>

definition radix_val :: "nat \<Rightarrow> string \<Rightarrow> jsnum" where
  "radix_val b ds =
     (if ds \<noteq> [] \<and> list_all (\<lambda>c. case hex_val c of Some d \<Rightarrow> d < b | None \<Rightarrow> False) ds
      then make_dec False (show_nat (foldl (\<lambda>a c. b * a + the (hex_val c)) 0 ds)) [] 0
      else NaN)"

definition decimal_val :: "bool \<Rightarrow> string \<Rightarrow> jsnum" where
  "decimal_val neg s =
     (if s = ''Infinity'' then Infty neg else
      let ip = takeWhile is_digit s;
          r = dropWhile is_digit s;
          fp = (case r of c # q \<Rightarrow> if c = CHR ''.'' then takeWhile is_digit q else [] | [] \<Rightarrow> []);
          r2 = (case r of c # q \<Rightarrow> if c = CHR ''.'' then dropWhile is_digit q else r | [] \<Rightarrow> [])
      in if ip = [] \<and> fp = [] then NaN
         else (case parse_exp r2 of
                 Some (x, rest) \<Rightarrow> if rest = [] then make_dec neg ip fp x else NaN
               | None \<Rightarrow> NaN))"

definition string_to_number :: "string \<Rightarrow> jsnum" where
  "string_to_number s =
     (let t = js_trim s in
      if t = [] then Dec 0 0
      else if take 2 t \<in> {''0x'', ''0X''} then radix_val 16 (drop 2 t)
      else if take 2 t \<in> {''0o'', ''0O''} then radix_val 8 (drop 2 t)
      else if take 2 t \<in> {''0b'', ''0B''} then radix_val 2 (drop 2 t)
      else if hd t = CHR ''-'' then decimal_val True (tl t)
      else if hd t = CHR ''+'' then decimal_val False (tl t)
      else decimal_val False t)"

text \<open>\<open>parseInt(s)\<close>: the longest prefix that is an integer, \<open>NaN\<close> if there is none.\<close>

definition parse_int :: "string \<Rightarrow> jsnum" where
  "parse_int s =
     (let t = js_ltrim s;
          neg = (t \<noteq> [] \<and> hd t = CHR ''-'');
          u = (if t \<noteq> [] \<and> (hd t = CHR ''-'' \<or> hd t = CHR ''+'') then tl t else t)
      in if take 2 u \<in> {''0x'', ''0X''} then
           (let ds = takeWhile (\<lambda>c. hex_val c \<noteq> None) (drop 2 u) in
            if ds = [] then NaN
            else make_dec neg (show_nat (foldl (\<lambda>a c. 16 * a + the (hex_val c)) 0 ds)) [] 0)
         else
           (let ds = takeWhile is_digit u in
            if ds = [] then NaN else make_dec neg ds [] 0))"

fun to_number :: "jsval \<Rightarrow> jsnum" where
  "to_number Undefined = NaN"
| "to_number Null = Dec 0 0"
| "to_number (Bool b) = Dec (if b then 1 else 0) 0"
| "to_number (Num n) = n"
| "to_number (Str s) = string_to_number s"
| "to_number (Arr vs) = string_to_number (to_str (Arr vs))"
| "to_number (Obj _) = NaN"

lemma js_ltrim_head:
  "s \<noteq> [] \<Longrightarrow> 32 < (of_char (hd s) :: nat) \<Longrightarrow> (of_char (hd s) :: nat) < 128 \<Longrightarrow> js_ltrim s = s"
proof -
  assume s: "s \<noteq> []" "32 < (of_char (hd s) :: nat)" "(of_char (hd s) :: nat) < 128"
  have "\<forall>w \<in> set wide_spaces. w \<noteq> [] \<and> 128 \<le> (of_char (hd w) :: nat)"
    by (simp add: wide_spaces_def)
  then have "take 3 s \<notin> set wide_spaces"
    using s by (cases s) (auto simp: not_less [symmetric])
  then have "ws_prefix s = 0"
    using s by (cases s) (auto simp: ws_prefix_def)
  then show ?thesis by (subst js_ltrim.simps) simp
qed

lemma show_nat_head: "48 \<le> (of_char (hd (show_nat n)) :: nat) \<and> (of_char (hd (show_nat n)) :: nat) \<le> 57"
  using show_nat_digits [of n] by (metis hd_in_set is_digit_def show_nat_not_Nil)

text \<open>The numeral of an integer reads back as that integer.\<close>

lemma parse_int_show_int:
  assumes "\<bar>i\<bar> < 10 ^ 21"
  shows "parse_int (show_int i) = Dec i 0"
proof -
  have h: "hd (show_nat n) \<noteq> CHR ''-''" "hd (show_nat n) \<noteq> CHR ''+''" for n
    using show_nat_head [of n] by auto
  have x: "take 2 (show_nat n) \<notin> {''0x'', ''0X''}" for n
  proof
    assume "take 2 (show_nat n) \<in> {''0x'', ''0X''}"
    then have "CHR ''x'' \<in> set (show_nat n) \<or> CHR ''X'' \<in> set (show_nat n)"
      by (metis in_set_takeD insertE list.set_intros singletonD)
    with show_nat_digits [of n] show False by (auto simp: is_digit_def)
  qed
  have w: "takeWhile is_digit (show_nat n) = show_nat n" for n
    using digits_take(1) [of "[]" n] by simp
  have t: "js_ltrim (show_nat n) = show_nat n" "js_ltrim (CHR ''-'' # show_nat n) = CHR ''-'' # show_nat n" for n
    using show_nat_head [of n] by (auto intro!: js_ltrim_head)
  have m: "make_dec neg (show_nat n) [] 0 = Dec (int n * (if neg then -1 else 1)) 0"
    if "int n < 10 ^ 21" for neg n
    using that not_huge [of "int n * (if neg then -1 else 1)" 0]
    by (simp add: make_dec_def read_digits_show_nat)
  show ?thesis
  proof (cases "i < 0")
    case True
    then show ?thesis
      using assms x [of "nat (- i)"] by (simp add: parse_int_def show_int_def t w m)
  next
    case False
    then show ?thesis
      using assms x [of "nat i"] h [of "nat i"] by (simp add: parse_int_def show_int_def t w m)
  qed
qed

end
