(* ===== verification/Browser.thy ===== *)
theory Browser
  imports Encodings Js_Numbers
begin

text \<open>
  The run-time of a page: its state (\<open>localStorage\<close>, \<open>window.location.href\<close>, the clock, the
  alerts shown, the server behind it and the requests sent to it), computations that may
  return, throw or never settle, and \<open>$.ajax\<close>.

  An asynchronous function is a state transformer. Its promise is fulfilled (\<open>Done\<close>),
  rejected (\<open>Throw\<close>) or stays pending for ever (\<open>Hang\<close>); \<open>await\<close> is \<open>jbind\<close>, and a
  continuation after a pending promise never runs. One handler runs at a time.
\<close>

subsection \<open>Outcomes and computations\<close>

text \<open>
  What can be thrown: an \<open>Error\<close> of the program, the errors of the language and of the
  browser, and the \<open>jqXHR\<close> a failed request rejects with, of which the program reads
  \<open>responseJSON\<close> and \<open>statusText\<close>.
\<close>

datatype exn =
    Error string
  | TypeError
  | SyntaxError
  | URIError
  | RangeError
  | InvalidCharacterError
  | Xhr jsval string

datatype 'a outcome = Done 'a | Throw exn | Hang

type_synonym ('a, 'w) js = "'w \<Rightarrow> 'a outcome \<times> 'w"

definition jret :: "'a \<Rightarrow> ('a, 'w) js" where
  "jret a w = (Done a, w)"

definition jthrow :: "exn \<Rightarrow> ('a, 'w) js" where
  "jthrow e w = (Throw e, w)"

definition jbind :: "('a, 'w) js \<Rightarrow> ('a \<Rightarrow> ('b, 'w) js) \<Rightarrow> ('b, 'w) js" where
  "jbind m f w =
     (case m w of
        (Done a, w') \<Rightarrow> f a w'
      | (Throw e, w') \<Rightarrow> (Throw e, w')
      | (Hang, w') \<Rightarrow> (Hang, w'))"

definition jthen :: "('a, 'w) js \<Rightarrow> ('b, 'w) js \<Rightarrow> ('b, 'w) js" where
  "jthen m n = jbind m (\<lambda>_. n)"

text \<open>\<open>try { m } catch (e) { h(e) }\<close>; a pending promise reaches neither.\<close>

definition jcatch :: "('a, 'w) js \<Rightarrow> (exn \<Rightarrow> ('a, 'w) js) \<Rightarrow> ('a, 'w) js" where
  "jcatch m h w =
     (case m w of
        (Done a, w') \<Rightarrow> (Done a, w')
      | (Throw e, w') \<Rightarrow> h e w'
      | (Hang, w') \<Rightarrow> (Hang, w'))"

definition jget :: "('w \<Rightarrow> 'a) \<Rightarrow> ('a, 'w) js" where
  "jget f w = (Done (f w), w)"

definition jput :: "('w \<Rightarrow> 'w) \<Rightarrow> (unit, 'w) js" where
  "jput f w = (Done (), f w)"

text \<open>
  A throw inside the executor of a promise that is an \<open>async\<close> function, or inside a
  \<open>done\<close> callback, rejects no promise anyone waits for: the outer promise stays pending.
\<close>

definition jlose :: "('a, 'w) js \<Rightarrow> ('a, 'w) js" where
  "jlose m w = (case m w of (Throw e, w') \<Rightarrow> (Hang, w') | r \<Rightarrow> r)"

fun jforeach :: "('a \<Rightarrow> (unit, 'w) js) \<Rightarrow> 'a list \<Rightarrow> (unit, 'w) js" where
  "jforeach f [] = jret ()"
| "jforeach f (x # xs) = jthen (f x) (jforeach f xs)"

lemmas js_monad [js_sem] =
  jret_def jthrow_def jbind_def jthen_def jcatch_def jget_def jput_def jlose_def

lemma jbind_assoc: "jbind (jbind m f) g = jbind m (\<lambda>a. jbind (f a) g)"
  by (rule ext) (auto simp: jbind_def split: prod.splits outcome.splits)

lemma jforeach_append: "jforeach f (xs @ ys) = jthen (jforeach f xs) (jforeach f ys)"
  by (induction xs) (simp_all add: jthen_def jbind_assoc, simp add: jbind_def jret_def)


text \<open>
  An invariant of the state that a computation keeps however it ends, and the rules that take
  it through the control structures.
\<close>

definition keeps :: "('w \<Rightarrow> bool) \<Rightarrow> ('a, 'w) js \<Rightarrow> bool" where
  "keeps Q m \<longleftrightarrow> (\<forall>w. Q w \<longrightarrow> Q (snd (m w)))"

lemma keepsD: "keeps Q m \<Longrightarrow> Q w \<Longrightarrow> m w = (r, w') \<Longrightarrow> Q w'"
  by (metis keeps_def snd_conv)

lemma keeps_jret [intro]: "keeps Q (jret a)"
  by (simp add: keeps_def jret_def)

lemma keeps_jthrow [intro]: "keeps Q (jthrow e)"
  by (simp add: keeps_def jthrow_def)

lemma keeps_jget [intro]: "keeps Q (jget f)"
  by (simp add: keeps_def jget_def)

lemma keeps_jput [intro]: "(\<And>w. Q w \<Longrightarrow> Q (f w)) \<Longrightarrow> keeps Q (jput f)"
  by (simp add: keeps_def jput_def)

lemma keeps_jbind [intro]: "keeps Q m \<Longrightarrow> (\<And>a. keeps Q (f a)) \<Longrightarrow> keeps Q (jbind m f)"
  by (auto simp: keeps_def jbind_def split: prod.splits outcome.splits)

lemma keeps_jthen [intro]: "keeps Q m \<Longrightarrow> keeps Q n \<Longrightarrow> keeps Q (jthen m n)"
  unfolding jthen_def by (rule keeps_jbind)

lemma keeps_jcatch [intro]: "keeps Q m \<Longrightarrow> (\<And>e. keeps Q (h e)) \<Longrightarrow> keeps Q (jcatch m h)"
  by (auto simp: keeps_def jcatch_def split: prod.splits outcome.splits)

lemma keeps_jlose: "keeps Q m \<Longrightarrow> keeps Q (jlose m)"
  by (auto simp: keeps_def jlose_def split: prod.splits outcome.splits)

lemma keeps_if: "keeps Q m \<Longrightarrow> keeps Q n \<Longrightarrow> keeps Q (if b then m else n)"
  by simp

lemma keeps_jforeach [intro]: "(\<And>x. keeps Q (f x)) \<Longrightarrow> keeps Q (jforeach f xs)"
  by (induction xs) (auto intro: keeps_jret keeps_jthen)

text \<open>A computation that never stays pending.\<close>

definition settles :: "('a, 'w) js \<Rightarrow> bool" where
  "settles m \<longleftrightarrow> (\<forall>w. fst (m w) \<noteq> Hang)"

lemma settles_basic [intro]:
  "settles (jret a)" "settles (jthrow e)" "settles (jget f)" "settles (jput g)"
  by (simp_all add: settles_def js_monad)

lemma settles_jbind [intro]: "settles m \<Longrightarrow> (\<And>a. settles (f a)) \<Longrightarrow> settles (jbind m f)"
  by (simp add: settles_def jbind_def split: prod.splits outcome.splits) (metis fst_conv)

lemma settles_jthen [intro]: "settles m \<Longrightarrow> settles n \<Longrightarrow> settles (jthen m n)"
  unfolding jthen_def by (rule settles_jbind)

lemma settles_jforeach [intro]: "(\<And>x. settles (f x)) \<Longrightarrow> settles (jforeach f xs)"
  by (induction xs) auto

lemma settles_if [intro]: "settles m \<Longrightarrow> settles n \<Longrightarrow> settles (if b then m else n)"
  by simp

text \<open>A \<open>try\<close> whose handler does nothing returns when its body settles.\<close>

lemma jcatch_ignore_Done: "settles m \<Longrightarrow> fst (jcatch m (\<lambda>_. jret ()) w) = Done ()"
  by (auto simp: settles_def jcatch_def jret_def split: prod.splits outcome.splits) (metis fst_conv)


subsection \<open>The state of a page\<close>

record request =
  rq_method :: string
  rq_url :: string
  rq_auth :: "string option"
  rq_body :: "string option"

datatype response = NoResponse | Response nat string string

text \<open>A server answers a request from its state; the number is the time it took, in ms.\<close>

type_synonym 's server = "'s \<Rightarrow> request \<Rightarrow> response \<times> nat \<times> 's"

record 's browser =
  storage :: "string \<rightharpoonup> string"
  href :: string
  clock :: int
  alerts :: "string list"
  backend :: 's
  sent :: "request list"

text \<open>\<open>Math.floor(Date.now() / 1000)\<close>.\<close>

definition now_seconds :: "('s, 'x) browser_scheme \<Rightarrow> int" where
  "now_seconds w = clock w div 1000"

definition redirect :: "string \<Rightarrow> (unit, ('s, 'x) browser_scheme) js" where
  "redirect url = jput (\<lambda>w. w\<lparr>href := url\<rparr>)"

definition alert :: "string \<Rightarrow> (unit, ('s, 'x) browser_scheme) js" where
  "alert msg = jput (\<lambda>w. w\<lparr>alerts := alerts w @ [msg]\<rparr>)"

text \<open>\<open>localStorage\<close>: an absent item reads as \<open>null\<close>.\<close>

definition getItem :: "string \<Rightarrow> (string \<rightharpoonup> string) \<Rightarrow> jsval" where
  "getItem k st = (case st k of None \<Rightarrow> Null | Some s \<Rightarrow> Str s)"

definition setItem :: "string \<Rightarrow> string \<Rightarrow> (string \<rightharpoonup> string) \<Rightarrow> (string \<rightharpoonup> string)" where
  "setItem k v st = st(k \<mapsto> v)"

definition removeItem :: "string \<Rightarrow> (string \<rightharpoonup> string) \<Rightarrow> (string \<rightharpoonup> string)" where
  "removeItem k st = st(k := None)"

definition storage_get :: "string \<Rightarrow> (jsval, ('s, 'x) browser_scheme) js" where
  "storage_get k = jget (\<lambda>w. getItem k (storage w))"

definition storage_set :: "string \<Rightarrow> jsval \<Rightarrow> (unit, ('s, 'x) browser_scheme) js" where
  "storage_set k v = jput (\<lambda>w. w\<lparr>storage := setItem k (to_str v) (storage w)\<rparr>)"

definition storage_remove :: "string \<Rightarrow> (unit, ('s, 'x) browser_scheme) js" where
  "storage_remove k = jput (\<lambda>w. w\<lparr>storage := removeItem k (storage w)\<rparr>)"

text \<open>Reading a property: \<open>undefined\<close> and \<open>null\<close> have none.\<close>

fun get_prop :: "string \<Rightarrow> jsval \<Rightarrow> (jsval, 'w) js" where
  "get_prop k Undefined = jthrow TypeError"
| "get_prop k Null = jthrow TypeError"
| "get_prop k (Obj kvs) = jret (obj_get k kvs)"
| "get_prop k _ = jret Undefined"

text \<open>\<open>v.forEach\<close> is a function on arrays only.\<close>

fun elements :: "jsval \<Rightarrow> (jsval list, 'w) js" where
  "elements (Arr vs) = jret vs"
| "elements _ = jthrow TypeError"


lemma keeps_get_prop [intro]: "keeps Q (get_prop k v)"
  by (cases v) (auto intro: keeps_jret keeps_jthrow)

lemma keeps_elements [intro]: "keeps Q (elements v)"
  by (cases v) (auto intro: keeps_jret keeps_jthrow)

lemma settles_read [intro]: "settles (get_prop k v)" "settles (elements v)"
  by (cases v; auto)+


subsection \<open>Requests\<close>

text \<open>
  \<open>$.ajax\<close> with \<open>dataType: "json"\<close>. A status from 200 to 299 and 304 are successes; 204 and 304
  have no content; the body of any other is parsed, and a body that is no JSON text fails the
  request. The body of an error is parsed too and kept as \<open>responseJSON\<close> where that works.
\<close>

definition ajax :: "'s server \<Rightarrow> request \<Rightarrow> (jsval, ('s, 'x) browser_scheme) js" where
  "ajax srv rq w =
     (let (res, ms, s') = srv (backend w) rq;
          w' = w\<lparr>backend := s', clock := clock w + int ms, sent := sent w @ [rq]\<rparr>
      in case res of
           NoResponse \<Rightarrow> (Throw (Xhr Undefined ''error''), w')
         | Response status status_text body \<Rightarrow>
             (let parsed = json_parse body in
              if 200 \<le> status \<and> status < 300 \<or> status = 304 then
                (if status = 204 \<or> status = 304 then (Done Undefined, w')
                 else (case parsed of
                         Some v \<Rightarrow> (Done v, w')
                       | None \<Rightarrow> (Throw (Xhr Undefined
                           (if status_text = [] then ''parsererror'' else status_text)), w')))
              else (Throw (Xhr (case parsed of Some v \<Rightarrow> v | None \<Rightarrow> Undefined)
                     (if status_text = [] then ''error'' else status_text)), w')))"

lemma ajax_frame:
  assumes "ajax srv rq w = (r, w')"
  shows "storage w' = storage w" "href w' = href w" "alerts w' = alerts w"
    "sent w' = sent w @ [rq]" "browser.more w' = browser.more w" "clock w \<le> clock w'" "r \<noteq> Hang"
  using assms
  by (auto simp: ajax_def Let_def split: prod.splits response.splits option.splits if_splits)


lemma settles_ajax [intro]: "settles (ajax srv rq)"
  unfolding settles_def by (metis ajax_frame(7) prod.collapse)


subsection \<open>The interface of a key-value store\<close>

text \<open>
  Both \<open>localStorage\<close> and the configuration table are one: what is read after a write, and
  that a write to one key leaves the others alone. A list of writes leaves, under every key,
  the last value written or the one before.
\<close>

locale kv_store =
  fixes get :: "'st \<Rightarrow> 'k \<Rightarrow> 'v option"
    and put :: "'k \<Rightarrow> 'v \<Rightarrow> 'st \<Rightarrow> 'st"
  assumes get_put: "get (put k v st) k' = (if k' = k then Some v else get st k')"
begin

definition put_all :: "('k \<times> 'v) list \<Rightarrow> 'st \<Rightarrow> 'st" where
  "put_all kvs st = fold (\<lambda>(k, v). put k v) kvs st"

lemma get_put_same: "get (put k v st) k = Some v"
  by (simp add: get_put)

lemma get_put_other: "k' \<noteq> k \<Longrightarrow> get (put k v st) k' = get st k'"
  by (simp add: get_put)

lemma get_put_all:
  "get (put_all kvs st) k = (case map_of (rev kvs) k of Some v \<Rightarrow> Some v | None \<Rightarrow> get st k)"
proof (induction kvs rule: rev_induct)
  case Nil
  then show ?case by (simp add: put_all_def)
next
  case (snoc kv kvs)
  then show ?case by (cases kv) (simp add: put_all_def get_put)
qed

end

interpretation local_storage: kv_store "\<lambda>st k. st k" setItem
  by unfold_locales (simp add: setItem_def)

end
