(* ===== verification/Api_Client.thy ===== *)
theory Api_Client
  imports Browser
begin

text \<open>
  \<open>web/static/js/openfsd/api.js\<close>: the session of a page. The access token lives in
  \<open>localStorage\<close>; it is read by decoding its payload, renewed with the refresh token when it
  has less than 15 seconds left, and sent with every authenticated request.
\<close>

subsection \<open>The functions\<close>

text \<open>\<open>api.js\<close>, \<open>decodeJwt\<close>. The argument is what \<open>localStorage.getItem\<close> gave.\<close>

definition decodeJwt :: "jsval \<Rightarrow> (jsval, ('s, 'x) browser_scheme) js" where
  "decodeJwt token =
     (if \<not> truthy token then
        jthen (redirect ''/login'') (jthrow (Error ''no token found''))
      else
        (case token of
           Str s \<Rightarrow>
             (case split_on (CHR ''.'') s of
                _ # base64Url # _ \<Rightarrow>
                  (let base64 = replace_all (CHR ''_'') (CHR ''/'')
                                  (replace_all (CHR ''-'') (CHR ''+'') base64Url) in
                   case atob base64 of
                     None \<Rightarrow> jthrow InvalidCharacterError
                   | Some bin \<Rightarrow>
                       (case decode_uri (concat (map percent bin)) of
                          None \<Rightarrow> jthrow URIError
                        | Some jsonPayload \<Rightarrow>
                            (case json_parse jsonPayload of
                               None \<Rightarrow> jthrow SyntaxError
                             | Some v \<Rightarrow> jret v)))
              | _ \<Rightarrow> jthrow TypeError)
         | _ \<Rightarrow> jthrow TypeError))"

text \<open>\<open>exp < (now + 15)\<close>, with the conversions of the comparison.\<close>

definition expires_soon :: "jsval \<Rightarrow> int \<Rightarrow> bool" where
  "expires_soon exp now \<longleftrightarrow> num_lt (to_number exp) (Dec (now + 15) 0)"

definition refresh_request :: "jsval \<Rightarrow> request" where
  "refresh_request storedRefreshToken =
     \<lparr>rq_method = ''POST'', rq_url = ''/api/v1/auth/refresh'', rq_auth = None,
      rq_body = json_stringify (Obj [(''refresh_token'', storedRefreshToken)])\<rparr>"

definition refreshAccessToken :: "'s server \<Rightarrow> (jsval, ('s, 'x) browser_scheme) js" where
  "refreshAccessToken srv =
     jbind (storage_get ''refresh_token'') (\<lambda>storedRefreshToken.
     jbind (decodeJwt storedRefreshToken) (\<lambda>jwtPayload.
     jbind (get_prop ''exp'' jwtPayload) (\<lambda>exp.
     jbind (jget now_seconds) (\<lambda>now.
       if expires_soon exp now then
         jthen (redirect ''/login'') (jthrow (Error ''refresh token expired''))
       else
         jbind (jcatch (ajax srv (refresh_request storedRefreshToken))
                  (\<lambda>_. jthen (redirect ''/login'') (jthrow (Error ''failed to refresh access token''))))
           (\<lambda>res. jlose (jbind (get_prop ''data'' res) (get_prop ''access_token'')))))))"

definition getAccessToken :: "'s server \<Rightarrow> (jsval, ('s, 'x) browser_scheme) js" where
  "getAccessToken srv =
     jbind (storage_get ''access_token'') (\<lambda>storedAccessToken.
       if \<not> truthy storedAccessToken then
         jthen (redirect ''/login'') (jthrow (Error ''No access token found''))
       else
         jbind (decodeJwt storedAccessToken) (\<lambda>jwtPayload.
         jbind (get_prop ''exp'' jwtPayload) (\<lambda>exp.
         jbind (jget now_seconds) (\<lambda>now.
           if expires_soon exp now then
             jbind (refreshAccessToken srv) (\<lambda>newAccessToken.
               jthen (storage_set ''access_token'' newAccessToken) (jret newAccessToken))
           else jret storedAccessToken))))"

text \<open>
  The executor of the promise is itself \<open>async\<close>: a throw in it is lost and leaves the promise
  pending. Only the \<open>done\<close> and \<open>fail\<close> callbacks settle it.
\<close>

definition api_request :: "string \<Rightarrow> string \<Rightarrow> bool \<Rightarrow> jsval \<Rightarrow> jsval \<Rightarrow> request" where
  "api_request method url withAuth accessToken data =
     \<lparr>rq_method = method, rq_url = url,
      rq_auth = (if withAuth then Some (''Bearer '' @ to_str accessToken) else None),
      rq_body = json_stringify data\<rparr>"

definition doAPIRequest ::
    "'s server \<Rightarrow> string \<Rightarrow> string \<Rightarrow> bool \<Rightarrow> jsval \<Rightarrow> (jsval, ('s, 'x) browser_scheme) js" where
  "doAPIRequest srv method url withAuth data =
     jbind (if withAuth then jlose (getAccessToken srv) else jret (Str [])) (\<lambda>accessToken.
       ajax srv (api_request method url withAuth accessToken data))"

definition doAPIRequestWithAuth ::
    "'s server \<Rightarrow> string \<Rightarrow> string \<Rightarrow> jsval \<Rightarrow> (jsval, ('s, 'x) browser_scheme) js" where
  "doAPIRequestWithAuth srv method url data = doAPIRequest srv method url True data"

definition doAPIRequestNoAuth ::
    "'s server \<Rightarrow> string \<Rightarrow> string \<Rightarrow> jsval \<Rightarrow> (jsval, ('s, 'x) browser_scheme) js" where
  "doAPIRequestNoAuth srv method url data = doAPIRequest srv method url False data"

definition getAccessTokenClaims :: "(jsval, ('s, 'x) browser_scheme) js" where
  "getAccessTokenClaims = jbind (storage_get ''access_token'') decodeJwt"

definition logout :: "(unit, ('s, 'x) browser_scheme) js" where
  "logout =
     jthen (storage_remove ''access_token'')
       (jthen (storage_remove ''refresh_token'') (redirect ''/login''))"


subsection \<open>Decoding a token\<close>

lemma decodeJwt_empty [js_sem]:
  "\<not> truthy token \<Longrightarrow> decodeJwt token w = (Throw (Error ''no token found''), w\<lparr>href := ''/login''\<rparr>)"
  by (simp add: decodeJwt_def redirect_def js_monad)

text \<open>Decoding changes the page only by the redirect, and never hangs.\<close>

lemma decodeJwt_frame:
  "decodeJwt token w = (r, w') \<Longrightarrow>
     r \<noteq> Hang \<and> (w' = w \<or> w' = w\<lparr>href := ''/login''\<rparr>) \<and> ((\<exists>v. r = Done v) \<longrightarrow> w' = w)"
  by (auto simp: decodeJwt_def redirect_def js_monad Let_def
      split: if_splits jsval.splits list.splits option.splits)

text \<open>A computation that sends only requests of a kind, after those sent before.\<close>

definition sends_only :: "(request \<Rightarrow> bool) \<Rightarrow> request list \<Rightarrow> ('s, 'x) browser_scheme \<Rightarrow> bool" where
  "sends_only P before w \<longleftrightarrow> (\<exists>rqs. sent w = before @ rqs \<and> (\<forall>rq \<in> set rqs. P rq))"

lemma sends_only_start: "sends_only P (sent w) w"
  by (simp add: sends_only_def)

lemma keeps_sends_ajax: "P rq \<Longrightarrow> keeps (sends_only P before) (ajax srv rq)"
  unfolding keeps_def sends_only_def
proof (intro allI impI)
  fix w :: "('a, 'b) browser_scheme"
  assume "P rq" "\<exists>rqs. sent w = before @ rqs \<and> (\<forall>rq \<in> set rqs. P rq)"
  moreover have "sent (snd (ajax srv rq w)) = sent w @ [rq]"
    using ajax_frame(4) [of srv rq w] by (metis prod.collapse)
  ultimately show "\<exists>rqs. sent (snd (ajax srv rq w)) = before @ rqs \<and> (\<forall>rq \<in> set rqs. P rq)"
    by fastforce
qed

lemma keeps_sends_silent:
  "keeps (sends_only P before) (storage_get k)" "keeps (sends_only P before) (storage_set k v)"
  "keeps (sends_only P before) (redirect url)" "keeps (sends_only P before) (alert msg)"
  by (simp_all add: keeps_def sends_only_def storage_get_def storage_set_def redirect_def alert_def js_monad)

lemma keeps_sends_decode: "keeps (sends_only P before) (decodeJwt v)"
  unfolding keeps_def
proof (intro allI impI)
  fix w :: "('a, 'b) browser_scheme"
  assume "sends_only P before w"
  moreover have "sent (snd (decodeJwt v w)) = sent w"
    using decodeJwt_frame [of v w "fst (decodeJwt v w)" "snd (decodeJwt v w)"] by auto
  ultimately show "sends_only P before (snd (decodeJwt v w))" by (simp add: sends_only_def)
qed

lemma keeps_sends_request:
  assumes "\<And>r. P (refresh_request r)" "\<And>a. P (api_request m url True a d)"
  shows "keeps (sends_only P before) (doAPIRequestWithAuth srv m url d)"
  unfolding doAPIRequestWithAuth_def doAPIRequest_def if_True getAccessToken_def refreshAccessToken_def
  by (intro keeps_jbind keeps_jlose keeps_sends_ajax assms keeps_sends_silent keeps_sends_decode keeps_get_prop keeps_jget
      keeps_jthen keeps_jthrow keeps_jret keeps_jcatch keeps_if)

text \<open>A token in the storage that decodes to a payload with an expiry.\<close>

definition token_payload :: "string \<Rightarrow> jsval option" where
  "token_payload s =
     (case split_on (CHR ''.'') s of
        _ # b # _ \<Rightarrow>
          Option.bind (atob (replace_all (CHR ''_'') (CHR ''/'') (replace_all (CHR ''-'') (CHR ''+'') b)))
            (\<lambda>bin. Option.bind (decode_uri (concat (map percent bin))) json_parse)
      | _ \<Rightarrow> None)"

definition token_exp :: "string \<Rightarrow> jsval option" where
  "token_exp s =
     (case token_payload s of
        Some v \<Rightarrow> (if v = Null then None else Some (case v of Obj kvs \<Rightarrow> obj_get ''exp'' kvs | _ \<Rightarrow> Undefined))
      | None \<Rightarrow> None)"

lemma token_payload_compact:
  assumes "CHR ''.'' \<notin> set h" "utf8_valid p"
  shows "token_payload (jwt_compact h p g) = json_parse p"
  using assms base64url_plain(1) [of p]
  by (simp add: token_payload_def jwt_compact_def split_on_append
      base64url.dec_enc percent_escapes.dec_enc)

lemma token_exp_compact:
  assumes "CHR ''.'' \<notin> set h" "json_ok (Obj kvs)" "utf8_valid (json_text (Obj kvs))"
  shows "token_exp (jwt_compact h (json_text (Obj kvs)) g) = Some (obj_get ''exp'' kvs)"
  using assms by (simp add: token_exp_def token_payload_compact json.dec_enc del: json_text.simps json_ok.simps)

lemma json_parse_not_Undefined: "json_parse s \<noteq> Some Undefined"
proof -
  have "parse_word t \<noteq> Some (Undefined, r)" for t r
    by (auto simp: parse_word_def)
  then have "parse_value f t \<noteq> Some (Undefined, r)" for f t r
    by (cases f) (auto split: list.splits option.splits if_splits)
  then show ?thesis
    by (auto simp: json_parse_def simp del: parse_value.simps split: option.splits if_splits)
qed

lemma decodeJwt_payload:
  "s \<noteq> [] \<Longrightarrow> token_payload s = Some v \<Longrightarrow> decodeJwt (Str s) w = (Done v, w)"
  by (auto simp: decodeJwt_def token_payload_def Let_def jret_def bind_eq_Some_conv
      split: list.splits)

lemma decodeJwt_Done:
  "decodeJwt tok w = (Done v, w') \<Longrightarrow>
     \<exists>s. tok = Str s \<and> s \<noteq> [] \<and> token_payload s = Some v \<and> w' = w"
  by (auto simp: decodeJwt_def token_payload_def Let_def redirect_def js_monad
      split: if_splits jsval.splits list.splits option.splits)

lemma get_prop_exp:
  assumes "token_payload s = Some v"
  shows "get_prop ''exp'' v w = (case token_exp s of Some e \<Rightarrow> (Done e, w) | None \<Rightarrow> (Throw TypeError, w))"
proof -
  have "v \<noteq> Undefined"
    using assms json_parse_not_Undefined
    by (auto simp: token_payload_def bind_eq_Some_conv split: list.splits)
  then show ?thesis using assms by (cases v) (simp_all add: token_exp_def js_monad)
qed

subsection \<open>The session\<close>

text \<open>The item under a key holds a token whose expiry is at least 15 seconds away.\<close>

definition live_token :: "string \<Rightarrow> string \<Rightarrow> ('s, 'x) browser_scheme \<Rightarrow> bool" where
  "live_token k s w \<longleftrightarrow>
     storage w k = Some s \<and> s \<noteq> [] \<and>
     (\<exists>e. token_exp s = Some e \<and> \<not> expires_soon e (now_seconds w))"

definition stale_token :: "string \<Rightarrow> string \<Rightarrow> ('s, 'x) browser_scheme \<Rightarrow> bool" where
  "stale_token k s w \<longleftrightarrow>
     storage w k = Some s \<and> s \<noteq> [] \<and>
     (\<exists>e. token_exp s = Some e \<and> expires_soon e (now_seconds w))"

lemma token_exp_payload: "token_exp s = Some e \<Longrightarrow> \<exists>v. token_payload s = Some v"
  by (auto simp: token_exp_def split: option.splits)

lemma read_expiry:
  assumes "s \<noteq> []" "token_exp s = Some e"
  shows "jbind (decodeJwt (Str s)) (\<lambda>p. jbind (get_prop ''exp'' p) f) w = f e w"
proof -
  obtain v where v: "token_payload s = Some v" using token_exp_payload [OF assms(2)] by blast
  show ?thesis
    using get_prop_exp [OF v, of w] assms(2)
    by (simp add: jbind_def decodeJwt_payload [OF assms(1) v])
qed

lemma getAccessToken_live:
  assumes "live_token ''access_token'' s w"
  shows "getAccessToken srv w = (Done (Str s), w)"
proof -
  obtain e where e: "storage w ''access_token'' = Some s" "s \<noteq> []" "token_exp s = Some e"
    "\<not> expires_soon e (now_seconds w)"
    using assms by (auto simp: live_token_def)
  have "getAccessToken srv w =
      jbind (decodeJwt (Str s)) (\<lambda>p. jbind (get_prop ''exp'' p) (\<lambda>exp. jbind (jget now_seconds) (\<lambda>now.
           if expires_soon exp now then
             jbind (refreshAccessToken srv) (\<lambda>t. jthen (storage_set ''access_token'' t) (jret t))
           else jret (Str s)))) w"
    using e(1,2) by (simp add: getAccessToken_def storage_get_def getItem_def jbind_def [of "jget _"] jget_def)
  also have "\<dots> = (Done (Str s), w)"
    unfolding read_expiry [OF e(2-3)] using e(4) by (simp add: js_monad)
  finally show ?thesis .
qed

lemma getAccessToken_stale:
  assumes "stale_token ''access_token'' s w"
  shows "getAccessToken srv w =
     (case refreshAccessToken srv w of
        (Done t, w') \<Rightarrow> (Done t, w'\<lparr>storage := setItem ''access_token'' (to_str t) (storage w')\<rparr>)
      | (Throw x, w') \<Rightarrow> (Throw x, w')
      | (Hang, w') \<Rightarrow> (Hang, w'))"
proof -
  obtain e where e: "storage w ''access_token'' = Some s" "s \<noteq> []" "token_exp s = Some e"
    "expires_soon e (now_seconds w)"
    using assms by (auto simp: stale_token_def)
  have "getAccessToken srv w =
      jbind (decodeJwt (Str s)) (\<lambda>p. jbind (get_prop ''exp'' p) (\<lambda>exp. jbind (jget now_seconds) (\<lambda>now.
           if expires_soon exp now then
             jbind (refreshAccessToken srv) (\<lambda>t. jthen (storage_set ''access_token'' t) (jret t))
           else jret (Str s)))) w"
    using e(1,2) by (simp add: getAccessToken_def storage_get_def getItem_def jbind_def [of "jget _"] jget_def)
  also have "\<dots> = jbind (refreshAccessToken srv) (\<lambda>t. jthen (storage_set ''access_token'' t) (jret t)) w"
    using e(4) by (simp add: read_expiry [OF e(2-3)] jget_def jbind_def [of "jget _"])
  finally show ?thesis
    by (simp add: js_monad storage_set_def split: prod.splits outcome.splits)
qed

text \<open>The three ways the stored access token can be neither live nor stale.\<close>

lemma getAccessToken_cases:
  obtains (live) s where "live_token ''access_token'' s w"
  | (stale) s where "stale_token ''access_token'' s w"
  | (bad) x w' where "getAccessToken srv w = (Throw x, w')" "sent w' = sent w" "storage w' = storage w"
      "browser.more w' = browser.more w" "alerts w' = alerts w"
proof (cases "storage w ''access_token''")
  case None
  then have "getAccessToken srv w =
      (Throw (Error ''No access token found''), w\<lparr>href := ''/login''\<rparr>)"
    by (simp add: getAccessToken_def storage_get_def getItem_def redirect_def js_monad)
  then show ?thesis by (rule bad) simp_all
next
  case (Some s)
  show ?thesis
  proof (cases "s \<noteq> [] \<and> token_exp s \<noteq> None")
    case True
    then obtain e where "token_exp s = Some e" "s \<noteq> []" by auto
    then show ?thesis
      using Some live stale
      by (cases "expires_soon e (now_seconds w)") (auto simp: live_token_def stale_token_def)
  next
    case False
    have "\<exists>x w'. getAccessToken srv w = (Throw x, w') \<and> sent w' = sent w \<and> storage w' = storage w
        \<and> browser.more w' = browser.more w \<and> alerts w' = alerts w"
    proof (cases "s = []")
      case True
      then show ?thesis
        using Some by (simp add: getAccessToken_def storage_get_def getItem_def redirect_def js_monad)
    next
      case nonempty: False
      then have exp: "token_exp s = None" using False by simp
      have get: "storage_get ''access_token'' w = (Done (Str s), w)"
        using Some by (simp add: storage_get_def getItem_def jget_def)
      show ?thesis
      proof (cases "decodeJwt (Str s) w")
        case (Pair r w1)
        have "r \<noteq> Hang" "r = Done v \<Longrightarrow> w1 = w \<and> get_prop ''exp'' v w = (Throw TypeError, w)" for v
          using decodeJwt_frame [OF Pair] decodeJwt_Done [of "Str s" w v w1] Pair get_prop_exp [of s v w] exp
          by auto
        moreover have "w1 = w \<or> w1 = w\<lparr>href := ''/login''\<rparr>" using decodeJwt_frame [OF Pair] by blast
        ultimately show ?thesis
          using Pair nonempty
          by (cases r) (auto simp: getAccessToken_def jbind_def get)
      qed
    qed
    then show ?thesis using bad by blast
  qed
qed


subsection \<open>Renewal\<close>

text \<open>The token in the answer of a refresh.\<close>

definition refreshed_token :: "jsval \<Rightarrow> jsval option" where
  "refreshed_token res =
     (case res of
        Obj kvs \<Rightarrow>
          (case obj_get ''data'' kvs of
             Obj d \<Rightarrow> Some (obj_get ''access_token'' d)
           | Undefined \<Rightarrow> None
           | Null \<Rightarrow> None
           | _ \<Rightarrow> Some Undefined)
      | _ \<Rightarrow> None)"

lemma refreshed_token_props:
  "jlose (jbind (get_prop ''data'' res) (get_prop ''access_token'')) w =
     (case refreshed_token res of Some t \<Rightarrow> (Done t, w) | None \<Rightarrow> (Hang, w))"
proof (cases res)
  case (Obj kvs)
  then show ?thesis
    by (cases "obj_get ''data'' kvs") (simp_all add: refreshed_token_def js_monad)
qed (simp_all add: refreshed_token_def js_monad)

lemma refreshAccessToken_live:
  assumes "live_token ''refresh_token'' s w"
  shows "refreshAccessToken srv w =
     (case ajax srv (refresh_request (Str s)) w of
        (Done res, w') \<Rightarrow> (case refreshed_token res of Some t \<Rightarrow> (Done t, w') | None \<Rightarrow> (Hang, w'))
      | (Throw _, w') \<Rightarrow> (Throw (Error ''failed to refresh access token''), w'\<lparr>href := ''/login''\<rparr>)
      | (Hang, w') \<Rightarrow> (Hang, w'))"
proof -
  obtain e where e: "storage w ''refresh_token'' = Some s" "s \<noteq> []" "token_exp s = Some e"
    "\<not> expires_soon e (now_seconds w)"
    using assms by (auto simp: live_token_def)
  have get: "storage_get ''refresh_token'' w = (Done (Str s), w)"
    using e(1) by (simp add: storage_get_def getItem_def jget_def)
  show ?thesis
    unfolding refreshAccessToken_def
    apply (subst jbind_def)
    apply (simp add: get read_expiry [OF e(2,3)])
    using e(4)
    apply (simp add: jbind_def jget_def jcatch_def jthen_def redirect_def jput_def jthrow_def
        refreshed_token_props split: prod.splits outcome.splits)
    done
qed

text \<open>Without a live refresh token no request is made.\<close>

lemma refreshAccessToken_dead:
  assumes "\<nexists>s. live_token ''refresh_token'' s w"
  shows "\<exists>x w'. refreshAccessToken srv w = (Throw x, w') \<and> sent w' = sent w \<and> storage w' = storage w
    \<and> browser.more w' = browser.more w \<and> alerts w' = alerts w"
proof (cases "\<exists>s e. storage w ''refresh_token'' = Some s \<and> s \<noteq> [] \<and> token_exp s = Some e")
  case True
  then obtain s e where e: "storage w ''refresh_token'' = Some s" "s \<noteq> []" "token_exp s = Some e" by blast
  then have "expires_soon e (now_seconds w)" using assms by (auto simp: live_token_def)
  moreover have "storage_get ''refresh_token'' w = (Done (Str s), w)"
    using e(1) by (simp add: storage_get_def getItem_def jget_def)
  ultimately show ?thesis
    unfolding refreshAccessToken_def
    apply (subst jbind_def)
    apply (simp add: read_expiry [OF e(2,3)])
    apply (simp add: js_monad redirect_def)
    done
next
  case False
  let ?tok = "getItem ''refresh_token'' (storage w)"
  have get: "storage_get ''refresh_token'' w = (Done ?tok, w)"
    by (simp add: storage_get_def jget_def)
  obtain r w1 where d: "decodeJwt ?tok w = (r, w1)" by (cases "decodeJwt ?tok w")
  have "w1 = w \<and> get_prop ''exp'' v w = (Throw TypeError, w)" if v: "r = Done v" for v
  proof -
    obtain s where s: "?tok = Str s" "s \<noteq> []" "token_payload s = Some v" "w1 = w"
      using decodeJwt_Done d v by blast
    then have "storage w ''refresh_token'' = Some s"
      by (auto simp: getItem_def split: option.splits)
    then have "token_exp s = None" using False s(2) by auto
    then show ?thesis using get_prop_exp [OF s(3), of w] s(4) by simp
  qed
  moreover have "r \<noteq> Hang" "w1 = w \<or> w1 = w\<lparr>href := ''/login''\<rparr>"
    using decodeJwt_frame [OF d] by blast+
  ultimately show ?thesis
    using d by (cases r) (auto simp: refreshAccessToken_def jbind_def get)
qed

lemma getAccessToken_renew:
  assumes "stale_token ''access_token'' s w" "live_token ''refresh_token'' r w"
    and "ajax srv (refresh_request (Str r)) w = (out, w1)"
  shows "getAccessToken srv w =
     (case out of
        Done res \<Rightarrow>
          (case refreshed_token res of
             Some t \<Rightarrow> (Done t, w1\<lparr>storage := (storage w)(''access_token'' \<mapsto> to_str t)\<rparr>)
           | None \<Rightarrow> (Hang, w1))
      | Throw _ \<Rightarrow> (Throw (Error ''failed to refresh access token''), w1\<lparr>href := ''/login''\<rparr>)
      | Hang \<Rightarrow> (Hang, w1))
     \<and> sent w1 = sent w @ [refresh_request (Str r)] \<and> storage w1 = storage w"
  using ajax_frame [OF assms(3)] assms(3)
  by (simp add: getAccessToken_stale [OF assms(1)] refreshAccessToken_live [OF assms(2)] setItem_def
      split: outcome.splits option.splits)


subsection \<open>Properties\<close>

text \<open>A token for the witnesses: a payload that holds only an expiry.\<close>

definition sample_token :: "int \<Rightarrow> string" where
  "sample_token exp = jwt_compact ''h'' (json_text (Obj [(''exp'', JInt exp)])) ''s''"

lemma ascii_show_nat: "c \<in> set (show_nat n) \<Longrightarrow> ascii_char c"
  using show_nat_digits [of n] by (auto simp: is_digit_def ascii_char_def)

lemma token_exp_sample:
  assumes "\<bar>i\<bar> < 10 ^ 21"
  shows "token_exp (sample_token i) = Some (JInt i)"
proof -
  have "\<forall>c \<in> set (json_text (Obj [(''exp'', JInt i)])). ascii_char c"
    using assms
    by (auto simp: quote_string_def quote_char_def number_to_string_int show_int_def Let_def
        ascii_show_nat) (auto simp: ascii_char_def)
  then have "utf8_valid (json_text (Obj [(''exp'', JInt i)]))" by (rule utf8_valid_ascii)
  then show ?thesis
    using assms token_exp_compact [of "''h''" "[(''exp'', JInt i)]" "''s''"]
    by (simp add: sample_token_def obj_get_def del: json_text.simps)
qed

definition sample_page :: "string option \<Rightarrow> string option \<Rightarrow> 's \<Rightarrow> 's browser" where
  "sample_page access refresh s =
     \<lparr>storage = (\<lambda>k. if k = ''access_token'' then access else if k = ''refresh_token'' then refresh else None),
      href = ''/dashboard'', clock = 1000000, alerts = [], backend = s, sent = []\<rparr>"

definition silent_server :: "'s server" where
  "silent_server s rq = (NoResponse, 0, s)"

lemma getAccessToken_none:
  "storage w ''access_token'' = None \<Longrightarrow>
     getAccessToken srv w = (Throw (Error ''No access token found''), w\<lparr>href := ''/login''\<rparr>)"
  by (simp add: getAccessToken_def storage_get_def getItem_def redirect_def js_monad)

lemma sample_tokens:
  "live_token ''access_token'' (sample_token 5000) (sample_page (Some (sample_token 5000)) r s)"
  "stale_token ''access_token'' (sample_token 1014) (sample_page (Some (sample_token 1014)) r s)"
  "live_token ''refresh_token'' (sample_token 9000) (sample_page a (Some (sample_token 9000)) s)"
  by (simp_all add: live_token_def stale_token_def sample_page_def token_exp_sample expires_soon_def
      now_seconds_def) (simp_all add: sample_token_def)

text \<open>
  C36. Decoding the token the server wrote gives back its claims: whatever the header and the
  signature, \<open>decodeJwt\<close> undoes base64url, the percent detour and JSON, for every claims value
  that has a JSON text in UTF-8; the page does not change.
\<close>

theorem decodeJwt_roundtrip:
  assumes "CHR ''.'' \<notin> set header" "json_ok claims" "utf8_valid (json_text claims)"
  shows "decodeJwt (Str (jwt_compact header (json_text claims) signature)) w = (Done claims, w)"
  using assms by (intro decodeJwt_payload) (simp_all add: token_payload_compact json.dec_enc)

theorem decodeJwt_roundtrip_witness:
  "decodeJwt (Str (jwt_compact ''h'' (json_text (Obj [(''cid'', JInt 1)])) ''s'')) (sample_page None None ())
     = (Done (Obj [(''cid'', JInt 1)]), sample_page None None ())"
proof -
  have t: "json_text (Obj [(''cid'', JInt 1)]) = [CHR ''{'', quote, CHR ''c'', CHR ''i'', CHR ''d'', quote, CHR '':'', CHR ''1'', CHR ''}'']"
    by code_simp
  have "utf8_valid (json_text (Obj [(''cid'', JInt 1)]))"
    unfolding t by (rule utf8_valid_ascii) (simp add: ascii_char_def)
  then show ?thesis
    by (intro decodeJwt_roundtrip) (simp_all add: del: json_text.simps)
qed

text \<open>
  Renewal. With an access token that has less than 15 seconds left and a refresh token
  that has more, \<open>getAccessToken\<close> sends exactly one request, the refresh; the token in the
  answer is returned and replaces the stored one. A failed refresh leaves the storage alone,
  redirects to the login page and throws.
\<close>

theorem getAccessToken_renewal:
  assumes "stale_token ''access_token'' s w" "live_token ''refresh_token'' r w"
    and "ajax srv (refresh_request (Str r)) w = (out, w1)"
  shows "getAccessToken srv w =
     (case out of
        Done res \<Rightarrow>
          (case refreshed_token res of
             Some t \<Rightarrow> (Done t, w1\<lparr>storage := (storage w)(''access_token'' \<mapsto> to_str t)\<rparr>)
           | None \<Rightarrow> (Hang, w1))
      | Throw _ \<Rightarrow> (Throw (Error ''failed to refresh access token''), w1\<lparr>href := ''/login''\<rparr>)
      | Hang \<Rightarrow> (Hang, w1))
     \<and> sent w1 = sent w @ [refresh_request (Str r)] \<and> storage w1 = storage w"
  using assms by (rule getAccessToken_renew)

theorem getAccessToken_renewal_witness:
  "fst (getAccessToken silent_server (sample_page (Some (sample_token 1014)) (Some (sample_token 9000)) ()))
     = Throw (Error ''failed to refresh access token'')"
proof -
  let ?w = "sample_page (Some (sample_token 1014)) (Some (sample_token 9000)) ()"
  obtain out w1 where a: "ajax silent_server (refresh_request (Str (sample_token 9000))) ?w = (out, w1)"
    by fastforce
  then have "out = Throw (Xhr Undefined ''error'')" by (simp add: ajax_def silent_server_def)
  then show ?thesis using getAccessToken_renewal [OF sample_tokens(2) sample_tokens(3) a] by simp
qed

text \<open>After a renewal the request carries the new token, and the refresh is the only other one.\<close>

lemma renewed_request_token:
  assumes "stale_token ''access_token'' s w" "live_token ''refresh_token'' r w"
    and "doAPIRequest srv method url True data w = (out, w')"
    and "sent w' = sent w @ rqs" "rq \<in> set rqs" "rq_auth rq \<noteq> None"
  shows "\<exists>tok. rqs = [refresh_request (Str r), rq] \<and> rq_url rq = url \<and> rq_auth rq = Some (''Bearer '' @ tok)
     \<and> storage w' ''access_token'' = Some tok"
proof -
  obtain o1 w1 where a: "ajax srv (refresh_request (Str r)) w = (o1, w1)" by fastforce
  note get = getAccessToken_renew [OF assms(1,2) a]
  show ?thesis
  proof (cases "\<exists>t. fst (getAccessToken srv w) = Done t")
    case False
    then have "sent w' = sent w @ [refresh_request (Str r)]"
      using get assms(3)
      by (auto simp: doAPIRequest_def jbind_def jlose_def split: outcome.splits option.splits)
    then show ?thesis using assms(4-6) by (simp add: refresh_request_def)
  next
    case True
    then obtain t where t: "getAccessToken srv w =
          (Done t, w1\<lparr>storage := (storage w)(''access_token'' \<mapsto> to_str t)\<rparr>)"
      using get by (auto split: outcome.splits option.splits)
    let ?w2 = "w1\<lparr>storage := (storage w)(''access_token'' \<mapsto> to_str t)\<rparr>"
    have b: "ajax srv (api_request method url True t data) ?w2 = (out, w')"
      using assms(3) by (simp add: doAPIRequest_def jbind_def jlose_def t)
    have rqs: "rqs = [refresh_request (Str r), api_request method url True t data]"
      using ajax_frame(4) [OF b] get assms(4) by simp
    then have "rq = api_request method url True t data"
      using assms(5,6) by (auto simp: refresh_request_def)
    then show ?thesis
      using rqs ajax_frame(1) [OF b] by (auto simp: api_request_def)
  qed
qed

text \<open>
  C13. A request with authentication carries a token the session vouches for: the header is
  \<open>Bearer\<close> and the access token stored after the call, which either was in the storage with at
  least 15 seconds left, or came from a refresh made in this call with a live refresh token.
  The refresh itself carries no header.
\<close>

theorem authenticated_request_token:
  assumes "doAPIRequest srv method url True data w = (out, w')"
    and "sent w' = sent w @ rqs" "rq \<in> set rqs" "rq_auth rq \<noteq> None"
  shows "\<exists>tok. rq = last rqs \<and> rq_url rq = url \<and> rq_auth rq = Some (''Bearer '' @ tok)
     \<and> storage w' ''access_token'' = Some tok
     \<and> (live_token ''access_token'' tok w \<and> rqs = [rq]
        \<or> (\<exists>r. live_token ''refresh_token'' r w \<and> rqs = [refresh_request (Str r), rq]))"
proof (cases rule: getAccessToken_cases [where w = w and srv = srv])
  case (live s)
  note get = getAccessToken_live [OF live, of srv]
  have a: "ajax srv (api_request method url True (Str s) data) w = (out, w')"
    using assms(1) by (simp add: doAPIRequest_def jbind_def jlose_def get)
  then have rqs: "rqs = [api_request method url True (Str s) data]"
    using ajax_frame(4) [OF a] assms(2) by simp
  show ?thesis
    using live rqs assms(3) ajax_frame(1) [OF a] by (auto simp: api_request_def live_token_def)
next
  case (stale s)
  show ?thesis
  proof (cases "\<exists>r. live_token ''refresh_token'' r w")
    case False
    then obtain x w1 where "refreshAccessToken srv w = (Throw x, w1)" "sent w1 = sent w"
      using refreshAccessToken_dead [of w srv] by blast
    then have "sent w' = sent w"
      using assms(1) by (auto simp: doAPIRequest_def jbind_def jlose_def getAccessToken_stale [OF stale])
    then show ?thesis using assms(2,3) by simp
  next
    case True
    then obtain r where r: "live_token ''refresh_token'' r w" by blast
    from renewed_request_token [OF stale this assms] show ?thesis using r by auto
  qed
next
  case (bad x w1)
  then have "sent w' = sent w"
    using assms(1) by (simp add: doAPIRequest_def jbind_def jlose_def)
  then show ?thesis using assms(2,3) by simp
qed

theorem authenticated_request_token_witness:
  "\<exists>rq. rq_url rq = ''/x'' \<and> rq_auth rq = Some (''Bearer '' @ sample_token 5000)
     \<and> sent (snd (doAPIRequest silent_server ''GET'' ''/x'' True Undefined
                  (sample_page (Some (sample_token 5000)) None ()))) = [rq]"
proof -
  let ?w = "sample_page (Some (sample_token 5000)) None ()"
  let ?rq = "api_request ''GET'' ''/x'' True (Str (sample_token 5000)) Undefined"
  obtain out w' where r: "doAPIRequest silent_server ''GET'' ''/x'' True Undefined ?w = (out, w')" by fastforce
  have s: "sent w' = sent ?w @ [?rq]"
    using r ajax_frame(4) [of silent_server ?rq ?w]
    by (auto simp: doAPIRequest_def jbind_def jlose_def getAccessToken_live [OF sample_tokens(1)])
  have "\<exists>tok. rq_url ?rq = ''/x'' \<and> rq_auth ?rq = Some (''Bearer '' @ tok)"
    using authenticated_request_token [OF r s, of ?rq] by (auto simp: api_request_def)
  then show ?thesis using s r by (auto simp: api_request_def sample_page_def)
qed

text \<open>
  C37. The promise of a request with authentication settles exactly when an access token was
  obtained. Where the session has ended (no token, or a refresh that is refused) the exception
  of \<open>getAccessToken\<close> is lost in the executor and the caller waits for ever, its own
  \<open>catch\<close> included; a request without authentication always settles.
\<close>

theorem doAPIRequest_settles_iff:
  "fst (doAPIRequest srv method url withAuth data w) \<noteq> Hang
     \<longleftrightarrow> (withAuth \<longrightarrow> (\<exists>t. fst (getAccessToken srv w) = Done t))"
proof (cases withAuth)
  case False
  then show ?thesis
    using ajax_frame(7) [of srv "api_request method url False (Str []) data" w]
    by (cases "ajax srv (api_request method url False (Str []) data) w")
       (auto simp: doAPIRequest_def jbind_def jret_def)
next
  case True
  obtain r w1 where g: "getAccessToken srv w = (r, w1)" by fastforce
  show ?thesis
  proof (cases r)
    case (Done t)
    then show ?thesis
      using True g ajax_frame(7) [of srv "api_request method url True t data" w1]
      by (cases "ajax srv (api_request method url True t data) w1")
         (auto simp: doAPIRequest_def jbind_def jlose_def)
  qed (use True g in \<open>auto simp: doAPIRequest_def jbind_def jlose_def\<close>)
qed

theorem doAPIRequest_settles_iff_witness:
  "fst (doAPIRequest silent_server ''GET'' ''/x'' True Undefined
        (sample_page (Some (sample_token 5000)) None ())) \<noteq> Hang
   \<and> fst (doAPIRequest silent_server ''GET'' ''/x'' True Undefined (sample_page None None ())) = Hang"
proof -
  have none: "storage (sample_page None None ()) ''access_token'' = None"
    by (simp add: sample_page_def)
  show ?thesis
    unfolding doAPIRequest_settles_iff
    using doAPIRequest_settles_iff [of silent_server "''GET''" "''/x''" True Undefined "sample_page None None ()"]
    by (simp add: getAccessToken_live [OF sample_tokens(1)] getAccessToken_none [OF none])
qed

text \<open>
  After \<open>logout\<close> the session is over: both tokens are gone, the page goes to the login
  form, the next call for a token throws, and a request with authentication neither reaches
  the server nor settles.
\<close>

theorem logout_ends_session:
  assumes "logout w = (out, w1)"
  shows "out = Done () \<and> href w1 = ''/login''
    \<and> storage w1 ''access_token'' = None \<and> storage w1 ''refresh_token'' = None
    \<and> (\<forall>k. k \<noteq> ''access_token'' \<longrightarrow> k \<noteq> ''refresh_token'' \<longrightarrow> storage w1 k = storage w k)
    \<and> getAccessToken srv w1 = (Throw (Error ''No access token found''), w1)
    \<and> doAPIRequest srv method url True data w1 = (Hang, w1)"
proof -
  have w1: "w1 = w\<lparr>storage := (storage w)(''access_token'' := None, ''refresh_token'' := None), href := ''/login''\<rparr>"
    and out: "out = Done ()"
    using assms by (auto simp: logout_def storage_remove_def removeItem_def redirect_def js_monad)
  have "getAccessToken srv w1 = (Throw (Error ''No access token found''), w1)"
    by (simp add: getAccessToken_none w1)
  then show ?thesis
    by (simp add: w1 out doAPIRequest_def jbind_def jlose_def)
qed

theorem logout_ends_session_witness:
  "storage (snd (logout (sample_page (Some ''a'') (Some ''b'') ()))) ''access_token'' = None"
proof -
  obtain out w1 where l: "logout (sample_page (Some ''a'') (Some ''b'') ()) = (out, w1)" by fastforce
  then show ?thesis using logout_ends_session [OF l] by simp
qed

end
