(* ===== verification/Api_Types.thy ===== *)
theory Api_Types
  imports Browser
begin

text \<open>
  What the two programs exchange: the envelope of every answer of the API
  (\<open>web/api_v1_response.go\<close>, read by every script) and a user as JSON.
\<close>

text \<open>An envelope of the API: its error and its data.\<close>

definition envelope :: "jsval \<Rightarrow> jsval \<Rightarrow> jsval" where
  "envelope err data = Obj [(''version'', Str ''v1''), (''err'', err), (''data'', data)]"

text \<open>A user as the API delivers one.\<close>

definition user_json :: "int \<Rightarrow> string \<Rightarrow> string \<Rightarrow> int \<Rightarrow> jsval" where
  "user_json cid first_name last_name network_rating =
     Obj [(''cid'', JInt cid), (''first_name'', Str first_name), (''last_name'', Str last_name),
          (''network_rating'', JInt network_rating)]"

lemma get_prop_envelope [simp]:
  "get_prop ''err'' (envelope e d) = jret e" "get_prop ''data'' (envelope e d) = jret d"
  by (simp_all add: envelope_def obj_get_def)

text \<open>Pairs of the configuration.\<close>

definition pair_json :: "string \<times> string \<Rightarrow> jsval" where
  "pair_json kv = Obj [(''key'', Str (fst kv)), (''value'', Str (snd kv))]"

definition pairs_json :: "(string \<times> string) list \<Rightarrow> jsval" where
  "pairs_json kvs = Obj [(''key_value_pairs'', Arr (map pair_json kvs))]"

end
