(* ===== verification/Dom.thy ===== *)
theory Dom
  imports Api_Client Api_Types
begin

text \<open>
  A page with its elements: the text properties and the flags of the elements the scripts
  address by id (\<open>value\<close>, \<open>textContent\<close>, \<open>className\<close>; \<open>hidden\<close>, \<open>checked\<close>), the setters of the
  form controls, and the error report every handler of the editors ends with. All ids the
  scripts name are in the page's template, so a lookup by id always finds its element.
\<close>

record 's page = "'s browser" +
  texts :: "string \<Rightarrow> string \<Rightarrow> string"
  flags :: "string \<Rightarrow> string \<Rightarrow> bool"

definition text_of :: "string \<Rightarrow> string \<Rightarrow> (string, ('s, 'x) page_scheme) js" where
  "text_of i p = jget (\<lambda>w. texts w i p)"

definition upd2 :: "'a \<Rightarrow> 'b \<Rightarrow> 'c \<Rightarrow> ('a \<Rightarrow> 'b \<Rightarrow> 'c) \<Rightarrow> ('a \<Rightarrow> 'b \<Rightarrow> 'c)" where
  "upd2 i p v f = f(i := (f i)(p := v))"

definition set_text :: "string \<Rightarrow> string \<Rightarrow> string \<Rightarrow> (unit, ('s, 'x) page_scheme) js" where
  "set_text i p v = jput (\<lambda>w. w\<lparr>texts := upd2 i p v (texts w)\<rparr>)"

definition set_flag :: "string \<Rightarrow> string \<Rightarrow> bool \<Rightarrow> (unit, ('s, 'x) page_scheme) js" where
  "set_flag i p v = jput (\<lambda>w. w\<lparr>flags := upd2 i p v (flags w)\<rparr>)"

lemma upd2_same [simp]: "upd2 i p v f i p = v"
  by (simp add: upd2_def)

lemma upd2_other [simp]: "i \<noteq> j \<or> p \<noteq> q \<Longrightarrow> upd2 i p v f j q = f j q"
  by (auto simp: upd2_def)

abbreviation val :: string where "val \<equiv> ''value''"

text \<open>Assigning to \<open>value\<close>: an input takes \<open>null\<close> as the empty text, a select only an option.\<close>

definition input_value :: "jsval \<Rightarrow> string" where
  "input_value v = (if v = Null then [] else to_str v)"

definition select_value :: "string list \<Rightarrow> jsval \<Rightarrow> string" where
  "select_value options v = (if to_str v \<in> set options then to_str v else [])"

text \<open>The options of the two rating menus of \<open>usereditor.html\<close>.\<close>

definition rating_options :: "string list" where
  "rating_options = map (\<lambda>i. show_int i) [-1 .. 12]"

text \<open>
  \<open>xhr.responseJSON && xhr.responseJSON.err ? xhr.responseJSON.err : 'An error occurred'\<close>. An
  exception that is no \<open>jqXHR\<close> has no \<open>responseJSON\<close>.
\<close>

definition response_json :: "exn \<Rightarrow> jsval" where
  "response_json e = (case e of Xhr v _ \<Rightarrow> v | _ \<Rightarrow> Undefined)"

definition err_of :: "jsval \<Rightarrow> jsval" where
  "err_of v = (case v of Obj kvs \<Rightarrow> obj_get ''err'' kvs | _ \<Rightarrow> Undefined)"

definition error_message :: "exn \<Rightarrow> string" where
  "error_message e =
     (if truthy (response_json e) \<and> truthy (err_of (response_json e))
      then to_str (err_of (response_json e)) else ''An error occurred'')"

definition report_error :: "exn \<Rightarrow> (unit, ('s, 'x) browser_scheme) js" where
  "report_error e = alert (''Error: '' @ error_message e)"

text \<open>
  A request leaves the elements and the alerts of the page alone; what it changes is the
  session, the clock and the server.
\<close>

lemma getAccessToken_frame:
  assumes "getAccessToken srv w = (r, w')"
  shows "browser.more w' = browser.more w" "alerts w' = alerts w"
proof -
  have "browser.more w' = browser.more w \<and> alerts w' = alerts w"
  proof (cases rule: getAccessToken_cases [where w = w and srv = srv])
    case (live s)
    then show ?thesis using assms getAccessToken_live [OF live, of srv] by simp
  next
    case (stale s)
    have "browser.more w2 = browser.more w \<and> alerts w2 = alerts w"
      if "refreshAccessToken srv w = (o2, w2)" for o2 w2
    proof (cases "\<exists>r. live_token ''refresh_token'' r w")
      case True
      then obtain r where r: "live_token ''refresh_token'' r w" by blast
      obtain o1 w1 where a: "ajax srv (refresh_request (Str r)) w = (o1, w1)" by fastforce
      show ?thesis
        using that ajax_frame [OF a] a
        by (auto simp: refreshAccessToken_live [OF r] split: outcome.splits option.splits)
    next
      case False
      then show ?thesis using refreshAccessToken_dead [of w srv] that by auto
    qed
    then show ?thesis
      using assms getAccessToken_stale [OF stale, of srv]
      by (cases "refreshAccessToken srv w") (fastforce split: outcome.splits)
  next
    case (bad x w1)
    then show ?thesis using assms by simp
  qed
  then show "browser.more w' = browser.more w" "alerts w' = alerts w" by blast+
qed

lemma doAPIRequest_frame:
  assumes "doAPIRequest srv method url withAuth data w = (r, w')"
  shows "browser.more w' = browser.more w" "alerts w' = alerts w"
proof -
  have "browser.more w' = browser.more w \<and> alerts w' = alerts w"
  proof (cases withAuth)
    case False
    then show ?thesis
      using assms ajax_frame [of srv "api_request method url False (Str []) data" w r w']
      by (auto simp: doAPIRequest_def jbind_def jret_def)
  next
    case True
    obtain o1 w1 where g: "getAccessToken srv w = (o1, w1)" by fastforce
    show ?thesis
      using assms True g getAccessToken_frame [OF g]
        ajax_frame [of srv "api_request method url True (case o1 of Done t \<Rightarrow> t) data" w1 r w']
      by (cases o1) (auto simp: doAPIRequest_def jbind_def jlose_def)
  qed
  then show "browser.more w' = browser.more w" "alerts w' = alerts w" by blast+
qed

lemma page_more_eq:
  fixes w w' :: "('s, 'x) page_scheme"
  assumes "browser.more w' = browser.more w"
  shows "texts w' = texts w" "flags w' = flags w" "page.more w' = page.more w"
  using assms by (cases w; cases w'; simp)+

lemmas request_frame = doAPIRequest_frame doAPIRequest_frame(1) [THEN page_more_eq(1)]
  doAPIRequest_frame(1) [THEN page_more_eq(2)] doAPIRequest_frame(1) [THEN page_more_eq(3)]

text \<open>With a live token in the storage a request is one exchange.\<close>

lemma live_request:
  "live_token ''access_token'' t w \<Longrightarrow>
     doAPIRequest srv m u True d w = ajax srv (api_request m u True (Str t) d) w"
  by (simp add: doAPIRequest_def jbind_def jlose_def getAccessToken_live)

text \<open>A server for the witnesses: it knows one user and a token that is always accepted.\<close>

definition one_user_server :: "'s server" where
  "one_user_server s rq =
     (Response 200 ''OK'' (json_text (envelope Null (user_json 7 ''Ann'' ''Lee'' 3))), 0, s)"

lemma one_user_ajax:
  "fst (ajax one_user_server rq w) = Done (envelope Null (user_json 7 ''Ann'' ''Lee'' 3))"
proof -
  have "json_parse (json_text (envelope Null (user_json 7 ''Ann'' ''Lee'' 3)))
      = Some (envelope Null (user_json 7 ''Ann'' ''Lee'' 3))"
    by (rule json.dec_enc) (simp add: envelope_def user_json_def)
  then show ?thesis by (simp add: ajax_def one_user_server_def Let_def)
qed

end
