(* ===== verification/Login_Page.thy ===== *)
theory Login_Page
  imports Dom
begin

text \<open>
  \<open>web/static/js/openfsd/login.js\<close>: the login form. One request without authentication; the
  two tokens of the answer go into the storage and the page moves to the dashboard, a failure
  is shown as an alert.
\<close>

definition login_body :: "('s, 'x) page_scheme \<Rightarrow> jsval" where
  "login_body w = Obj
     [(''cid'', Num (parse_int (texts w ''login-input-cid'' val))),
      (''password'', Str (texts w ''login-input-password'' val)),
      (''remember_me'', Bool (flags w ''login-form-remember-me'' ''checked''))]"

definition login_request :: "jsval \<Rightarrow> request" where
  "login_request body =
     \<lparr>rq_method = ''POST'', rq_url = ''/api/v1/auth/login'', rq_auth = None,
      rq_body = json_stringify body\<rparr>"

text \<open>The \<open>then\<close> callback.\<close>

definition login_done :: "jsval \<Rightarrow> (unit, ('s, 'x) browser_scheme) js" where
  "login_done res =
     jbind (jbind (get_prop ''data'' res) (get_prop ''access_token'')) (\<lambda>access.
     jthen (storage_set ''access_token'' access)
       (jbind (jbind (get_prop ''data'' res) (get_prop ''refresh_token'')) (\<lambda>refresh.
        jthen (storage_set ''refresh_token'' refresh) (redirect ''/dashboard''))))"

text \<open>The \<open>fail\<close> callback, which also gets what the \<open>then\<close> callback threw.\<close>

definition login_fail :: "exn \<Rightarrow> (unit, ('s, 'x) browser_scheme) js" where
  "login_fail e =
     jbind (get_prop ''err'' (response_json e)) (\<lambda>err.
       alert ((case e of Xhr _ status_text \<Rightarrow> status_text | _ \<Rightarrow> ''undefined'') @ '': '' @ to_str err))"

definition login_submit :: "'s server \<Rightarrow> (unit, ('s, 'x) page_scheme) js" where
  "login_submit srv =
     jbind (jget login_body) (\<lambda>requestBody.
       jcatch (jbind (ajax srv (login_request requestBody)) login_done) login_fail)"

text \<open>The form, on an answer with the tokens and on an error envelope.\<close>

lemma login_submit_tokens:
  assumes "ajax srv (login_request (login_body w)) w
      = (Done (envelope Null (Obj [(''access_token'', Str a), (''refresh_token'', Str r)])), w1)"
  shows "login_submit srv w =
     (Done (), w1\<lparr>storage := (storage w)(''access_token'' \<mapsto> a, ''refresh_token'' \<mapsto> r), href := ''/dashboard''\<rparr>)"
  using assms ajax_frame(1) [OF assms]
  by (simp add: login_submit_def login_done_def storage_set_def setItem_def redirect_def obj_get_def js_monad fun_upd_twist)

lemma login_submit_refused:
  assumes "ajax srv (login_request (login_body w)) w = (Throw (Xhr (envelope (Str err) Null) status_text), w1)"
  shows "login_submit srv w = (Done (), w1\<lparr>alerts := alerts w @ [status_text @ '': '' @ err]\<rparr>)"
  using assms ajax_frame(3) [OF assms]
  by (simp add: login_submit_def login_fail_def response_json_def alert_def js_monad)

text \<open>
  Logging in. When the server answers with the two tokens they are the session that
  follows, and the page goes to the dashboard without an alert. When it answers with an error
  envelope the alert shows the status text and the error, and the session is untouched.
\<close>

theorem login_submit_outcome:
  assumes "ajax srv (login_request (login_body w)) w = (out, w1)"
  shows "(out = Done (envelope Null (Obj [(''access_token'', Str a), (''refresh_token'', Str r)])) \<longrightarrow>
       login_submit srv w = (Done (),
         w1\<lparr>storage := (storage w)(''access_token'' \<mapsto> a, ''refresh_token'' \<mapsto> r), href := ''/dashboard''\<rparr>))
    \<and> (out = Throw (Xhr (envelope (Str err) Null) status_text) \<longrightarrow>
       login_submit srv w = (Done (), w1\<lparr>alerts := alerts w @ [status_text @ '': '' @ err]\<rparr>)
         \<and> storage w1 = storage w)"
  using assms ajax_frame(1) [OF assms] login_submit_tokens login_submit_refused by blast

definition sample_form :: "'s \<Rightarrow> 's page" where
  "sample_form s = browser.extend (sample_page None None s) (page.fields (\<lambda>_ _. ''1'') (\<lambda>_ _. False))"

definition refusing_server :: "'s server" where
  "refusing_server s rq =
     (Response 401 ''Unauthorized'' (json_text (envelope (Str ''no'') Null)), 0, s)"

theorem login_submit_outcome_witness:
  "alerts (snd (login_submit refusing_server (sample_form ()))) = [''Unauthorized: no'']"
proof -
  let ?w = "sample_form () :: unit page"
  obtain out w1 where a: "ajax refusing_server (login_request (login_body ?w)) ?w = (out, w1)"
    by fastforce
  have "json_parse (json_text (envelope (Str ''no'') Null)) = Some (envelope (Str ''no'') Null)"
    by (rule json.dec_enc) (simp add: envelope_def)
  then have "out = Throw (Xhr (envelope (Str ''no'') Null) ''Unauthorized'')"
    using a by (simp add: ajax_def refusing_server_def Let_def)
  then show ?thesis
    using login_submit_outcome [OF a, of _ _ "''no''" "''Unauthorized''"]
    by (simp add: sample_form_def sample_page_def browser.defs page.defs)
qed

text \<open>
  A failure without an error envelope is silent: on a network error, or on an answer that
  is no JSON text, the \<open>fail\<close> callback itself throws and the user sees no alert.
\<close>

theorem login_silent_failure:
  assumes "ajax srv (login_request (login_body w)) w = (Throw (Xhr Undefined status_text), w1)"
  shows "login_submit srv w = (Throw TypeError, w1) \<and> alerts w1 = alerts w"
  using assms ajax_frame [OF assms]
  by (simp add: login_submit_def login_fail_def response_json_def js_monad)

theorem login_silent_failure_witness:
  "fst (login_submit silent_server (sample_form ())) = Throw TypeError"
proof -
  let ?w = "sample_form () :: unit page"
  have "ajax silent_server (login_request (login_body ?w)) ?w = (Throw (Xhr Undefined ''error''),
      snd (ajax silent_server (login_request (login_body ?w)) ?w))"
    by (simp add: ajax_def silent_server_def)
  from login_silent_failure [OF this] show ?thesis by simp
qed

end
