(* ===== verification/User_Editor.thy ===== *)
theory User_Editor
  imports Dom
begin

text \<open>
  \<open>web/static/js/openfsd/usereditor.js\<close>: the three forms of the user editor (search, create,
  edit) and the password strength meter.
\<close>

subsection \<open>The forms\<close>

definition search_submit :: "'s server \<Rightarrow> (unit, ('s, 'x) page_scheme) js" where
  "search_submit srv =
     jbind (text_of ''search-cid'' val) (\<lambda>cid.
       jcatch
         (jbind (doAPIRequestWithAuth srv ''POST'' ''/api/v1/user/load'' (Obj [(''cid'', Num (parse_int cid))]))
           (\<lambda>res. jbind (get_prop ''err'' res) (\<lambda>err.
             if truthy err then alert (''Error: '' @ to_str err)
             else
               jbind (get_prop ''data'' res) (\<lambda>user.
               jbind (get_prop ''cid'' user) (\<lambda>user_cid.
               jthen (set_text ''edit-cid'' val (input_value user_cid))
               (jthen (set_flag ''edit-cid'' ''hidden'' False)
               (jbind (get_prop ''first_name'' user) (\<lambda>first_name.
               jthen (set_text ''edit-first-name'' val (input_value (js_or first_name (Str []))))
               (jbind (get_prop ''last_name'' user) (\<lambda>last_name.
               jthen (set_text ''edit-last-name'' val (input_value (js_or last_name (Str []))))
               (jbind (get_prop ''network_rating'' user) (\<lambda>network_rating.
               jthen (set_text ''edit-network-rating'' val (select_value rating_options network_rating))
                 (set_text ''edit-password'' val [])))))))))))))
         report_error)"

definition create_data :: "('s, 'x) page_scheme \<Rightarrow> jsval" where
  "create_data w =
     (let firstName = texts w ''create-first-name'' val;
          lastName = texts w ''create-last-name'' val;
          password = texts w ''create-password'' val;
          networkRating = texts w ''create-network-rating'' val
      in Obj ([(''password'', Str password), (''network_rating'', Num (parse_int networkRating))]
          @ (if firstName \<noteq> [] then [(''first_name'', Str firstName)] else [])
          @ (if lastName \<noteq> [] then [(''last_name'', Str lastName)] else [])))"

definition create_submit :: "'s server \<Rightarrow> (unit, ('s, 'x) page_scheme) js" where
  "create_submit srv =
     jbind (jget create_data) (\<lambda>data.
       jcatch
         (jbind (doAPIRequestWithAuth srv ''POST'' ''/api/v1/user/create'' data)
           (\<lambda>res. jbind (get_prop ''err'' res) (\<lambda>err.
             if truthy err then alert (''Error: '' @ to_str err)
             else
               jbind (jbind (get_prop ''data'' res) (get_prop ''cid'')) (\<lambda>cid.
               jthen (alert (''User created successfully. CID: '' @ to_str cid))
               (jthen (set_text ''create-first-name'' val [])
               (jthen (set_text ''create-last-name'' val [])
               (jthen (set_text ''create-password'' val [])
                 (set_text ''create-network-rating'' val (select_value rating_options (Str ''-1''))))))))))
         report_error)"

definition edit_data :: "('s, 'x) page_scheme \<Rightarrow> jsval" where
  "edit_data w =
     (let cid = texts w ''edit-cid'' val;
          firstName = texts w ''edit-first-name'' val;
          lastName = texts w ''edit-last-name'' val;
          networkRating = texts w ''edit-network-rating'' val;
          password = texts w ''edit-password'' val
      in Obj ([(''cid'', Num (parse_int cid)), (''first_name'', Str firstName),
               (''last_name'', Str lastName), (''network_rating'', Num (parse_int networkRating))]
          @ (if password \<noteq> [] then [(''password'', Str password)] else [])))"

definition edit_submit :: "'s server \<Rightarrow> (unit, ('s, 'x) page_scheme) js" where
  "edit_submit srv =
     jbind (jget edit_data) (\<lambda>data.
       jcatch
         (jbind (doAPIRequestWithAuth srv ''PATCH'' ''/api/v1/user/update'' data)
           (\<lambda>res. jbind (get_prop ''err'' res) (\<lambda>err.
             if truthy err then alert (''Error: '' @ to_str err)
             else alert ''User updated successfully'')))
         report_error)"


subsection \<open>The password meter\<close>

record meter =
  bar_width :: string
  bar_class :: string
  feedback :: string

definition strength_of :: "string \<Rightarrow> nat" where
  "strength_of password =
     min (((((if utf16_length password = 8 then 50 else 0)
        + (if \<exists>c \<in> set password. is_upper c then 15 else 0))
        + (if \<exists>c \<in> set password. is_lower c then 15 else 0))
        + (if \<exists>c \<in> set password. is_digit c then 10 else 0))
        + (if \<exists>c \<in> set password. \<not> is_upper c \<and> \<not> is_lower c \<and> \<not> is_digit c then 10 else 0)) 100"

definition evaluatePassword :: "string \<Rightarrow> meter" where
  "evaluatePassword password =
     (if password = [] then \<lparr>bar_width = ''0%'', bar_class = ''progress-bar'', feedback = []\<rparr>
      else
        (let strength = strength_of password;
             width = show_nat strength @ ''%''
         in if strength < 60 then
              \<lparr>bar_width = width, bar_class = ''progress-bar bg-danger'',
               feedback = ''Weak: Include uppercase, lowercase, numbers, or symbols.''\<rparr>
            else if strength < 80 then
              \<lparr>bar_width = width, bar_class = ''progress-bar bg-warning'',
               feedback = ''Moderate: Add more character types for strength.''\<rparr>
            else
              \<lparr>bar_width = width, bar_class = ''progress-bar bg-success'',
               feedback = ''Strong: Good password!''\<rparr>))"

text \<open>The two \<open>input\<close> listeners: the meter of a form follows its password field.\<close>

definition password_input :: "string \<Rightarrow> (unit, ('s, 'x) page_scheme) js" where
  "password_input form =
     jbind (text_of (form @ ''-password'') val) (\<lambda>password.
       (let m = evaluatePassword password in
        jthen (set_text (form @ ''-password-strength'') ''style.width'' (bar_width m))
        (jthen (set_text (form @ ''-password-strength'') ''className'' (bar_class m))
               (set_text (form @ ''-password-feedback'') ''textContent'' (feedback m)))))"


subsection \<open>Lemmas\<close>

lemma rating_option: "-1 \<le> i \<Longrightarrow> i \<le> 12 \<Longrightarrow> select_value rating_options (JInt i) = show_int i"
  by (auto simp: select_value_def number_to_string_int rating_options_def)

lemma input_js_or_Str [simp]: "input_value (js_or (Str s) (Str [])) = s"
  by (simp add: input_value_def js_or_def)

lemma search_submit_found:
  assumes req: "doAPIRequestWithAuth srv ''POST'' ''/api/v1/user/load''
        (Obj [(''cid'', Num (parse_int (texts w ''search-cid'' val)))]) w
        = (Done (envelope Null (user_json cid fn ln nr)), w1)"
    and "\<bar>cid\<bar> < 10 ^ 21" "-1 \<le> nr" "nr \<le> 12"
  shows "\<exists>w2. search_submit srv w = (Done (), w2)
    \<and> texts w2 ''edit-cid'' val = show_int cid \<and> texts w2 ''edit-first-name'' val = fn
    \<and> texts w2 ''edit-last-name'' val = ln \<and> texts w2 ''edit-network-rating'' val = show_int nr
    \<and> texts w2 ''edit-password'' val = [] \<and> \<not> flags w2 ''edit-cid'' ''hidden''
    \<and> (\<forall>i. i \<notin> {''edit-cid'', ''edit-first-name'', ''edit-last-name'', ''edit-network-rating'', ''edit-password''}
         \<longrightarrow> texts w2 i = texts w i)
    \<and> alerts w2 = alerts w"
proof -
  have cid: "input_value (JInt cid) = show_int cid"
    using assms(2) by (simp add: input_value_def to_str_Int del: to_str.simps)
  show ?thesis
    using request_frame [OF req [unfolded doAPIRequestWithAuth_def]] rating_option [OF assms(3,4)]
    by (simp add: search_submit_def text_of_def set_text_def set_flag_def js_monad req user_json_def
        obj_get_def cid upd2_def)
qed

lemma error_message_envelope [simp]:
  "err \<noteq> [] \<Longrightarrow> error_message (Xhr (envelope (Str err) d) st) = err"
  by (simp add: error_message_def response_json_def err_of_def envelope_def obj_get_def)

lemma strength_bound: "utf16_length p \<noteq> 8 \<Longrightarrow> strength_of p \<le> 50"
  by (simp add: strength_of_def)

lemma strength_eight:
  assumes "utf16_length p = 8" "p \<noteq> []"
  shows "60 \<le> strength_of p"
proof -
  obtain c where "c \<in> set p" using assms(2) by (cases p) auto
  then have "(\<exists>c \<in> set p. is_upper c) \<or> (\<exists>c \<in> set p. is_lower c) \<or> (\<exists>c \<in> set p. is_digit c)
      \<or> (\<exists>c \<in> set p. \<not> is_upper c \<and> \<not> is_lower c \<and> \<not> is_digit c)" by blast
  then show ?thesis using assms(1) by (auto simp: strength_of_def)
qed

text \<open>The create form after its request, and the edit form.\<close>

lemma create_submit_run:
  assumes "doAPIRequestWithAuth srv ''POST'' ''/api/v1/user/create'' (create_data w) w = (out, w1)"
  shows "create_submit srv w =
      (case out of
         Done res \<Rightarrow>
           jcatch (jbind (get_prop ''err'' res) (\<lambda>err.
             if truthy err then alert (''Error: '' @ to_str err)
             else
               jbind (jbind (get_prop ''data'' res) (get_prop ''cid'')) (\<lambda>cid.
               jthen (alert (''User created successfully. CID: '' @ to_str cid))
               (jthen (set_text ''create-first-name'' val [])
               (jthen (set_text ''create-last-name'' val [])
               (jthen (set_text ''create-password'' val [])
                 (set_text ''create-network-rating'' val ''-1''))))))) report_error w1
       | Throw e \<Rightarrow> report_error e w1
       | Hang \<Rightarrow> (Hang, w1))"
proof -
  have opt: "select_value rating_options (Str ''-1'') = ''-1''"
    by code_simp
  show ?thesis
    unfolding create_submit_def opt
    by (simp add: jbind_def [of "jget _"] jget_def jcatch_def
        jbind_def [of "doAPIRequestWithAuth _ _ _ _"] assms split: outcome.splits)
qed

lemma create_submit_created:
  assumes "doAPIRequestWithAuth srv ''POST'' ''/api/v1/user/create'' (create_data w) w
      = (Done (envelope Null (Obj kvs)), w1)" "obj_get ''cid'' kvs = JInt cid" "\<bar>cid\<bar> < 10 ^ 21"
  shows "\<exists>w2. create_submit srv w = (Done (), w2) \<and> backend w2 = backend w1
     \<and> alerts w2 = alerts w @ [''User created successfully. CID: '' @ show_int cid]
     \<and> texts w2 ''create-first-name'' val = [] \<and> texts w2 ''create-last-name'' val = []
     \<and> texts w2 ''create-password'' val = [] \<and> texts w2 ''create-network-rating'' val = ''-1''"
  using request_frame(2) [OF assms(1) [unfolded doAPIRequestWithAuth_def]] assms(2,3)
  by (simp add: create_submit_run [OF assms(1)] js_monad alert_def set_text_def number_to_string_int
      del: number_to_string.simps)

lemma edit_submit_saved:
  assumes "doAPIRequestWithAuth srv ''PATCH'' ''/api/v1/user/update'' (edit_data w) w = (Done (envelope Null data), w1)"
  shows "edit_submit srv w = (Done (), w1\<lparr>alerts := alerts w @ [''User updated successfully'']\<rparr>)"
  using request_frame(2) [OF assms [unfolded doAPIRequestWithAuth_def]]
  by (simp add: edit_submit_def js_monad assms alert_def)

subsection \<open>Properties\<close>

definition refusing_server' :: "'s server" where
  "refusing_server' s rq =
     (Response 403 ''Forbidden'' (json_text (envelope (Str ''no'') Null)), 0, s)"

definition editor_page :: "'s \<Rightarrow> 's page" where
  "editor_page s =
     browser.extend (sample_page (Some (sample_token 5000)) None s) (page.fields (\<lambda>_ _. ''7'') (\<lambda>_ _. True))"

lemma editor_page_request:
  "doAPIRequestWithAuth srv m u d (editor_page s)
     = ajax srv (api_request m u True (Str (sample_token 5000)) d) (editor_page s)"
proof -
  have "live_token ''access_token'' (sample_token 5000) (editor_page s)"
    using sample_tokens(1) [of None s]
    by (simp add: live_token_def editor_page_def browser.defs sample_page_def now_seconds_def)
  then show ?thesis
    by (simp add: doAPIRequestWithAuth_def live_request)
qed

text \<open>
  Loading a user and saving the form unchanged asks the server for exactly the values it
  delivered: the same CID, names and rating, and no \<open>password\<close> member.
\<close>

theorem load_then_save:
  assumes "doAPIRequestWithAuth srv ''POST'' ''/api/v1/user/load''
        (Obj [(''cid'', Num (parse_int (texts w ''search-cid'' val)))]) w
        = (Done (envelope Null (user_json cid fn ln nr)), w1)"
    and "\<bar>cid\<bar> < 10 ^ 21" "-1 \<le> nr" "nr \<le> 12"
  shows "edit_data (snd (search_submit srv w)) = user_json cid fn ln nr"
proof -
  obtain w2 where "search_submit srv w = (Done (), w2)"
    "texts w2 ''edit-cid'' val = show_int cid" "texts w2 ''edit-first-name'' val = fn"
    "texts w2 ''edit-last-name'' val = ln" "texts w2 ''edit-network-rating'' val = show_int nr"
    "texts w2 ''edit-password'' val = []"
    using search_submit_found [OF assms] by blast
  moreover have "\<bar>nr\<bar> < 10 ^ 21" using assms(3,4) by simp
  ultimately show ?thesis
    using assms(2) by (simp add: edit_data_def user_json_def parse_int_show_int)
qed

theorem load_then_save_witness:
  "edit_data (snd (search_submit one_user_server (editor_page ()))) = user_json 7 ''Ann'' ''Lee'' 3"
proof -
  let ?d = "Obj [(''cid'', Num (parse_int (texts (editor_page ()) ''search-cid'' val)))]"
  have p: "json_parse (json_text (envelope Null (user_json 7 ''Ann'' ''Lee'' 3)))
      = Some (envelope Null (user_json 7 ''Ann'' ''Lee'' 3))"
    by (rule json.dec_enc) (simp add: envelope_def user_json_def)
  obtain out w1 where a: "doAPIRequestWithAuth one_user_server ''POST'' ''/api/v1/user/load'' ?d (editor_page ())
      = (out, w1)" by fastforce
  then have "out = Done (envelope Null (user_json 7 ''Ann'' ''Lee'' 3))"
    by (simp add: editor_page_request ajax_def one_user_server_def Let_def p)
  with a show ?thesis using load_then_save [of one_user_server "editor_page ()" 7 "''Ann''" "''Lee''" 3 w1] by simp
qed

text \<open>
  The create form, on every outcome of its request. A created user is announced with the
  CID and the form is cleared; an error of the server is shown and the form keeps what was
  entered, password included; where the session has ended the request never settles, and
  neither an alert nor a change to the form follows.
\<close>

theorem create_submit_outcome:
  assumes "doAPIRequestWithAuth srv ''POST'' ''/api/v1/user/create'' (create_data w) w = (out, w1)"
  shows "(out = Done (envelope Null (user_json cid fn ln nr)) \<longrightarrow> \<bar>cid\<bar> < 10 ^ 21 \<longrightarrow>
        (\<exists>w2. create_submit srv w = (Done (), w2)
          \<and> alerts w2 = alerts w @ [''User created successfully. CID: '' @ show_int cid]
          \<and> texts w2 ''create-first-name'' val = [] \<and> texts w2 ''create-last-name'' val = []
          \<and> texts w2 ''create-password'' val = [] \<and> texts w2 ''create-network-rating'' val = ''-1''))
    \<and> (out = Throw (Xhr (envelope (Str err) Null) status_text) \<longrightarrow> err \<noteq> [] \<longrightarrow>
        create_submit srv w = (Done (), w1\<lparr>alerts := alerts w @ [''Error: '' @ err]\<rparr>)
          \<and> texts w1 = texts w)
    \<and> (out = Hang \<longrightarrow> create_submit srv w = (Hang, w1) \<and> alerts w1 = alerts w \<and> texts w1 = texts w)"
proof -
  note frame = request_frame [OF assms [unfolded doAPIRequestWithAuth_def]]
  note run = create_submit_run [OF assms]
  have "\<exists>w2. create_submit srv w = (Done (), w2)
      \<and> alerts w2 = alerts w @ [''User created successfully. CID: '' @ show_int cid]
      \<and> texts w2 ''create-first-name'' val = [] \<and> texts w2 ''create-last-name'' val = []
      \<and> texts w2 ''create-password'' val = [] \<and> texts w2 ''create-network-rating'' val = ''-1''"
    if "out = Done (envelope Null (user_json cid fn ln nr))" "\<bar>cid\<bar> < 10 ^ 21"
    using create_submit_created [OF assms [unfolded that user_json_def] _ that(2)] by (auto simp: obj_get_def)
  moreover have "create_submit srv w = (Done (), w1\<lparr>alerts := alerts w @ [''Error: '' @ err]\<rparr>)"
    if "out = Throw (Xhr (envelope (Str err) Null) status_text)" "err \<noteq> []"
    using frame that by (simp add: run report_error_def alert_def jput_def)
  moreover have "create_submit srv w = (Hang, w1)" if "out = Hang"
    using that by (simp add: run)
  ultimately show ?thesis using frame by blast
qed

theorem create_submit_outcome_witness:
  "alerts (snd (create_submit refusing_server' (editor_page ()))) = [''Error: no'']"
proof -
  obtain out w1 where a: "doAPIRequestWithAuth refusing_server' ''POST'' ''/api/v1/user/create''
      (create_data (editor_page ())) (editor_page ()) = (out, w1)" by fastforce
  have "json_parse (json_text (envelope (Str ''no'') Null)) = Some (envelope (Str ''no'') Null)"
    by (rule json.dec_enc) (simp add: envelope_def)
  then have "out = Throw (Xhr (envelope (Str ''no'') Null) ''Forbidden'')"
    using a by (simp add: editor_page_request ajax_def refusing_server'_def Let_def)
  then show ?thesis
    using create_submit_outcome [OF a, of _ _ _ _ "''no''" "''Forbidden''"]
    by (simp add: editor_page_def sample_page_def browser.defs)
qed

text \<open>
  The meter calls a password weak exactly when its length is not 8: whatever its characters,
  a longer password scores at most 50, and one of length 8 at least 60.
\<close>

theorem evaluatePassword_weak_iff:
  assumes "password \<noteq> []"
  shows "bar_class (evaluatePassword password) = ''progress-bar bg-danger'' \<longleftrightarrow> utf16_length password \<noteq> 8"
  using assms strength_bound [of password] strength_eight [of password]
  by (cases "utf16_length password = 8") (auto simp: evaluatePassword_def Let_def)

theorem evaluatePassword_weak_iff_witness:
  "bar_class (evaluatePassword ''Tr0ub4dor&3xyz'') = ''progress-bar bg-danger''
   \<and> bar_class (evaluatePassword ''aaaaaaaa'') \<noteq> ''progress-bar bg-danger''"
proof -
  have "utf16_length ''Tr0ub4dor&3xyz'' \<noteq> 8" "utf16_length ''aaaaaaaa'' = 8" by code_simp+
  then show ?thesis
    using evaluatePassword_weak_iff [of "''Tr0ub4dor&3xyz''"] evaluatePassword_weak_iff [of "''aaaaaaaa''"]
    by simp
qed

end
