(* ===== verification/Js_Date.thy ===== *)
theory Js_Date
  imports Js_Numbers
begin

text \<open>
  The dates of JavaScript, as the ECMAScript calendar defines them: a time value is a number of
  milliseconds since 1970 (\<open>None\<close> for an invalid date), days and months are counted in the
  proleptic Gregorian calendar. Here are \<open>Date.UTC\<close>, \<open>toJSON\<close>, \<open>getFullYear\<close> and \<open>setFullYear\<close>,
  with the lemma that taking a day apart and putting it together are inverse.
\<close>

subsection \<open>Days\<close>

definition msPerDay :: int where "msPerDay = 86400000"

definition day_from_year :: "int \<Rightarrow> int" where
  "day_from_year y = 365 * (y - 1970) + (y - 1969) div 4 - (y - 1901) div 100 + (y - 1601) div 400"

definition leap_year :: "int \<Rightarrow> bool" where
  "leap_year y \<longleftrightarrow> y mod 4 = 0 \<and> (y mod 100 \<noteq> 0 \<or> y mod 400 = 0)"

text \<open>The year a day lies in: an estimate, which is at most one year off.\<close>

definition year_from_day :: "int \<Rightarrow> int" where
  "year_from_day d =
     (let e = 1970 + (400 * d) div 146097 in
      if day_from_year (e + 1) \<le> d then e + 1 else if d < day_from_year e then e - 1 else e)"

definition month_starts :: "bool \<Rightarrow> int list" where
  "month_starts leap =
     (let l = (if leap then 1 else 0)
      in [0, 31, 59 + l, 90 + l, 120 + l, 151 + l, 181 + l, 212 + l, 243 + l, 273 + l, 304 + l, 334 + l])"

definition month_start :: "int \<Rightarrow> int \<Rightarrow> int" where
  "month_start y m = month_starts (leap_year y) ! nat m"

definition days_in_month :: "int \<Rightarrow> int \<Rightarrow> int" where
  "days_in_month y m =
     (if m = 11 then 31 else month_start y (m + 1) - month_start y m)"

definition day_in_year :: "int \<Rightarrow> int" where
  "day_in_year d = d - day_from_year (year_from_day d)"

definition month_from_day :: "int \<Rightarrow> int" where
  "month_from_day d =
     int (length (filter (\<lambda>s. s \<le> day_in_year d) (month_starts (leap_year (year_from_day d))))) - 1"

definition date_from_day :: "int \<Rightarrow> int" where
  "date_from_day d = day_in_year d - month_start (year_from_day d) (month_from_day d) + 1"

text \<open>\<open>MakeDay\<close> on integers: months beyond a year carry over.\<close>

definition make_day :: "int \<Rightarrow> int \<Rightarrow> int \<Rightarrow> int" where
  "make_day y m dt =
     (let ym = y + m div 12; mn = m mod 12
      in day_from_year ym + month_start ym mn + dt - 1)"

definition time_clip :: "int \<Rightarrow> int option" where
  "time_clip t = (if \<bar>t\<bar> \<le> 8640000000000000 then Some t else None)"

text \<open>\<open>ToIntegerOrInfinity\<close>, where the argument is finite.\<close>

fun finite_integer :: "jsnum \<Rightarrow> int option" where
  "finite_integer (Dec m e) = Some (if m \<ge> 0 then m div 10 ^ e else - ((- m) div 10 ^ e))"
| "finite_integer _ = None"

text \<open>
  \<open>new Date(Date.UTC(year, month, day)).getTime()\<close>; a year from 0 to 99 is one of the
  twentieth century.
\<close>

definition full_year :: "int \<Rightarrow> int" where
  "full_year y = (if 0 \<le> y \<and> y \<le> 99 then 1900 + y else y)"

definition date_utc :: "jsnum \<Rightarrow> jsnum \<Rightarrow> jsnum \<Rightarrow> int option" where
  "date_utc year month day =
     (case (finite_integer year, finite_integer month, finite_integer day) of
        (Some y, Some m, Some d) \<Rightarrow> time_clip (make_day (full_year y) m d * msPerDay)
      | _ \<Rightarrow> None)"


subsection \<open>Texts\<close>

definition pad :: "nat \<Rightarrow> nat \<Rightarrow> string" where
  "pad k n = (let s = show_nat n in replicate (k - length s) (CHR ''0'') @ s)"

definition iso_year :: "int \<Rightarrow> string" where
  "iso_year y =
     (if 0 \<le> y \<and> y \<le> 9999 then pad 4 (nat y)
      else (if y < 0 then CHR ''-'' else CHR ''+'') # pad 6 (nat \<bar>y\<bar>))"

text \<open>\<open>toJSON\<close> of a valid date.\<close>

definition to_iso :: "int \<Rightarrow> string" where
  "to_iso t =
     (let d = t div msPerDay; r = t mod msPerDay
      in iso_year (year_from_day d) @ ''-'' @ pad 2 (nat (month_from_day d + 1)) @ ''-''
         @ pad 2 (nat (date_from_day d)) @ ''T'' @ pad 2 (nat (r div 3600000)) @ '':''
         @ pad 2 (nat (r div 60000 mod 60)) @ '':'' @ pad 2 (nat (r div 1000 mod 60)) @ ''.''
         @ pad 3 (nat (r mod 1000)) @ ''Z'')"

text \<open>
  \<open>d.setFullYear(d.getFullYear() + 1)\<close>: in local time, whose distance from UTC is a parameter,
  for times in UTC and for local times.
\<close>

definition next_year :: "(int \<Rightarrow> int) \<Rightarrow> (int \<Rightarrow> int) \<Rightarrow> int \<Rightarrow> int option" where
  "next_year to_local to_utc t =
     (let l = to_local t; d = l div msPerDay
      in time_clip (to_utc (make_day (year_from_day d + 1) (month_from_day d) (date_from_day d) * msPerDay
           + l mod msPerDay)))"


subsection \<open>The calendar\<close>

lemma div_succ:
  fixes a n :: int
  assumes "0 < n"
  shows "(a + 1) div n = a div n + (if (a + 1) mod n = 0 then 1 else 0)"
proof (cases "(a + 1) mod n = 0")
  case True
  then have "a = n * ((a + 1) div n - 1) + (n - 1)"
    by (simp add: algebra_simps) (metis add_0 diff_add_cancel mult.commute mult_div_mod_eq add.commute)
  then have "a div n = (a + 1) div n - 1"
    using assms by (intro int_div_pos_eq [where r = "n - 1"]) auto
  with True show ?thesis by simp
next
  case False
  have "0 \<le> (a + 1) mod n" "(a + 1) mod n < n"
    using assms by simp_all
  moreover have "a = n * ((a + 1) div n) + ((a + 1) mod n - 1)"
    by (simp add: algebra_simps)
  ultimately have "a div n = (a + 1) div n"
    using False by (intro int_div_pos_eq [where r = "(a + 1) mod n - 1"]) linarith+
  with False show ?thesis by simp
qed

lemma mod_shift:
  "(y - 1968) mod 4 = (y mod 4 :: int)" "(y - 1900) mod 100 = (y mod 100 :: int)"
  "(y - 1600) mod 400 = (y mod 400 :: int)"
proof -
  show "(y - 1968) mod 4 = y mod 4" using mod_mult_self1 [of "y - 1968" 492 4] by simp
  show "(y - 1900) mod 100 = y mod 100" using mod_mult_self1 [of "y - 1900" 19 100] by simp
  show "(y - 1600) mod 400 = y mod 400" using mod_mult_self1 [of "y - 1600" 4 400] by simp
qed

lemma leap_div:
  "(y - 1968) div 4 = (y - 1969) div 4 + (if y mod 4 = 0 then 1 else (0::int))"
  "(y - 1900) div 100 = (y - 1901) div 100 + (if y mod 100 = 0 then 1 else (0::int))"
  "(y - 1600) div 400 = (y - 1601) div 400 + (if y mod 400 = 0 then 1 else (0::int))"
proof -
  have e: "y - 1968 = y - 1969 + 1" "y - 1900 = y - 1901 + 1" "y - 1600 = y - 1601 + 1"
    by simp_all
  show "(y - 1968) div 4 = (y - 1969) div 4 + (if y mod 4 = 0 then 1 else (0::int))"
    unfolding mod_shift(1) [of y, symmetric] e by (rule div_succ) simp
  show "(y - 1900) div 100 = (y - 1901) div 100 + (if y mod 100 = 0 then 1 else (0::int))"
    unfolding mod_shift(2) [of y, symmetric] e by (rule div_succ) simp
  show "(y - 1600) div 400 = (y - 1601) div 400 + (if y mod 400 = 0 then 1 else (0::int))"
    unfolding mod_shift(3) [of y, symmetric] e by (rule div_succ) simp
qed

lemma century_mod:
  "(y::int) mod 400 = 0 \<Longrightarrow> y mod 100 = 0" "(y::int) mod 100 = 0 \<Longrightarrow> y mod 4 = 0"
proof -
  have "(100::int) dvd 400" "(4::int) dvd 100" by simp_all
  then show "y mod 400 = 0 \<Longrightarrow> y mod 100 = 0" "y mod 100 = 0 \<Longrightarrow> y mod 4 = 0"
    unfolding mod_eq_0_iff_dvd by (blast intro: dvd_trans)+
qed

lemma day_from_next_year: "day_from_year (y + 1) = day_from_year y + (if leap_year y then 366 else 365)"
proof -
  have "y + 1 - 1969 = y - 1968" "y + 1 - 1901 = y - 1900" "y + 1 - 1601 = y - 1600" "y + 1 - 1970 = y - 1970 + 1"
    by simp_all
  then have "day_from_year (y + 1) = day_from_year y + 365 + (if y mod 4 = 0 then 1 else 0)
      - (if y mod 100 = 0 then 1 else 0) + (if y mod 400 = 0 then 1 else 0)"
    unfolding day_from_year_def by (simp only: leap_div distrib_left)
  then show ?thesis
    using century_mod [of y] unfolding leap_year_def by (cases "y mod 4 = 0"; cases "y mod 100 = 0"; cases "y mod 400 = 0") simp_all
qed

lemma floor_bounds: "0 < n \<Longrightarrow> n * (a div n) \<le> a \<and> a < n * (a div n) + (n::int)"
  using pos_mod_bound [of n a] pos_mod_sign [of n a] mult_div_mod_eq [of n a] by linarith

lemma estimate_bounds:
  fixes k d a b c :: int
  assumes "146097 * k \<le> 400 * d" "400 * d < 146097 * k + 146097"
  shows "4 * a \<le> k \<and> k < 100 * b + 32 \<and> 400 * c \<le> k + 368 \<Longrightarrow> 365 * (k - 1) + a - b + c \<le> d"
    "k + 3 < 4 * a + 4 \<and> 100 * b \<le> k + 71 \<and> k + 371 < 400 * c + 400 \<Longrightarrow> d < 365 * (k + 2) + a - b + c"
  using assms by (auto; linarith)+

lemma year_estimate:
  fixes d :: int
  defines "e \<equiv> 1970 + (400 * d) div 146097"
  shows "day_from_year (e - 1) \<le> d" "d < day_from_year (e + 2)"
proof -
  obtain k where k: "k = (400 * d) div 146097" by blast
  have est: "146097 * k \<le> 400 * d" "400 * d < 146097 * k + 146097"
    using floor_bounds [of 146097 "400 * d"] unfolding k by simp_all
  have before: "e - 1 - 1970 = k - 1" "e - 1 - 1969 = k" "e - 1 - 1901 = k + 68" "e - 1 - 1601 = k + 368"
    and after: "e + 2 - 1970 = k + 2" "e + 2 - 1969 = k + 3" "e + 2 - 1901 = k + 71" "e + 2 - 1601 = k + 371"
    by (simp_all add: e_def k)
  show "day_from_year (e - 1) \<le> d"
    unfolding day_from_year_def before
    by (rule estimate_bounds(1) [OF est])
      (use floor_bounds [of 4 k] floor_bounds [of 100 "k + 68"] floor_bounds [of 400 "k + 368"] in auto)
  show "d < day_from_year (e + 2)"
    unfolding day_from_year_def after
    by (rule estimate_bounds(2) [OF est])
      (use floor_bounds [of 4 "k + 3"] floor_bounds [of 100 "k + 71"] floor_bounds [of 400 "k + 371"] in auto)
qed

lemma year_from_day_bounds: "day_from_year (year_from_day d) \<le> d \<and> d < day_from_year (year_from_day d + 1)"
  using year_estimate [of d] by (simp add: year_from_day_def Let_def)

lemma day_from_year_mono: "y \<le> z \<Longrightarrow> day_from_year y \<le> day_from_year z"
proof (induction "nat (z - y)" arbitrary: z)
  case 0
  then show ?case by simp
next
  case (Suc n)
  then have "day_from_year y \<le> day_from_year (z - 1)" by simp
  also have "\<dots> \<le> day_from_year z" using day_from_next_year [of "z - 1"] by simp
  finally show ?case .
qed

lemma year_from_day_unique:
  assumes "day_from_year y \<le> d" "d < day_from_year (y + 1)"
  shows "year_from_day d = y"
  using assms year_from_day_bounds [of d]
    day_from_year_mono [of "y + 1" "year_from_day d"] day_from_year_mono [of "year_from_day d + 1" y]
  by linarith

lemma month_cases:
  assumes "0 \<le> (m::int)" "m < 12"
  shows "m \<in> {0, 1, 2, 3, 4, 5, 6, 7, 8, 9, 10, 11}"
  using assms unfolding insert_iff empty_iff by presburger

text \<open>The table of the months: the days of a month lie between its start and the next one's.\<close>

lemma month_table:
  assumes "0 \<le> m" "m < 12" "1 \<le> dt" "dt \<le> days_in_month y m"
  shows "0 \<le> month_start y m + dt - 1"
    "month_start y m + dt - 1 < (if leap_year y then 366 else 365)"
    "int (length (filter (\<lambda>s. s \<le> month_start y m + dt - 1) (month_starts (leap_year y)))) - 1 = m"
  using month_cases [OF assms(1,2)] assms(3,4)
  by (elim insertE emptyE; cases "leap_year y"; simp add: days_in_month_def month_start_def month_starts_def)+

lemma month_day_of_make_day:
  assumes "0 \<le> m" "m < 12" "1 \<le> dt" "dt \<le> days_in_month y m"
  shows "year_from_day (make_day y m dt) = y" "month_from_day (make_day y m dt) = m"
    "date_from_day (make_day y m dt) = dt"
proof -
  let ?d = "make_day y m dt"
  note table = month_table [OF assms]
  have d: "?d = day_from_year y + (month_start y m + dt - 1)"
    using assms(1,2) by (simp add: make_day_def)
  show y: "year_from_day ?d = y"
    unfolding d by (rule year_from_day_unique) (use table(1,2) day_from_next_year [of y] in linarith)+
  then have i: "day_in_year ?d = month_start y m + dt - 1"
    by (simp add: day_in_year_def d)
  show m: "month_from_day ?d = m"
    unfolding month_from_day_def i y by (rule table(3))
  show "date_from_day ?d = dt"
    unfolding date_from_day_def i y m by simp
qed

lemma month_from_day_range: "0 \<le> month_from_day d" "month_from_day d < 12"
proof -
  have "0 \<le> day_in_year d"
    using year_from_day_bounds [of d] by (simp add: day_in_year_def)
  then show "0 \<le> month_from_day d" "month_from_day d < 12"
    by (auto simp: month_from_day_def month_starts_def Let_def)
qed

lemma succ_mod4: "(y::int) mod 4 = 0 \<Longrightarrow> (y + 1) mod 4 \<noteq> 0"
  by presburger

lemma month_start_diff:
  assumes "0 \<le> m" "m < 12"
  shows "month_start a m - month_start b m \<in> (if leap_year a = leap_year b then {0}
      else if leap_year a then {0, 1} else {0, -1})"
  using month_cases [OF assms]
  by (elim insertE emptyE; cases "leap_year a"; cases "leap_year b"; simp add: month_start_def month_starts_def)

text \<open>The same day of the next year is 365 or 366 days later.\<close>

lemma next_year_distance:
  "make_day (year_from_day d + 1) (month_from_day d) (date_from_day d) - d \<in> {365, 366}"
proof -
  let ?y = "year_from_day d" and ?m = "month_from_day d"
  have d: "d = day_from_year ?y + month_start ?y ?m + date_from_day d - 1"
    by (simp add: date_from_day_def day_in_year_def)
  have "make_day (?y + 1) ?m (date_from_day d)
      = day_from_year (?y + 1) + month_start (?y + 1) ?m + date_from_day d - 1"
    using month_from_day_range [of d] by (simp add: make_day_def Let_def)
  then have "make_day (?y + 1) ?m (date_from_day d) - d
      = (if leap_year ?y then 366 else 365) + (month_start (?y + 1) ?m - month_start ?y ?m)"
    using d day_from_next_year [of ?y] by linarith
  moreover have "\<not> (leap_year ?y \<and> leap_year (?y + 1))"
    unfolding leap_year_def by (metis succ_mod4)
  moreover note month_start_diff [where a = "?y + 1" and b = ?y, OF month_from_day_range [of d]]
  ultimately show ?thesis
    by (auto split: if_splits)
qed


subsection \<open>Dates as texts\<close>

lemma pad_digits: "\<forall>c \<in> set (pad k n). is_digit c"
  using show_nat_digits [of n] by (auto simp: pad_def Let_def is_digit_def)

lemma pad_not_Nil [simp]: "pad k n \<noteq> []"
  by (simp add: pad_def Let_def)

lemma read_digits_pad_zeros: "read_digits (replicate k (CHR ''0'') @ s) = read_digits s"
  by (induction k) (simp_all add: read_digits_def digit_val_def)

lemma js_trim_digits:
  assumes "s \<noteq> []" "\<forall>c \<in> set s. is_digit c"
  shows "js_trim s = s"
proof -
  have h: "32 < (of_char c :: nat)" "(of_char c :: nat) < 128" if "c \<in> set s" for c
    using assms(2) that by (auto simp: is_digit_def)
  have "js_ltrim s = s"
    using assms(1) h by (intro js_ltrim_head) simp_all
  moreover have "\<forall>w \<in> set wide_spaces. w \<noteq> [] \<and> 128 \<le> (of_char (last w) :: nat)"
    by (simp add: wide_spaces_def)
  then have "drop (length s - 3) s \<notin> set wide_spaces"
    using h [OF last_in_set [OF assms(1)]] by (metis last_drop linorder_not_le assms(1) drop_eq_Nil)
  moreover have "map of_char (drop (length s - 2) s) \<noteq> [194, 160 :: nat]"
  proof
    assume e: "map of_char (drop (length s - 2) s) = [194, 160 :: nat]"
    then have "last (map of_char (drop (length s - 2) s)) = (160::nat)" by simp
    moreover have "drop (length s - 2) s \<noteq> []" using e by auto
    ultimately have "(of_char (last s) :: nat) = 160" by (simp add: last_map last_drop)
    with h [OF last_in_set [OF assms(1)]] show False by simp
  qed
  ultimately show ?thesis
    using assms(1) h [OF last_in_set [OF assms(1)]]
    by (auto simp: js_trim_def js_rtrim.simps [of s] ws_suffix_def)
qed

lemma string_to_number_digits:
  assumes "s \<noteq> []" "\<forall>c \<in> set s. is_digit c" "int (read_digits s) < 10 ^ 21"
  shows "string_to_number s = Dec (int (read_digits s)) 0"
proof -
  have nd: "\<not> is_digit (CHR ''x'')" "\<not> is_digit (CHR ''X'')" "\<not> is_digit (CHR ''o'')" "\<not> is_digit (CHR ''O'')"
      "\<not> is_digit (CHR ''b'')" "\<not> is_digit (CHR ''B'')" "\<not> is_digit (CHR ''I'')" "\<not> is_digit (CHR ''-'')"
      "\<not> is_digit (CHR ''+'')"
    by (simp_all add: is_digit_def)
  have "take 2 s \<noteq> [CHR ''0'', c]" if "\<not> is_digit c" for c
  proof
    assume "take 2 s = [CHR ''0'', c]"
    then have "c \<in> set s" by (metis in_set_takeD list.set_intros)
    with assms(2) that show False by blast
  qed
  then have pre: "take 2 s \<notin> {''0x'', ''0X''}" "take 2 s \<notin> {''0o'', ''0O''}" "take 2 s \<notin> {''0b'', ''0B''}"
    using nd by auto
  have hd: "hd s \<noteq> CHR ''-''" "hd s \<noteq> CHR ''+''" and inf: "s \<noteq> ''Infinity''"
    using hd_in_set [OF assms(1)] assms(2) nd by auto
  have tw: "takeWhile is_digit s = s" "dropWhile is_digit s = []"
    using assms(2) by (simp_all add: takeWhile_eq_all_conv dropWhile_eq_Nil_conv)
  have "make_dec False s [] 0 = Dec (int (read_digits s)) 0"
    using not_huge [of "int (read_digits s)" 0] assms(3) by (simp add: make_dec_def)
  moreover have "parse_exp [] = Some (0, [])"
    by (simp add: parse_exp_def)
  ultimately have "decimal_val False s = Dec (int (read_digits s)) 0"
    using inf assms(1) by (simp add: decimal_val_def Let_def tw)
  then show ?thesis
    unfolding string_to_number_def Let_def js_trim_digits [OF assms(1,2)]
    using assms(1) pre hd by simp
qed

lemma string_to_number_pad:
  assumes "int n < 10 ^ 21"
  shows "string_to_number (pad k n) = Dec (int n) 0"
proof -
  have "read_digits (pad k n) = n"
    by (simp add: pad_def Let_def read_digits_pad_zeros read_digits_show_nat)
  then show ?thesis
    using string_to_number_digits [OF pad_not_Nil pad_digits, of k n] assms by simp
qed

lemma to_iso_day:
  assumes "0 \<le> y" "y \<le> 9999" "0 \<le> m" "m < 12" "1 \<le> dt" "dt \<le> days_in_month y m"
  shows "to_iso (make_day y m dt * msPerDay)
     = pad 4 (nat y) @ ''-'' @ pad 2 (nat (m + 1)) @ ''-'' @ pad 2 (nat dt) @ ''T00:00:00.000Z''"
proof -
  have "pad 2 0 = ''00''" "pad 3 0 = ''000''" by code_simp+
  then show ?thesis
    using assms month_day_of_make_day [OF assms(3-6)]
    by (simp add: to_iso_def Let_def msPerDay_def iso_year_def)
qed

end
