(* ===== verification/Html.thy ===== *)
theory Html
  imports Js_Numbers
begin

text \<open>
  How a browser reads a start tag a script pasted together from text: the tokenizer's rules for
  attribute names and values, of which the first of a name counts, and what a text input makes
  of its \<open>value\<close> attribute. Decoding character references is a parameter of the model; what
  follows the end of the tag is not read.
\<close>

subsection \<open>The attributes of a start tag\<close>

definition html_ws :: "char \<Rightarrow> bool" where
  "html_ws c \<longleftrightarrow> (of_char c :: nat) \<in> {9, 10, 12, 13, 32}"

abbreviation apostrophe :: char where "apostrophe \<equiv> CHR 0x27"

text \<open>
  An attribute's value, and the text after it: in quotes of either kind, or up to white space.
  \<open>None\<close> where the text ends inside the tag, which is then no element at all.
\<close>

definition attr_value :: "string \<Rightarrow> (string \<times> string) option" where
  "attr_value s =
     (case dropWhile html_ws s of
        [] \<Rightarrow> None
      | q # t \<Rightarrow>
          if q = quote \<or> q = apostrophe then
            (if q \<in> set t then Some (takeWhile (\<lambda>c. c \<noteq> q) t, tl (dropWhile (\<lambda>c. c \<noteq> q) t)) else None)
          else
            Some (takeWhile (\<lambda>c. \<not> html_ws c \<and> c \<noteq> CHR ''>'') (q # t),
                  dropWhile (\<lambda>c. \<not> html_ws c \<and> c \<noteq> CHR ''>'') (q # t)))"

definition name_char :: "char \<Rightarrow> bool" where
  "name_char c \<longleftrightarrow> \<not> html_ws c \<and> c \<notin> {CHR ''/'', CHR ''>'', CHR ''=''}"

lemma attr_value_shorter: "attr_value s = Some (v, r) \<Longrightarrow> length r \<le> length s"
proof -
  assume a: "attr_value s = Some (v, r)"
  then obtain q t where s: "dropWhile html_ws s = q # t"
    by (auto simp: attr_value_def split: list.splits)
  have d: "length (dropWhile P xs) \<le> length xs" for P and xs :: string
    by (rule length_dropWhile_le)
  have "length r \<le> length (q # t)"
  proof (cases "q = quote \<or> q = apostrophe")
    case True
    with a s have "r = tl (dropWhile (\<lambda>c. c \<noteq> q) t)"
      by (auto simp: attr_value_def split: if_splits)
    then show ?thesis using d [of "\<lambda>c. c \<noteq> q" t] by simp
  next
    case False
    with a s have "r = dropWhile (\<lambda>c. \<not> html_ws c \<and> c \<noteq> CHR ''>'') (q # t)"
      by (simp add: attr_value_def)
    then show ?thesis by (simp only: d)
  qed
  also have "\<dots> \<le> length s"
    using d [of html_ws s] s by simp
  finally show ?thesis .
qed

function tag_attributes :: "string \<Rightarrow> (string \<times> string) list option" where
  "tag_attributes s =
     (case dropWhile (\<lambda>c. html_ws c \<or> c = CHR ''/'') s of
        [] \<Rightarrow> None
      | c # r \<Rightarrow>
          if c = CHR ''>'' then Some []
          else
            (let name = ascii_lower (c # takeWhile name_char r);
                 r1 = dropWhile html_ws (dropWhile name_char r)
             in if r1 \<noteq> [] \<and> hd r1 = CHR ''='' then
                  (case attr_value (tl r1) of
                     None \<Rightarrow> None
                   | Some (v, rest) \<Rightarrow> map_option (Cons (name, v)) (tag_attributes rest))
                else map_option (Cons (name, [])) (tag_attributes r1)))"
  by pat_completeness auto
termination
proof (relation "measure length")
  have d: "length (dropWhile P xs) \<le> length xs" for P and xs :: string
    by (rule length_dropWhile_le)
  fix s c r name r1
  assume s: "dropWhile (\<lambda>c. html_ws c \<or> c = CHR ''/'') s = c # r"
    and r1: "r1 = dropWhile html_ws (dropWhile name_char r)"
  have r: "length r < length s"
    using d [of "\<lambda>c. html_ws c \<or> c = CHR ''/''" s] s by simp
  have l: "length r1 \<le> length r"
    unfolding r1 using order_trans [OF d d] .
  then show "(r1, s) \<in> measure length" using r by simp
  fix p v rest
  assume "attr_value (tl r1) = Some p" "(v, rest) = p"
  then have "length rest \<le> length (tl r1)" using attr_value_shorter [of "tl r1" v rest] by simp
  then show "(rest, s) \<in> measure length" using r l by simp
qed simp

declare tag_attributes.simps [simp del]

lemma tag_attributes_end: "tag_attributes (CHR ''>'' # s) = Some []"
  by (subst tag_attributes.simps) (simp add: html_ws_def)

definition attr_name :: "string \<Rightarrow> bool" where
  "attr_name n \<longleftrightarrow> n \<noteq> [] \<and> (\<forall>c \<in> set n. name_char c) \<and> ascii_lower n = n"

text \<open>A quoted attribute whose value has no quotation mark reads back as written.\<close>

lemma tag_attributes_quoted:
  assumes "attr_name n" "quote \<notin> set v"
  shows "tag_attributes (CHR '' '' # n @ ''='' @ [quote] @ v @ [quote] @ s)
     = map_option (Cons (n, v)) (tag_attributes s)"
proof -
  obtain c m where n: "n = c # m" "name_char c" "\<forall>c \<in> set m. name_char c" "ascii_lower (c # m) = c # m"
    using assms(1) by (cases n) (auto simp: attr_name_def)
  have c: "\<not> html_ws c" "c \<noteq> CHR ''/''" "c \<noteq> CHR ''>''"
    using n(2) by (auto simp: name_char_def)
  have eq: "\<not> name_char (CHR ''='')" "html_ws (CHR '' '')" "\<not> html_ws (CHR ''='')" "\<not> html_ws quote"
    by (simp_all add: name_char_def html_ws_def)
  have tw: "takeWhile name_char (m @ CHR ''='' # r) = m" "dropWhile name_char (m @ CHR ''='' # r) = CHR ''='' # r" for r
    using n(3) eq(1) by (simp_all add: takeWhile_all_append dropWhile_all_append)
  have v: "takeWhile (\<lambda>c. c \<noteq> quote) (v @ quote # s) = v" "dropWhile (\<lambda>c. c \<noteq> quote) (v @ quote # s) = quote # s"
    using assms(2) by - (rule takeWhile_all_append dropWhile_all_append; auto)+
  show ?thesis
    by (subst tag_attributes.simps) (simp add: n c eq tw v attr_value_def Let_def)
qed

subsection \<open>Text inputs\<close>

text \<open>The value an input of type text starts with: no line breaks, and no NUL.\<close>

definition text_input_value :: "(string \<Rightarrow> string) \<Rightarrow> string \<Rightarrow> string" where
  "text_input_value char_refs v =
     filter (\<lambda>c. (of_char c :: nat) \<notin> {10, 13})
       (char_refs (concat (map (\<lambda>c. if (of_char c :: nat) = 0 then map char_of [239, 191, 189 :: nat] else [c]) v)))"

text \<open>The values that survive: no quotation mark, no ampersand, no line break, no NUL.\<close>

definition plain_value :: "string \<Rightarrow> bool" where
  "plain_value v \<longleftrightarrow> quote \<notin> set v \<and> CHR ''&'' \<notin> set v \<and> (\<forall>c \<in> set v. (of_char c :: nat) \<notin> {0, 10, 13})"

lemma text_input_plain:
  assumes "\<And>v. CHR ''&'' \<notin> set v \<Longrightarrow> char_refs v = v" "plain_value v"
  shows "text_input_value char_refs v = v"
proof -
  have "concat (map (\<lambda>c. if (of_char c :: nat) = 0 then map char_of [239, 191, 189 :: nat] else [c]) v) = v"
    using assms(2) by (induction v) (auto simp: plain_value_def)
  moreover have "filter (\<lambda>c. (of_char c :: nat) \<notin> {10, 13}) v = v"
    using assms(2) by (auto simp: filter_id_conv plain_value_def)
  ultimately show ?thesis
    using assms by (simp add: text_input_value_def plain_value_def)
qed

end

