(* ===== verification/Config_Editor.thy ===== *)
theory Config_Editor
  imports Dom Js_Date Html
begin

text \<open>
  \<open>web/static/js/openfsd/configeditor.js\<close>: the editor of the server's configuration and the
  creation of API tokens. The rows of the form are data: an input per stored value, as the
  browser reads the tag the script pastes together, and the rows the user adds.
\<close>

subsection \<open>The known keys\<close>

record key_label =
  kl_name :: string
  kl_description :: string
  kl_type :: string
  kl_placeholder :: string

definition keyLabels :: "(string \<times> key_label) list" where
  "keyLabels =
     [(''WELCOME_MESSAGE'',
       \<lparr>kl_name = ''Welcome Message'',
        kl_description = ''Welcome message sent to FSD clients after they connect'',
        kl_type = ''text'',
        kl_placeholder = ''Welcome to my FSD server!''\<rparr>),
      (''FSD_SERVER_HOSTNAME'',
       \<lparr>kl_name = ''FSD Server Hostname'',
        kl_description = ''Server hostname advertised to clients'',
        kl_type = ''text'',
        kl_placeholder = ''myfsdserver.com''\<rparr>),
      (''FSD_SERVER_IDENT'',
       \<lparr>kl_name = ''FSD Server Ident'',
        kl_description = ''Server ident advertised to clients'',
        kl_type = ''text'',
        kl_placeholder = ''MY-FSD-SERVER''\<rparr>),
      (''FSD_SERVER_LOCATION'',
       \<lparr>kl_name = ''FSD Server Location'',
        kl_description = ''Geographical server location advertised to clients'',
        kl_type = ''text'',
        kl_placeholder = ''East US''\<rparr>),
      (''API_SERVER_BASE_URL'',
       \<lparr>kl_name = ''API Server Base URL'',
        kl_description = ''API server base URL advertised to clients'',
        kl_type = ''text'',
        kl_placeholder = ''https://example.com''\<rparr>)]"

text \<open>
  \<open>keyLabels[key]\<close>; reading a property of what is absent throws. (The names every JavaScript object has,
  such as \<open>constructor\<close>, would be found too; the server sends its own keys only.)
\<close>

definition key_label_of :: "string \<Rightarrow> key_label option" where
  "key_label_of key = map_of keyLabels key"


subsection \<open>The page\<close>

text \<open>
  A stored value's input: its \<open>data-key\<close>, its value and whether it is checked, with the label
  and the description around it. A row the user adds: the menu and the input.
\<close>

record config_input =
  ci_label :: string
  ci_description :: string
  ci_key :: string
  ci_value :: string
  ci_checked :: bool

record new_config =
  nc_options :: "(string \<times> string) list"
  nc_key :: string
  nc_type :: string
  nc_placeholder :: "string option"
  nc_value :: string
  nc_checked :: bool
  nc_check_style :: bool
  nc_description :: string

datatype config_row = Stored config_input | Unreadable | New new_config

record 's config_page = "'s page" +
  form_rows :: "config_row list"
  message_text :: string
  message_token :: "string option"
  message_shown :: bool
  create_shown :: bool
  clipboard :: "string option"


subsection \<open>Messages\<close>

text \<open>
  The message modal. With a token the message is shown beside it, with a button that copies
  it; the button says so for two seconds, where the browser allows the copy.
\<close>

definition showMessageModal :: "string \<Rightarrow> jsval \<Rightarrow> (unit, ('s, 'x) config_page_scheme) js" where
  "showMessageModal message token =
     jput (\<lambda>w. w\<lparr>message_text := message,
                 message_token := (if truthy token then Some (to_str token) else None),
                 message_shown := True\<rparr>)"

definition copy_click :: "bool \<Rightarrow> (string list, ('s, 'x) config_page_scheme) js" where
  "copy_click allowed =
     jbind (jget message_token) (\<lambda>t.
       case t of
         None \<Rightarrow> jret []
       | Some token \<Rightarrow>
           if allowed then
             jthen (jput (\<lambda>w. w\<lparr>clipboard := Some token\<rparr>)) (jret [''Copied!'', ''Copy''])
           else jret [])"


subsection \<open>Loading\<close>

text \<open>The tag pasted for a pair, after \<open><input\<close>, and the row the browser makes of it.\<close>

definition attr_text :: "string \<Rightarrow> string \<Rightarrow> string" where
  "attr_text n v = CHR '' '' # n @ ''='' @ [quote] @ v @ [quote]"

definition input_tag :: "key_label \<Rightarrow> string \<Rightarrow> string \<Rightarrow> string" where
  "input_tag l key v =
     attr_text ''type'' (kl_type l) @ attr_text ''class'' ''form-control'' @ attr_text ''id'' key @
     attr_text ''value'' v @ attr_text ''data-key'' key @ attr_text ''placeholder'' (kl_placeholder l) @ ''>''"

definition stored_row :: "(string \<Rightarrow> string) \<Rightarrow> string \<Rightarrow> string \<Rightarrow> string \<Rightarrow> config_row" where
  "stored_row char_refs label desc tag =
     (case tag_attributes tag of
        None \<Rightarrow> Unreadable
      | Some attrs \<Rightarrow>
          (case map_of attrs ''data-key'' of
             None \<Rightarrow> Unreadable
           | Some key \<Rightarrow>
               Stored \<lparr>ci_label = label, ci_description = desc, ci_key = char_refs key,
                 ci_value = text_input_value char_refs (case map_of attrs ''value'' of None \<Rightarrow> [] | Some v \<Rightarrow> v),
                 ci_checked = (map_of attrs ''checked'' \<noteq> None)\<rparr>))"

definition add_stored :: "(string \<Rightarrow> string) \<Rightarrow> jsval \<Rightarrow> (unit, ('s, 'x) config_page_scheme) js" where
  "add_stored char_refs kv =
     jbind (get_prop ''key'' kv) (\<lambda>k.
       case key_label_of (to_str k) of
         None \<Rightarrow> jthrow TypeError
       | Some l \<Rightarrow>
           (let label = (if kl_name l \<noteq> [] then kl_name l else to_str k);
                desc = (if kl_description l \<noteq> [] then kl_description l else to_str k)
            in jbind (get_prop ''value'' kv) (\<lambda>v.
                 jput (\<lambda>w. w\<lparr>form_rows := form_rows w @
                   [stored_row char_refs label desc (input_tag l (to_str k) (to_str v))]\<rparr>))))"

definition loadConfig :: "(string \<Rightarrow> string) \<Rightarrow> 's server \<Rightarrow> (unit, ('s, 'x) config_page_scheme) js" where
  "loadConfig char_refs srv =
     jcatch
       (jbind (doAPIRequestWithAuth srv ''GET'' ''/api/v1/config/load'' Undefined) (\<lambda>res.
        jbind (get_prop ''err'' res) (\<lambda>err.
          if truthy err then alert (''Error: '' @ to_str err)
          else
            jthen (jput (\<lambda>w. w\<lparr>form_rows := []\<rparr>))
            (jbind (get_prop ''data'' res) (\<lambda>data.
             jbind (get_prop ''key_value_pairs'' data) (\<lambda>pairs.
             jbind (elements pairs) (jforeach (add_stored char_refs))))))))
       report_error"


subsection \<open>Adding a row\<close>

definition add_config :: "(unit, ('s, 'x) config_page_scheme) js" where
  "add_config =
     jput (\<lambda>w. w\<lparr>form_rows := form_rows w @
       [New \<lparr>nc_options = map (\<lambda>(key, l). (key, kl_name l)) keyLabels, nc_key = [], nc_type = ''text'',
             nc_placeholder = Some ''Value'', nc_value = [], nc_checked = False, nc_check_style = False,
             nc_description = []\<rparr>]\<rparr>)"

text \<open>
  Choosing a key in the menu of a row. The description goes to the element with the id
  \<open>new-value-description\<close>, which is the first such element of the page.
\<close>

definition key_chosen :: "string \<Rightarrow> new_config \<Rightarrow> new_config" where
  "key_chosen key r =
     (let r' = r\<lparr>nc_key := key\<rparr> in
      case key_label_of key of
        None \<Rightarrow> r'
      | Some l \<Rightarrow>
          if key = [] then r'
          else if kl_type l = ''checkbox'' then
            r'\<lparr>nc_type := ''checkbox'', nc_placeholder := None, nc_check_style := True, nc_value := ''true''\<rparr>
          else
            r'\<lparr>nc_type := kl_type l, nc_placeholder := Some (kl_placeholder l), nc_check_style := False,
               nc_value := []\<rparr>)"

fun describe_first :: "string \<Rightarrow> config_row list \<Rightarrow> config_row list" where
  "describe_first d [] = []"
| "describe_first d (New r # rows) = New (r\<lparr>nc_description := d\<rparr>) # rows"
| "describe_first d (row # rows) = row # describe_first d rows"

definition choose_key :: "nat \<Rightarrow> string \<Rightarrow> (unit, ('s, 'x) config_page_scheme) js" where
  "choose_key i key =
     jthen
       (jput (\<lambda>w. w\<lparr>form_rows :=
          (if i < length (form_rows w) then
             (case form_rows w ! i of
                New r \<Rightarrow> (form_rows w)[i := New (key_chosen key r)]
              | _ \<Rightarrow> form_rows w)
           else form_rows w)\<rparr>))
       (case key_label_of key of
          None \<Rightarrow> jthrow TypeError
        | Some l \<Rightarrow> jput (\<lambda>w. w\<lparr>form_rows := describe_first (kl_description l) (form_rows w)\<rparr>))"


subsection \<open>Saving\<close>

definition bool_text :: "bool \<Rightarrow> string" where
  "bool_text b = (if b then ''true'' else ''false'')"

text \<open>
  The pairs the form holds: the stored ones first, then the added rows with a key. An input
  whose key is not among the known ones throws.
\<close>

fun stored_pairs :: "config_row list \<Rightarrow> (string \<times> string) list option" where
  "stored_pairs [] = Some []"
| "stored_pairs (Stored c # rows) =
     (case key_label_of (ci_key c) of
        None \<Rightarrow> None
      | Some l \<Rightarrow>
          map_option
            (Cons (ci_key c, if kl_type l = ''checkbox'' then bool_text (ci_checked c) else ci_value c))
            (stored_pairs rows))"
| "stored_pairs (_ # rows) = stored_pairs rows"

fun new_pairs :: "config_row list \<Rightarrow> (string \<times> string) list option" where
  "new_pairs [] = Some []"
| "new_pairs (New r # rows) =
     (if js_trim (nc_key r) \<noteq> [] then
        (case key_label_of (nc_key r) of
           None \<Rightarrow> None
         | Some l \<Rightarrow>
             map_option
               (Cons (nc_key r, if kl_type l = ''checkbox'' then bool_text (nc_checked r) else nc_value r))
               (new_pairs rows))
      else new_pairs rows)"
| "new_pairs (_ # rows) = new_pairs rows"

definition form_pairs :: "config_row list \<Rightarrow> (string \<times> string) list option" where
  "form_pairs rows =
     (case stored_pairs rows of
        None \<Rightarrow> None
      | Some ps \<Rightarrow> map_option (\<lambda>qs. ps @ qs) (new_pairs rows))"

text \<open>A call that nobody waits for.\<close>

definition jdetach :: "('a, 'w) js \<Rightarrow> (unit, 'w) js" where
  "jdetach m w = (Done (), snd (m w))"

definition save_config :: "(string \<Rightarrow> string) \<Rightarrow> 's server \<Rightarrow> (unit, ('s, 'x) config_page_scheme) js" where
  "save_config char_refs srv =
     jbind (jget form_rows) (\<lambda>rows.
       case form_pairs rows of
         None \<Rightarrow> jthrow TypeError
       | Some kvs \<Rightarrow>
           jcatch
             (jbind (doAPIRequestWithAuth srv ''POST'' ''/api/v1/config/update'' (pairs_json kvs)) (\<lambda>res.
              jbind (get_prop ''err'' res) (\<lambda>err.
                if truthy err then alert (''Error: '' @ to_str err)
                else jthen (alert ''Config updated successfully'') (jdetach (loadConfig char_refs srv)))))
             report_error)"

definition resetJwtSecretKey :: "'s server \<Rightarrow> (unit, ('s, 'x) config_page_scheme) js" where
  "resetJwtSecretKey srv =
     jcatch
       (jbind (doAPIRequestWithAuth srv ''POST'' ''/api/v1/config/resetsecretkey'' Undefined) (\<lambda>res.
        jbind (get_prop ''err'' res) (\<lambda>err.
          if truthy err then alert (''Error: '' @ to_str err)
          else alert ''JWT Secret Key reset successfully'')))
       report_error"

definition reset_click :: "bool \<Rightarrow> 's server \<Rightarrow> (unit, ('s, 'x) config_page_scheme) js" where
  "reset_click confirmed srv = (if confirmed then jdetach (resetJwtSecretKey srv) else jret ())"


subsection \<open>API tokens\<close>

definition create_key_click :: "(unit, ('s, 'x) config_page_scheme) js" where
  "create_key_click = jput (\<lambda>w. w\<lparr>create_shown := True\<rparr>)"

fun minus_one :: "jsnum \<Rightarrow> jsnum" where
  "minus_one (Dec m e) = Dec (m - 10 ^ e) e"
| "minus_one n = n"

text \<open>\<open>const [year, month, day] = s.split('-').map(Number)\<close>: a part that is missing is \<open>undefined\<close>.\<close>

definition date_part :: "string \<Rightarrow> nat \<Rightarrow> jsnum" where
  "date_part s i =
     (let parts = map string_to_number (split_on (CHR ''-'') s)
      in if i < length parts then parts ! i else NaN)"

datatype expiry = Bad_Format | Bad_Date | Expiry jsval

definition expiry_of :: "(int \<Rightarrow> int) \<Rightarrow> (int \<Rightarrow> int) \<Rightarrow> int \<Rightarrow> string \<Rightarrow> expiry" where
  "expiry_of to_local to_utc now s =
     (if s \<noteq> [] then
        (let year = date_part s 0; month = date_part s 1; day = date_part s 2
         in if year = NaN \<or> month = NaN \<or> day = NaN then Bad_Format
            else
              (case date_utc year (minus_one month) day of
                 None \<Rightarrow> Bad_Date
               | Some t \<Rightarrow> Expiry (Str (to_iso t))))
      else
        Expiry (case next_year to_local to_utc now of None \<Rightarrow> Null | Some t \<Rightarrow> Str (to_iso t)))"

definition submit_create_token ::
    "(int \<Rightarrow> int) \<Rightarrow> (int \<Rightarrow> int) \<Rightarrow> 's server \<Rightarrow> (unit, ('s, 'x) config_page_scheme) js" where
  "submit_create_token to_local to_utc srv =
     jbind (text_of ''expiryDate'' val) (\<lambda>expiryDateStr.
     jbind (jget clock) (\<lambda>now.
       case expiry_of to_local to_utc now expiryDateStr of
         Bad_Format \<Rightarrow> showMessageModal ''Invalid date format.'' Undefined
       | Bad_Date \<Rightarrow> showMessageModal ''Invalid date.'' Undefined
       | Expiry expiryDateTime \<Rightarrow>
           jthen
             (jcatch
               (jbind (doAPIRequestWithAuth srv ''POST'' ''/api/v1/config/createtoken''
                   (Obj [(''expiry_date_time'', expiryDateTime)])) (\<lambda>res.
                jbind (get_prop ''err'' res) (\<lambda>err.
                  if truthy err then showMessageModal (''Error: '' @ to_str err) Undefined
                  else
                    jbind (jbind (get_prop ''data'' res) (get_prop ''token'')) (\<lambda>token.
                      showMessageModal ''API Token created:'' token))))
               (\<lambda>e. showMessageModal (''Error: '' @ error_message e) Undefined))
             (jput (\<lambda>w. w\<lparr>create_shown := False\<rparr>))))"

subsection \<open>Loading and saving\<close>

lemma input_attr_names [simp]:
  "attr_name ''type''" "attr_name ''class''" "attr_name ''id''" "attr_name ''value''"
  "attr_name ''data-key''" "attr_name ''placeholder''"
  by (simp_all add: attr_name_def name_char_def html_ws_def ascii_lower_def is_upper_def)

lemma tag_attributes_attr:
  "attr_name n \<Longrightarrow> quote \<notin> set v \<Longrightarrow> tag_attributes (attr_text n v @ s) = map_option (Cons (n, v)) (tag_attributes s)"
  using tag_attributes_quoted [of n v s] by (simp add: attr_text_def)

lemma known_keys:
  assumes "key_label_of k = Some l"
  shows "plain_value k" "kl_type l = ''text''" "quote \<notin> set (kl_placeholder l)" "kl_name l \<noteq> []" "kl_description l \<noteq> []"
  using assms by (auto simp: key_label_of_def keyLabels_def plain_value_def split: if_splits)

text \<open>The row of a known key with a plain value has that key and that value.\<close>

lemma stored_row_plain:
  assumes l: "key_label_of k = Some l" and refs: "\<And>v. CHR ''&'' \<notin> set v \<Longrightarrow> refs v = v" and v: "plain_value v"
  shows "\<exists>c. stored_row refs label desc (input_tag l k v) = Stored c \<and> ci_key c = k \<and> ci_value c = v"
proof -
  have q: "quote \<notin> set v" "quote \<notin> set k" "refs k = k" "quote \<notin> set ''text''" "quote \<notin> set ''form-control''"
    using v known_keys(1) [OF l] refs by (auto simp: plain_value_def)
  have "tag_attributes (input_tag l k v) = Some
      [(''type'', ''text''), (''class'', ''form-control''), (''id'', k), (''value'', v), (''data-key'', k),
       (''placeholder'', kl_placeholder l)]"
    unfolding input_tag_def known_keys(2) [OF l]
    by (simp add: tag_attributes_attr q known_keys(3) [OF l] tag_attributes_end del: list.set)
  then show ?thesis
    using q(3) text_input_plain [of refs v, OF refs v] by (simp add: stored_row_def)
qed

text \<open>Whatever follows a quotation mark in a value is not part of the input's value.\<close>

lemma tag_attributes_ends_value:
  assumes l: "key_label_of k = Some l" and a: "quote \<notin> set a"
    and t: "tag_attributes (input_tag l k (a @ quote # b)) = Some attrs"
  shows "map_of attrs ''value'' = Some a"
proof -
  have q: "quote \<notin> set k" "quote \<notin> set ''text''" "quote \<notin> set ''form-control''"
    using known_keys(1) [OF l] by (auto simp: plain_value_def)
  obtain r where r: "input_tag l k (a @ quote # b)
      = attr_text ''type'' ''text'' @ attr_text ''class'' ''form-control'' @ attr_text ''id'' k @ attr_text ''value'' a @ r"
    using known_keys(2) [OF l] by (simp add: input_tag_def attr_text_def)
  show ?thesis
    using t unfolding r by (auto simp: tag_attributes_attr q a simp del: list.set)
qed

lemma stored_row_quote:
  assumes "key_label_of k = Some l" "\<And>v. CHR ''&'' \<notin> set v \<Longrightarrow> refs v = v" "plain_value a"
    and "stored_row refs label desc (input_tag l k (a @ quote # b)) = Stored c"
  shows "ci_value c = a"
  using assms(4) tag_attributes_ends_value [OF assms(1), of a b] assms(3) text_input_plain [of refs a, OF assms(2,3)]
  by (auto simp: stored_row_def plain_value_def split: option.splits)

text \<open>The rows a list of pairs of known keys is loaded into.\<close>

definition row_of :: "(string \<Rightarrow> string) \<Rightarrow> string \<times> string \<Rightarrow> config_row" where
  "row_of refs kv =
     (case key_label_of (fst kv) of
        None \<Rightarrow> Unreadable
      | Some l \<Rightarrow> stored_row refs (kl_name l) (kl_description l) (input_tag l (fst kv) (snd kv)))"

definition known_key :: "string \<Rightarrow> bool" where
  "known_key k \<longleftrightarrow> key_label_of k \<noteq> None"

lemma add_stored_known:
  assumes "known_key (fst kv)"
  shows "add_stored refs (pair_json kv) w = (Done (), w\<lparr>form_rows := form_rows w @ [row_of refs kv]\<rparr>)"
  using assms known_keys(4,5)
  by (auto simp: known_key_def add_stored_def pair_json_def obj_get_def js_monad row_of_def split: option.splits)

lemma add_all_known:
  assumes "\<forall>kv \<in> set kvs. known_key (fst kv)"
  shows "jforeach (add_stored refs) (map pair_json kvs) w
     = (Done (), w\<lparr>form_rows := form_rows w @ map (row_of refs) kvs\<rparr>)"
  using assms
  by (induction kvs arbitrary: w) (simp_all add: jret_def jthen_def jbind_def add_stored_known)

lemma row_of_plain:
  assumes "known_key (fst kv)" "plain_value (snd kv)" "\<And>v. CHR ''&'' \<notin> set v \<Longrightarrow> refs v = v"
  obtains c where "row_of refs kv = Stored c" "ci_key c = fst kv" "ci_value c = snd kv"
  using assms(1) stored_row_plain [OF _ assms(3,2)] unfolding row_of_def known_key_def by fastforce

lemma form_pairs_rows:
  assumes "\<forall>kv \<in> set kvs. known_key (fst kv) \<and> plain_value (snd kv)"
    and "\<And>v. CHR ''&'' \<notin> set v \<Longrightarrow> refs v = v"
  shows "form_pairs (map (row_of refs) kvs) = Some kvs"
proof -
  have "stored_pairs (map (row_of refs) kvs) = Some kvs \<and> new_pairs (map (row_of refs) kvs) = Some []"
    using assms(1)
  proof (induction kvs)
    case Nil
    then show ?case by simp
  next
    case (Cons kv kvs)
    then obtain c where c: "row_of refs kv = Stored c" "ci_key c = fst kv" "ci_value c = snd kv"
      using row_of_plain [OF _ _ assms(2), of kv] by auto
    with Cons show ?case
      by (auto simp: known_key_def known_keys(2))
  qed
  then show ?thesis by (simp add: form_pairs_def)
qed

text \<open>Loading, after its request was answered with pairs of which the first ones are known.\<close>

lemma loadConfig_known:
  assumes "doAPIRequestWithAuth srv ''GET'' ''/api/v1/config/load'' Undefined w
      = (Done (envelope Null (pairs_json kvs)), w1)"
    and "\<forall>kv \<in> set kvs. known_key (fst kv)"
  shows "loadConfig refs srv w = (Done (), w1\<lparr>form_rows := map (row_of refs) kvs\<rparr>)"
  using add_all_known [OF assms(2), of refs "w1\<lparr>form_rows := []\<rparr>"]
  by (simp add: loadConfig_def js_monad assms(1) pairs_json_def obj_get_def)

lemma form_rows_set: "form_rows (w\<lparr>form_rows := r\<rparr>) = r"
  by simp

lemma loadConfig_unknown:
  assumes "doAPIRequestWithAuth srv ''GET'' ''/api/v1/config/load'' Undefined w
      = (Done (envelope Null (pairs_json (pre @ kv # post))), w1)"
    and "\<forall>kv \<in> set pre. known_key (fst kv)" "\<not> known_key (fst kv)"
  shows "loadConfig refs srv w =
     (Done (), w1\<lparr>form_rows := map (row_of refs) pre, alerts := alerts w1 @ [''Error: An error occurred'']\<rparr>)"
proof -
  have "add_stored refs (pair_json kv) u = (Throw TypeError, u)" for u :: "('a, 'b) config_page_scheme"
    using assms(3) by (simp add: known_key_def add_stored_def pair_json_def obj_get_def js_monad)
  then have "jforeach (add_stored refs) (map pair_json (pre @ kv # post)) (w1\<lparr>form_rows := []\<rparr>)
      = (Throw TypeError, w1\<lparr>form_rows := map (row_of refs) pre\<rparr>)"
    using add_all_known [OF assms(2), of refs "w1\<lparr>form_rows := []\<rparr>"]
    by (simp add: jforeach_append jthen_def jbind_def)
  then show ?thesis
    by (simp add: loadConfig_def jbind_def jcatch_def jthen_def jput_def jret_def assms(1) pairs_json_def obj_get_def
        report_error_def alert_def error_message_def response_json_def)
qed

subsection \<open>Properties\<close>

text \<open>For the witnesses: a page of the editor with a live token, and a server with some pairs.\<close>

definition config_page_for :: "'s \<Rightarrow> 's config_page" where
  "config_page_for s =
     page.extend
       (browser.extend (sample_page (Some (sample_token 5000)) None s) (page.fields (\<lambda>_ _. []) (\<lambda>_ _. False)))
       (config_page.fields [] [] None False False None)"

definition pairs_server :: "(string \<times> string) list \<Rightarrow> 's server" where
  "pairs_server kvs s rq = (Response 200 ''OK'' (json_text (envelope Null (pairs_json kvs))), 0, s)"

lemma config_page_request:
  "doAPIRequestWithAuth srv m u d (config_page_for s)
     = ajax srv (api_request m u True (Str (sample_token 5000)) d) (config_page_for s)"
proof -
  have "live_token ''access_token'' (sample_token 5000) (config_page_for s)"
    using sample_tokens(1) [of None s]
    by (simp add: live_token_def config_page_for_def page.defs browser.defs sample_page_def now_seconds_def)
  then show ?thesis
    by (simp add: doAPIRequestWithAuth_def live_request)
qed

lemma pairs_server_load:
  "\<exists>w1. doAPIRequestWithAuth (pairs_server kvs) ''GET'' ''/api/v1/config/load'' Undefined (config_page_for s)
     = (Done (envelope Null (pairs_json kvs)), w1) \<and> alerts w1 = []"
proof -
  have "json_ok (envelope Null (pairs_json kvs))"
    by (auto simp: envelope_def pairs_json_def pair_json_def list_all_iff)
  then have "json_parse (json_text (envelope Null (pairs_json kvs))) = Some (envelope Null (pairs_json kvs))"
    by (rule json.dec_enc)
  then show ?thesis
    unfolding config_page_request
    by (simp add: ajax_def pairs_server_def Let_def config_page_for_def page.defs browser.defs sample_page_def)
qed

text \<open>Loading and saving the form.\<close>

lemma keeps_sends_load:
  assumes "\<And>r. P (refresh_request r)" "\<And>a. P (api_request ''GET'' ''/api/v1/config/load'' True a Undefined)"
  shows "keeps (sends_only P before) (loadConfig refs srv)"
proof -
  have rows: "keeps (sends_only P before) (jput (\<lambda>w. w\<lparr>form_rows := f w\<rparr>))" for f
    by (rule keeps_jput) (simp add: sends_only_def)
  have "keeps (sends_only P before) (add_stored refs kv)" for kv
    unfolding add_stored_def Let_def
    by (rule keeps_jbind keeps_get_prop)+ (auto split: option.split intro!: keeps_jthrow keeps_jbind keeps_get_prop rows)
  then show ?thesis
    unfolding loadConfig_def report_error_def
    by (intro keeps_jcatch keeps_jbind keeps_sends_request assms keeps_get_prop keeps_if keeps_sends_silent keeps_jthen rows
        keeps_elements keeps_jforeach)
qed

lemma keeps_jdetach: "keeps Q m \<Longrightarrow> keeps Q (jdetach m)"
  by (simp add: keeps_def jdetach_def)

text \<open>The request that saves pairs with a token.\<close>

definition save_request :: "string \<Rightarrow> (string \<times> string) list \<Rightarrow> request" where
  "save_request tok kvs =
     \<lparr>rq_method = ''POST'', rq_url = ''/api/v1/config/update'', rq_auth = Some (''Bearer '' @ tok),
      rq_body = Some (json_text (pairs_json kvs))\<rparr>"

lemma keeps_rest:
  assumes "m w = (out, w1)" "Q w1" "\<And>a. keeps Q (f a)" "\<And>e. keeps Q (h e)"
  shows "Q (snd (jcatch (jbind m f) h w))"
  using assms by (auto simp: jcatch_def jbind_def keeps_def split: outcome.splits prod.splits) (metis snd_conv)+

lemma save_config_sends:
  fixes w :: "('s, 'x) config_page_scheme"
  assumes "form_pairs (form_rows w) = Some kvs"
  shows "sends_only (\<lambda>rq. rq_url rq = ''/api/v1/config/update'' \<longrightarrow>
           rq_method rq = ''POST'' \<and> rq_body rq = Some (json_text (pairs_json kvs))) (sent w) (snd (save_config refs srv w))"
    "live_token ''access_token'' tok w \<Longrightarrow>
       sends_only (\<lambda>rq. rq_url rq \<noteq> ''/api/v1/config/update'') (sent w @ [save_request tok kvs]) (snd (save_config refs srv w))"
proof -
  have body: "json_stringify (pairs_json kvs) = Some (json_text (pairs_json kvs))"
    by (simp add: json_stringify_def pairs_json_def)
  define cont :: "jsval \<Rightarrow> (unit, ('s, 'x) config_page_scheme) js" where "cont = (\<lambda>res. jbind (get_prop ''err'' res) (\<lambda>err.
      if truthy err then alert (''Error: '' @ to_str err)
      else jthen (alert ''Config updated successfully'') (jdetach (loadConfig refs srv))))"
  let ?send = "doAPIRequestWithAuth srv ''POST'' ''/api/v1/config/update'' (pairs_json kvs)"
  have save: "save_config refs srv w = jcatch (jbind ?send cont) report_error w"
    using assms by (simp add: save_config_def jbind_def jget_def cont_def)
  have rest: "keeps (sends_only P before) (cont res)" "keeps (sends_only P before) (report_error e)"
    if "\<And>r. P (refresh_request r)" "\<And>a. P (api_request ''GET'' ''/api/v1/config/load'' True a Undefined)" for P before res e
    unfolding cont_def report_error_def
    by (intro keeps_jbind keeps_get_prop keeps_if keeps_sends_silent keeps_jthen keeps_jdetach keeps_sends_load that)+
  show "sends_only (\<lambda>rq. rq_url rq = ''/api/v1/config/update'' \<longrightarrow>
           rq_method rq = ''POST'' \<and> rq_body rq = Some (json_text (pairs_json kvs))) (sent w) (snd (save_config refs srv w))"
    (is "sends_only ?P _ _")
  proof -
    have "keeps (sends_only ?P (sent w)) (jcatch (jbind ?send cont) report_error)"
      by (intro keeps_jcatch keeps_jbind keeps_sends_request rest) (simp_all add: refresh_request_def api_request_def body)
    then show ?thesis using sends_only_start [of ?P w] by (simp add: keeps_def save)
  qed
  show "sends_only (\<lambda>rq. rq_url rq \<noteq> ''/api/v1/config/update'') (sent w @ [save_request tok kvs]) (snd (save_config refs srv w))"
    if live: "live_token ''access_token'' tok w"
  proof -
    have "?send w = ajax srv (save_request tok kvs) w"
      by (simp add: doAPIRequestWithAuth_def live_request [OF live] api_request_def body save_request_def)
    then obtain out w1 where a: "?send w = (out, w1)" "sent w1 = sent w @ [save_request tok kvs]"
      using ajax_frame(4) by (metis prod.collapse)
    have "sends_only (\<lambda>rq. rq_url rq \<noteq> ''/api/v1/config/update'') (sent w @ [save_request tok kvs]) w1"
      unfolding a(2) [symmetric] by (rule sends_only_start)
    then show ?thesis
      unfolding save by (rule keeps_rest [where m = ?send and w = w, OF a(1)]) (intro rest; simp add: refresh_request_def api_request_def)+
  qed
qed

text \<open>
  C38. Loading the configuration and then saving the form untouched asks the server to store exactly the
  pairs it delivered, in their order, for every list of known keys whose values have no quotation
  mark, ampersand or line break. Whenever the form is saved, to whatever answers, every request to the
  update route carries just these pairs; while the access token is live that request is sent, once, as
  the first one and with this token.
\<close>

theorem config_load_save:
  fixes w :: "('s, 'x) config_page_scheme"
  assumes "doAPIRequestWithAuth srv ''GET'' ''/api/v1/config/load'' Undefined w
      = (Done (envelope Null (pairs_json kvs)), w1)"
    and "\<forall>kv \<in> set kvs. known_key (fst kv) \<and> plain_value (snd kv)"
    and "\<And>v. CHR ''&'' \<notin> set v \<Longrightarrow> refs v = v"
  shows "\<exists>w2. loadConfig refs srv w = (Done (), w2) \<and> form_pairs (form_rows w2) = Some kvs
     \<and> (\<forall>(srv' :: 's server) (w3 :: ('s, 'x) config_page_scheme). form_rows w3 = form_rows w2 \<longrightarrow>
          (\<exists>rqs. sent (snd (save_config refs srv' w3)) = sent w3 @ rqs
             \<and> (\<forall>rq \<in> set rqs. rq_url rq = ''/api/v1/config/update'' \<longrightarrow>
                  rq_method rq = ''POST'' \<and> rq_body rq = Some (json_text (pairs_json kvs)))
             \<and> (\<forall>tok. live_token ''access_token'' tok w3 \<longrightarrow>
                  (\<exists>others. rqs = save_request tok kvs # others \<and> (\<forall>rq \<in> set others. rq_url rq \<noteq> ''/api/v1/config/update'')))))"
proof -
  have load: "loadConfig refs srv w = (Done (), w1\<lparr>form_rows := map (row_of refs) kvs\<rparr>)"
    using loadConfig_known [OF assms(1)] assms(2) by blast
  have pairs: "form_pairs (map (row_of refs) kvs) = Some kvs" using form_pairs_rows [OF assms(2,3)] by simp
  show ?thesis
    unfolding load
  proof (intro exI [of _ "w1\<lparr>form_rows := map (row_of refs) kvs\<rparr>"] conjI allI impI)
    fix srv' :: "'s server" and w3 :: "('s, 'x) config_page_scheme"
    assume "form_rows w3 = form_rows (w1\<lparr>form_rows := map (row_of refs) kvs\<rparr>)"
    then have "form_pairs (form_rows w3) = Some kvs" using pairs by simp
    note s = save_config_sends [OF this, where refs = refs and srv = srv']
    from s(1) obtain rqs where r: "sent (snd (save_config refs srv' w3)) = sent w3 @ rqs"
        "\<forall>rq \<in> set rqs. rq_url rq = ''/api/v1/config/update'' \<longrightarrow>
           rq_method rq = ''POST'' \<and> rq_body rq = Some (json_text (pairs_json kvs))"
      by (auto simp: sends_only_def)
    have "\<exists>others. rqs = save_request tok kvs # others \<and> (\<forall>rq \<in> set others. rq_url rq \<noteq> ''/api/v1/config/update'')"
      if "live_token ''access_token'' tok w3" for tok
      using s(2) [OF that] by (auto simp: sends_only_def r(1))
    with r show "\<exists>rqs. sent (snd (save_config refs srv' w3)) = sent w3 @ rqs
             \<and> (\<forall>rq \<in> set rqs. rq_url rq = ''/api/v1/config/update'' \<longrightarrow>
                  rq_method rq = ''POST'' \<and> rq_body rq = Some (json_text (pairs_json kvs)))
             \<and> (\<forall>tok. live_token ''access_token'' tok w3 \<longrightarrow>
                  (\<exists>others. rqs = save_request tok kvs # others \<and> (\<forall>rq \<in> set others. rq_url rq \<noteq> ''/api/v1/config/update'')))"
      by - (rule exI [of _ rqs], blast)
  qed (simp_all add: pairs)
qed

theorem config_load_save_witness:
  "\<exists>w2 others. loadConfig id (pairs_server [(''FSD_SERVER_IDENT'', ''MY-FSD'')]) (config_page_for ()) = (Done (), w2)
     \<and> (let w3 = (config_page_for ())\<lparr>form_rows := form_rows w2\<rparr> in
        sent (snd (save_config id (pairs_server []) w3))
          = save_request (sample_token 5000) [(''FSD_SERVER_IDENT'', ''MY-FSD'')] # others)"
proof -
  let ?kvs = "[(''FSD_SERVER_IDENT'', ''MY-FSD'')]"
  obtain w1 where w1: "doAPIRequestWithAuth (pairs_server ?kvs) ''GET'' ''/api/v1/config/load'' Undefined (config_page_for ())
      = (Done (envelope Null (pairs_json ?kvs)), w1)"
    using pairs_server_load [of ?kvs "()"] by (elim exE conjE)
  have "\<forall>kv \<in> set ?kvs. known_key (fst kv) \<and> plain_value (snd kv)"
    by (simp add: known_key_def key_label_of_def keyLabels_def plain_value_def)
  from config_load_save [OF w1 this, where refs = id, OF id_apply] obtain w2 where
    w2: "loadConfig id (pairs_server ?kvs) (config_page_for ()) = (Done (), w2)" and
    save: "\<forall>(srv' :: unit server) (w3 :: unit config_page). form_rows w3 = form_rows w2 \<longrightarrow>
          (\<exists>rqs. sent (snd (save_config id srv' w3)) = sent w3 @ rqs
             \<and> (\<forall>rq \<in> set rqs. rq_url rq = ''/api/v1/config/update'' \<longrightarrow>
                  rq_method rq = ''POST'' \<and> rq_body rq = Some (json_text (pairs_json ?kvs)))
             \<and> (\<forall>tok. live_token ''access_token'' tok w3 \<longrightarrow>
                  (\<exists>others. rqs = save_request tok ?kvs # others \<and> (\<forall>rq \<in> set others. rq_url rq \<noteq> ''/api/v1/config/update''))))"
    by (elim exE conjE) (rule that)
  let ?w3 = "(config_page_for ())\<lparr>form_rows := form_rows w2\<rparr>"
  have "live_token ''access_token'' (sample_token 5000) ?w3" "sent ?w3 = []"
    using sample_tokens(1) [of None "()"]
    by (simp_all add: live_token_def config_page_for_def page.defs browser.defs sample_page_def now_seconds_def)
  moreover have "form_rows ?w3 = form_rows w2" by simp
  ultimately obtain others where "sent (snd (save_config id (pairs_server []) ?w3)) = save_request (sample_token 5000) ?kvs # others"
    using save [rule_format, of ?w3 "pairs_server []"] by auto
  with w2 show ?thesis unfolding Let_def by (intro exI conjI)
qed

text \<open>
  A stored value with a quotation mark does not survive the editor: after loading it, the form
  holds only what stands before the first mark, and saving sends that, whatever the rest is.
\<close>

theorem quoted_value_cut:
  assumes "doAPIRequestWithAuth srv ''GET'' ''/api/v1/config/load'' Undefined w
      = (Done (envelope Null (pairs_json [(k, a @ quote # b)])), w1)"
    and "known_key k" "plain_value a" "\<And>v. CHR ''&'' \<notin> set v \<Longrightarrow> refs v = v"
  shows "\<forall>sent_pairs. form_pairs (form_rows (snd (loadConfig refs srv w))) = Some sent_pairs
     \<longrightarrow> (\<forall>kv \<in> set sent_pairs. snd kv = a)"
proof -
  obtain l where l: "key_label_of k = Some l" using assms(2) by (auto simp: known_key_def)
  have load: "loadConfig refs srv w = (Done (), w1\<lparr>form_rows := [row_of refs (k, a @ quote # b)]\<rparr>)"
    using loadConfig_known [OF assms(1)] assms(2) by simp
  have "ci_value c = a" if "row_of refs (k, a @ quote # b) = Stored c" for c
    using stored_row_quote [OF l assms(4,3)] that by (simp add: row_of_def l)
  moreover have "row_of refs (k, a @ quote # b) \<noteq> New r" for r
    by (simp add: row_of_def l stored_row_def split: option.splits)
  ultimately show ?thesis
    unfolding load using known_keys(2)
    by (cases "row_of refs (k, a @ quote # b)") (auto simp: form_pairs_def split: option.splits)
qed

definition cut_message :: string where
  "cut_message = ''Say '' @ quote # ''hello'' @ [quote]"

theorem quoted_value_cut_witness:
  "form_pairs (form_rows (snd (loadConfig id (pairs_server [(''WELCOME_MESSAGE'', cut_message)]) (config_page_for ()))))
     = Some [(''WELCOME_MESSAGE'', ''Say '')]"
proof -
  let ?kvs = "[(''WELCOME_MESSAGE'', cut_message)]"
  obtain w1 where w1: "doAPIRequestWithAuth (pairs_server ?kvs) ''GET'' ''/api/v1/config/load'' Undefined (config_page_for ())
      = (Done (envelope Null (pairs_json ?kvs)), w1)"
    using pairs_server_load [of ?kvs "()"] by (elim exE conjE)
  have k: "known_key ''WELCOME_MESSAGE''" "plain_value ''Say ''"
    by (simp_all add: known_key_def key_label_of_def keyLabels_def plain_value_def)
  have "map_option (map fst) (form_pairs [row_of id (''WELCOME_MESSAGE'', cut_message)]) = Some [''WELCOME_MESSAGE'']"
    by code_simp
  then obtain v where v: "form_pairs [row_of id (''WELCOME_MESSAGE'', cut_message)] = Some [(''WELCOME_MESSAGE'', v)]"
    by (auto simp: map_eq_Cons_conv)
  have load: "loadConfig id (pairs_server ?kvs) (config_page_for ())
      = (Done (), w1\<lparr>form_rows := [row_of id (''WELCOME_MESSAGE'', cut_message)]\<rparr>)"
    using loadConfig_known [OF w1, of id] k(1) by (simp only: list.map list.set ball_simps fst_conv simp_thms)
  have cut: "pairs_json ?kvs = pairs_json [(''WELCOME_MESSAGE'', ''Say '' @ quote # (''hello'' @ [quote]))]"
    by (simp only: cut_message_def)
  have "\<forall>p. form_pairs (form_rows (snd (loadConfig id (pairs_server ?kvs) (config_page_for ())))) = Some p
      \<longrightarrow> (\<forall>kv \<in> set p. snd kv = ''Say '')"
    by (rule quoted_value_cut [OF _ k]) (rule w1 [unfolded cut] id_apply)+
  moreover have "form_pairs (form_rows (snd (loadConfig id (pairs_server ?kvs) (config_page_for ()))))
      = Some [(''WELCOME_MESSAGE'', v)]"
    unfolding load snd_conv form_rows_set by (rule v)
  ultimately show ?thesis by simp
qed

text \<open>
  A key the script does not know stops the loading: the rows before it are shown, an error is
  reported although the server answered, and the form then stands for the pairs before it
  only; the fallback to the bare key is never reached.
\<close>

theorem unknown_key_stops:
  assumes "doAPIRequestWithAuth srv ''GET'' ''/api/v1/config/load'' Undefined w
      = (Done (envelope Null (pairs_json (pre @ kv # post))), w1)"
    and "\<forall>kv \<in> set pre. known_key (fst kv) \<and> plain_value (snd kv)" "\<not> known_key (fst kv)"
    and "\<And>v. CHR ''&'' \<notin> set v \<Longrightarrow> refs v = v"
  shows "\<exists>w2. loadConfig refs srv w = (Done (), w2) \<and> form_pairs (form_rows w2) = Some pre
     \<and> alerts w2 = alerts w @ [''Error: An error occurred'']"
proof -
  have "alerts w1 = alerts w"
    using request_frame(2) [OF assms(1) [unfolded doAPIRequestWithAuth_def]] .
  moreover have "loadConfig refs srv w =
     (Done (), w1\<lparr>form_rows := map (row_of refs) pre, alerts := alerts w1 @ [''Error: An error occurred'']\<rparr>)"
    using loadConfig_unknown [OF assms(1) _ assms(3)] assms(2) by blast
  ultimately show ?thesis using form_pairs_rows [OF assms(2,4)] by simp
qed

theorem unknown_key_stops_witness:
  "\<exists>w2. loadConfig id (pairs_server ([(''FSD_SERVER_IDENT'', ''A'')] @ (''MOTD'', ''B'') # [])) (config_page_for ())
      = (Done (), w2) \<and> form_pairs (form_rows w2) = Some [(''FSD_SERVER_IDENT'', ''A'')]
     \<and> alerts w2 = alerts (config_page_for ()) @ [''Error: An error occurred'']"
proof -
  let ?kvs = "[(''FSD_SERVER_IDENT'', ''A'')] @ (''MOTD'', ''B'') # []"
  obtain w1 where w1: "doAPIRequestWithAuth (pairs_server ?kvs) ''GET'' ''/api/v1/config/load'' Undefined (config_page_for ())
      = (Done (envelope Null (pairs_json ?kvs)), w1)"
    using pairs_server_load [of ?kvs "()"] by (elim exE conjE)
  have "\<forall>kv \<in> set [(''FSD_SERVER_IDENT'', ''A'')]. known_key (fst kv) \<and> plain_value (snd kv)"
      "\<not> known_key (fst (''MOTD'', ''B''))"
    by (simp_all add: known_key_def key_label_of_def keyLabels_def plain_value_def)
  then show ?thesis
    by (rule unknown_key_stops [OF w1]) (rule id_apply)
qed

subsection \<open>Expiry dates\<close>

definition date_text :: "int \<Rightarrow> int \<Rightarrow> int \<Rightarrow> string" where
  "date_text y m d = pad 4 (nat y) @ CHR ''-'' # pad 2 (nat m) @ CHR ''-'' # pad 2 (nat d)"

lemma date_text_parts:
  assumes "0 \<le> y" "y \<le> 9999" "1 \<le> m" "m \<le> 12" "1 \<le> d" "d \<le> 31"
  shows "date_part (date_text y m d) 0 = Dec y 0" "date_part (date_text y m d) 1 = Dec m 0"
    "date_part (date_text y m d) 2 = Dec d 0"
proof -
  have "CHR ''-'' \<notin> set (pad k n)" for k n
    using pad_digits [of k n] by (auto simp: is_digit_def)
  then have "split_on (CHR ''-'') (date_text y m d) = [pad 4 (nat y), pad 2 (nat m), pad 2 (nat d)]"
    by (simp add: date_text_def split_on_append split_on_absent)
  moreover have "string_to_number (pad k (nat i)) = Dec i 0" if "0 \<le> i" "i \<le> 9999" for k i
    using that string_to_number_pad [of "nat i" k] by simp
  ultimately show "date_part (date_text y m d) 0 = Dec y 0" "date_part (date_text y m d) 1 = Dec m 0"
    "date_part (date_text y m d) 2 = Dec d 0"
    using assms by (simp_all add: date_part_def Let_def)
qed

lemma days_in_month_le:
  assumes "0 \<le> m" "m < 12"
  shows "days_in_month y m \<le> 31"
  using month_cases [OF assms]
  by (elim insertE emptyE; cases "leap_year y"; simp add: days_in_month_def month_start_def month_starts_def)

lemma day_range:
  assumes "100 \<le> y" "y \<le> 9999" "0 \<le> m" "m < 12" "1 \<le> d" "d \<le> days_in_month y m"
  shows "\<bar>make_day y m d * msPerDay\<bar> \<le> 8640000000000000"
proof -
  have "make_day y m d = day_from_year y + (month_start y m + d - 1)"
    using assms by (simp add: make_day_def Let_def)
  moreover have "0 \<le> month_start y m + d - 1" "month_start y m + d - 1 < (if leap_year y then 366 else 365)"
    using month_table [OF assms(3-6)] by simp_all
  moreover have "day_from_year 100 \<le> day_from_year y" "day_from_year y \<le> day_from_year 9999"
    using assms(1,2) by (simp_all add: day_from_year_mono)
  moreover have "day_from_year 100 = -683003" "day_from_year 9999 = 2932532"
    by (simp_all add: day_from_year_def)
  ultimately have "-683003 \<le> make_day y m d" "make_day y m d \<le> 2932898"
    by (auto split: if_splits)
  then show ?thesis by (simp add: msPerDay_def)
qed

text \<open>The expiry of a day of the calendar.\<close>

lemma expiry_of_day:
  assumes "100 \<le> y" "y \<le> 9999" "1 \<le> m" "m \<le> 12" "1 \<le> d" "d \<le> days_in_month y (m - 1)"
  shows "expiry_of to_local to_utc now (date_text y m d)
     = Expiry (Str (date_text y m d @ ''T00:00:00.000Z''))"
proof -
  have m: "0 \<le> m - 1" "m - 1 < 12" using assms(3,4) by simp_all
  have d31: "d \<le> 31" using assms(6) days_in_month_le [OF m, of y] by linarith
  note parts = date_text_parts [of y m d]
  have "date_text y m d \<noteq> []" by (simp add: date_text_def)
  moreover have "date_utc (Dec y 0) (Dec (m - 1) 0) (Dec d 0) = Some (make_day y (m - 1) d * msPerDay)"
    using day_range [OF assms(1,2) m assms(5,6)] assms(1,2,5) m
    by (simp add: date_utc_def full_year_def time_clip_def)
  moreover have "to_iso (make_day y (m - 1) d * msPerDay) = date_text y m d @ ''T00:00:00.000Z''"
    using to_iso_day [OF _ assms(2) m assms(5,6)] assms(1) by (simp add: date_text_def)
  ultimately show ?thesis
    using assms d31 by (simp add: expiry_of_def Let_def parts parts(2) [unfolded One_nat_def])
qed

text \<open>
  The date the user picks is the date the server is told: for every day of the calendar from
  the year 100 to 9999, the request carries midnight UTC of that very day.
\<close>

theorem expiry_is_picked_day:
  assumes "100 \<le> y" "y \<le> 9999" "1 \<le> m" "m \<le> 12" "1 \<le> d" "d \<le> days_in_month y (m - 1)"
  shows "expiry_of to_local to_utc now (date_text y m d)
     = Expiry (Str (date_text y m d @ ''T00:00:00.000Z''))"
  using assms by (rule expiry_of_day)

theorem expiry_is_picked_day_witness:
  "expiry_of id id 0 (date_text 2028 2 29) = Expiry (Str (date_text 2028 2 29 @ ''T00:00:00.000Z''))
   \<and> date_text 2028 2 29 = ''2028-02-29''"
proof
  have "(29::int) \<le> days_in_month 2028 (2 - 1)" by code_simp
  then show "expiry_of id id 0 (date_text 2028 2 29) = Expiry (Str (date_text 2028 2 29 @ ''T00:00:00.000Z''))"
    by (intro expiry_is_picked_day) simp_all
  show "date_text 2028 2 29 = ''2028-02-29''" by code_simp
qed

text \<open>
  Left blank, the expiry is a year away: in a zone with a fixed distance from UTC, 365 or 366
  days to the millisecond after the click, for every clock of the next three thousand years.
\<close>

theorem default_expiry_one_year:
  assumes "\<And>t. to_local t = t + off" "\<And>t. to_utc t = t - off"
    and "0 \<le> now" "now \<le> 100000000000000"
  shows "\<exists>days \<in> {365, 366}. expiry_of to_local to_utc now [] = Expiry (Str (to_iso (now + days * msPerDay)))"
proof -
  define d where "d = (now + off) div msPerDay"
  obtain days where days: "days \<in> {365, 366}"
      "make_day (year_from_day d + 1) (month_from_day d) (date_from_day d) = d + days"
    using next_year_distance [of d] by (metis diff_add_cancel add.commute)
  have "(d + days) * msPerDay + (now + off) mod msPerDay = now + off + days * msPerDay"
    unfolding d_def distrib_right using div_mult_mod_eq [of "now + off" msPerDay] by linarith
  then have "next_year to_local to_utc now = time_clip (now + days * msPerDay)"
    using days(2) by (simp add: next_year_def Let_def assms(1,2) d_def [symmetric])
  also have "\<dots> = Some (now + days * msPerDay)"
    using assms(3,4) days(1) by (auto simp: time_clip_def msPerDay_def)
  finally show ?thesis
    using days(1) by (auto simp: expiry_of_def)
qed

theorem default_expiry_one_year_witness:
  "\<exists>days \<in> {365, 366}. expiry_of (\<lambda>t. t + 3600000) (\<lambda>t. t - 3600000) 1709164800000 []
     = Expiry (Str (to_iso (1709164800000 + days * msPerDay)))"
  by (rule default_expiry_one_year [where off = 3600000]) simp_all

end
