(* ===== verification/Marker_Rotation.thy ===== *)
theory Marker_Rotation
  imports Browser
begin

text \<open>
  \<open>web/static/js/openfsd/leaflet.rotatedmarker.js\<close>: the marker plugin. An init hook fills in the
  rotation options of every new marker, and \<open>_setPos\<close> is wrapped so that each placement ends
  with the rotation. What Leaflet's own \<open>_setPos\<close> writes (a translation, or \<open>left\<close> and \<open>top\<close> in
  old browsers) is a parameter of the model.
\<close>

record rotation_options =
  rotationAngle :: jsval
  rotationOrigin :: jsval

text \<open>\<open>L.Marker.addInitHook\<close>. The anchor is \<open>undefined\<close> for a marker without an icon anchor.\<close>

definition init_rotation :: "(jsval \<times> jsval) option \<Rightarrow> rotation_options \<Rightarrow> rotation_options" where
  "init_rotation iconAnchor opts =
     (let anchor = (case iconAnchor of
                      None \<Rightarrow> Undefined
                    | Some (x, y) \<Rightarrow> Str (to_str x @ ''px '' @ to_str y @ ''px''))
      in opts\<lparr>rotationOrigin := js_or (rotationOrigin opts) (js_or anchor (Str ''center bottom'')),
              rotationAngle := js_or (rotationAngle opts) (JInt 0)\<rparr>)"

text \<open>The two style properties of the marker's icon the plugin writes.\<close>

record icon_style =
  transform :: string
  transform_origin :: string

definition applyRotation :: "bool \<Rightarrow> rotation_options \<Rightarrow> icon_style \<Rightarrow> icon_style" where
  "applyRotation oldIE opts st =
     (if truthy (rotationAngle opts) then
        (let st' = st\<lparr>transform_origin := to_str (rotationOrigin opts)\<rparr> in
         if oldIE then
           st'\<lparr>transform := ''rotate('' @ to_str (rotationAngle opts) @ ''deg)''\<rparr>
         else
           st'\<lparr>transform := transform st' @ '' rotateZ('' @ to_str (rotationAngle opts) @ ''deg)''\<rparr>)
      else st)"

definition setPos ::
    "('p \<Rightarrow> icon_style \<Rightarrow> icon_style) \<Rightarrow> bool \<Rightarrow> rotation_options \<Rightarrow> 'p \<Rightarrow> icon_style \<Rightarrow> icon_style" where
  "setPos proto_setPos oldIE opts pos st = applyRotation oldIE opts (proto_setPos pos st)"

text \<open>
  A marker: its options, the point it is at (none before it is on the map) and its icon's style.
  \<open>update\<close> is Leaflet's: it places the icon again where the marker is. While a marker is dragged
  Leaflet writes the new position itself and fires \<open>drag\<close>, which the init hook listens to.
\<close>

record 'p rotated =
  rm_options :: rotation_options
  rm_pos :: "'p option"
  rm_style :: icon_style

definition update_marker :: "('p \<Rightarrow> icon_style \<Rightarrow> icon_style) \<Rightarrow> bool \<Rightarrow> 'p rotated \<Rightarrow> 'p rotated" where
  "update_marker proto_setPos oldIE m =
     (case rm_pos m of
        None \<Rightarrow> m
      | Some p \<Rightarrow> m\<lparr>rm_style := setPos proto_setPos oldIE (rm_options m) p (rm_style m)\<rparr>)"

definition setRotationAngle ::
    "('p \<Rightarrow> icon_style \<Rightarrow> icon_style) \<Rightarrow> bool \<Rightarrow> jsval \<Rightarrow> 'p rotated \<Rightarrow> 'p rotated" where
  "setRotationAngle proto_setPos oldIE angle m =
     update_marker proto_setPos oldIE (m\<lparr>rm_options := (rm_options m)\<lparr>rotationAngle := angle\<rparr>\<rparr>)"

definition setRotationOrigin ::
    "('p \<Rightarrow> icon_style \<Rightarrow> icon_style) \<Rightarrow> bool \<Rightarrow> jsval \<Rightarrow> 'p rotated \<Rightarrow> 'p rotated" where
  "setRotationOrigin proto_setPos oldIE origin m =
     update_marker proto_setPos oldIE (m\<lparr>rm_options := (rm_options m)\<lparr>rotationOrigin := origin\<rparr>\<rparr>)"

definition on_drag ::
    "('p \<Rightarrow> icon_style \<Rightarrow> icon_style) \<Rightarrow> bool \<Rightarrow> 'p \<Rightarrow> 'p rotated \<Rightarrow> 'p rotated" where
  "on_drag write_position oldIE p m =
     m\<lparr>rm_pos := Some p, rm_style := applyRotation oldIE (rm_options m) (write_position p (rm_style m))\<rparr>"

definition move_to ::
    "('p \<Rightarrow> icon_style \<Rightarrow> icon_style) \<Rightarrow> bool \<Rightarrow> 'p \<Rightarrow> 'p rotated \<Rightarrow> 'p rotated" where
  "move_to proto_setPos oldIE p m = update_marker proto_setPos oldIE (m\<lparr>rm_pos := Some p\<rparr>)"

text \<open>What can happen to a marker on the map, in any order.\<close>

datatype 'p marker_event = Move 'p | Drag 'p | Turn jsval | Pivot jsval

fun marker_step :: "('p \<Rightarrow> icon_style \<Rightarrow> icon_style) \<Rightarrow> bool \<Rightarrow> 'p marker_event \<Rightarrow> 'p rotated \<Rightarrow> 'p rotated" where
  "marker_step proto oldIE (Move p) = move_to proto oldIE p"
| "marker_step proto oldIE (Drag p) = on_drag proto oldIE p"
| "marker_step proto oldIE (Turn a) = setRotationAngle proto oldIE a"
| "marker_step proto oldIE (Pivot x) = setRotationOrigin proto oldIE x"

text \<open>The picture a marker should give: at its point, turned once by its angle.\<close>

definition shown_right :: "('p \<Rightarrow> string) \<Rightarrow> 'p rotated \<Rightarrow> bool" where
  "shown_right translate m \<longleftrightarrow>
     (\<exists>p. rm_pos m = Some p \<and>
        transform (rm_style m) = translate p @
          (if truthy (rotationAngle (rm_options m))
           then '' rotateZ('' @ to_str (rotationAngle (rm_options m)) @ ''deg)'' else []) \<and>
        (truthy (rotationAngle (rm_options m)) \<longrightarrow>
           transform_origin (rm_style m) = to_str (rotationOrigin (rm_options m))))"

lemma marker_step_shown:
  assumes "\<And>p st. transform (proto p st) = translate p" "rm_pos m \<noteq> None"
  shows "shown_right translate (marker_step proto False e m)"
  using assms
  by (cases e) (auto simp: shown_right_def move_to_def on_drag_def setRotationAngle_def setRotationOrigin_def
      update_marker_def setPos_def applyRotation_def Let_def)

text \<open>
  C40. Rotations do not pile up. Where Leaflet's placement overwrites the transform, a marker on the
  map shows, after every sequence of moves, drags, turns and changes of the pivot, exactly its
  last position followed by one rotation by its current angle about its current origin.
\<close>

theorem marker_shown_right:
  assumes "\<And>p st. transform (proto p st) = translate p" "shown_right translate m"
  shows "shown_right translate (fold (marker_step proto False) es m)"
  using assms(2)
proof (induction es arbitrary: m)
  case (Cons e es)
  have "rm_pos m \<noteq> None"
    using Cons.prems by (auto simp: shown_right_def)
  then have "shown_right translate (marker_step proto False e m)"
    by (rule marker_step_shown [where proto = proto and translate = translate, OF assms(1)])
  with Cons.IH show ?case by simp
qed simp

definition place_at :: "string \<Rightarrow> icon_style \<Rightarrow> icon_style" where
  "place_at p st = st\<lparr>transform := ''translate3d('' @ p @ '')''\<rparr>"

definition sample_marker :: "string rotated" where
  "sample_marker =
     move_to place_at False ''1px''
       \<lparr>rm_options = init_rotation None \<lparr>rotationAngle = JInt 90, rotationOrigin = Undefined\<rparr>,
        rm_pos = None, rm_style = \<lparr>transform = [], transform_origin = []\<rparr>\<rparr>"

theorem marker_shown_right_witness:
  "shown_right (\<lambda>p. ''translate3d('' @ p @ '')'')
     (fold (marker_step place_at False) [Move ''2px'', Turn (JInt 45), Drag ''3px''] sample_marker)"
proof (rule marker_shown_right)
  show "transform (place_at p st) = ''translate3d('' @ p @ '')''" for p st
    by (simp add: place_at_def)
  show "shown_right (\<lambda>p. ''translate3d('' @ p @ '')'') sample_marker"
    by (auto simp: shown_right_def sample_marker_def move_to_def update_marker_def setPos_def applyRotation_def
        place_at_def Let_def)
qed

end
