(* ===== verification/Dashboard.thy ===== *)
theory Dashboard
  imports Dom Marker_Rotation
begin

text \<open>
  \<open>web/static/js/openfsd/dashboard.js\<close>: the dashboard. It shows who is logged in and refreshes a
  map of the connected pilots every 15 seconds. Of the map library the model keeps what the
  script relies on: the markers on the map, and the popup that is open (opening one closes the
  other, removing a marker closes its popup). A position must be a number; the data feed has
  nothing else there.
\<close>

record marker =
  mk_id :: nat
  mk_lat :: jsval
  mk_lon :: jsval
  mk_rotation :: rotation_options
  mk_title :: jsval
  mk_popup :: string

record 's dashboard = "'s page" +
  userNetworkRating :: jsval
  dashboardMarkers :: "marker list"
  map_layers :: "nat list"
  open_popup :: "nat option"
  next_id :: nat

definition kickUser :: "'s server \<Rightarrow> jsval \<Rightarrow> (unit, ('s, 'x) browser_scheme) js" where
  "kickUser srv callsign =
     jcatch
       (jthen (doAPIRequestWithAuth srv ''POST'' ''/api/v1/fsdconn/kickuser'' (Obj [(''callsign'', callsign)]))
          (alert ''User kicked successfully''))
       (\<lambda>_. alert ''Failed to kick user'')"

fun strict_eq_int :: "jsval \<Rightarrow> int \<Rightarrow> bool" where
  "strict_eq_int (Num (Dec m e)) i = (m = i * 10 ^ e)"
| "strict_eq_int _ i = False"

definition networkRatingFromInt :: "jsval \<Rightarrow> string" where
  "networkRatingFromInt v =
     (if strict_eq_int v (-1) then ''Inactive''
      else if strict_eq_int v 0 then ''Suspended''
      else if strict_eq_int v 1 then ''Observer''
      else if strict_eq_int v 2 then ''Student 1''
      else if strict_eq_int v 3 then ''Student 2''
      else if strict_eq_int v 4 then ''Student 3''
      else if strict_eq_int v 5 then ''Controller 1''
      else if strict_eq_int v 6 then ''Controller 2''
      else if strict_eq_int v 7 then ''Controller 3''
      else if strict_eq_int v 8 then ''Instructor 1''
      else if strict_eq_int v 9 then ''Instructor 2''
      else if strict_eq_int v 10 then ''Instructor 3''
      else if strict_eq_int v 11 then ''Supervisor''
      else if strict_eq_int v 12 then ''Administrator''
      else ''Unknown'')"

definition at_least :: "jsval \<Rightarrow> int \<Rightarrow> bool" where
  "at_least v i \<longleftrightarrow> num_ge (to_number v) (Dec i 0)"

text \<open>The two links for supervisors, with the line breaks and the indentation of the template.\<close>

definition html_link :: "string \<Rightarrow> string \<Rightarrow> string" where
  "html_link url label =
     ''<div class='' @ [quote] @ ''mb-2'' @ [quote] @ ''><a href='' @ [quote] @ url @ [quote] @ '' class=''
       @ [quote] @ ''btn btn-primary'' @ [quote] @ ''>'' @ label @ ''</a></div>''"

definition editor_links :: string where
  "editor_links =
     [CHR 0x0A] @ replicate 12 (CHR 0x20) @ html_link ''/usereditor'' ''Edit Users'' @
     [CHR 0x0A] @ replicate 12 (CHR 0x20) @ html_link ''/configeditor'' ''Configure Server'' @
     [CHR 0x0A] @ replicate 8 (CHR 0x20)"

definition loadUserInfo :: "'s server \<Rightarrow> jsval \<Rightarrow> (unit, ('s, 'x) dashboard_scheme) js" where
  "loadUserInfo srv cid =
     jbind (doAPIRequest srv ''POST'' ''/api/v1/user/load'' True (Obj [(''cid'', cid)])) (\<lambda>res.
     jbind (get_prop ''data'' res) (\<lambda>data.
     jbind (get_prop ''network_rating'' data) (\<lambda>rating.
     jthen (jput (\<lambda>w. w\<lparr>userNetworkRating := rating\<rparr>))
     (jbind (get_prop ''first_name'' data) (\<lambda>first_name.
     jthen (set_text ''dashboard-real-name'' ''textContent''
              (if first_name \<noteq> Str [] then ''Welcome, '' @ to_str first_name @ ''!'' else ''Welcome!''))
     (jthen (set_text ''dashboard-network-rating'' ''textContent'' (networkRatingFromInt rating))
     (jbind (get_prop ''cid'' data) (\<lambda>shown_cid.
     jthen (set_text ''dashboard-cid'' ''textContent'' (''CID: '' @ to_str shown_cid))
       (if at_least rating 11
        then set_text ''dashboard-user-editor'' ''innerHTML'' editor_links
        else jret ())))))))))"

text \<open>One pilot of the feed: a marker with its popup, on the map and in the list.\<close>

definition kick_button :: "jsval \<Rightarrow> string" where
  "kick_button callsign =
     ''<br><button onclick='' @ [quote] @ ''kickUser('' @ [CHR 0x27] @ to_str callsign @ [CHR 0x27] @ '')''
       @ [quote] @ ''>Kick</button>''"

definition popup_content :: "jsval \<Rightarrow> jsval \<Rightarrow> jsval \<Rightarrow> jsval \<Rightarrow> jsval \<Rightarrow> string" where
  "popup_content rating callsign name lat lon =
     ''<b>Callsign:</b> '' @ to_str callsign @ ''<br>'' @ to_str name @ ''<br>'' @ to_str lat @ '' '' @ to_str lon
     @ (if at_least rating 11 then kick_button callsign else [])"

fun is_position :: "jsval \<Rightarrow> bool" where
  "is_position (Num n) = (n \<noteq> NaN)"
| "is_position _ = False"

definition add_pilot :: "jsval list \<Rightarrow> jsval \<Rightarrow> (unit, ('s, 'x) dashboard_scheme) js" where
  "add_pilot openCallsigns pilot =
     jbind (get_prop ''callsign'' pilot) (\<lambda>callsign.
     jbind (get_prop ''latitude'' pilot) (\<lambda>lat.
     jbind (get_prop ''longitude'' pilot) (\<lambda>lon.
     jbind (get_prop ''heading'' pilot) (\<lambda>heading.
     jbind (get_prop ''name'' pilot) (\<lambda>name.
       if \<not> is_position lat \<or> \<not> is_position lon then jthrow (Error ''Invalid LatLng object'')
       else jput (\<lambda>w.
         let m = \<lparr>mk_id = next_id w, mk_lat = lat, mk_lon = lon,
                  mk_rotation = init_rotation (Some (JInt 8, JInt 8))
                    \<lparr>rotationAngle = heading, rotationOrigin = Str ''center center''\<rparr>,
                  mk_title = callsign,
                  mk_popup = popup_content (userNetworkRating w) callsign name lat lon\<rparr>
         in w\<lparr>next_id := Suc (next_id w),
              map_layers := map_layers w @ [mk_id m],
              dashboardMarkers := dashboardMarkers w @ [m],
              open_popup := (if callsign \<in> set openCallsigns then Some (mk_id m) else open_popup w)\<rparr>))))))"

definition remove_marker :: "marker \<Rightarrow> ('s, 'x) dashboard_scheme \<Rightarrow> ('s, 'x) dashboard_scheme" where
  "remove_marker m w =
     w\<lparr>map_layers := filter (\<lambda>i. i \<noteq> mk_id m) (map_layers w),
       open_popup := (if open_popup w = Some (mk_id m) then None else open_popup w)\<rparr>"

definition open_callsigns :: "('s, 'x) dashboard_scheme \<Rightarrow> jsval list" where
  "open_callsigns w =
     map mk_title (filter (\<lambda>m. open_popup w = Some (mk_id m)) (dashboardMarkers w))"

definition feed_request :: request where
  "feed_request =
     \<lparr>rq_method = ''GET'', rq_url = ''/api/v1/data/openfsd-data.json'', rq_auth = None, rq_body = None\<rparr>"

definition populateMap :: "'s server \<Rightarrow> (unit, ('s, 'x) dashboard_scheme) js" where
  "populateMap srv =
     jcatch
       (jbind (ajax srv feed_request) (\<lambda>res.
        jbind (jget open_callsigns) (\<lambda>openCallsigns.
        jthen (jput (\<lambda>w. (fold remove_marker (dashboardMarkers w) w)\<lparr>dashboardMarkers := []\<rparr>))
        (jbind (jbind (get_prop ''pilots'' res) elements) (\<lambda>pilots.
        jthen (jforeach (add_pilot openCallsigns) pilots)
        (jbind (jget (\<lambda>w. length (dashboardMarkers w))) (\<lambda>n.
          set_text ''dashboard-connection-count'' ''textContent'' (show_nat n))))))))
       (\<lambda>_. jret ())"

text \<open>The ready handler: who is logged in, then the first map; the timer calls the rest.\<close>

definition dashboard_ready :: "'s server \<Rightarrow> (unit, ('s, 'x) dashboard_scheme) js" where
  "dashboard_ready srv =
     jbind getAccessTokenClaims (\<lambda>claims.
     jbind (get_prop ''cid'' claims) (\<lambda>cid.
     jthen (loadUserInfo srv cid) (populateMap srv)))"


subsection \<open>The invariant of the map\<close>

text \<open>
  The layers on the map are those of the list, in order, without repetition; fresh ids are
  fresh; a popup is open on a marker of the list only.
\<close>

definition dash_ok :: "('s, 'x) dashboard_scheme \<Rightarrow> bool" where
  "dash_ok w \<longleftrightarrow>
     map_layers w = map mk_id (dashboardMarkers w) \<and> distinct (map_layers w) \<and>
     (\<forall>i \<in> set (map_layers w). i < next_id w) \<and>
     (\<forall>i. open_popup w = Some i \<longrightarrow> i \<in> set (map_layers w))"

lemma dash_ok_frame:
  fixes w w' :: "('s, 'x) dashboard_scheme"
  assumes "browser.more w' = browser.more w"
  shows "map_layers w' = map_layers w" "dashboardMarkers w' = dashboardMarkers w"
    "next_id w' = next_id w" "open_popup w' = open_popup w"
    "userNetworkRating w' = userNetworkRating w" "texts w' = texts w"
  using assms by (cases w; cases w'; simp)+


lemma add_pilot_keeps_dash_ok: "keeps dash_ok (add_pilot opened p)"
  unfolding add_pilot_def
  by (intro keeps_jbind keeps_get_prop)
    (auto simp: dash_ok_def Let_def less_Suc_eq intro!: keeps_jthrow keeps_jput split: if_splits, metis less_irrefl, metis less_irrefl)

lemma fold_remove_marker:
  "map_layers (fold remove_marker ms w) = filter (\<lambda>i. i \<notin> mk_id ` set ms) (map_layers w)"
  "open_popup (fold remove_marker ms w) =
     (case open_popup w of None \<Rightarrow> None | Some i \<Rightarrow> if i \<in> mk_id ` set ms then None else Some i)"
  "next_id (fold remove_marker ms w) = next_id w"
  "userNetworkRating (fold remove_marker ms w) = userNetworkRating w"
  "texts (fold remove_marker ms w) = texts w"
  "dashboardMarkers (fold remove_marker ms w) = dashboardMarkers w"
  by (induction ms arbitrary: w)
    (auto simp: remove_marker_def split: option.splits intro!: filter_cong)

definition clear_map :: "('s, 'x) dashboard_scheme \<Rightarrow> ('s, 'x) dashboard_scheme" where
  "clear_map w = (fold remove_marker (dashboardMarkers w) w)\<lparr>dashboardMarkers := []\<rparr>"

lemma clear_map_ok:
  assumes "dash_ok w"
  shows "map_layers (clear_map w) = []" "dashboardMarkers (clear_map w) = []"
    "open_popup (clear_map w) = None" "next_id (clear_map w) = next_id w" "dash_ok (clear_map w)"
    "userNetworkRating (clear_map w) = userNetworkRating w"
  using assms by (auto simp: clear_map_def fold_remove_marker dash_ok_def split: option.splits)

lemma dash_ok_texts [simp]: "dash_ok (w\<lparr>texts := t\<rparr>) = dash_ok w"
  by (simp add: dash_ok_def)


subsection \<open>What a refresh shows\<close>

text \<open>The marker a pilot of the feed is to have, and the pilots the map can show.\<close>

fun field :: "string \<Rightarrow> jsval \<Rightarrow> jsval" where
  "field k (Obj kvs) = obj_get k kvs"
| "field k _ = Undefined"

fun pilot_ok :: "jsval \<Rightarrow> bool" where
  "pilot_ok (Obj kvs) \<longleftrightarrow> is_position (obj_get ''latitude'' kvs) \<and> is_position (obj_get ''longitude'' kvs)"
| "pilot_ok _ \<longleftrightarrow> False"

definition pilot_marker :: "jsval \<Rightarrow> nat \<Rightarrow> jsval \<Rightarrow> marker" where
  "pilot_marker rating i p =
     \<lparr>mk_id = i, mk_lat = field ''latitude'' p, mk_lon = field ''longitude'' p,
      mk_rotation = init_rotation (Some (JInt 8, JInt 8))
        \<lparr>rotationAngle = field ''heading'' p, rotationOrigin = Str ''center center''\<rparr>,
      mk_title = field ''callsign'' p,
      mk_popup = popup_content rating (field ''callsign'' p) (field ''name'' p)
        (field ''latitude'' p) (field ''longitude'' p)\<rparr>"

lemma add_pilot_ok:
  assumes "pilot_ok p"
  shows "add_pilot opened p w =
     (Done (), w\<lparr>next_id := Suc (next_id w), map_layers := map_layers w @ [next_id w],
        dashboardMarkers := dashboardMarkers w @ [pilot_marker (userNetworkRating w) (next_id w) p],
        open_popup := (if field ''callsign'' p \<in> set opened then Some (next_id w) else open_popup w)\<rparr>)"
  using assms by (cases p) (simp_all add: add_pilot_def js_monad pilot_marker_def Let_def)

lemma add_pilots_ok:
  assumes "\<forall>p \<in> set ps. pilot_ok p"
  shows "\<exists>w'. jforeach (add_pilot opened) ps w = (Done (), w') \<and>
     dashboardMarkers w' = dashboardMarkers w @ map2 (pilot_marker (userNetworkRating w)) [next_id w ..< next_id w + length ps] ps \<and>
     texts w' = texts w"
  using assms
proof (induction ps arbitrary: w)
  case Nil
  then show ?case by (simp add: jret_def)
next
  case (Cons p ps)
  obtain w1 where w1: "add_pilot opened p w = (Done (), w1)" "next_id w1 = Suc (next_id w)"
      "userNetworkRating w1 = userNetworkRating w" "texts w1 = texts w"
      "dashboardMarkers w1 = dashboardMarkers w @ [pilot_marker (userNetworkRating w) (next_id w) p]"
    using add_pilot_ok [of p opened w] Cons.prems by simp
  have up: "[next_id w ..< next_id w + length (p # ps)] =
      next_id w # [next_id w1 ..< next_id w1 + length ps]"
    by (simp add: w1(2) upt_conv_Cons del: upt_Suc)
  show ?case
    using Cons.IH [of w1] Cons.prems by (simp only: up) (auto simp: jthen_def jbind_def w1)
qed

text \<open>The popup after the pilots are added: on the last one whose callsign was open.\<close>

lemma add_pilots_popup:
  assumes "\<forall>p \<in> set ps. pilot_ok p" "dash_ok w" "jforeach (add_pilot opened) ps w = (Done (), w')"
  shows "open_callsigns w' =
     (case filter (\<lambda>c. c \<in> set opened) (map (field ''callsign'') ps) of
        [] \<Rightarrow> open_callsigns w | cs \<Rightarrow> [last cs])"
  using assms
proof (induction ps arbitrary: w)
  case Nil
  then show ?case by (simp add: jret_def)
next
  case (Cons p ps)
  obtain w1 where w1: "add_pilot opened p w = (Done (), w1)" "dash_ok w1"
    using add_pilot_ok [of p opened w] Cons.prems(1,2) add_pilot_keeps_dash_ok [THEN keepsD]
    by (metis list.set_intros(1))
  have fresh: "\<And>m. m \<in> set (dashboardMarkers w) \<Longrightarrow> mk_id m \<noteq> next_id w"
    using Cons.prems(2) by (fastforce simp: dash_ok_def)
  have open1: "open_callsigns w1 = (if field ''callsign'' p \<in> set opened then [field ''callsign'' p] else open_callsigns w)"
    using w1(1) Cons.prems(1,2) fresh
    by (fastforce simp: add_pilot_ok open_callsigns_def pilot_marker_def filter_empty_conv dash_ok_def)
  show ?case
    using Cons.IH [of w1] Cons.prems(1,3) w1 open1
    by (auto simp: jthen_def jbind_def split: list.splits)
qed

lemma open_callsigns_single:
  assumes "dash_ok w"
  shows "open_callsigns w = [] \<or> (\<exists>c. open_callsigns w = [c])"
proof -
  have "length (filter (\<lambda>m. open_popup w = Some (mk_id m)) ms) \<le> 1"
    if "distinct (map mk_id ms)" for ms
    using that by (induction ms) (auto simp: filter_empty_conv image_iff)
  then have "length (open_callsigns w) \<le> 1"
    using assms unfolding dash_ok_def open_callsigns_def length_map by metis
  then show ?thesis by (cases "open_callsigns w") auto
qed

lemma clear_map_texts: "texts (clear_map w) = texts w"
  by (simp add: clear_map_def fold_remove_marker)




lemma filter_last: "cs = filter P xs \<Longrightarrow> cs \<noteq> [] \<Longrightarrow> P (last cs) \<and> last cs \<in> set xs"
  using last_in_set by fastforce

lemma last_of_equal:
  "(case filter (\<lambda>c. c = a) xs of [] \<Rightarrow> ys | c # cs \<Rightarrow> [last (c # cs)]) = (if a \<in> set xs then [a] else ys)"
proof (cases "a \<in> set xs")
  case True
  then have "filter (\<lambda>c. c = a) xs \<noteq> []" by (auto simp: filter_empty_conv)
  then show ?thesis
    using filter_last [OF refl, of "\<lambda>c. c = a" xs] True
    by (cases "filter (\<lambda>c. c = a) xs") (simp_all only: list.case if_True, blast)
next
  case False
  then have "filter (\<lambda>c. c = a) xs = []" by (auto simp: filter_empty_conv)
  then show ?thesis using False by simp
qed


text \<open>The feed as the server sends it: an object with a list of pilots.\<close>

definition feed_answer :: "'s server \<Rightarrow> 's \<Rightarrow> jsval list \<Rightarrow> bool" where
  "feed_answer srv s pilots \<longleftrightarrow>
     (case srv s feed_request of
        (Response status _ body, _, _) \<Rightarrow>
          200 \<le> status \<and> status < 300 \<and> status \<noteq> 204 \<and>
          (case json_parse body of
             Some (Obj kvs) \<Rightarrow> obj_get ''pilots'' kvs = Arr pilots
           | _ \<Rightarrow> False)
      | _ \<Rightarrow> False)"

lemma feed_answer_ajax:
  assumes "feed_answer srv (backend w) pilots"
  shows "\<exists>w1 kvs. ajax srv feed_request w = (Done (Obj kvs), w1) \<and> obj_get ''pilots'' kvs = Arr pilots \<and>
     browser.more w1 = browser.more w"
  using assms
  by (auto simp: feed_answer_def ajax_def Let_def split: prod.splits response.splits option.splits jsval.splits)

lemma populateMap_offline:
  assumes "srv (backend w) feed_request = (NoResponse, ms, s')"
  shows "\<exists>w'. populateMap srv w = (Done (), w') \<and> browser.more w' = browser.more w"
proof -
  obtain out w1 where a: "ajax srv feed_request w = (out, w1)" by fastforce
  with assms have "out = Throw (Xhr Undefined ''error'')" by (simp add: ajax_def Let_def)
  then show ?thesis
    using a ajax_frame [OF a] by (auto simp: populateMap_def js_monad)
qed

text \<open>For the witnesses: a page with an empty map, and a server with one pilot.\<close>

definition empty_map :: "'s \<Rightarrow> 's dashboard" where
  "empty_map s =
     page.extend (browser.extend (sample_page None None s) (page.fields (\<lambda>_ _. []) (\<lambda>_ _. False)))
       (dashboard.fields (JInt 12) [] [] None 0)"

definition sample_pilot :: jsval where
  "sample_pilot = Obj [(''callsign'', Str ''AAL1''), (''name'', Str ''Ann''),
     (''latitude'', Num (Dec 4064 2)), (''longitude'', Num (Dec (-7378) 2)), (''heading'', JInt 90)]"

definition one_pilot_server :: "'s server" where
  "one_pilot_server s rq = (Response 200 ''OK'' (json_text (Obj [(''pilots'', Arr [sample_pilot])])), 0, s)"

lemma empty_map_ok: "dash_ok (empty_map s)"
  by (simp add: empty_map_def dash_ok_def page.defs browser.defs dashboard.defs)

lemma one_pilot_feed: "feed_answer one_pilot_server s [sample_pilot]"
proof -
  let ?v = "Obj [(''pilots'', Arr [sample_pilot])]"
  have "json_parse (json_text ?v) = Some ?v"
    by (rule json.dec_enc) (simp add: sample_pilot_def)
  then show ?thesis
    by (simp add: feed_answer_def one_pilot_server_def obj_get_def)
qed



lemma refreshed_map:
  fixes w :: "('s, 'x) dashboard_scheme"
  assumes "dash_ok w" "feed_answer srv (backend w) pilots" "\<forall>p \<in> set pilots. pilot_ok p"
  shows "\<exists>w'. populateMap srv w = (Done (), w') \<and>
     dashboardMarkers w' = map2 (pilot_marker (userNetworkRating w)) [next_id w ..< next_id w + length pilots] pilots \<and>
     open_callsigns w' = filter (\<lambda>c. c \<in> field ''callsign'' ` set pilots) (open_callsigns w) \<and>
     texts w' = upd2 ''dashboard-connection-count'' ''textContent'' (show_nat (length pilots)) (texts w)"
proof -
  obtain w1 kvs where a: "ajax srv feed_request w = (Done (Obj kvs), w1)"
      "obj_get ''pilots'' kvs = Arr pilots" "browser.more w1 = browser.more w"
    using feed_answer_ajax [OF assms(2)] by blast
  note same = dash_ok_frame [OF a(3)]
  have ok1: "dash_ok w1" and open1: "open_callsigns w1 = open_callsigns w"
    using assms(1) unfolding dash_ok_def open_callsigns_def same by auto
  let ?w2 = "clear_map w1"
  note cleared = clear_map_ok [OF ok1]
  obtain w3 where f: "jforeach (add_pilot (open_callsigns w)) pilots ?w2 = (Done (), w3)"
      "dashboardMarkers w3 = map2 (pilot_marker (userNetworkRating w)) [next_id w ..< next_id w + length pilots] pilots"
      "texts w3 = texts w"
    using add_pilots_ok [OF assms(3), of "open_callsigns w" ?w2]
    by (auto simp: cleared clear_map_texts same)
  have "open_callsigns ?w2 = []"
    by (simp add: open_callsigns_def cleared)
  then have "open_callsigns w3 = filter (\<lambda>c. c \<in> field ''callsign'' ` set pilots) (open_callsigns w)"
    using add_pilots_popup [OF assms(3) cleared(5) f(1)] open_callsigns_single [OF assms(1)]
    by (auto simp: last_of_equal)
  then show ?thesis
    using f
    by (simp add: populateMap_def clear_map_def [symmetric] jbind_def jthen_def jcatch_def jput_def jget_def
        jret_def a open1 set_text_def) (simp add: open_callsigns_def)
qed

text \<open>
  A refresh shows the feed: one marker per pilot, in the feed's order, at its position, turned
  to its heading, with its popup (which has the kick button for a supervisor only); the count
  is their number; and the popup that was open is open again on the new marker of the same
  callsign, unless that pilot has left.
\<close>

theorem populateMap_refreshed:
  fixes w :: "('s, 'x) dashboard_scheme"
  assumes "dash_ok w" "feed_answer srv (backend w) pilots" "\<forall>p \<in> set pilots. pilot_ok p"
  shows "\<exists>w'. populateMap srv w = (Done (), w') \<and>
     dashboardMarkers w' = map2 (pilot_marker (userNetworkRating w)) [next_id w ..< next_id w + length pilots] pilots \<and>
     open_callsigns w' = filter (\<lambda>c. c \<in> field ''callsign'' ` set pilots) (open_callsigns w) \<and>
     texts w' = upd2 ''dashboard-connection-count'' ''textContent'' (show_nat (length pilots)) (texts w)"
  by (rule refreshed_map [OF assms])

theorem populateMap_refreshed_witness:
  "\<exists>w'. populateMap one_pilot_server (empty_map ()) = (Done (), w') \<and>
     map mk_title (dashboardMarkers w') = [Str ''AAL1''] \<and>
     texts w' ''dashboard-connection-count'' ''textContent'' = ''1''"
proof -
  have pilot: "\<forall>p \<in> set [sample_pilot]. pilot_ok p"
    by (simp add: sample_pilot_def obj_get_def)
  have "show_nat 1 = ''1''" "field ''callsign'' sample_pilot = Str ''AAL1''"
    by code_simp+
  with populateMap_refreshed [OF empty_map_ok one_pilot_feed pilot] show ?thesis
    by (fastforce simp: pilot_marker_def)
qed

text \<open>
  When the server cannot be reached, the old picture stays: markers, layers, popup and count
  are what they were, and no alert interrupts the user.
\<close>

theorem populateMap_keeps_picture:
  fixes w :: "('s, 'x) dashboard_scheme"
  assumes "srv (backend w) feed_request = (NoResponse, ms, s')"
  shows "\<exists>w'. populateMap srv w = (Done (), w') \<and> dashboardMarkers w' = dashboardMarkers w \<and>
     map_layers w' = map_layers w \<and> open_popup w' = open_popup w \<and> texts w' = texts w"
  using populateMap_offline [where srv = srv and w = w, OF assms] dash_ok_frame [where w = w] by metis

theorem populateMap_keeps_picture_witness:
  "\<exists>w'. populateMap silent_server (empty_map ()) = (Done (), w') \<and> dashboardMarkers w' = []"
proof -
  have "silent_server (backend (empty_map ())) feed_request = (NoResponse, 0, ())"
    by (simp add: silent_server_def)
  from populateMap_keeps_picture [where srv = silent_server and w = "empty_map ()", OF this] show ?thesis
    by (auto simp: empty_map_def page.defs browser.defs dashboard.defs)
qed

subsection \<open>The user's panel and the kick button\<close>

definition rating_names :: "string list" where
  "rating_names =
     [''Inactive'', ''Suspended'', ''Observer'', ''Student 1'', ''Student 2'', ''Student 3'', ''Controller 1'',
      ''Controller 2'', ''Controller 3'', ''Instructor 1'', ''Instructor 2'', ''Instructor 3'', ''Supervisor'',
      ''Administrator'']"

lemma networkRatingFromInt_names:
  assumes "-1 \<le> i" "i \<le> 12"
  shows "networkRatingFromInt (JInt i) = rating_names ! nat (i + 1)"
proof -
  have "i \<in> {-1, 0, 1, 2, 3, 4, 5, 6, 7, 8, 9, 10, 11, 12}"
    using assms unfolding insert_iff empty_iff by presburger
  then show ?thesis
    by (elim insertE emptyE) (simp_all add: networkRatingFromInt_def rating_names_def)
qed

lemma at_least_int [simp]: "at_least (JInt i) k \<longleftrightarrow> i \<ge> k"
  by (simp add: at_least_def)

text \<open>
  After the login page's redirect the panel greets the user by first name, shows the rating's
  name and the CID, and gives the links to the editors to ratings from 11 on and to no other
  (for others the place stays as it was).
\<close>

theorem loadUserInfo_panel:
  assumes "doAPIRequest srv ''POST'' ''/api/v1/user/load'' True (Obj [(''cid'', cid)]) w
        = (Done (envelope Null (user_json c fn ln nr)), w1)"
    and "\<bar>c\<bar> < 10 ^ 21" "-1 \<le> nr" "nr \<le> 12"
  shows "\<exists>w2. loadUserInfo srv cid w = (Done (), w2)
     \<and> userNetworkRating w2 = JInt nr
     \<and> texts w2 ''dashboard-real-name'' ''textContent''
         = (if fn = [] then ''Welcome!'' else ''Welcome, '' @ fn @ ''!'')
     \<and> texts w2 ''dashboard-network-rating'' ''textContent'' = rating_names ! nat (nr + 1)
     \<and> texts w2 ''dashboard-cid'' ''textContent'' = ''CID: '' @ show_int c
     \<and> texts w2 ''dashboard-user-editor'' ''innerHTML''
         = (if nr \<ge> 11 then editor_links else texts w ''dashboard-user-editor'' ''innerHTML'')"
  using assms(2) request_frame(3) [OF assms(1)]
  by (simp add: loadUserInfo_def js_monad assms(1) set_text_def user_json_def obj_get_def upd2_def
      networkRatingFromInt_names [OF assms(3,4)] number_to_string_int del: number_to_string.simps)

definition user_panel :: "unit dashboard" where
  "user_panel =
     browser.extend (sample_page (Some (sample_token 5000)) None ()) (browser.more (empty_map ()))"

theorem loadUserInfo_panel_witness:
  "texts (snd (loadUserInfo one_user_server (JInt 7) user_panel)) ''dashboard-network-rating'' ''textContent''
     = ''Student 2''"
proof -
  let ?rq = "doAPIRequest one_user_server ''POST'' ''/api/v1/user/load'' True (Obj [(''cid'', JInt 7)]) user_panel"
  have "live_token ''access_token'' (sample_token 5000) user_panel"
    using sample_tokens(1) [of None "()"]
    by (simp add: live_token_def user_panel_def browser.defs sample_page_def now_seconds_def)
  then have "fst ?rq = Done (envelope Null (user_json 7 ''Ann'' ''Lee'' 3))"
    by (simp add: live_request one_user_ajax)
  then obtain w1 where rq: "?rq = (Done (envelope Null (user_json 7 ''Ann'' ''Lee'' 3)), w1)"
    by (cases ?rq) simp
  from loadUserInfo_panel [OF rq] show ?thesis by (auto simp: rating_names_def)
qed

text \<open>
  The kick button: the user is told of success exactly when the server accepted the request,
  and of failure exactly when it refused; with an ended session neither is shown.
\<close>

theorem kickUser_outcome:
  assumes "doAPIRequestWithAuth srv ''POST'' ''/api/v1/fsdconn/kickuser'' (Obj [(''callsign'', callsign)]) w = (out, w1)"
  shows "kickUser srv callsign w =
     (case out of
        Done _ \<Rightarrow> (Done (), w1\<lparr>alerts := alerts w @ [''User kicked successfully'']\<rparr>)
      | Throw _ \<Rightarrow> (Done (), w1\<lparr>alerts := alerts w @ [''Failed to kick user'']\<rparr>)
      | Hang \<Rightarrow> (Hang, w1))"
  using request_frame(2) [OF assms [unfolded doAPIRequestWithAuth_def]]
  by (simp add: kickUser_def js_monad assms alert_def split: outcome.splits)

theorem kickUser_outcome_witness:
  "alerts (snd (kickUser one_user_server (Str ''AAL1'') user_panel)) = [''User kicked successfully'']"
proof -
  let ?rq = "doAPIRequestWithAuth one_user_server ''POST'' ''/api/v1/fsdconn/kickuser''
      (Obj [(''callsign'', Str ''AAL1'')]) user_panel"
  obtain out w1 where rq: "?rq = (out, w1)" by fastforce
  have "live_token ''access_token'' (sample_token 5000) user_panel"
    using sample_tokens(1) [of None "()"]
    by (simp add: live_token_def user_panel_def browser.defs sample_page_def now_seconds_def)
  then have "out = Done (envelope Null (user_json 7 ''Ann'' ''Lee'' 3))"
    using rq by (simp add: doAPIRequestWithAuth_def live_request) (metis fst_conv one_user_ajax)
  then show ?thesis
    using kickUser_outcome [OF rq] by (simp add: user_panel_def sample_page_def browser.defs)
qed

end
