(* ===== verification/Go_Lib.thy ===== *)
theory Go_Lib
  imports Encodings
begin

text \<open>
  What the web server's Go code shares: decoding a request body into a struct (the standard
  library's \<open>encoding/json\<close>), the claims of a token, and the third-party operations the server
  calls, as a record of parameters: bcrypt, the JSON web tokens, random numbers, and the
  checks of the \<open>binding\<close> tags. \<open>lib_ok\<close> is what their documentation promises.

  An \<open>int\<close> of the program is a 64-bit number; it is an \<open>int\<close> here, and what is read from outside
  is checked to be in range.
\<close>

subsection \<open>Reading a body\<close>

text \<open>
  The decoder reads one JSON value and ignores what follows it. A member sets the field of its
  name, whatever the case of its letters; the last one counts. \<open>null\<close> leaves a field as it is,
  and a value of another type is an error.
\<close>

definition read_body :: "string option \<Rightarrow> jsval option" where
  "read_body body =
     (case body of
        None \<Rightarrow> None
      | Some s \<Rightarrow> map_option fst (parse_value (Suc (length s)) s))"

definition members :: "string \<Rightarrow> (string \<times> jsval) list \<Rightarrow> jsval list" where
  "members k kvs = map snd (filter (\<lambda>kv. ascii_lower (fst kv) = k) kvs)"

definition int64 :: "int \<Rightarrow> bool" where
  "int64 i \<longleftrightarrow> - (2 ^ 63) \<le> i \<and> i < 2 ^ 63"

text \<open>
  Setting a field of a struct. For an integer the value counts here, while Go's decoder also refuses other
  spellings of an integer, such as \<open>1e2\<close>; no client modelled here sends one.
\<close>

fun set_int :: "jsval \<Rightarrow> int \<Rightarrow> int option" where
  "set_int Null i = Some i"
| "set_int (Num (Dec m e)) i = (if e = 0 \<and> int64 m then Some m else None)"
| "set_int _ i = None"

fun set_string :: "jsval \<Rightarrow> string \<Rightarrow> string option" where
  "set_string Null s = Some s"
| "set_string (Str t) s = Some t"
| "set_string _ s = None"

fun set_bool :: "jsval \<Rightarrow> bool \<Rightarrow> bool option" where
  "set_bool Null b = Some b"
| "set_bool (Bool c) b = Some c"
| "set_bool _ b = None"

text \<open>A pointer field is set to \<open>nil\<close> by \<open>null\<close>.\<close>

fun set_ptr :: "(jsval \<Rightarrow> 'a \<Rightarrow> 'a option) \<Rightarrow> 'a \<Rightarrow> jsval \<Rightarrow> 'a option \<Rightarrow> 'a option option" where
  "set_ptr f zero Null p = Some None"
| "set_ptr f zero v p = map_option Some (f v (case p of None \<Rightarrow> zero | Some a \<Rightarrow> a))"

fun decode_all :: "(jsval \<Rightarrow> 'a \<Rightarrow> 'a option) \<Rightarrow> jsval list \<Rightarrow> 'a \<Rightarrow> 'a option" where
  "decode_all f [] a = Some a"
| "decode_all f (v # vs) a = Option.bind (f v a) (decode_all f vs)"

definition int_field :: "string \<Rightarrow> (string \<times> jsval) list \<Rightarrow> int option" where
  "int_field k kvs = decode_all set_int (members k kvs) 0"

definition string_field :: "string \<Rightarrow> (string \<times> jsval) list \<Rightarrow> string option" where
  "string_field k kvs = decode_all set_string (members k kvs) []"

definition bool_field :: "string \<Rightarrow> (string \<times> jsval) list \<Rightarrow> bool option" where
  "bool_field k kvs = decode_all set_bool (members k kvs) False"

definition string_ptr_field :: "string \<Rightarrow> (string \<times> jsval) list \<Rightarrow> string option option" where
  "string_ptr_field k kvs = decode_all (set_ptr set_string []) (members k kvs) None"

definition int_ptr_field :: "string \<Rightarrow> (string \<times> jsval) list \<Rightarrow> int option option" where
  "int_ptr_field k kvs = decode_all (set_ptr set_int 0) (members k kvs) None"

text \<open>The members of a body; the body \<open>null\<close> sets no field.\<close>

definition body_members :: "string option \<Rightarrow> (string \<times> jsval) list option" where
  "body_members body =
     (case read_body body of
        Some (Obj kvs) \<Rightarrow> Some kvs
      | Some Null \<Rightarrow> Some []
      | _ \<Rightarrow> None)"

lemma read_body_text: "json_ok v \<Longrightarrow> read_body (Some (json_text v)) = Some v"
  using json_parse_text [of v]
  by (auto simp: read_body_def json_parse_def simp del: parse_value.simps split: option.splits prod.splits if_splits)

lemma body_members_text: "json_ok (Obj kvs) \<Longrightarrow> body_members (Some (json_text (Obj kvs))) = Some kvs"
  by (simp add: body_members_def read_body_text del: json_text.simps json_ok.simps)

lemma body_members_line:
  "json_ok (Obj kvs) \<Longrightarrow> body_members (Some (json_text (Obj kvs) @ [CHR 0x0A])) = Some kvs"
  using parse_value_line [of "Obj kvs"] by (simp add: body_members_def read_body_def del: json_text.simps json_ok.simps parse_value.simps)


subsection \<open>Claims\<close>

text \<open>\<open>fsd.CustomClaims\<close>: the registered claims (times in seconds) and the program's own.\<close>

record claims =
  Issuer :: string
  ExpiresAt :: int
  NotBefore :: int
  IssuedAt :: int
  jti :: string
  TokenType :: string
  claims_CID :: int
  claims_FirstName :: string
  claims_LastName :: string
  claims_NetworkRating :: int

definition claims_json :: "claims \<Rightarrow> jsval" where
  "claims_json c =
     Obj ([(''iss'', Str (Issuer c)), (''exp'', JInt (ExpiresAt c)), (''nbf'', JInt (NotBefore c)),
           (''iat'', JInt (IssuedAt c)), (''jti'', Str (jti c)),
           (''token_type'', Str (TokenType c)), (''cid'', JInt (claims_CID c))]
        @ (if claims_FirstName c = [] then [] else [(''first_name'', Str (claims_FirstName c))])
        @ (if claims_LastName c = [] then [] else [(''last_name'', Str (claims_LastName c))])
        @ [(''network_rating'', JInt (claims_NetworkRating c))])"

text \<open>Claims a token can carry: 64-bit numbers, names in ASCII.\<close>

definition ascii_text :: "string \<Rightarrow> bool" where
  "ascii_text s \<longleftrightarrow> (\<forall>c \<in> set s. ascii_char c)"

definition claims_ok :: "claims \<Rightarrow> bool" where
  "claims_ok c \<longleftrightarrow>
     int64 (ExpiresAt c) \<and> int64 (NotBefore c) \<and> int64 (IssuedAt c) \<and> int64 (claims_CID c) \<and>
     int64 (claims_NetworkRating c) \<and> ascii_text (Issuer c) \<and> ascii_text (jti c) \<and>
     ascii_text (TokenType c) \<and> ascii_text (claims_FirstName c) \<and> ascii_text (claims_LastName c)"

definition issuer :: string where
  "issuer = ''openfsd''"

text \<open>When a token with these claims is accepted, at a time in ms.\<close>

definition claims_current :: "int \<Rightarrow> claims \<Rightarrow> bool" where
  "claims_current now c \<longleftrightarrow>
     Issuer c = issuer \<and> now < ExpiresAt c * 1000 \<and> NotBefore c * 1000 \<le> now"


subsection \<open>Third-party operations\<close>

text \<open>
  The tags of a \<open>binding\<close> and the values they are checked on: numbers, texts, pointers to
  numbers, slices (whether they are \<open>nil\<close>) and times (whether they are the zero time).
\<close>

datatype tag = Required | AtLeast int | AtMost int

datatype field_value = IntV int | StrV string | IntPtrV "int option" | SliceV bool | TimeV bool

text \<open>
  bcrypt of the n-th salt and comparison with a hash; the n-th random identifier and the n-th 16
  random octets; signing claims with a secret and parsing a token with a secret at a time; the
  checks of the tags. Whatever uses randomness counts its draws.
\<close>

record golib =
  bcrypt :: "nat \<Rightarrow> string \<Rightarrow> string option"
  bcrypt_cmp :: "string \<Rightarrow> string \<Rightarrow> bool"
  uuid :: "nat \<Rightarrow> string option"
  rand16 :: "nat \<Rightarrow> string option"
  jwt_sign :: "string \<Rightarrow> claims \<Rightarrow> string"
  jwt_parse :: "string \<Rightarrow> int \<Rightarrow> string \<Rightarrow> claims option"
  tag_ok :: "tag \<Rightarrow> field_value \<Rightarrow> bool"

definition binding :: "golib \<Rightarrow> (tag list \<times> field_value) list \<Rightarrow> bool" where
  "binding lib checks = list_all (\<lambda>(tags, v). list_all (\<lambda>t. tag_ok lib t v) tags) checks"

text \<open>The characters of a text in UTF-8.\<close>

definition rune_count :: "string \<Rightarrow> nat" where
  "rune_count s = length (filter (\<lambda>c. \<not> (128 \<le> (of_char c :: nat) \<and> (of_char c :: nat) < 192)) s)"

definition tags_ok :: "golib \<Rightarrow> bool" where
  "tags_ok lib \<longleftrightarrow>
     (\<forall>i. tag_ok lib Required (IntV i) = (i \<noteq> 0)) \<and>
     (\<forall>s. tag_ok lib Required (StrV s) = (s \<noteq> [])) \<and>
     (\<forall>n. tag_ok lib Required (SliceV n) = (\<not> n)) \<and>
     (\<forall>z. tag_ok lib Required (TimeV z) = (\<not> z)) \<and>
     (\<forall>k i. tag_ok lib (AtLeast k) (IntV i) = (k \<le> i)) \<and>
     (\<forall>k i. tag_ok lib (AtMost k) (IntV i) = (i \<le> k)) \<and>
     (\<forall>k i. tag_ok lib (AtLeast k) (IntPtrV (Some i)) = (k \<le> i)) \<and>
     (\<forall>k i. tag_ok lib (AtMost k) (IntPtrV (Some i)) = (i \<le> k)) \<and>
     (\<forall>k s. tag_ok lib (AtLeast k) (StrV s) = (k \<le> int (rune_count s)))"

definition bcrypt_ok :: "golib \<Rightarrow> bool" where
  "bcrypt_ok lib \<longleftrightarrow>
     (\<forall>n p. length p \<le> 72 \<longrightarrow> bcrypt lib n p \<noteq> None) \<and>
     (\<forall>n p h. bcrypt lib n p = Some h \<longrightarrow> bcrypt_cmp lib h p \<and> length h = 60 \<and> CHR '':'' \<notin> set h)"

text \<open>
  A token is in compact form around the JSON text of its claims; it is accepted with the secret
  it was signed with while its claims are current, and with no other secret.
\<close>

definition jwt_ok :: "golib \<Rightarrow> bool" where
  "jwt_ok lib \<longleftrightarrow>
     (\<forall>k k' now c. claims_ok c \<longrightarrow>
        jwt_parse lib k' now (jwt_sign lib k c) = (if k' = k \<and> claims_current now c then Some c else None)) \<and>
     (\<forall>k c. claims_ok c \<longrightarrow>
        (\<exists>h p s. CHR ''.'' \<notin> set h \<and> utf8_valid p \<and> json_parse p = Some (claims_json c) \<and>
           jwt_sign lib k c = jwt_compact h p s))"

definition random_ok :: "golib \<Rightarrow> bool" where
  "random_ok lib \<longleftrightarrow>
     (\<forall>n. \<exists>u. uuid lib n = Some u \<and> u \<noteq> [] \<and> ascii_text u) \<and> (\<forall>n. \<exists>r. rand16 lib n = Some r \<and> length r = 16)"

definition lib_ok :: "golib \<Rightarrow> bool" where
  "lib_ok lib \<longleftrightarrow> tags_ok lib \<and> bcrypt_ok lib \<and> jwt_ok lib \<and> random_ok lib"

text \<open>No other text is taken for this password.\<close>

definition distinguishes :: "golib \<Rightarrow> string \<Rightarrow> string \<Rightarrow> bool" where
  "distinguishes lib p q \<longleftrightarrow> (\<forall>n h. bcrypt lib n p = Some h \<longrightarrow> \<not> bcrypt_cmp lib h q)"

lemma tags_okD [go_sem]:
  assumes "tags_ok lib"
  shows "tag_ok lib Required (IntV i) = (i \<noteq> 0)" "tag_ok lib Required (StrV s) = (s \<noteq> [])"
    "tag_ok lib Required (SliceV n) = (\<not> n)" "tag_ok lib Required (TimeV z) = (\<not> z)" "tag_ok lib (AtLeast k) (IntV i) = (k \<le> i)"
    "tag_ok lib (AtMost k) (IntV i) = (i \<le> k)" "tag_ok lib (AtLeast k) (IntPtrV (Some i)) = (k \<le> i)"
    "tag_ok lib (AtMost k) (IntPtrV (Some i)) = (i \<le> k)"
    "tag_ok lib (AtLeast k) (StrV s) = (k \<le> int (rune_count s))"
  using assms by (simp_all add: tags_ok_def)

lemma sign_parse:
  assumes "lib_ok lib" "claims_ok c"
  shows "jwt_parse lib k' now (jwt_sign lib k c) = (if k' = k \<and> claims_current now c then Some c else None)"
  using assms by (simp add: lib_ok_def jwt_ok_def)


subsection \<open>The texts of claims\<close>

lemma ascii_chars:
  "ascii_char (CHR ''['')" "ascii_char (CHR '']'')" "ascii_char (CHR ''{'')" "ascii_char (CHR ''}'')"
  "ascii_char (CHR '','')" "ascii_char (CHR '':'')" "ascii_char quote" "ascii_char backslash" "ascii_char (CHR ''-'')"
  "ascii_char (CHR ''0'')" "ascii_char (CHR ''.'')" "ascii_char (CHR ''e'')" "ascii_char (CHR ''+'')" "ascii_char (CHR ''u'')"
  by (simp_all add: ascii_char_def)

lemma ascii_text_simps [simp]:
  "ascii_text []" "ascii_text (c # s) \<longleftrightarrow> ascii_char c \<and> ascii_text s"
  "ascii_text (s @ t) \<longleftrightarrow> ascii_text s \<and> ascii_text t"
  by (auto simp: ascii_text_def)

lemma ascii_quote_string:
  assumes "ascii_text s"
  shows "ascii_text (quote_string s)"
proof -
  have h: "ascii_char (hex_char n)" if "n < 16" for n
    using that by (auto simp: hex_char_def ascii_char_def)
  have "ascii_text (quote_char c)" if "ascii_char c" for c
    using that by (auto simp: quote_char_def Let_def ascii_chars h) (auto simp: ascii_char_def)
  then have "ascii_text (concat (map quote_char s))"
    using assms by (induction s) auto
  then show ?thesis by (simp add: quote_string_def ascii_chars)
qed

lemma ascii_show: "ascii_text (show_nat n)"
  using show_nat_digits [of n] by (auto simp: ascii_text_def ascii_char_def is_digit_def)

lemma ascii_int:
  assumes "\<bar>i\<bar> < 10 ^ 21"
  shows "ascii_text (json_text (JInt i))"
  using assms by (simp add: number_to_string_int show_int_def ascii_chars ascii_show del: number_to_string.simps)

lemma ascii_join: "\<forall>x \<in> set xs. ascii_text x \<Longrightarrow> ascii_text (join_with '','' xs)"
  by (induction xs rule: induct_list012) (auto simp: ascii_chars)

lemma ascii_object:
  assumes "\<forall>kv \<in> set kvs. ascii_text (fst kv) \<and> ascii_text (json_text (snd kv))"
  shows "ascii_text (json_text (Obj kvs))"
proof -
  have "ascii_text (join_with '','' (map (\<lambda>kv. quote_string (fst kv) @ '':'' @ json_text (snd kv))
      (filter (\<lambda>kv. snd kv \<noteq> Undefined) kvs)))"
    using assms by (intro ascii_join) (auto simp: ascii_quote_string ascii_chars)
  then show ?thesis by (simp add: ascii_chars)
qed

lemma int64_small: "int64 i \<Longrightarrow> \<bar>i\<bar> < 10 ^ 21"
  by (auto simp: int64_def)

lemma ascii_value:
  "ascii_text s \<Longrightarrow> ascii_text (json_text (Str s))" "int64 i \<Longrightarrow> ascii_text (json_text (JInt i))"
  using ascii_quote_string ascii_int [OF int64_small] by simp_all

lemma claims_members:
  assumes "claims_ok c" "claims_json c = Obj kvs" "kv \<in> set kvs"
  shows "ascii_text (fst kv) \<and> ((\<exists>s. snd kv = Str s \<and> ascii_text s) \<or> (\<exists>i. snd kv = JInt i \<and> int64 i))"
  using assms by (auto simp: claims_json_def claims_ok_def ascii_char_def split: if_splits)

lemma claims_text:
  assumes "claims_ok c"
  shows "json_ok (claims_json c)" "utf8_valid (json_text (claims_json c))"
proof -
  obtain kvs where kvs: "claims_json c = Obj kvs" by (simp add: claims_json_def)
  note mem = claims_members [OF assms kvs]
  have "json_ok (snd kv)" if "kv \<in> set kvs" for kv
    using mem [OF that] int64_small by auto
  moreover have "snd kv \<noteq> Undefined" if "kv \<in> set kvs" for kv
    using mem [OF that] by auto
  ultimately show "json_ok (claims_json c)"
    by (auto simp: kvs list_all_iff)
  have "ascii_text (json_text (snd kv))" if "kv \<in> set kvs" for kv
    using mem [OF that] ascii_value by (auto simp del: json_text.simps)
  then have "ascii_text (json_text (claims_json c))"
    unfolding kvs using mem by (intro ascii_object) blast
  then show "utf8_valid (json_text (claims_json c))"
    unfolding ascii_text_def by (rule utf8_valid_ascii)
qed


subsection \<open>A library for the witnesses\<close>

definition str_of :: "jsval \<Rightarrow> string" where
  "str_of v = (case v of Str s \<Rightarrow> s | _ \<Rightarrow> [])"

definition int_of :: "jsval \<Rightarrow> int" where
  "int_of v = (case v of Num (Dec m e) \<Rightarrow> m | _ \<Rightarrow> 0)"

definition claims_of_json :: "jsval \<Rightarrow> claims" where
  "claims_of_json v =
     (let kvs = (case v of Obj kvs \<Rightarrow> kvs | _ \<Rightarrow> []); str = (\<lambda>k. str_of (obj_get k kvs)); num = (\<lambda>k. int_of (obj_get k kvs))
      in \<lparr>Issuer = str ''iss'', ExpiresAt = num ''exp'', NotBefore = num ''nbf'', IssuedAt = num ''iat'',
          jti = str ''jti'', TokenType = str ''token_type'', claims_CID = num ''cid'',
          claims_FirstName = str ''first_name'', claims_LastName = str ''last_name'',
          claims_NetworkRating = num ''network_rating''\<rparr>)"

definition demo_hash :: "string \<Rightarrow> string" where
  "demo_hash p = take 60 (CHR ''#'' # filter (\<lambda>c. c \<noteq> CHR '':'') p @ replicate 60 (CHR ''.''))"

definition demo_parse :: "string \<Rightarrow> int \<Rightarrow> string \<Rightarrow> claims option" where
  "demo_parse k now t =
     (case split_on (CHR ''.'') t of
        [h, b, g] \<Rightarrow>
          if g \<noteq> base64url_encode k then None
          else
            (case Option.bind (atob (replace_all (CHR ''_'') (CHR ''/'') (replace_all (CHR ''-'') (CHR ''+'') b))) json_parse of
               None \<Rightarrow> None
             | Some v \<Rightarrow> if claims_current now (claims_of_json v) then Some (claims_of_json v) else None)
      | _ \<Rightarrow> None)"

fun demo_tag :: "tag \<Rightarrow> field_value \<Rightarrow> bool" where
  "demo_tag Required (IntV i) = (i \<noteq> 0)"
| "demo_tag Required (StrV s) = (s \<noteq> [])"
| "demo_tag Required (SliceV n) = (\<not> n)"
| "demo_tag Required (TimeV z) = (\<not> z)"
| "demo_tag Required (IntPtrV p) = (p \<noteq> None)"
| "demo_tag (AtLeast k) (IntV i) = (k \<le> i)"
| "demo_tag (AtLeast k) (StrV s) = (k \<le> int (rune_count s))"
| "demo_tag (AtLeast k) (IntPtrV (Some i)) = (k \<le> i)"
| "demo_tag (AtMost k) (IntV i) = (i \<le> k)"
| "demo_tag (AtMost k) (IntPtrV (Some i)) = (i \<le> k)"
| "demo_tag _ _ = False"

text \<open>The header of every token the server signs, \<open>{"alg":"HS256","typ":"JWT"}\<close> in base64url.\<close>

definition hs256_header :: string where
  "hs256_header = ''eyJhbGciOiJIUzI1NiIsInR5cCI6IkpXVCJ9''"

lemma hs256_header_plain: "CHR ''.'' \<notin> set hs256_header" "CHR '':'' \<notin> set hs256_header" "CHR 0x0A \<notin> set hs256_header"
  by (simp_all add: hs256_header_def)

definition demo_lib :: golib where
  "demo_lib =
     \<lparr>bcrypt = (\<lambda>n p. if length p \<le> 72 then Some (demo_hash p) else None),
      bcrypt_cmp = (\<lambda>h p. h = demo_hash p),
      uuid = (\<lambda>n. Some (show_nat n)),
      rand16 = (\<lambda>n. Some (replicate 16 (char_of n))),
      jwt_sign = (\<lambda>k c. jwt_compact hs256_header (json_text (claims_json c)) (base64url_encode k)),
      jwt_parse = demo_parse,
      tag_ok = demo_tag\<rparr>"

lemma claims_of_claims_json: "claims_of_json (claims_json c) = c"
  by (cases c) (simp add: claims_json_def claims_of_json_def Let_def obj_get_def str_of_def int_of_def)

lemma base64url_inject: "base64url_encode s = base64url_encode t \<longleftrightarrow> s = t"
  by (metis atob_base64url option.inject)

lemma demo_parse_sign:
  assumes "claims_ok c"
  shows "demo_parse k' now (jwt_compact hs256_header (json_text (claims_json c)) (base64url_encode k))
     = (if k' = k \<and> claims_current now c then Some c else None)"
proof -
  have "split_on (CHR ''.'') (jwt_compact hs256_header (json_text (claims_json c)) (base64url_encode k))
      = [hs256_header, base64url_encode (json_text (claims_json c)), base64url_encode k]"
    unfolding jwt_compact_def
    by (subst split_on_append) (simp_all add: split_on_append split_on_absent base64url_plain hs256_header_plain)
  then show ?thesis
    using json_parse_text [OF claims_text(1) [OF assms]]
    by (simp add: demo_parse_def atob_base64url claims_of_claims_json base64url_inject)
qed

lemma demo_lib_ok: "lib_ok demo_lib"
proof -
  have "tags_ok demo_lib"
    by (simp add: tags_ok_def demo_lib_def)
  moreover have "bcrypt_ok demo_lib"
    by (auto simp: bcrypt_ok_def demo_lib_def demo_hash_def dest: in_set_takeD)
  moreover have "jwt_ok demo_lib"
    unfolding jwt_ok_def
  proof (intro conjI allI impI)
    fix k k' now c
    assume c: "claims_ok c"
    show "jwt_parse demo_lib k' now (jwt_sign demo_lib k c) = (if k' = k \<and> claims_current now c then Some c else None)"
      using demo_parse_sign [OF c] by (simp add: demo_lib_def)
    show "\<exists>h p s. CHR ''.'' \<notin> set h \<and> utf8_valid p \<and> json_parse p = Some (claims_json c) \<and>
        jwt_sign demo_lib k c = jwt_compact h p s"
      using claims_text [OF c] json_parse_text
      by (intro exI [of _ hs256_header] exI [of _ "json_text (claims_json c)"] exI [of _ "base64url_encode k"])
        (simp add: demo_lib_def hs256_header_plain)
  qed
  moreover have "random_ok demo_lib"
    by (auto simp: random_ok_def demo_lib_def ascii_show)
  ultimately show ?thesis by (simp add: lib_ok_def)
qed

end
