(* ===== verification/Repositories.thy ===== *)
theory Repositories
  imports Browser Go_Lib "HOL-Library.Multiset"
begin

text \<open>
  \<open>db/\<close>: the user and the configuration repository on their two tables. What is modelled of the
  SQL engine is what the statements of the repositories mean: look up by key, insert with the
  next CID, update where the CID matches, insert or overwrite a configuration value. An engine
  that cannot be reached fails every statement. A user as the program holds one and a row of
  the table are the same record.
\<close>

subsection \<open>Tables\<close>

record user =
  CID :: int
  Password :: string
  FirstName :: "string option"
  LastName :: "string option"
  NetworkRating :: int

record database =
  users :: "int \<rightharpoonup> user"
  last_cid :: int
  config :: "string \<rightharpoonup> string"
  db_up :: bool
  draws :: nat

datatype db_error = ErrNoRows | ErrConfigKeyNotFound | ErrColon | ErrHash | ErrEngine | ErrRandom


subsection \<open>Users\<close>

text \<open>
  The insert statement has four columns; with another number of values the engine rejects it.
  The key counts up and is never used twice.
\<close>

definition insert_user :: "nat \<Rightarrow> user \<Rightarrow> 'x database_scheme \<Rightarrow> (db_error + int) \<times> 'x database_scheme" where
  "insert_user placeholders u d =
     (if \<not> db_up d \<or> placeholders \<noteq> 4 then (Inl ErrEngine, d)
      else
        (let cid = last_cid d + 1
         in (Inr cid, d\<lparr>users := (users d)(cid \<mapsto> u\<lparr>CID := cid\<rparr>), last_cid := cid\<rparr>)))"

definition create_user :: "golib \<Rightarrow> nat \<Rightarrow> user \<Rightarrow> 'x database_scheme \<Rightarrow> (db_error + int) \<times> 'x database_scheme" where
  "create_user lib placeholders u d =
     (if CHR '':'' \<in> set (Password u) then (Inl ErrColon, d)
      else
        (let d1 = d\<lparr>draws := Suc (draws d)\<rparr> in
         case bcrypt lib (draws d) (Password u) of
           None \<Rightarrow> (Inl ErrHash, d1)
         | Some hash \<Rightarrow> insert_user placeholders (u\<lparr>Password := hash\<rparr>) d1))"

definition sqlite_create_user :: "golib \<Rightarrow> user \<Rightarrow> 'x database_scheme \<Rightarrow> (db_error + int) \<times> 'x database_scheme" where
  "sqlite_create_user lib = create_user lib 4"

definition postgres_create_user :: "golib \<Rightarrow> user \<Rightarrow> 'x database_scheme \<Rightarrow> (db_error + int) \<times> 'x database_scheme" where
  "postgres_create_user lib = create_user lib 5"

definition get_user_by_cid :: "int \<Rightarrow> 'x database_scheme \<Rightarrow> db_error + user" where
  "get_user_by_cid cid d =
     (if \<not> db_up d then Inl ErrEngine
      else (case users d cid of None \<Rightarrow> Inl ErrNoRows | Some u \<Rightarrow> Inr u))"

text \<open>The two update statements, with the password and without it.\<close>

definition exec_update :: "(user \<Rightarrow> user) \<Rightarrow> int \<Rightarrow> 'x database_scheme \<Rightarrow> (db_error + unit) \<times> 'x database_scheme" where
  "exec_update f cid d =
     (if \<not> db_up d then (Inl ErrEngine, d)
      else
        (case users d cid of
           None \<Rightarrow> (Inl ErrNoRows, d)
         | Some row \<Rightarrow> (Inr (), d\<lparr>users := (users d)(cid \<mapsto> f row)\<rparr>)))"

definition update_user :: "golib \<Rightarrow> user \<Rightarrow> 'x database_scheme \<Rightarrow> (db_error + unit) \<times> 'x database_scheme" where
  "update_user lib u d =
     (if Password u \<noteq> [] then
        (if CHR '':'' \<in> set (Password u) then (Inl ErrColon, d)
         else
           (let d1 = d\<lparr>draws := Suc (draws d)\<rparr> in
            case bcrypt lib (draws d) (Password u) of
              None \<Rightarrow> (Inl ErrHash, d1)
            | Some hash \<Rightarrow>
                exec_update
                  (\<lambda>row. row\<lparr>Password := hash, FirstName := FirstName u, LastName := LastName u,
                             NetworkRating := NetworkRating u\<rparr>) (CID u) d1))
      else
        exec_update
          (\<lambda>row. row\<lparr>FirstName := FirstName u, LastName := LastName u, NetworkRating := NetworkRating u\<rparr>)
          (CID u) d)"

definition verify_password_hash :: "golib \<Rightarrow> string \<Rightarrow> string \<Rightarrow> bool" where
  "verify_password_hash lib plaintext hash = bcrypt_cmp lib hash plaintext"


subsection \<open>The contract of a user repository\<close>

text \<open>
  What \<open>db.UserRepository\<close> promises its callers, in the words of its comments: creating stores the
  user under the returned CID with a hash of the password; updating sets every field, the
  password only where one is given; other users are left alone, and a failure changes nothing
  that can be read. Rows carry their own CID.
\<close>

locale user_repository =
  fixes create :: "user \<Rightarrow> 'd \<Rightarrow> (db_error + int) \<times> 'd"
    and get :: "int \<Rightarrow> 'd \<Rightarrow> db_error + user"
    and update :: "user \<Rightarrow> 'd \<Rightarrow> (db_error + unit) \<times> 'd"
    and hashed :: "string \<Rightarrow> string \<Rightarrow> bool"
  assumes get_create:
      "create u d = (Inr cid, d') \<Longrightarrow>
         \<exists>h. hashed (Password u) h \<and>
           (\<forall>c. get c d' = (if c = cid then Inr (u\<lparr>CID := cid, Password := h\<rparr>) else get c d))"
    and get_create_fails: "create u d = (Inl e, d') \<Longrightarrow> get c d' = get c d"
    and get_update:
      "update u d = (Inr (), d') \<Longrightarrow>
         \<exists>row h. get (CID u) d = Inr row \<and>
           (if Password u = [] then h = Password row else hashed (Password u) h) \<and>
           (\<forall>c. get c d' = (if c = CID u then Inr (u\<lparr>CID := CID row, Password := h\<rparr>) else get c d))"
    and get_update_fails: "update u d = (Inl e, d') \<Longrightarrow> get c d' = get c d"
begin

text \<open>A password is good for a CID when its row has a hash the check accepts.\<close>

definition good_password :: "(string \<Rightarrow> string \<Rightarrow> bool) \<Rightarrow> int \<Rightarrow> string \<Rightarrow> 'd \<Rightarrow> bool" where
  "good_password verify cid p d \<longleftrightarrow> (\<exists>u. get cid d = Inr u \<and> verify p (Password u))"

lemma created_password_good:
  assumes "create u d = (Inr cid, d')" "\<And>p h. hashed p h \<Longrightarrow> verify p h"
  shows "good_password verify cid (Password u) d'"
  using get_create [OF assms(1)] assms(2) by (auto simp: good_password_def)

lemma updated_password_good:
  assumes "update u d = (Inr (), d')" "Password u \<noteq> []" "\<And>p h. hashed p h \<Longrightarrow> verify p h"
  shows "good_password verify (CID u) (Password u) d'"
  using get_update [OF assms(1)] assms(2,3) by (auto simp: good_password_def)

lemma update_without_password:
  assumes "update u d = (Inr (), d')" "Password u = []"
  shows "good_password verify c p d' = good_password verify c p d"
  using get_update [OF assms(1)] assms(2) by (cases "c = CID u") (auto simp: good_password_def)

lemma updated_password_only:
  assumes "update u d = (Inr (), d')" "Password u \<noteq> []" "\<And>h. hashed (Password u) h \<Longrightarrow> \<not> verify q h"
  shows "\<not> good_password verify (CID u) q d'"
  using get_update [OF assms(1)] assms(2,3) by (auto simp: good_password_def)

lemma other_users_kept:
  "create u d = (Inr cid, d') \<Longrightarrow> c \<noteq> cid \<Longrightarrow> get c d' = get c d"
  "update v d = (Inr (), d') \<Longrightarrow> c \<noteq> CID v \<Longrightarrow> get c d' = get c d"
  using get_create get_update by fastforce+

end

definition hash_of :: "golib \<Rightarrow> string \<Rightarrow> string \<Rightarrow> bool" where
  "hash_of lib p h \<longleftrightarrow> (\<exists>n. bcrypt lib n p = Some h)"

lemma get_user_by_cid_draws [simp]: "get_user_by_cid c (d\<lparr>draws := n\<rparr>) = get_user_by_cid c d"
  by (simp add: get_user_by_cid_def)

lemma create_user_get:
  assumes "create_user lib n u d = (Inr cid, d')"
  shows "\<exists>h. hash_of lib (Password u) h \<and>
     (\<forall>c. get_user_by_cid c d' = (if c = cid then Inr (u\<lparr>CID := cid, Password := h\<rparr>) else get_user_by_cid c d))"
proof -
  obtain h where h: "bcrypt lib (draws d) (Password u) = Some h"
    and i: "insert_user n (u\<lparr>Password := h\<rparr>) (d\<lparr>draws := Suc (draws d)\<rparr>) = (Inr cid, d')"
    using assms by (auto simp: create_user_def Let_def split: if_splits option.splits)
  from i have "get_user_by_cid c d' = (if c = cid then Inr (u\<lparr>CID := cid, Password := h\<rparr>) else get_user_by_cid c d)" for c
    by (auto simp: insert_user_def Let_def get_user_by_cid_def split: if_splits)
  with h show ?thesis by (auto simp: hash_of_def)
qed

lemma create_user_fails: "create_user lib n u d = (Inl e, d') \<Longrightarrow> get_user_by_cid c d' = get_user_by_cid c d"
  by (auto simp: create_user_def insert_user_def Let_def split: if_splits option.splits)

lemma exec_update_get:
  assumes "exec_update f cid d = (Inr (), d')"
  shows "\<exists>row. get_user_by_cid cid d = Inr row \<and>
     (\<forall>c. get_user_by_cid c d' = (if c = cid then Inr (f row) else get_user_by_cid c d))"
  using assms by (auto simp: exec_update_def get_user_by_cid_def split: if_splits option.splits)

lemma update_user_get:
  assumes "update_user lib u d = (Inr (), d')"
  shows "\<exists>row h. get_user_by_cid (CID u) d = Inr row \<and>
     (if Password u = [] then h = Password row else hash_of lib (Password u) h) \<and>
     (\<forall>c. get_user_by_cid c d' = (if c = CID u then Inr (u\<lparr>CID := CID row, Password := h\<rparr>) else get_user_by_cid c d))"
proof (cases "Password u = []")
  case True
  with assms have "exec_update
      (\<lambda>row. row\<lparr>FirstName := FirstName u, LastName := LastName u, NetworkRating := NetworkRating u\<rparr>) (CID u) d
      = (Inr (), d')"
    by (simp add: update_user_def)
  from exec_update_get [OF this] show ?thesis using True by fastforce
next
  case False
  with assms obtain h where h: "bcrypt lib (draws d) (Password u) = Some h"
    and x: "exec_update
      (\<lambda>row. row\<lparr>Password := h, FirstName := FirstName u, LastName := LastName u, NetworkRating := NetworkRating u\<rparr>)
      (CID u) (d\<lparr>draws := Suc (draws d)\<rparr>) = (Inr (), d')"
    by (auto simp: update_user_def Let_def split: if_splits option.splits)
  from exec_update_get [OF x] h False show ?thesis
    by (fastforce simp: hash_of_def)
qed

lemma update_user_fails: "update_user lib u d = (Inl e, d') \<Longrightarrow> get_user_by_cid c d' = get_user_by_cid c d"
  by (auto simp: update_user_def exec_update_def Let_def split: if_splits option.splits)

interpretation sqlite: user_repository "sqlite_create_user lib" get_user_by_cid "update_user lib" "hash_of lib" for lib
  by unfold_locales
    (unfold sqlite_create_user_def, (erule create_user_get create_user_fails update_user_get update_user_fails)+)

interpretation postgres: user_repository "postgres_create_user lib" get_user_by_cid "update_user lib" "hash_of lib" for lib
  by unfold_locales
    (unfold postgres_create_user_def, (erule create_user_get create_user_fails update_user_get update_user_fails)+)


subsection \<open>Configuration\<close>

definition config_get :: "string \<Rightarrow> 'x database_scheme \<Rightarrow> db_error + string" where
  "config_get key d =
     (if \<not> db_up d then Inl ErrEngine
      else (case config d key of None \<Rightarrow> Inl ErrConfigKeyNotFound | Some v \<Rightarrow> Inr v))"

definition config_put :: "string \<Rightarrow> string \<Rightarrow> 'x database_scheme \<Rightarrow> 'x database_scheme" where
  "config_put key v d = d\<lparr>config := (config d)(key \<mapsto> v)\<rparr>"

definition config_set :: "string \<Rightarrow> string \<Rightarrow> 'x database_scheme \<Rightarrow> (db_error + unit) \<times> 'x database_scheme" where
  "config_set key v d = (if \<not> db_up d then (Inl ErrEngine, d) else (Inr (), config_put key v d))"

definition config_set_if_not_exists :: "string \<Rightarrow> string \<Rightarrow> 'x database_scheme \<Rightarrow> (db_error + unit) \<times> 'x database_scheme" where
  "config_set_if_not_exists key v d =
     (if \<not> db_up d then (Inl ErrEngine, d)
      else (Inr (), if config d key = None then config_put key v d else d))"

text \<open>The configuration table is a key-value store.\<close>

interpretation config_store: kv_store "\<lambda>d k. config d k" config_put
  by unfold_locales (simp add: config_put_def)

abbreviation ConfigJwtSecretKey :: string where "ConfigJwtSecretKey \<equiv> ''JWT_SECRET_KEY''"
abbreviation ConfigFsdServerHostname :: string where "ConfigFsdServerHostname \<equiv> ''FSD_SERVER_HOSTNAME''"
abbreviation ConfigFsdServerIdent :: string where "ConfigFsdServerIdent \<equiv> ''FSD_SERVER_IDENT''"
abbreviation ConfigFsdServerLocation :: string where "ConfigFsdServerLocation \<equiv> ''FSD_SERVER_LOCATION''"
abbreviation ConfigApiServerBaseURL :: string where "ConfigApiServerBaseURL \<equiv> ''API_SERVER_BASE_URL''"
abbreviation ConfigWelcomeMessage :: string where "ConfigWelcomeMessage \<equiv> ''WELCOME_MESSAGE''"

text \<open>Sixteen random octets in hexadecimal.\<close>

definition hex_encode :: "string \<Rightarrow> string" where
  "hex_encode s = concat (map (\<lambda>c. [hex_char (of_char c div 16), hex_char (of_char c mod 16)]) s)"

definition generate_jwt_secret_key :: "golib \<Rightarrow> 'x database_scheme \<Rightarrow> (db_error + string) \<times> 'x database_scheme" where
  "generate_jwt_secret_key lib d =
     (case rand16 lib (draws d) of
        None \<Rightarrow> (Inl ErrRandom, d\<lparr>draws := Suc (draws d)\<rparr>)
      | Some r \<Rightarrow> (Inr (hex_encode r), d\<lparr>draws := Suc (draws d)\<rparr>))"

definition get_welcome_message :: "'x database_scheme \<Rightarrow> string" where
  "get_welcome_message d = (case config_get ConfigWelcomeMessage d of Inl _ \<Rightarrow> [] | Inr v \<Rightarrow> v)"

fun set_defaults :: "(string \<times> string) list \<Rightarrow> 'x database_scheme \<Rightarrow> (db_error + unit) \<times> 'x database_scheme" where
  "set_defaults [] d = (Inr (), d)"
| "set_defaults ((k, v) # kvs) d =
     (case config_set_if_not_exists k v d of
        (Inl e, d1) \<Rightarrow> (Inl e, d1)
      | (Inr _, d1) \<Rightarrow> set_defaults kvs d1)"

definition default_config :: "string \<Rightarrow> (string \<times> string) list" where
  "default_config secret =
     [(ConfigJwtSecretKey, secret), (ConfigWelcomeMessage, ''Connected to openfsd''),
      (ConfigFsdServerHostname, ''localhost''), (ConfigFsdServerIdent, ''OPENFSD''),
      (ConfigFsdServerLocation, ''Earth''), (ConfigApiServerBaseURL, ''http://localhost'')]"

text \<open>The defaults are a Go map: \<open>order\<close> is the order in which it happens to be walked.\<close>

definition init_default_config ::
    "golib \<Rightarrow> ((string \<times> string) list \<Rightarrow> (string \<times> string) list) \<Rightarrow> 'x database_scheme \<Rightarrow>
      (db_error + unit) \<times> 'x database_scheme" where
  "init_default_config lib order d =
     (case generate_jwt_secret_key lib d of
        (Inl e, d1) \<Rightarrow> (Inl e, d1)
      | (Inr secret, d1) \<Rightarrow> set_defaults (order (default_config secret)) d1)"

lemma hex_encode_length: "length (hex_encode s) = 2 * length s"
  by (induction s) (simp_all add: hex_encode_def)

lemma set_defaults_config:
  assumes "db_up d" "distinct (map fst kvs)"
  shows "\<exists>d'. set_defaults kvs d = (Inr (), d') \<and> db_up d' \<and> users d' = users d \<and>
     (\<forall>k. config d' k = (case config d k of Some v \<Rightarrow> Some v | None \<Rightarrow> map_of kvs k))"
  using assms
proof (induction kvs arbitrary: d)
  case Nil
  then show ?case by (simp split: option.splits)
next
  case (Cons kv kvs)
  obtain k v where kv: "kv = (k, v)" by fastforce
  let ?d1 = "if config d k = None then config_put k v d else d"
  have up: "db_up ?d1" "users ?d1 = users d" using Cons.prems(1) by (simp_all add: config_put_def)
  from Cons.IH [OF up(1)] Cons.prems(2) obtain d' where d':
      "set_defaults kvs ?d1 = (Inr (), d')" "db_up d'" "users d' = users ?d1"
      "\<forall>j. config d' j = (case config ?d1 j of Some v \<Rightarrow> Some v | None \<Rightarrow> map_of kvs j)"
    by auto
  have "map_of kvs k = None"
    using Cons.prems(2) kv by (simp add: map_of_eq_None_iff)
  then show ?case
    using d' up Cons.prems(1)
    by (auto simp: kv config_set_if_not_exists_def config_put_def split: option.splits)
qed

subsection \<open>Properties\<close>

text \<open>For the witnesses: a database as it is created.\<close>

definition empty_database :: database where
  "empty_database = \<lparr>users = Map.empty, last_cid = 0, config = Map.empty, db_up = True, draws = 0\<rparr>"

lemma init_default_config_run:
  assumes "random_ok lib" "db_up e" "\<And>kvs. mset (f kvs) = mset kvs"
  shows "\<exists>secret d'. length secret = 32 \<and> init_default_config lib f e = (Inr (), d') \<and> db_up d' \<and> users d' = users e
     \<and> (\<forall>k. config d' k = (case config e k of Some v \<Rightarrow> Some v | None \<Rightarrow> map_of (default_config secret) k))"
proof -
  obtain r where r: "rand16 lib (draws e) = Some r" "length r = 16"
    using assms(1) unfolding random_ok_def by blast
  let ?kvs = "f (default_config (hex_encode r))"
  have "distinct (map fst (default_config (hex_encode r)))" by (simp add: default_config_def)
  moreover have m: "mset (map fst ?kvs) = mset (map fst (default_config (hex_encode r)))" by (simp add: assms(3))
  ultimately have dist: "distinct (map fst ?kvs)" using mset_eq_imp_distinct_iff by blast
  have same: "map_of ?kvs = map_of (default_config (hex_encode r))"
    using dist m assms(3) by (metis map_of_inject_set mset_eq_imp_distinct_iff set_mset_mset)
  have "init_default_config lib f e = set_defaults ?kvs (e\<lparr>draws := Suc (draws e)\<rparr>)"
    using r by (simp add: init_default_config_def generate_jwt_secret_key_def)
  then show ?thesis
    using set_defaults_config [OF _ dist, of "e\<lparr>draws := Suc (draws e)\<rparr>"] r(2) assms(2) unfolding same
    by (intro exI [of _ "hex_encode r"]) (simp add: hex_encode_length)
qed

text \<open>
  A restart keeps the configuration. Whatever order the defaults are walked in, every key that
  has a value keeps it, every default that is missing is filled in, nothing else changes, and
  doing it again, with whatever secret is drawn then, changes nothing.
\<close>

theorem init_default_config_restart:
  assumes "random_ok lib" "db_up d" "\<And>kvs. mset (order kvs) = mset kvs" "\<And>kvs. mset (order' kvs) = mset kvs"
  shows "\<exists>secret d'. length secret = 32 \<and> init_default_config lib order d = (Inr (), d') \<and> users d' = users d
     \<and> (\<forall>k. config d' k = (case config d k of Some v \<Rightarrow> Some v | None \<Rightarrow> map_of (default_config secret) k))
     \<and> (\<exists>d''. init_default_config lib order' d' = (Inr (), d'') \<and> config d'' = config d')"
proof -
  note run = init_default_config_run [OF assms(1)]
  obtain secret d' where d': "length secret = 32" "init_default_config lib order d = (Inr (), d')" "db_up d'"
      "users d' = users d"
      "\<forall>k. config d' k = (case config d k of Some v \<Rightarrow> Some v | None \<Rightarrow> map_of (default_config secret) k)"
    using run [OF assms(2), of order, OF assms(3)] by blast
  obtain secret' d'' where d'': "init_default_config lib order' d' = (Inr (), d'')"
      "\<forall>k. config d'' k = (case config d' k of Some v \<Rightarrow> Some v | None \<Rightarrow> map_of (default_config secret') k)"
    using run [OF d'(3), of order', OF assms(4)] by blast
  have "config d'' k = config d' k" for k
    using d'(5) d''(2) by (auto simp: default_config_def split: option.splits)
  then have "config d'' = config d'" by blast
  with d' d'' show ?thesis by blast
qed

theorem init_default_config_restart_witness:
  "\<exists>secret d'. length secret = 32 \<and> init_default_config demo_lib rev empty_database = (Inr (), d')
     \<and> config d' ConfigWelcomeMessage = Some ''Connected to openfsd'' \<and> config d' ConfigJwtSecretKey = Some secret"
proof -
  have "random_ok demo_lib" using demo_lib_ok by (simp add: lib_ok_def)
  moreover have "db_up empty_database" by (simp add: empty_database_def)
  ultimately show ?thesis
    using init_default_config_restart [of demo_lib empty_database rev id]
    by (fastforce simp: empty_database_def default_config_def)
qed

text \<open>
  On PostgreSQL no user can be created: the insert has five values for its four columns. Where
  the same call stores a user in SQLite, it fails here for every user and every database, and no
  row and no CID changes.
\<close>

theorem postgres_create_user_fails:
  "\<exists>e d'. postgres_create_user lib u d = (Inl e, d') \<and> users d' = users d \<and> last_cid d' = last_cid d
     \<and> (\<forall>cid d1. sqlite_create_user lib u d = (Inr cid, d1) \<longrightarrow> users d1 cid \<noteq> None \<and> e = ErrEngine)"
  by (auto simp: postgres_create_user_def sqlite_create_user_def create_user_def insert_user_def Let_def split: option.splits)

theorem postgres_create_user_fails_witness:
  "\<exists>d'. postgres_create_user demo_lib
        \<lparr>CID = 0, Password = ''battery'', FirstName = None, LastName = None, NetworkRating = 1\<rparr> empty_database = (Inl ErrEngine, d')
     \<and> users d' = users empty_database"
proof -
  let ?u = "\<lparr>CID = 0, Password = ''battery'', FirstName = None, LastName = None, NetworkRating = 1\<rparr>"
  obtain cid d1 where "sqlite_create_user demo_lib ?u empty_database = (Inr cid, d1)"
    by (simp add: sqlite_create_user_def create_user_def insert_user_def demo_lib_def empty_database_def Let_def)
  then show ?thesis
    using postgres_create_user_fails [of demo_lib ?u empty_database] by auto
qed

end
