(* ===== verification/Web_Auth.thy ===== *)
theory Web_Auth
  imports Api_Types Repositories
begin

text \<open>
  \<open>web/auth.go\<close>, \<open>web/api_v1_response.go\<close> and \<open>fsd/jwt.go\<close>: logging in, renewing an access token,
  tokens for the FSD server, and the middleware that guards the rest of the API. A handler maps
  the state of the server (the database and the clock) to its reply and the new state.
\<close>

subsection \<open>Replies\<close>

record web = database +
  wall :: int

datatype reply = Reply nat string

type_synonym 'x handler = "'x web_scheme \<Rightarrow> reply \<times> 'x web_scheme"

definition write_failure :: "nat \<Rightarrow> string \<Rightarrow> reply" where
  "write_failure status msg = Reply status (json_text (envelope (Str msg) Null))"

definition write_success :: "nat \<Rightarrow> jsval \<Rightarrow> reply" where
  "write_success status data = Reply status (json_text (envelope Null data))"

abbreviation internal_error :: reply where
  "internal_error \<equiv> write_failure 500 ''internal server error''"

abbreviation forbidden :: reply where
  "forbidden \<equiv> write_failure 403 ''forbidden''"

abbreviation not_found :: reply where
  "not_found \<equiv> write_failure 404 ''not found''"

abbreviation bad_body :: reply where
  "bad_body \<equiv> write_failure 400 ''invalid JSON body''"

definition safe_str :: "string option \<Rightarrow> string" where
  "safe_str p = (case p of None \<Rightarrow> [] | Some s \<Rightarrow> s)"

abbreviation (input) NetworkRatingSuspended :: int where "NetworkRatingSuspended \<equiv> 0"
abbreviation (input) NetworkRatingSupervisor :: int where "NetworkRatingSupervisor \<equiv> 11"
abbreviation (input) NetworkRatingAdministator :: int where "NetworkRatingAdministator \<equiv> 12"


subsection \<open>Making tokens\<close>

abbreviation minute :: int where "minute \<equiv> 60000"

text \<open>\<open>fsd.MakeJwtToken\<close>: times are cut to the second when they are written.\<close>

definition make_jwt_token ::
    "golib \<Rightarrow> string \<Rightarrow> int \<Rightarrow> string \<Rightarrow> string \<Rightarrow> int \<Rightarrow> int \<Rightarrow> 'x web_scheme \<Rightarrow> claims option \<times> 'x web_scheme" where
  "make_jwt_token lib token_type cid first_name last_name rating validity w =
     (let w1 = w\<lparr>draws := Suc (draws w)\<rparr> in
      case uuid lib (draws w) of
        None \<Rightarrow> (None, w1)
      | Some u \<Rightarrow>
          (Some \<lparr>Issuer = issuer, ExpiresAt = (wall w + validity) div 1000,
                 NotBefore = (wall w - 30000) div 1000, IssuedAt = wall w div 1000, jti = u,
                 TokenType = token_type, claims_CID = cid, claims_FirstName = first_name,
                 claims_LastName = last_name, claims_NetworkRating = rating\<rparr>, w1))"

definition make_access_token :: "golib \<Rightarrow> user \<Rightarrow> string \<Rightarrow> 'x web_scheme \<Rightarrow> string option \<times> 'x web_scheme" where
  "make_access_token lib u secret w =
     (case make_jwt_token lib ''access'' (CID u) (safe_str (FirstName u)) (safe_str (LastName u))
         (NetworkRating u) (15 * minute) w of
        (None, w1) \<Rightarrow> (None, w1)
      | (Some c, w1) \<Rightarrow> (Some (jwt_sign lib secret c), w1))"

definition make_refresh_token :: "golib \<Rightarrow> user \<Rightarrow> bool \<Rightarrow> string \<Rightarrow> 'x web_scheme \<Rightarrow> string option \<times> 'x web_scheme" where
  "make_refresh_token lib u rememberMe secret w =
     (let validity = (if rememberMe then 60 * minute * 24 * 30 else 60 * minute * 24) in
      case make_jwt_token lib ''refresh'' (CID u) (safe_str (FirstName u)) (safe_str (LastName u))
          (NetworkRating u) validity w of
        (None, w1) \<Rightarrow> (None, w1)
      | (Some c, w1) \<Rightarrow> (Some (jwt_sign lib secret c), w1))"

definition make_access_refresh_tokens ::
    "golib \<Rightarrow> user \<Rightarrow> bool \<Rightarrow> 'x web_scheme \<Rightarrow> (string \<times> string) option \<times> 'x web_scheme" where
  "make_access_refresh_tokens lib u rememberMe w =
     (case config_get ConfigJwtSecretKey w of
        Inl _ \<Rightarrow> (None, w)
      | Inr secret \<Rightarrow>
          (case make_access_token lib u secret w of
             (None, w1) \<Rightarrow> (None, w1)
           | (Some access, w1) \<Rightarrow>
               (case make_refresh_token lib u rememberMe secret w1 of
                  (None, w2) \<Rightarrow> (None, w2)
                | (Some refresh, w2) \<Rightarrow> (Some (access, refresh), w2))))"


subsection \<open>Handlers\<close>

definition get_access_refresh_tokens :: "golib \<Rightarrow> string option \<Rightarrow> 'x handler" where
  "get_access_refresh_tokens lib body w =
     (case body_members body of
        None \<Rightarrow> (bad_body, w)
      | Some kvs \<Rightarrow>
          (case (int_field ''cid'' kvs, string_field ''password'' kvs, bool_field ''remember_me'' kvs) of
             (Some cid, Some password, Some remember) \<Rightarrow>
               if \<not> binding lib [([AtLeast 1, Required], IntV cid), ([Required], StrV password)] then (bad_body, w)
               else
                 (case get_user_by_cid cid w of
                    Inl _ \<Rightarrow> (write_failure 401 ''Bad CID and/or password'', w)
                  | Inr u \<Rightarrow>
                      if \<not> verify_password_hash lib password (Password u)
                      then (write_failure 401 ''Bad CID and/or password'', w)
                      else
                        (case make_access_refresh_tokens lib u remember w of
                           (None, w1) \<Rightarrow> (internal_error, w1)
                         | (Some (access, refresh), w1) \<Rightarrow>
                             (write_success 200
                                (Obj [(''access_token'', Str access), (''refresh_token'', Str refresh)]), w1)))
           | _ \<Rightarrow> (bad_body, w)))"

definition refresh_access_token :: "golib \<Rightarrow> string option \<Rightarrow> 'x handler" where
  "refresh_access_token lib body w =
     (case Option.bind (body_members body) (string_field ''refresh_token'') of
        None \<Rightarrow> (bad_body, w)
      | Some token \<Rightarrow>
          if \<not> binding lib [([Required], StrV token)] then (bad_body, w)
          else
            (case config_get ConfigJwtSecretKey w of
               Inl _ \<Rightarrow> (internal_error, w)
             | Inr secret \<Rightarrow>
                 (case jwt_parse lib secret (wall w) token of
                    None \<Rightarrow> (write_failure 401 ''bad token'', w)
                  | Some c \<Rightarrow>
                      if TokenType c \<noteq> ''refresh'' then (write_failure 401 ''bad token'', w)
                      else
                        (case get_user_by_cid (claims_CID c) w of
                           Inl _ \<Rightarrow> (write_failure 401 ''bad token'', w)
                         | Inr u \<Rightarrow>
                             (case make_access_token lib u secret w of
                                (None, w1) \<Rightarrow> (internal_error, w1)
                              | (Some access, w1) \<Rightarrow>
                                  (write_success 200 (Obj [(''access_token'', Str access)]), w1))))))"

text \<open>\<open>strconv.Atoi\<close>.\<close>

definition atoi :: "string \<Rightarrow> int option" where
  "atoi s =
     (let neg = (s \<noteq> [] \<and> hd s = CHR ''-'');
          ds = (if s \<noteq> [] \<and> (hd s = CHR ''-'' \<or> hd s = CHR ''+'') then tl s else s);
          i = (if neg then - int (read_digits ds) else int (read_digits ds))
      in if ds \<noteq> [] \<and> list_all is_digit ds \<and> int64 i then Some i else None)"

definition fsd_jwt_reply :: "nat \<Rightarrow> bool \<Rightarrow> string \<Rightarrow> string \<Rightarrow> reply" where
  "fsd_jwt_reply status success token error_msg =
     Reply status (json_text (Obj ([(''success'', Bool success)]
       @ (if token = [] then [] else [(''token'', Str token)])
       @ (if error_msg = [] then [] else [(''error_msg'', Str error_msg)]))))"

text \<open>
  The token an FSD client logs in with. The CID and the password come from a form or from JSON;
  where they cannot be bound the handler returns without a reply, which is an empty 200.
\<close>

definition get_fsd_jwt :: "golib \<Rightarrow> (string \<times> string) option \<Rightarrow> 'x handler" where
  "get_fsd_jwt lib bound w =
     (case bound of
        None \<Rightarrow> (Reply 200 [], w)
      | Some (cid_text, password) \<Rightarrow>
          if \<not> binding lib [([Required], StrV cid_text), ([Required], StrV password)] then (Reply 200 [], w)
          else
            (case atoi cid_text of
               None \<Rightarrow> (fsd_jwt_reply 400 False [] ''Invalid CID'', w)
             | Some cid \<Rightarrow>
                 if cid < 1 then (fsd_jwt_reply 400 False [] ''Invalid CID'', w)
                 else
                   (case get_user_by_cid cid w of
                      Inl ErrNoRows \<Rightarrow> (fsd_jwt_reply 401 False [] ''Invalid CID and/or password'', w)
                    | Inl _ \<Rightarrow> (fsd_jwt_reply 500 False [] ''Internal server error'', w)
                    | Inr u \<Rightarrow>
                        if NetworkRating u \<le> NetworkRatingSuspended
                        then (fsd_jwt_reply 403 False [] ''Certificate suspended or inactive'', w)
                        else
                          (case make_jwt_token lib ''fsd'' (CID u) (safe_str (FirstName u))
                              (safe_str (LastName u)) (NetworkRating u) (5 * minute) w of
                             (None, w1) \<Rightarrow> (fsd_jwt_reply 500 False [] ''Internal server error'', w1)
                           | (Some c, w1) \<Rightarrow>
                               (case config_get ConfigJwtSecretKey w1 of
                                  Inl _ \<Rightarrow> (internal_error, w1)
                                | Inr secret \<Rightarrow> (fsd_jwt_reply 200 True (jwt_sign lib secret c) [], w1))))))"

text \<open>The guard of the other routes: a current access token in the \<open>Authorization\<close> header.\<close>

definition bearer_token :: "string option \<Rightarrow> string option" where
  "bearer_token auth =
     (case auth of
        None \<Rightarrow> None
      | Some h \<Rightarrow> if take 7 h = ''Bearer '' then Some (drop 7 h) else None)"

definition jwt_bearer_middleware :: "golib \<Rightarrow> string option \<Rightarrow> (claims \<Rightarrow> 'x handler) \<Rightarrow> 'x handler" where
  "jwt_bearer_middleware lib auth next_handler w =
     (case bearer_token auth of
        None \<Rightarrow> (write_failure 400 ''bad bearer token'', w)
      | Some token \<Rightarrow>
          (case config_get ConfigJwtSecretKey w of
             Inl _ \<Rightarrow> (internal_error, w)
           | Inr secret \<Rightarrow>
               (case jwt_parse lib secret (wall w) token of
                  None \<Rightarrow> (write_failure 401 ''invalid bearer token'', w)
                | Some c \<Rightarrow>
                    if TokenType c \<noteq> ''access'' then (write_failure 401 ''invalid token type'', w)
                    else next_handler c w)))"

subsection \<open>What the token functions make\<close>

text \<open>The claims of a token made for a user, and when such a token can be made at all.\<close>

definition token_claims :: "golib \<Rightarrow> string \<Rightarrow> user \<Rightarrow> int \<Rightarrow> nat \<Rightarrow> int \<Rightarrow> claims" where
  "token_claims lib token_type u validity n now =
     \<lparr>Issuer = issuer, ExpiresAt = (now + validity) div 1000, NotBefore = (now - 30000) div 1000,
      IssuedAt = now div 1000, jti = (case uuid lib n of None \<Rightarrow> [] | Some i \<Rightarrow> i),
      TokenType = token_type, claims_CID = CID u, claims_FirstName = safe_str (FirstName u),
      claims_LastName = safe_str (LastName u), claims_NetworkRating = NetworkRating u\<rparr>"

lemma token_claims_user [simp]:
  "claims_NetworkRating (token_claims lib tt u v n t) = NetworkRating u" "claims_CID (token_claims lib tt u v n t) = CID u"
  "TokenType (token_claims lib tt u v n t) = tt" "claims_FirstName (token_claims lib tt u v n t) = safe_str (FirstName u)"
  "claims_LastName (token_claims lib tt u v n t) = safe_str (LastName u)"
  by (simp_all add: token_claims_def)

lemma make_jwt_token_user:
  assumes "lib_ok lib"
  shows "make_jwt_token lib tt (CID u) (safe_str (FirstName u)) (safe_str (LastName u)) (NetworkRating u) validity w
     = (Some (token_claims lib tt u validity (draws w) (wall w)), w\<lparr>draws := Suc (draws w)\<rparr>)"
proof -
  obtain i where "uuid lib (draws w) = Some i"
    using assms by (auto simp: lib_ok_def random_ok_def)
  then show ?thesis by (simp add: make_jwt_token_def token_claims_def Let_def)
qed

text \<open>A user whose data fits a token: a 64-bit CID and rating, names in ASCII.\<close>

definition user_ok :: "user \<Rightarrow> bool" where
  "user_ok u \<longleftrightarrow>
     int64 (CID u) \<and> int64 (NetworkRating u) \<and> ascii_text (safe_str (FirstName u)) \<and> ascii_text (safe_str (LastName u))"

definition clock_ok :: "int \<Rightarrow> bool" where
  "clock_ok now \<longleftrightarrow> 0 \<le> now \<and> now \<le> 10 ^ 15"

lemma seconds_div:
  fixes t d :: int
  assumes "0 < d"
  shows "t < (t + 1000 * d) div 1000 * 1000" "(t - 30000) div 1000 * 1000 \<le> t"
proof -
  have "(t + 1000 * d) div 1000 = t div 1000 + d"
    using div_mult_self4 [of 1000 t d] by simp
  moreover have "t < (t div 1000 + 1) * 1000"
    using pos_mod_bound [of 1000 t] div_mult_mod_eq [of t 1000] unfolding distrib_right by linarith
  ultimately show "t < (t + 1000 * d) div 1000 * 1000"
    using assms by simp
  show "(t - 30000) div 1000 * 1000 \<le> t"
    using pos_mod_sign [of 1000 "t - 30000"] div_mult_mod_eq [of "t - 30000" 1000] by linarith
qed

lemma token_claims_ok:
  assumes "lib_ok lib" "user_ok u" "clock_ok now" "0 \<le> validity" "validity \<le> 10 ^ 15" "ascii_text tt"
  shows "claims_ok (token_claims lib tt u validity n now)"
proof -
  obtain i where "uuid lib n = Some i" "ascii_text i"
    using assms(1) by (auto simp: lib_ok_def random_ok_def)
  moreover have "ascii_text issuer" by (simp add: issuer_def ascii_char_def)
  ultimately show ?thesis
    using assms(2-6)
    by (auto simp: claims_ok_def token_claims_def user_ok_def clock_ok_def int64_def)
qed

lemma token_claims_current:
  "claims_current now (token_claims lib tt u validity n issued)
     \<longleftrightarrow> now < (issued + validity) div 1000 * 1000 \<and> (issued - 30000) div 1000 * 1000 \<le> now"
  by (simp add: claims_current_def token_claims_def issuer_def)

lemma token_claims_fresh:
  "0 < seconds \<Longrightarrow> claims_current now (token_claims lib tt u (1000 * seconds) n now)"
  using seconds_div [of seconds now] by (simp add: token_claims_current)

text \<open>The access and the refresh token of a login.\<close>

definition login_access :: "golib \<Rightarrow> string \<Rightarrow> user \<Rightarrow> 'x web_scheme \<Rightarrow> string" where
  "login_access lib secret u w =
     jwt_sign lib secret (token_claims lib ''access'' u (15 * minute) (draws w) (wall w))"

definition refresh_validity :: "bool \<Rightarrow> int" where
  "refresh_validity remember = (if remember then 60 * minute * 24 * 30 else 60 * minute * 24)"

definition login_refresh :: "golib \<Rightarrow> string \<Rightarrow> user \<Rightarrow> bool \<Rightarrow> 'x web_scheme \<Rightarrow> string" where
  "login_refresh lib secret u remember w =
     jwt_sign lib secret (token_claims lib ''refresh'' u (refresh_validity remember) (Suc (draws w)) (wall w))"

lemma make_access_token_user:
  assumes "lib_ok lib"
  shows "make_access_token lib u secret w = (Some (login_access lib secret u w), w\<lparr>draws := Suc (draws w)\<rparr>)"
  by (simp add: make_access_token_def make_jwt_token_user [OF assms] login_access_def)

lemma make_access_refresh_tokens_user:
  assumes "lib_ok lib" "config_get ConfigJwtSecretKey w = Inr secret"
  shows "make_access_refresh_tokens lib u remember w
     = (Some (login_access lib secret u w, login_refresh lib secret u remember w),
        w\<lparr>draws := Suc (Suc (draws w))\<rparr>)"
  by (simp add: make_access_refresh_tokens_def assms(2) make_access_token_user [OF assms(1)]
      make_refresh_token_def Let_def make_jwt_token_user [OF assms(1)] login_refresh_def refresh_validity_def)

text \<open>What the body of a login page's request is bound to.\<close>

definition login_json :: "int \<Rightarrow> string \<Rightarrow> bool \<Rightarrow> jsval" where
  "login_json cid password remember =
     Obj [(''cid'', JInt cid), (''password'', Str password), (''remember_me'', Bool remember)]"

lemma members_simps [simp]:
  "members k [] = []" "members k ((n, v) # kvs) = (if ascii_lower n = k then v # members k kvs else members k kvs)"
  by (simp_all add: members_def)

lemma get_access_refresh_tokens_json:
  assumes "tags_ok lib" "int64 cid"
  shows "get_access_refresh_tokens lib (Some (json_text (login_json cid password remember))) w =
     (if cid < 1 \<or> password = [] then (bad_body, w)
      else
        (case get_user_by_cid cid w of
           Inl _ \<Rightarrow> (write_failure 401 ''Bad CID and/or password'', w)
         | Inr u \<Rightarrow>
             if \<not> verify_password_hash lib password (Password u)
             then (write_failure 401 ''Bad CID and/or password'', w)
             else
               (case make_access_refresh_tokens lib u remember w of
                  (None, w1) \<Rightarrow> (internal_error, w1)
                | (Some (access, refresh), w1) \<Rightarrow>
                    (write_success 200
                       (Obj [(''access_token'', Str access), (''refresh_token'', Str refresh)]), w1))))"
proof -
  have "json_ok (login_json cid password remember)"
    using int64_small [OF assms(2)] by (simp add: login_json_def)
  then have b: "body_members (Some (json_text (login_json cid password remember)))
      = Some [(''cid'', JInt cid), (''password'', Str password), (''remember_me'', Bool remember)]"
    unfolding login_json_def by (rule body_members_text)
  have l: "ascii_lower ''cid'' = ''cid''" "ascii_lower ''password'' = ''password''"
      "ascii_lower ''remember_me'' = ''remember_me''"
    by (simp_all add: ascii_lower_def is_upper_def)
  show ?thesis
    by (simp add: get_access_refresh_tokens_def b int_field_def string_field_def bool_field_def l assms(2)
        binding_def tags_okD [OF assms(1)])
qed

subsection \<open>Tokens over time\<close>

text \<open>A server that answers: its engine is up, its secret is set, its clock is sane.\<close>

definition serving :: "'x web_scheme \<Rightarrow> string \<Rightarrow> bool" where
  "serving w secret \<longleftrightarrow> db_up w \<and> config w ConfigJwtSecretKey = Some secret \<and> clock_ok (wall w)"

lemma serving_secret: "serving w secret \<Longrightarrow> config_get ConfigJwtSecretKey w = Inr secret"
  by (simp add: serving_def config_get_def)

text \<open>A token that is accepted at a time as one of this type, with the data of this user: CID, both names and rating.\<close>

definition token_good :: "golib \<Rightarrow> string \<Rightarrow> string \<Rightarrow> user \<Rightarrow> int \<Rightarrow> string \<Rightarrow> bool" where
  "token_good lib secret token_type u now token \<longleftrightarrow>
     (\<exists>c. jwt_parse lib secret now token = Some c \<and> TokenType c = token_type \<and> claims_CID c = CID u
        \<and> claims_FirstName c = safe_str (FirstName u) \<and> claims_LastName c = safe_str (LastName u)
        \<and> claims_NetworkRating c = NetworkRating u)"

lemma token_lifetime:
  fixes n :: nat and secret :: string
  assumes "lib_ok lib" "user_ok u" "clock_ok issued" "0 \<le> validity" "validity \<le> 10 ^ 13" "ascii_text tt"
  defines "t \<equiv> jwt_sign lib secret (token_claims lib tt u validity n issued)"
  shows "issued \<le> now \<Longrightarrow> now \<le> issued + validity - 1000 \<Longrightarrow> token_good lib secret tt u now t"
    "issued + validity \<le> now \<Longrightarrow> jwt_parse lib secret now t = None"
proof -
  have ok: "claims_ok (token_claims lib tt u validity n issued)"
    using assms(4,5) by (intro token_claims_ok assms(1-3,6)) simp_all
  have m: "(issued + validity) div 1000 * 1000 \<le> issued + validity"
      "issued + validity - 1000 < (issued + validity) div 1000 * 1000"
      "(issued - 30000) div 1000 * 1000 \<le> issued - 30000"
    using pos_mod_bound [of 1000 "issued + validity"] pos_mod_sign [of 1000 "issued + validity"]
      div_mult_mod_eq [of "issued + validity" 1000] pos_mod_sign [of 1000 "issued - 30000"]
      div_mult_mod_eq [of "issued - 30000" 1000] by linarith+
  show "token_good lib secret tt u now t" if "issued \<le> now" "now \<le> issued + validity - 1000"
  proof -
    have "claims_current now (token_claims lib tt u validity n issued)"
      unfolding token_claims_current using that m by linarith
    then show ?thesis
      by (simp add: token_good_def t_def sign_parse [OF assms(1) ok])
  qed
  show "jwt_parse lib secret now t = None" if "issued + validity \<le> now"
  proof -
    have "\<not> claims_current now (token_claims lib tt u validity n issued)"
      unfolding token_claims_current using that m by linarith
    then show ?thesis by (simp add: t_def sign_parse [OF assms(1) ok])
  qed
qed

lemma ascii_token_types: "ascii_text ''access''" "ascii_text ''refresh''" "ascii_text ''fsd''"
  by (simp_all add: ascii_char_def)

lemma login_succeeds:
  assumes "lib_ok lib" "serving w secret" "get_user_by_cid cid w = Inr u"
    and "verify_password_hash lib password (Password u)" "password \<noteq> []" "1 \<le> cid" "int64 cid"
  shows "get_access_refresh_tokens lib (Some (json_text (login_json cid password remember))) w
     = (write_success 200 (Obj [(''access_token'', Str (login_access lib secret u w)),
          (''refresh_token'', Str (login_refresh lib secret u remember w))]),
        w\<lparr>draws := Suc (Suc (draws w))\<rparr>)"
proof -
  have "tags_ok lib" using assms(1) by (simp add: lib_ok_def)
  then show ?thesis
    using assms(3-7) make_access_refresh_tokens_user [OF assms(1) serving_secret [OF assms(2)], of u remember]
    by (simp add: get_access_refresh_tokens_json)
qed

text \<open>For the witnesses: a server with one user, whose password is known.\<close>

definition demo_user :: user where
  "demo_user = \<lparr>CID = 1, Password = demo_hash ''correct horse'', FirstName = Some ''Ann'', LastName = None, NetworkRating = 11\<rparr>"

definition demo_web :: web where
  "demo_web =
     \<lparr>users = [1 \<mapsto> demo_user], last_cid = 1, config = [ConfigJwtSecretKey \<mapsto> ''s3cret''], db_up = True, draws = 0,
      wall = 1000000\<rparr>"

lemma demo_web_serving: "serving demo_web ''s3cret''" "get_user_by_cid 1 demo_web = Inr demo_user" "user_ok demo_user"
  by (simp_all add: serving_def demo_web_def clock_ok_def get_user_by_cid_def user_ok_def demo_user_def int64_def
      safe_str_def ascii_char_def)

lemma demo_user_simps [simp]: "CID demo_user = 1" "NetworkRating demo_user = 11"
  by (simp_all add: demo_user_def)

lemma demo_password: "verify_password_hash demo_lib ''correct horse'' (Password demo_user)"
  by (simp add: verify_password_hash_def demo_lib_def demo_user_def)

subsection \<open>Properties\<close>

text \<open>
  C24. Logging in with the right password opens a session: the reply carries an access token that is
  accepted as this user's for its 15 minutes and a refresh token for 24 hours, or 30 days when
  the user asked to be remembered; each is refused from the end of that time on; nothing but the
  count of random draws changes on the server.
\<close>

theorem login_opens_session:
  assumes "lib_ok lib" "serving w secret" "get_user_by_cid cid w = Inr u" "user_ok u"
    and "verify_password_hash lib password (Password u)" "password \<noteq> []" "1 \<le> cid" "int64 cid"
  shows "\<exists>access refresh n.
     get_access_refresh_tokens lib (Some (json_text (login_json cid password remember))) w
       = (write_success 200 (Obj [(''access_token'', Str access), (''refresh_token'', Str refresh)]), w\<lparr>draws := n\<rparr>)
     \<and> (\<forall>now. (wall w \<le> now \<and> now \<le> wall w + 15 * minute - 1000 \<longrightarrow> token_good lib secret ''access'' u now access)
          \<and> (wall w + 15 * minute \<le> now \<longrightarrow> jwt_parse lib secret now access = None)
          \<and> (wall w \<le> now \<and> now \<le> wall w + refresh_validity remember - 1000
               \<longrightarrow> token_good lib secret ''refresh'' u now refresh)
          \<and> (wall w + refresh_validity remember \<le> now \<longrightarrow> jwt_parse lib secret now refresh = None))"
proof -
  have c: "clock_ok (wall w)" using assms(2) by (simp add: serving_def)
  have v: "0 \<le> refresh_validity remember" "refresh_validity remember \<le> 10 ^ 13"
    by (simp_all add: refresh_validity_def)
  note access = token_lifetime [where n = "draws w" and secret = secret and validity = "15 * minute",
      OF assms(1,4) c _ _ ascii_token_types(1)]
  note refresh = token_lifetime [where n = "Suc (draws w)" and secret = secret, OF assms(1,4) c v ascii_token_types(2)]
  show ?thesis
    unfolding login_succeeds [OF assms(1-3,5-8)]
    by (intro exI conjI, rule refl, simp only: login_access_def login_refresh_def)
      (use access refresh in simp)
qed

theorem login_opens_session_witness:
  "\<exists>access refresh n.
     get_access_refresh_tokens demo_lib (Some (json_text (login_json 1 ''correct horse'' False))) demo_web
       = (write_success 200 (Obj [(''access_token'', Str access), (''refresh_token'', Str refresh)]), demo_web\<lparr>draws := n\<rparr>)"
proof -
  have "(1::int) \<le> 1" "int64 1" "''correct horse'' \<noteq> []" by (simp_all add: int64_def)
  with login_opens_session [OF demo_lib_ok demo_web_serving demo_password] show ?thesis by metis
qed

definition refresh_json :: "string \<Rightarrow> jsval" where
  "refresh_json token = Obj [(''refresh_token'', Str token)]"

lemma refresh_body: "Option.bind (body_members (Some (json_text (refresh_json token)))) (string_field ''refresh_token'') = Some token"
proof -
  have "body_members (Some (json_text (refresh_json token))) = Some [(''refresh_token'', Str token)]"
    unfolding refresh_json_def by (rule body_members_text) simp
  moreover have "ascii_lower ''refresh_token'' = ''refresh_token''"
    by (simp add: ascii_lower_def is_upper_def)
  ultimately show ?thesis by (simp add: string_field_def)
qed

lemma refresh_access_token_json:
  assumes "tags_ok lib" "token \<noteq> []" "serving w secret"
  shows "refresh_access_token lib (Some (json_text (refresh_json token))) w =
     (case jwt_parse lib secret (wall w) token of
        None \<Rightarrow> (write_failure 401 ''bad token'', w)
      | Some c \<Rightarrow>
          if TokenType c \<noteq> ''refresh'' then (write_failure 401 ''bad token'', w)
          else
            (case get_user_by_cid (claims_CID c) w of
               Inl _ \<Rightarrow> (write_failure 401 ''bad token'', w)
             | Inr u \<Rightarrow>
                 (case make_access_token lib u secret w of
                    (None, w1) \<Rightarrow> (internal_error, w1)
                  | (Some access, w1) \<Rightarrow> (write_success 200 (Obj [(''access_token'', Str access)]), w1))))"
  by (simp add: refresh_access_token_def refresh_body binding_def tags_okD [OF assms(1)] assms(2)
      serving_secret [OF assms(3)])

text \<open>A current refresh token is renewed with the data of the user as they are now.\<close>

lemma refresh_succeeds:
  assumes "lib_ok lib" "serving w secret" "token \<noteq> []"
    and "jwt_parse lib secret (wall w) token = Some c" "TokenType c = ''refresh''" "get_user_by_cid (claims_CID c) w = Inr u"
  shows "refresh_access_token lib (Some (json_text (refresh_json token))) w =
     (write_success 200 (Obj [(''access_token'', Str (login_access lib secret u w))]), w\<lparr>draws := Suc (draws w)\<rparr>)"
proof -
  have "tags_ok lib" using assms(1) by (simp add: lib_ok_def)
  then show ?thesis
    using assms(3-6) by (simp add: refresh_access_token_json [OF _ _ assms(2)] make_access_token_user [OF assms(1)])
qed

lemma bearer_token_header: "bearer_token (Some (''Bearer '' @ token)) = Some token"
  by (simp add: bearer_token_def)

lemma middleware_passes:
  assumes "serving w secret" "jwt_parse lib secret (wall w) token = Some c" "TokenType c = ''access''"
  shows "jwt_bearer_middleware lib (Some (''Bearer '' @ token)) h w = h c w"
  using assms(2,3) by (simp add: jwt_bearer_middleware_def bearer_token_header serving_secret [OF assms(1)] del: append_Cons)

text \<open>
  C25. The kinds of token are kept apart. A token that is current but no refresh token renews nothing,
  and one that is no access token opens no guarded route, whatever the handler behind it; the
  server's state stays as it is.
\<close>

theorem token_types_kept_apart:
  assumes "tags_ok lib" "serving w secret" "token \<noteq> []" "jwt_parse lib secret (wall w) token = Some c"
  shows "(TokenType c \<noteq> ''refresh'' \<longrightarrow>
       refresh_access_token lib (Some (json_text (refresh_json token))) w = (write_failure 401 ''bad token'', w))
    \<and> (TokenType c \<noteq> ''access'' \<longrightarrow>
       jwt_bearer_middleware lib (Some (''Bearer '' @ token)) h w = (write_failure 401 ''invalid token type'', w))"
  using assms(4)
  by (simp add: refresh_access_token_json [OF assms(1,3,2)] jwt_bearer_middleware_def bearer_token_header
      serving_secret [OF assms(2)] del: append_Cons)

lemma demo_access: 
  "token_good demo_lib ''s3cret'' ''access'' demo_user 1000000 (login_access demo_lib ''s3cret'' demo_user demo_web)"
  "token_good demo_lib ''s3cret'' ''refresh'' demo_user 1000000 (login_refresh demo_lib ''s3cret'' demo_user True demo_web)"
  "login_access demo_lib ''s3cret'' demo_user demo_web \<noteq> []"
  "login_refresh demo_lib ''s3cret'' demo_user True demo_web \<noteq> []"
proof -
  have c: "clock_ok 1000000" by (simp add: clock_ok_def)
  have w: "wall demo_web = 1000000" by (simp add: demo_web_def)
  show "token_good demo_lib ''s3cret'' ''access'' demo_user 1000000 (login_access demo_lib ''s3cret'' demo_user demo_web)"
    unfolding login_access_def w
    by (rule token_lifetime(1) [OF demo_lib_ok demo_web_serving(3) c _ _ ascii_token_types(1)]) simp_all
  show "token_good demo_lib ''s3cret'' ''refresh'' demo_user 1000000 (login_refresh demo_lib ''s3cret'' demo_user True demo_web)"
    unfolding login_refresh_def w
    by (rule token_lifetime(1) [OF demo_lib_ok demo_web_serving(3) c _ _ ascii_token_types(2)])
      (simp_all add: refresh_validity_def)
qed (simp_all add: login_access_def login_refresh_def demo_lib_def)

theorem token_types_kept_apart_witness:
  "refresh_access_token demo_lib (Some (json_text (refresh_json (login_access demo_lib ''s3cret'' demo_user demo_web)))) demo_web
     = (write_failure 401 ''bad token'', demo_web)
   \<and> jwt_bearer_middleware demo_lib (Some (''Bearer '' @ login_refresh demo_lib ''s3cret'' demo_user True demo_web))
       (\<lambda>c w. (internal_error, w)) demo_web = (write_failure 401 ''invalid token type'', demo_web)"
proof -
  have t: "tags_ok demo_lib" using demo_lib_ok by (simp add: lib_ok_def)
  have w: "wall demo_web = 1000000" by (simp add: demo_web_def)
  obtain c where c: "jwt_parse demo_lib ''s3cret'' (wall demo_web) (login_access demo_lib ''s3cret'' demo_user demo_web) = Some c"
      "TokenType c = ''access''"
    using demo_access(1) by (auto simp: token_good_def w)
  obtain d where d: "jwt_parse demo_lib ''s3cret'' (wall demo_web) (login_refresh demo_lib ''s3cret'' demo_user True demo_web) = Some d"
      "TokenType d = ''refresh''"
    using demo_access(2) by (auto simp: token_good_def w)
  show ?thesis
    using token_types_kept_apart [OF t demo_web_serving(1) demo_access(3) c(1)] c(2)
      token_types_kept_apart [OF t demo_web_serving(1) demo_access(4) d(1), of "\<lambda>c w. (internal_error, w)"] d(2)
    by simp
qed

lemma fsd_token_made:
  assumes "lib_ok lib" "serving w secret" "atoi cid_text = Some cid" "1 \<le> cid"
    and "get_user_by_cid cid w = Inr u" "0 < NetworkRating u" "password \<noteq> []"
  shows "get_fsd_jwt lib (Some (cid_text, password)) w =
      (fsd_jwt_reply 200 True (jwt_sign lib secret (token_claims lib ''fsd'' u (5 * minute) (draws w) (wall w))) [],
       w\<lparr>draws := Suc (draws w)\<rparr>)"
proof -
  have tags: "tags_ok lib" using assms(1) by (simp add: lib_ok_def)
  have "cid_text \<noteq> []" using assms(3) by (auto simp: atoi_def)
  moreover have "config_get ConfigJwtSecretKey (w\<lparr>draws := n\<rparr>) = Inr secret" for n
    using serving_secret [OF assms(2)] by (simp add: config_get_def split: if_splits)
  ultimately show ?thesis
    using assms(3-7) by (simp add: get_fsd_jwt_def binding_def tags_okD [OF tags] make_jwt_token_user [OF assms(1)])
qed

text \<open>
  The route that hands out tokens for the FSD server does not look at the password: for every
  CID of a user that is not suspended, and whatever text is sent as the password, the reply is
  a token the FSD server accepts as that user's.
\<close>

theorem fsd_token_needs_no_password:
  assumes "lib_ok lib" "serving w secret" "atoi cid_text = Some cid" "1 \<le> cid"
    and "get_user_by_cid cid w = Inr u" "user_ok u" "0 < NetworkRating u" "password \<noteq> []"
  shows "\<exists>token. get_fsd_jwt lib (Some (cid_text, password)) w
       = (fsd_jwt_reply 200 True token [], w\<lparr>draws := Suc (draws w)\<rparr>)
     \<and> token_good lib secret ''fsd'' u (wall w) token"
proof -
  have c: "clock_ok (wall w)" using assms(2) by (simp add: serving_def)
  have "token_good lib secret ''fsd'' u (wall w)
      (jwt_sign lib secret (token_claims lib ''fsd'' u (5 * minute) (draws w) (wall w)))"
    by (rule token_lifetime(1) [OF assms(1,6) c _ _ ascii_token_types(3)]) simp_all
  with fsd_token_made [OF assms(1-5,7,8)] show ?thesis by blast
qed

theorem fsd_token_needs_no_password_witness:
  "\<not> verify_password_hash demo_lib ''guess'' (Password demo_user)
   \<and> (\<exists>token. get_fsd_jwt demo_lib (Some (''1'', ''guess'')) demo_web
         = (fsd_jwt_reply 200 True token [], demo_web\<lparr>draws := Suc (draws demo_web)\<rparr>)
       \<and> token_good demo_lib ''s3cret'' ''fsd'' demo_user (wall demo_web) token)"
proof
  show "\<not> verify_password_hash demo_lib ''guess'' (Password demo_user)"
    by (simp add: verify_password_hash_def demo_lib_def demo_user_def demo_hash_def)
  have "atoi ''1'' = Some 1" by code_simp
  moreover have "0 < NetworkRating demo_user" by (simp add: demo_user_def)
  ultimately show "\<exists>token. get_fsd_jwt demo_lib (Some (''1'', ''guess'')) demo_web
         = (fsd_jwt_reply 200 True token [], demo_web\<lparr>draws := Suc (draws demo_web)\<rparr>)
       \<and> token_good demo_lib ''s3cret'' ''fsd'' demo_user (wall demo_web) token"
    using fsd_token_needs_no_password [OF demo_lib_ok demo_web_serving(1) _ _ demo_web_serving(2,3), of "''1''" "''guess''"]
    by simp
qed

end
