(* ===== verification/Web_Users.thy ===== *)
theory Web_Users
  imports Web_Auth
begin

text \<open>
  \<open>web/user.go\<close>: loading, updating and creating users. The handlers run behind the middleware and
  are given the claims of the caller's token.
\<close>

text \<open>The user in a reply; the one of \<open>createUser\<close> keeps absent names as \<open>null\<close>.\<close>

definition user_reply :: "nat \<Rightarrow> user \<Rightarrow> reply" where
  "user_reply status u =
     write_success status
       (user_json (CID u) (safe_str (FirstName u)) (safe_str (LastName u)) (NetworkRating u))"

definition name_json :: "string option \<Rightarrow> jsval" where
  "name_json p = (case p of None \<Rightarrow> Null | Some s \<Rightarrow> Str s)"

definition created_reply :: "user \<Rightarrow> reply" where
  "created_reply u =
     write_success 201
       (Obj [(''cid'', JInt (CID u)), (''first_name'', name_json (FirstName u)),
             (''last_name'', name_json (LastName u)), (''network_rating'', JInt (NetworkRating u))])"

definition handle_get_user :: "golib \<Rightarrow> string option \<Rightarrow> claims \<Rightarrow> 'x handler" where
  "handle_get_user lib body c w =
     (case Option.bind (body_members body) (int_field ''cid'') of
        None \<Rightarrow> (bad_body, w)
      | Some cid \<Rightarrow>
          if \<not> binding lib [([AtLeast 1, Required], IntV cid)] then (bad_body, w)
          else if cid \<noteq> claims_CID c \<and> claims_NetworkRating c < NetworkRatingSupervisor then (forbidden, w)
          else
            (case get_user_by_cid cid w of
               Inl ErrNoRows \<Rightarrow> (not_found, w)
             | Inl _ \<Rightarrow> (internal_error, w)
             | Inr u \<Rightarrow> (user_reply 200 u, w)))"

text \<open>What a request to update may hold; absent members are \<open>nil\<close>.\<close>

record update_request =
  ur_cid :: int
  ur_password :: "string option"
  ur_first_name :: "string option"
  ur_last_name :: "string option"
  ur_network_rating :: "int option"

definition bind_update :: "golib \<Rightarrow> string option \<Rightarrow> update_request option" where
  "bind_update lib body =
     (case body_members body of
        None \<Rightarrow> None
      | Some kvs \<Rightarrow>
          (case (int_field ''cid'' kvs, string_ptr_field ''password'' kvs, string_ptr_field ''first_name'' kvs,
                 string_ptr_field ''last_name'' kvs, int_ptr_field ''network_rating'' kvs) of
             (Some cid, Some pw, Some fn, Some ln, Some nr) \<Rightarrow>
               if binding lib [([AtLeast 1, Required], IntV cid), ([AtLeast (-1), AtMost 12], IntPtrV nr)]
               then Some \<lparr>ur_cid = cid, ur_password = pw, ur_first_name = fn, ur_last_name = ln, ur_network_rating = nr\<rparr>
               else None
           | _ \<Rightarrow> None))"

text \<open>The fields of the request on top of the user as it was read, password hash included.\<close>

definition merge_update :: "update_request \<Rightarrow> user \<Rightarrow> user" where
  "merge_update rq u =
     u\<lparr>Password := (case ur_password rq of Some p \<Rightarrow> p | None \<Rightarrow> Password u),
       FirstName := (case ur_first_name rq of Some p \<Rightarrow> Some p | None \<Rightarrow> FirstName u),
       LastName := (case ur_last_name rq of Some p \<Rightarrow> Some p | None \<Rightarrow> LastName u),
       NetworkRating := (case ur_network_rating rq of Some r \<Rightarrow> r | None \<Rightarrow> NetworkRating u)\<rparr>"

definition handle_update_user :: "golib \<Rightarrow> string option \<Rightarrow> claims \<Rightarrow> 'x handler" where
  "handle_update_user lib body c w =
     (if claims_NetworkRating c < NetworkRatingSupervisor then (forbidden, w)
      else
        (case bind_update lib body of
           None \<Rightarrow> (bad_body, w)
         | Some rq \<Rightarrow>
             (case get_user_by_cid (ur_cid rq) w of
                Inl _ \<Rightarrow> (not_found, w)
              | Inr target \<Rightarrow>
                  if NetworkRating target > claims_NetworkRating c
                  then (write_failure 403 ''cannot update user with higher network rating'', w)
                  else
                    (let u = merge_update rq target in
                     case update_user lib u w of
                       (Inl ErrNoRows, w1) \<Rightarrow> (not_found, w1)
                     | (Inl _, w1) \<Rightarrow> (internal_error, w1)
                     | (Inr _, w1) \<Rightarrow> (user_reply 200 u, w1)))))"

definition handle_create_user :: "golib \<Rightarrow> string option \<Rightarrow> claims \<Rightarrow> 'x handler" where
  "handle_create_user lib body c w =
     (case body_members body of
        None \<Rightarrow> (bad_body, w)
      | Some kvs \<Rightarrow>
          (case (string_field ''password'' kvs, string_ptr_field ''first_name'' kvs,
                 string_ptr_field ''last_name'' kvs, int_field ''network_rating'' kvs) of
             (Some pw, Some fn, Some ln, Some nr) \<Rightarrow>
               if \<not> binding lib [([AtLeast 8, Required], StrV pw), ([AtLeast (-1), AtMost 12, Required], IntV nr)]
               then (bad_body, w)
               else if claims_NetworkRating c < NetworkRatingSupervisor \<or> nr > claims_NetworkRating c
               then (forbidden, w)
               else
                 (let u = \<lparr>CID = 0, Password = pw, FirstName = fn, LastName = ln, NetworkRating = nr\<rparr> in
                  case sqlite_create_user lib u w of
                    (Inl _, w1) \<Rightarrow> (internal_error, w1)
                  | (Inr cid, w1) \<Rightarrow> (created_reply (u\<lparr>CID := cid\<rparr>), w1))
           | _ \<Rightarrow> (bad_body, w)))"

subsection \<open>Bodies as the pages write them\<close>

text \<open>What the user editor sends: a password only where one was entered.\<close>

definition update_json :: "int \<Rightarrow> string \<Rightarrow> string \<Rightarrow> int \<Rightarrow> string \<Rightarrow> jsval" where
  "update_json cid fn ln nr pw =
     Obj ([(''cid'', JInt cid), (''first_name'', Str fn), (''last_name'', Str ln), (''network_rating'', JInt nr)]
       @ (if pw = [] then [] else [(''password'', Str pw)]))"

definition create_json :: "string \<Rightarrow> int \<Rightarrow> string \<Rightarrow> string \<Rightarrow> jsval" where
  "create_json pw nr fn ln =
     Obj ([(''password'', Str pw), (''network_rating'', JInt nr)]
       @ (if fn = [] then [] else [(''first_name'', Str fn)])
       @ (if ln = [] then [] else [(''last_name'', Str ln)]))"

lemma lower_names [simp]:
  "ascii_lower ''cid'' = ''cid''" "ascii_lower ''password'' = ''password''"
  "ascii_lower ''first_name'' = ''first_name''" "ascii_lower ''last_name'' = ''last_name''"
  "ascii_lower ''network_rating'' = ''network_rating''" "ascii_lower ''callsign'' = ''callsign''"
  by (simp_all add: ascii_lower_def is_upper_def)

lemma rating_int64: "-1 \<le> i \<Longrightarrow> i \<le> 12 \<Longrightarrow> int64 i"
  by (simp add: int64_def)

lemma bind_update_json:
  assumes "tags_ok lib" "int64 cid" "1 \<le> cid" "-1 \<le> nr" "nr \<le> 12"
  shows "bind_update lib (Some (json_text (update_json cid fn ln nr pw))) =
     Some \<lparr>ur_cid = cid, ur_password = (if pw = [] then None else Some pw), ur_first_name = Some fn,
           ur_last_name = Some ln, ur_network_rating = Some nr\<rparr>"
proof -
  let ?kvs = "[(''cid'', JInt cid), (''first_name'', Str fn), (''last_name'', Str ln), (''network_rating'', JInt nr)]
       @ (if pw = [] then [] else [(''password'', Str pw)])"
  have "json_ok (Obj ?kvs)"
    using int64_small [OF assms(2)] assms(4,5) by simp
  then have "body_members (Some (json_text (update_json cid fn ln nr pw))) = Some ?kvs"
    unfolding update_json_def by (rule body_members_text)
  then show ?thesis
    using assms(2-5) rating_int64 [OF assms(4,5)]
    by (simp add: bind_update_def int_field_def string_ptr_field_def int_ptr_field_def binding_def
        tags_okD [OF assms(1)])
qed

lemma create_body:
  assumes "-1 \<le> nr" "nr \<le> 12"
  shows "body_members (Some (json_text (create_json pw nr fn ln))) = Some
      ([(''password'', Str pw), (''network_rating'', JInt nr)]
       @ (if fn = [] then [] else [(''first_name'', Str fn)])
       @ (if ln = [] then [] else [(''last_name'', Str ln)]))"
  unfolding create_json_def using assms by (intro body_members_text) simp

definition name_ptr :: "string \<Rightarrow> string option" where
  "name_ptr s = (if s = [] then None else Some s)"

lemma handle_create_user_json:
  assumes "tags_ok lib" "-1 \<le> nr" "nr \<le> 12"
  shows "handle_create_user lib (Some (json_text (create_json pw nr fn ln))) c w =
     (if rune_count pw < 8 \<or> nr = 0 then (bad_body, w)
      else if claims_NetworkRating c < 11 \<or> nr > claims_NetworkRating c then (forbidden, w)
      else
        (let u = \<lparr>CID = 0, Password = pw, FirstName = name_ptr fn, LastName = name_ptr ln, NetworkRating = nr\<rparr> in
         case sqlite_create_user lib u w of
           (Inl _, w1) \<Rightarrow> (internal_error, w1)
         | (Inr cid, w1) \<Rightarrow> (created_reply (u\<lparr>CID := cid\<rparr>), w1)))"
proof -
  have "pw \<noteq> []" if "\<not> rune_count pw < 8" using that by (auto simp: rune_count_def)
  then show ?thesis
    using assms(2,3) rating_int64 [OF assms(2,3)]
    by (auto simp: handle_create_user_def create_body string_field_def string_ptr_field_def int_field_def
        binding_def tags_okD [OF assms(1)] name_ptr_def Let_def split: sum.splits prod.splits)
qed

text \<open>The handler of an update, on a body of the editor.\<close>

lemma handle_update_user_json:
  assumes "tags_ok lib" "int64 cid" "1 \<le> cid" "-1 \<le> nr" "nr \<le> 12" "11 \<le> claims_NetworkRating c"
    and "get_user_by_cid cid w = Inr target" "NetworkRating target \<le> claims_NetworkRating c"
  shows "handle_update_user lib (Some (json_text (update_json cid fn ln nr pw))) c w =
     (let u = target\<lparr>Password := (if pw = [] then Password target else pw), FirstName := Some fn,
                LastName := Some ln, NetworkRating := nr\<rparr> in
      case update_user lib u w of
        (Inl ErrNoRows, w1) \<Rightarrow> (not_found, w1)
      | (Inl _, w1) \<Rightarrow> (internal_error, w1)
      | (Inr _, w1) \<Rightarrow> (user_reply 200 u, w1))"
  using assms(6-8)
  by (cases "pw = []") (simp_all add: handle_update_user_def bind_update_json [OF assms(1-5)] merge_update_def Let_def)

text \<open>A row as the repository stores them: under its own CID, with a hash as the password.\<close>

definition row_ok :: "golib \<Rightarrow> int \<Rightarrow> user \<Rightarrow> bool" where
  "row_ok lib cid u \<longleftrightarrow> CID u = cid \<and> (\<exists>p. hash_of lib p (Password u))"

lemma hash_row:
  assumes "lib_ok lib" "hash_of lib p h"
  shows "h \<noteq> []" "CHR '':'' \<notin> set h" "length h \<le> 72" "bcrypt_cmp lib h p"
proof -
  obtain n where "bcrypt lib n p = Some h" using assms(2) by (auto simp: hash_of_def)
  then have "bcrypt_cmp lib h p \<and> length h = 60 \<and> CHR '':'' \<notin> set h"
    using assms(1) unfolding lib_ok_def bcrypt_ok_def by blast
  then show "h \<noteq> []" "CHR '':'' \<notin> set h" "length h \<le> 72" "bcrypt_cmp lib h p"
    by auto
qed

text \<open>An update of a row with a new password, or with what is taken for one, succeeds.\<close>

lemma update_user_succeeds:
  assumes "lib_ok lib" "get_user_by_cid (CID u) w = Inr row"
    and "Password u \<noteq> []" "CHR '':'' \<notin> set (Password u)" "length (Password u) \<le> 72"
  shows "\<exists>h w1. update_user lib u w = (Inr (), w1) \<and> hash_of lib (Password u) h \<and>
     get_user_by_cid (CID u) w1 = Inr (u\<lparr>CID := CID row, Password := h\<rparr>)"
proof -
  obtain h where "bcrypt lib (draws w) (Password u) = Some h"
    using assms(1,5) unfolding lib_ok_def bcrypt_ok_def by blast
  then have "\<exists>w1. update_user lib u w = (Inr (), w1)"
    using assms(2-4) by (auto simp: update_user_def exec_update_def get_user_by_cid_def split: if_splits option.splits)
  then obtain w1 where w1: "update_user lib u w = (Inr (), w1)" by blast
  from update_user_get [OF w1] show ?thesis
    using w1 assms(2,3) by auto
qed

lemma update_user_json_outcome:
  assumes "lib_ok lib" "int64 cid" "1 \<le> cid" "-1 \<le> nr" "nr \<le> 12" "11 \<le> claims_NetworkRating c"
    and "get_user_by_cid cid w = Inr target" "row_ok lib cid target" "NetworkRating target \<le> claims_NetworkRating c"
    and "CHR '':'' \<notin> set pw" "length pw \<le> 72"
  shows "\<exists>h w1 u. handle_update_user lib (Some (json_text (update_json cid fn ln nr pw))) c w = (user_reply 200 u, w1)
     \<and> CID u = cid \<and> FirstName u = Some fn \<and> LastName u = Some ln \<and> NetworkRating u = nr
     \<and> hash_of lib (if pw = [] then Password target else pw) h
     \<and> get_user_by_cid cid w1 = Inr (u\<lparr>Password := h\<rparr>)"
proof -
  have tags: "tags_ok lib" using assms(1) by (simp add: lib_ok_def)
  obtain p where p: "CID target = cid" "hash_of lib p (Password target)"
    using assms(8) by (auto simp: row_ok_def)
  let ?u = "target\<lparr>Password := (if pw = [] then Password target else pw), FirstName := Some fn,
                LastName := Some ln, NetworkRating := nr\<rparr>"
  have "Password ?u \<noteq> []" "CHR '':'' \<notin> set (Password ?u)" "length (Password ?u) \<le> 72"
    using hash_row [OF assms(1) p(2)] assms(10,11) by simp_all
  moreover have "get_user_by_cid (CID ?u) w = Inr target" using assms(7) p(1) by simp
  ultimately obtain h w1 where w1: "update_user lib ?u w = (Inr (), w1)" "hash_of lib (Password ?u) h"
      "get_user_by_cid (CID ?u) w1 = Inr (?u\<lparr>CID := CID target, Password := h\<rparr>)"
    using update_user_succeeds [OF assms(1), of ?u w target] by blast
  have "handle_update_user lib (Some (json_text (update_json cid fn ln nr pw))) c w = (user_reply 200 ?u, w1)"
    unfolding handle_update_user_json [OF tags assms(2-7,9)] Let_def w1(1) by simp
  then show ?thesis
    using w1(2,3) p(1) by (intro exI [of _ h] exI [of _ w1] exI [of _ ?u]) auto
qed

text \<open>For the witnesses: the claims of a supervisor.\<close>

definition demo_claims :: claims where
  "demo_claims = token_claims demo_lib ''access'' demo_user (15 * minute) 0 1000000"

lemma demo_row: "row_ok demo_lib 1 demo_user"
proof -
  have "bcrypt demo_lib 0 ''correct horse'' = Some (demo_hash ''correct horse'')"
    by (simp add: demo_lib_def)
  then show ?thesis by (auto simp: row_ok_def hash_of_def demo_user_def)
qed

subsection \<open>Properties\<close>

text \<open>
  Saving a user without a password replaces the password. The handler puts the stored hash into
  the password field and the repository hashes it again: afterwards the old password is refused,
  and the text of the old hash is accepted in its place.
\<close>

theorem update_without_password_replaces_it:
  assumes "lib_ok lib" "int64 cid" "1 \<le> cid" "-1 \<le> nr" "nr \<le> 12" "11 \<le> claims_NetworkRating c"
    and "get_user_by_cid cid w = Inr target" "row_ok lib cid target" "NetworkRating target \<le> claims_NetworkRating c"
    and "verify_password_hash lib old (Password target)" "distinguishes lib (Password target) old"
  shows "\<exists>w1 u. handle_update_user lib (Some (json_text (update_json cid fn ln nr []))) c w = (user_reply 200 u, w1)
     \<and> (\<exists>row. get_user_by_cid cid w1 = Inr row
          \<and> \<not> verify_password_hash lib old (Password row)
          \<and> verify_password_hash lib (Password target) (Password row))"
proof -
  obtain h w1 u where w1:
      "handle_update_user lib (Some (json_text (update_json cid fn ln nr []))) c w = (user_reply 200 u, w1)"
      "hash_of lib (Password target) h" "get_user_by_cid cid w1 = Inr (u\<lparr>Password := h\<rparr>)"
    using update_user_json_outcome [OF assms(1-9), of "[]" fn ln] by auto
  moreover have "\<not> bcrypt_cmp lib h old" "bcrypt_cmp lib h (Password target)"
    using w1(2) assms(11) hash_row(4) [OF assms(1)] by (auto simp: hash_of_def distinguishes_def)
  ultimately show ?thesis by (auto simp: verify_password_hash_def)
qed

theorem update_without_password_replaces_it_witness:
  "\<exists>w1 u. handle_update_user demo_lib (Some (json_text (update_json 1 ''Ann'' ''Lee'' 11 []))) demo_claims demo_web
      = (user_reply 200 u, w1)
     \<and> (\<exists>row. get_user_by_cid 1 w1 = Inr row \<and> \<not> verify_password_hash demo_lib ''correct horse'' (Password row)
          \<and> verify_password_hash demo_lib (Password demo_user) (Password row))"
proof -
  have "demo_hash (demo_hash ''correct horse'') \<noteq> demo_hash ''correct horse''"
    by code_simp
  then have "distinguishes demo_lib (Password demo_user) ''correct horse''"
    by (simp add: distinguishes_def demo_lib_def demo_user_def)
  moreover have "11 \<le> claims_NetworkRating demo_claims" "NetworkRating demo_user \<le> claims_NetworkRating demo_claims"
    by (simp_all add: demo_claims_def token_claims_def demo_user_def)
  moreover have "int64 1" by (simp add: int64_def)
  ultimately show ?thesis
    by (intro update_without_password_replaces_it [OF demo_lib_ok]) (simp_all add: demo_web_serving demo_row demo_password)
qed

text \<open>
  C35. A supervisor can hand out any rating, the administrator's included and to themselves: an update
  checks the rating the user has, never the one they are to get.
\<close>

theorem update_hands_out_any_rating:
  assumes "lib_ok lib" "int64 cid" "1 \<le> cid" "nr \<le> 12" "11 \<le> claims_NetworkRating c" "claims_NetworkRating c < nr"
    and "get_user_by_cid cid w = Inr target" "row_ok lib cid target" "NetworkRating target \<le> claims_NetworkRating c"
  shows "\<exists>w1 u. handle_update_user lib (Some (json_text (update_json cid fn ln nr []))) c w = (user_reply 200 u, w1)
     \<and> (\<exists>row. get_user_by_cid cid w1 = Inr row \<and> NetworkRating row = nr)"
proof -
  have "-1 \<le> nr" using assms(5,6) by simp
  from update_user_json_outcome [OF assms(1-3) this assms(4,5,7,8,9), of "[]" fn ln] show ?thesis
    by fastforce
qed

theorem update_hands_out_any_rating_witness:
  "NetworkRating demo_user = 11
   \<and> (\<exists>w1 u. handle_update_user demo_lib (Some (json_text (update_json 1 ''Ann'' ''Lee'' 12 []))) demo_claims demo_web
        = (user_reply 200 u, w1)
      \<and> (\<exists>row. get_user_by_cid 1 w1 = Inr row \<and> NetworkRating row = 12))"
proof
  show "NetworkRating demo_user = 11" by (simp add: demo_user_def)
  have "claims_NetworkRating demo_claims = 11" "NetworkRating demo_user \<le> claims_NetworkRating demo_claims"
    by (simp_all add: demo_claims_def token_claims_def demo_user_def)
  moreover have "int64 1" by (simp add: int64_def)
  ultimately show "\<exists>w1 u. handle_update_user demo_lib (Some (json_text (update_json 1 ''Ann'' ''Lee'' 12 []))) demo_claims demo_web
        = (user_reply 200 u, w1)
      \<and> (\<exists>row. get_user_by_cid 1 w1 = Inr row \<and> NetworkRating row = 12)"
    by (intro update_hands_out_any_rating [OF demo_lib_ok _ _ _ _ _ demo_web_serving(2) demo_row]) simp_all
qed

text \<open>
  C34. Creating a user. With a password of eight characters or more and a rating up to the caller's, exactly
  one row is added, under the next CID: it has the names and the rating of the request and a hash of
  its password, with which the user can log in; every other row, the configuration and the clock
  are as before. The exception is the rating 0: a suspended user cannot be created, the body is
  refused as if it were malformed, and nothing changes.
\<close>

theorem create_user_outcome:
  assumes "lib_ok lib" "db_up w" "8 \<le> rune_count pw" "length pw \<le> 72" "CHR '':'' \<notin> set pw"
    and "-1 \<le> nr" "nr \<le> claims_NetworkRating c" "11 \<le> claims_NetworkRating c" "nr \<le> 12"
  shows "\<exists>w1 h. handle_create_user lib (Some (json_text (create_json pw nr fn ln))) c w =
       (if nr = 0 then (bad_body, w)
        else (created_reply \<lparr>CID = last_cid w + 1, Password = pw, FirstName = name_ptr fn,
                LastName = name_ptr ln, NetworkRating = nr\<rparr>, w1))
     \<and> (nr \<noteq> 0 \<longrightarrow> sqlite.good_password (verify_password_hash lib) (last_cid w + 1) pw w1)
     \<and> hash_of lib pw h
     \<and> w1 = w\<lparr>users := (users w)(last_cid w + 1 \<mapsto> \<lparr>CID = last_cid w + 1, Password = h, FirstName = name_ptr fn,
                LastName = name_ptr ln, NetworkRating = nr\<rparr>),
              last_cid := last_cid w + 1, draws := Suc (draws w)\<rparr>"
proof -
  have tags: "tags_ok lib" using assms(1) by (simp add: lib_ok_def)
  let ?u = "\<lparr>CID = 0, Password = pw, FirstName = name_ptr fn, LastName = name_ptr ln, NetworkRating = nr\<rparr>"
  obtain h where h: "bcrypt lib (draws w) pw = Some h"
    using assms(1,4) unfolding lib_ok_def bcrypt_ok_def by blast
  define w1 where "w1 = w\<lparr>users := (users w)(last_cid w + 1 \<mapsto> \<lparr>CID = last_cid w + 1, Password = h, FirstName = name_ptr fn,
                LastName = name_ptr ln, NetworkRating = nr\<rparr>), last_cid := last_cid w + 1, draws := Suc (draws w)\<rparr>"
  have w1: "sqlite_create_user lib ?u w = (Inr (last_cid w + 1), w1)"
    using assms(2,5) h by (simp add: sqlite_create_user_def create_user_def insert_user_def Let_def w1_def)
  have "verify_password_hash lib p h" if "hash_of lib p h" for p h
    using hash_row(4) [OF assms(1) that] by (simp add: verify_password_hash_def)
  then have good: "sqlite.good_password (verify_password_hash lib) (last_cid w + 1) pw w1"
    using sqlite.created_password_good [OF w1] by simp
  have hash: "hash_of lib pw h" using h by (auto simp: hash_of_def)
  have "handle_create_user lib (Some (json_text (create_json pw nr fn ln))) c w =
       (if nr = 0 then (bad_body, w)
        else (created_reply \<lparr>CID = last_cid w + 1, Password = pw, FirstName = name_ptr fn,
                LastName = name_ptr ln, NetworkRating = nr\<rparr>, w1))"
    using assms(3,7,8) w1 by (simp add: handle_create_user_json [OF tags assms(6,9)])
  with good hash show ?thesis by (intro exI conjI impI) (assumption | rule w1_def)+
qed

theorem create_user_outcome_witness:
  "\<exists>w1 row. handle_create_user demo_lib (Some (json_text (create_json ''battery staple'' 3 ''Bo'' []))) demo_claims demo_web =
       (created_reply \<lparr>CID = 2, Password = ''battery staple'', FirstName = Some ''Bo'', LastName = None, NetworkRating = 3\<rparr>, w1)
     \<and> sqlite.good_password (verify_password_hash demo_lib) 2 ''battery staple'' w1
     \<and> users w1 1 = Some demo_user \<and> users w1 2 = Some row \<and> FirstName row = Some ''Bo'' \<and> NetworkRating row = 3"
proof -
  have "claims_NetworkRating demo_claims = 11" by (simp add: demo_claims_def token_claims_def demo_user_def)
  moreover have "8 \<le> rune_count ''battery staple''" by code_simp
  ultimately show ?thesis
    using create_user_outcome [OF demo_lib_ok, of demo_web "''battery staple''" 3 demo_claims "''Bo''" "[]"]
    by (auto simp: demo_web_def name_ptr_def)
qed

end
