(* ===== verification/Go_Time.thy ===== *)
theory Go_Time
  imports Js_Date
begin

text \<open>
  \<open>time.Time\<close> as \<open>encoding/json\<close> reads it: RFC 3339, to the millisecond. The calendar is the one
  of \<open>Js_Date\<close>, so a date written by the page and read by the server can be compared.
\<close>

definition digits :: "string \<Rightarrow> bool" where
  "digits s \<longleftrightarrow> s \<noteq> [] \<and> list_all is_digit s"

text \<open>The fraction of a second: its milliseconds and the rest of the text.\<close>

definition read_fraction :: "string \<Rightarrow> (int \<times> string) option" where
  "read_fraction r =
     (case r of
        [] \<Rightarrow> Some (0, r)
      | c # t \<Rightarrow>
          if c = CHR ''.'' then
            (if takeWhile is_digit t = [] then None
             else Some (int (read_digits (take 3 (takeWhile is_digit t @ ''00''))), dropWhile is_digit t))
          else Some (0, r))"

text \<open>The zone: its distance from UTC in minutes.\<close>

definition read_zone :: "string \<Rightarrow> int option" where
  "read_zone z =
     (if z = ''Z'' then Some 0
      else
        (case z of
           [sg, a, b, col, c, d] \<Rightarrow>
             (if (sg = CHR ''+'' \<or> sg = CHR ''-'') \<and> col = CHR '':'' \<and> digits [a, b] \<and> digits [c, d]
                 \<and> read_digits [a, b] < 24 \<and> read_digits [c, d] < 60
              then Some ((if sg = CHR ''-'' then -1 else 1) * int (60 * read_digits [a, b] + read_digits [c, d]))
              else None)
         | _ \<Rightarrow> None))"

definition parse_rfc3339 :: "string \<Rightarrow> int option" where
  "parse_rfc3339 s =
     (let ys = take 4 s; mos = take 2 (drop 5 s); ds = take 2 (drop 8 s);
          hs = take 2 (drop 11 s); mis = take 2 (drop 14 s); ss = take 2 (drop 17 s);
          y = int (read_digits ys); mo = int (read_digits mos); d = int (read_digits ds);
          h = int (read_digits hs); mi = int (read_digits mis); sec = int (read_digits ss)
      in if 20 \<le> length s \<and> list_all digits [ys, mos, ds, hs, mis, ss]
            \<and> s ! 4 = CHR ''-'' \<and> s ! 7 = CHR ''-'' \<and> s ! 10 = CHR ''T'' \<and> s ! 13 = CHR '':'' \<and> s ! 16 = CHR '':''
            \<and> 1 \<le> mo \<and> mo \<le> 12 \<and> 1 \<le> d \<and> d \<le> days_in_month y (mo - 1) \<and> h < 24 \<and> mi < 60 \<and> sec < 60
         then
           (case read_fraction (drop 19 s) of
              None \<Rightarrow> None
            | Some (ms, z) \<Rightarrow>
                map_option
                  (\<lambda>off. make_day y (mo - 1) d * msPerDay + ((h * 60 + mi - off) * 60 + sec) * 1000 + ms)
                  (read_zone z))
         else None)"

lemma pad_length: "length (show_nat n) \<le> k \<Longrightarrow> length (pad k n) = k"
  by (simp add: pad_def Let_def)

lemma show_nat_length_le: "n < 10 ^ k \<Longrightarrow> 0 < k \<Longrightarrow> length (show_nat n) \<le> k"
proof (induction k arbitrary: n)
  case (Suc k)
  show ?case
  proof (cases "n < 10")
    case True
    then show ?thesis by (subst show_nat.simps) simp
  next
    case False
    then have "0 < k" using Suc.prems(1) by (cases k) auto
    moreover have "n div 10 < 10 ^ k" using Suc.prems(1) by (simp add: div_lt)
    ultimately have "length (show_nat (n div 10)) \<le> k" using Suc.IH by blast
    with False show ?thesis by (subst show_nat.simps) simp
  qed
qed simp

lemma read_digits_pad: "read_digits (pad k n) = n"
  by (simp add: pad_def Let_def read_digits_pad_zeros read_digits_show_nat)

lemma digits_pad: "digits (pad k n)"
  using pad_digits [of k n] by (simp add: digits_def list_all_iff)

text \<open>Midnight of a day, as the page writes it, is read as that midnight.\<close>

lemma parse_midnight:
  assumes "0 \<le> y" "y \<le> 9999" "1 \<le> m" "m \<le> 12" "1 \<le> d" "d \<le> days_in_month y (m - 1)" "d \<le> 31"
  shows "parse_rfc3339 (pad 4 (nat y) @ CHR ''-'' # pad 2 (nat m) @ CHR ''-'' # pad 2 (nat d) @ ''T00:00:00.000Z'')
     = Some (make_day y (m - 1) d * msPerDay)"
proof -
  have l: "length (pad 4 (nat y)) = 4" "length (pad 2 (nat m)) = 2" "length (pad 2 (nat d)) = 2"
    using assms by (intro pad_length show_nat_length_le; simp)+
  obtain a b c e where y4: "pad 4 (nat y) = [a, b, c, e]" and ya: "digits [a, b, c, e]" "read_digits [a, b, c, e] = nat y"
    using l(1) digits_pad [of 4 "nat y"] read_digits_pad [of 4 "nat y"]
    by (auto simp: numeral_eq_Suc length_Suc_conv)
  obtain f g where m2: "pad 2 (nat m) = [f, g]" "digits [f, g]" "read_digits [f, g] = nat m"
    using l(2) digits_pad [of 2 "nat m"] read_digits_pad [of 2 "nat m"]
    by (auto simp: numeral_eq_Suc length_Suc_conv)
  obtain h i where d2: "pad 2 (nat d) = [h, i]" "digits [h, i]" "read_digits [h, i] = nat d"
    using l(3) digits_pad [of 2 "nat d"] read_digits_pad [of 2 "nat d"]
    by (auto simp: numeral_eq_Suc length_Suc_conv)
  have z: "digits ''00''" "read_digits ''00'' = 0" "read_fraction ''.000Z'' = Some (0, ''Z'')" "read_zone ''Z'' = Some 0"
    by code_simp+
  have "nat m \<le> 12" "Suc 0 \<le> nat m" "Suc 0 \<le> nat d"
    using assms by simp_all
  then show ?thesis
    using assms z ya m2 d2
    by (simp add: parse_rfc3339_def Let_def y4)
qed

end
