(* ===== verification/Web_Config.thy ===== *)
theory Web_Config
  imports Web_Auth Go_Time
begin

text \<open>
  \<open>web/config.go\<close>, \<open>web/api_tokens.go\<close> and \<open>web/fsdconn.go\<close>: reading and writing the
  configuration, the secret of the tokens, tokens for programs, and disconnecting a client of
  the FSD server.
\<close>

definition config_keys :: "string list" where
  "config_keys =
     [ConfigWelcomeMessage, ConfigFsdServerHostname, ConfigFsdServerIdent, ConfigFsdServerLocation,
      ConfigApiServerBaseURL]"

text \<open>The values of the keys that are set; an engine failure ends the reading.\<close>

fun read_config :: "string list \<Rightarrow> 'x database_scheme \<Rightarrow> (string \<times> string) list option" where
  "read_config [] d = Some []"
| "read_config (k # ks) d =
     (case config_get k d of
        Inl ErrConfigKeyNotFound \<Rightarrow> read_config ks d
      | Inl _ \<Rightarrow> None
      | Inr v \<Rightarrow> map_option (Cons (k, v)) (read_config ks d))"

definition handle_get_config :: "claims \<Rightarrow> 'x handler" where
  "handle_get_config c w =
     (if claims_NetworkRating c < NetworkRatingAdministator then (forbidden, w)
      else
        (case read_config config_keys w of
           None \<Rightarrow> (write_failure 500 ''Error reading key/value from persistent storage'', w)
         | Some kvs \<Rightarrow> (write_success 200 (pairs_json kvs), w)))"

text \<open>A slice of pairs: an element is a struct of its own, \<open>null\<close> the zero one; the tags of the elements are not checked.\<close>

fun kv_of :: "jsval \<Rightarrow> (string \<times> string) option" where
  "kv_of Null = Some ([], [])"
| "kv_of (Obj kvs) =
     (case (string_field ''key'' kvs, string_field ''value'' kvs) of
        (Some k, Some v) \<Rightarrow> Some (k, v)
      | _ \<Rightarrow> None)"
| "kv_of _ = None"

fun all_some :: "'a option list \<Rightarrow> 'a list option" where
  "all_some [] = Some []"
| "all_some (None # xs) = None"
| "all_some (Some x # xs) = map_option (Cons x) (all_some xs)"

fun set_kvs :: "jsval \<Rightarrow> (string \<times> string) list option \<Rightarrow> (string \<times> string) list option option" where
  "set_kvs Null p = Some None"
| "set_kvs (Arr vs) p = map_option Some (all_some (map kv_of vs))"
| "set_kvs _ p = None"

definition bind_pairs :: "golib \<Rightarrow> string option \<Rightarrow> (string \<times> string) list option" where
  "bind_pairs lib body =
     (case body_members body of
        None \<Rightarrow> None
      | Some kvs \<Rightarrow>
          (case decode_all set_kvs (members ''key_value_pairs'' kvs) None of
             None \<Rightarrow> None
           | Some pairs \<Rightarrow>
               if binding lib [([Required], SliceV (pairs = None))] then pairs else None))"

fun write_config :: "(string \<times> string) list \<Rightarrow> 'x database_scheme \<Rightarrow> bool \<times> 'x database_scheme" where
  "write_config [] d = (True, d)"
| "write_config ((k, v) # kvs) d =
     (case config_set k v d of
        (Inl _, d1) \<Rightarrow> (False, d1)
      | (Inr _, d1) \<Rightarrow> write_config kvs d1)"

definition handle_update_config :: "golib \<Rightarrow> string option \<Rightarrow> claims \<Rightarrow> 'x handler" where
  "handle_update_config lib body c w =
     (if claims_NetworkRating c < NetworkRatingAdministator then (forbidden, w)
      else
        (case bind_pairs lib body of
           None \<Rightarrow> (bad_body, w)
         | Some kvs \<Rightarrow>
             (case write_config kvs w of
                (False, w1) \<Rightarrow> (write_failure 500 ''Error writing key/value into persistent storage'', w1)
              | (True, w1) \<Rightarrow> (write_success 200 Null, w1))))"

definition handle_reset_secret_key :: "golib \<Rightarrow> claims \<Rightarrow> 'x handler" where
  "handle_reset_secret_key lib c w =
     (if claims_NetworkRating c < NetworkRatingAdministator then (forbidden, w)
      else
        (case generate_jwt_secret_key lib w of
           (Inl _, w1) \<Rightarrow> (internal_error, w1)
         | (Inr secret, w1) \<Rightarrow>
             (case config_set ConfigJwtSecretKey secret w1 of
                (Inl _, w2) \<Rightarrow> (internal_error, w2)
              | (Inr _, w2) \<Rightarrow> (write_success 200 Null, w2))))"

text \<open>A time member: the zero time where it is absent; a duration is at most that of 64 bits.\<close>

fun set_time :: "jsval \<Rightarrow> int option \<Rightarrow> int option option" where
  "set_time Null t = Some t"
| "set_time (Str s) t = map_option Some (parse_rfc3339 s)"
| "set_time _ t = None"

definition max_duration :: int where
  "max_duration = 9223372036854"

definition zero_time :: int where
  "zero_time = -62135596800000"

definition handle_create_api_token :: "golib \<Rightarrow> string option \<Rightarrow> claims \<Rightarrow> 'x handler" where
  "handle_create_api_token lib body c w =
     (if claims_NetworkRating c < NetworkRatingAdministator then (forbidden, w)
      else
        (case Option.bind (body_members body) (\<lambda>kvs. decode_all set_time (members ''expiry_date_time'' kvs) None) of
           None \<Rightarrow> (bad_body, w)
         | Some t \<Rightarrow>
             if \<not> binding lib [([Required], TimeV (t = None \<or> t = Some zero_time))] then (bad_body, w)
             else
               (let expiry = (case t of None \<Rightarrow> zero_time | Some e \<Rightarrow> e) in
                if expiry < wall w then (write_failure 400 ''expiry_date_time cannot be in the past'', w)
                else
                  (case make_jwt_token lib ''access'' (claims_CID c) [] [] NetworkRatingAdministator
                      (min (expiry - wall w) max_duration) w of
                     (None, w1) \<Rightarrow> (internal_error, w1)
                   | (Some tc, w1) \<Rightarrow>
                       (case config_get ConfigJwtSecretKey w1 of
                          Inl _ \<Rightarrow> (internal_error, w1)
                        | Inr secret \<Rightarrow>
                            (write_success 201 (Obj [(''token'', Str (jwt_sign lib secret tc))]), w1))))))"

text \<open>
  Disconnecting a client. The FSD server's answer is a parameter: its status, or none when the
  request could not be made; then the handler returns without a reply, which is an empty 200.
\<close>

definition handle_kick ::
    "golib \<Rightarrow> (string \<Rightarrow> 'x web_scheme \<Rightarrow> nat option \<times> 'x web_scheme) \<Rightarrow> string option \<Rightarrow> claims \<Rightarrow> 'x handler" where
  "handle_kick lib fsd body c w =
     (if claims_NetworkRating c < NetworkRatingSupervisor then (forbidden, w)
      else
        (case Option.bind (body_members body) (string_field ''callsign'') of
           None \<Rightarrow> (bad_body, w)
         | Some callsign \<Rightarrow>
             if \<not> binding lib [([Required], StrV callsign)] then (bad_body, w)
             else
               (case fsd callsign w of
                  (None, w1) \<Rightarrow> (Reply 200 [], w1)
                | (Some status, w1) \<Rightarrow>
                    if status = 204 then (write_success 200 Null, w1)
                    else if status = 404 then (write_failure 404 ''Callsign not found'', w1)
                    else (internal_error, w1))))"

subsection \<open>Lemmas\<close>

text \<open>The map of a table after pairs were written one after the other.\<close>

lemma write_config_pairs:
  "db_up d \<Longrightarrow> write_config kvs d = (True, d\<lparr>config := config d ++ map_of (rev kvs)\<rparr>)"
proof (induction kvs arbitrary: d)
  case (Cons kv kvs)
  obtain k v where "kv = (k, v)" by fastforce
  with Cons show ?case
    by (simp add: config_set_def config_put_def map_add_upd_left map_add_assoc [symmetric] del: map_add_assoc)
      (simp add: map_add_def fun_eq_iff split: option.splits)
qed simp

lemma read_config_pairs:
  "db_up d \<Longrightarrow> read_config ks d = Some (concat (map (\<lambda>k. case config d k of None \<Rightarrow> [] | Some v \<Rightarrow> [(k, v)]) ks))"
  by (induction ks) (simp_all add: config_get_def split: option.splits)

lemma pairs_ok: "json_ok (pairs_json kvs)"
  by (auto simp: pairs_json_def pair_json_def list_all_iff)

lemma pairs_body:
  assumes "tags_ok lib"
  shows "bind_pairs lib (Some (json_text (pairs_json kvs))) = Some kvs"
proof -
  have b: "body_members (Some (json_text (pairs_json kvs))) = Some [(''key_value_pairs'', Arr (map pair_json kvs))]"
    unfolding pairs_json_def by (rule body_members_text [OF pairs_ok [unfolded pairs_json_def]])
  have "all_some (map kv_of (map pair_json kvs)) = Some kvs"
  proof (induction kvs)
    case (Cons kv kvs)
    have "ascii_lower ''key'' = ''key''" "ascii_lower ''value'' = ''value''"
      by (simp_all add: ascii_lower_def is_upper_def)
    then show ?case using Cons by (simp add: pair_json_def string_field_def)
  qed simp
  moreover have "ascii_lower ''key_value_pairs'' = ''key_value_pairs''"
    by (simp add: ascii_lower_def is_upper_def)
  ultimately show ?thesis
    by (simp add: bind_pairs_def b binding_def tags_okD [OF assms])
qed

definition demo_admin :: claims where
  "demo_admin = token_claims demo_lib ''access'' (demo_user\<lparr>NetworkRating := 12\<rparr>) (15 * minute) 0 1000000"

lemma demo_admin_rating: "claims_NetworkRating demo_admin = 12"
  by (simp add: demo_admin_def token_claims_def)

subsection \<open>Properties\<close>

text \<open>
  C30. What was saved is what is loaded. After an administrator's update, loading answers with the
  known keys in their order, each with the last value that was written for it, or the value from
  before where none was written, and without the keys that have no value; users are not touched.
\<close>

theorem saved_config_is_loaded:
  assumes "tags_ok lib" "db_up w" "12 \<le> claims_NetworkRating c" "12 \<le> claims_NetworkRating c'"
  shows "\<exists>w1. handle_update_config lib (Some (json_text (pairs_json kvs))) c w = (write_success 200 Null, w1)
     \<and> users w1 = users w
     \<and> handle_get_config c' w1 =
         (write_success 200 (pairs_json (concat (map (\<lambda>k.
            case (case map_of (rev kvs) k of None \<Rightarrow> config w k | Some v \<Rightarrow> Some v) of
              None \<Rightarrow> [] | Some v \<Rightarrow> [(k, v)]) config_keys))), w1)"
  using assms(2-4)
  by (simp add: handle_update_config_def pairs_body [OF assms(1)] write_config_pairs handle_get_config_def
      read_config_pairs map_add_def del: json_text.simps)

theorem saved_config_is_loaded_witness:
  "\<exists>w1. handle_update_config demo_lib
        (Some (json_text (pairs_json [(ConfigWelcomeMessage, ''Hi''), (ConfigFsdServerIdent, ''X''), (ConfigWelcomeMessage, ''Hello'')])))
        demo_admin demo_web = (write_success 200 Null, w1)
     \<and> handle_get_config demo_admin w1
        = (write_success 200 (pairs_json [(ConfigWelcomeMessage, ''Hello''), (ConfigFsdServerIdent, ''X'')]), w1)"
proof -
  have "tags_ok demo_lib" "db_up demo_web"
    using demo_lib_ok by (simp_all add: lib_ok_def demo_web_def)
  then show ?thesis
    using saved_config_is_loaded [of demo_lib demo_web demo_admin demo_admin
        "[(ConfigWelcomeMessage, ''Hi''), (ConfigFsdServerIdent, ''X''), (ConfigWelcomeMessage, ''Hello'')]"]
    by (auto simp: demo_admin_rating config_keys_def demo_web_def)
qed

text \<open>
  C20. Resetting the secret ends every session. From then on no token that was signed with the old
  secret opens a guarded route or renews anything, at whatever time, as long as the 16 octets
  drawn are not those of the old secret.
\<close>

theorem reset_secret_ends_sessions:
  assumes "lib_ok lib" "serving w secret" "12 \<le> claims_NetworkRating c"
    and "\<And>r. rand16 lib (draws w) = Some r \<Longrightarrow> hex_encode r \<noteq> secret" "claims_ok t" "jwt_sign lib secret t \<noteq> []"
  shows "\<exists>w1. handle_reset_secret_key lib c w = (write_success 200 Null, w1) \<and> users w1 = users w
     \<and> (\<forall>now h. jwt_bearer_middleware lib (Some (''Bearer '' @ jwt_sign lib secret t)) h (w1\<lparr>wall := now\<rparr>)
           = (write_failure 401 ''invalid bearer token'', w1\<lparr>wall := now\<rparr>)
         \<and> (clock_ok now \<longrightarrow>
              refresh_access_token lib (Some (json_text (refresh_json (jwt_sign lib secret t)))) (w1\<lparr>wall := now\<rparr>)
                = (write_failure 401 ''bad token'', w1\<lparr>wall := now\<rparr>)))"
proof -
  have tags: "tags_ok lib" using assms(1) by (simp add: lib_ok_def)
  obtain r where r: "rand16 lib (draws w) = Some r"
    using assms(1) unfolding lib_ok_def random_ok_def by blast
  define w1 where "w1 = w\<lparr>draws := Suc (draws w), config := (config w)(ConfigJwtSecretKey \<mapsto> hex_encode r)\<rparr>"
  have up: "db_up w" using assms(2) by (simp add: serving_def)
  then have reset: "handle_reset_secret_key lib c w = (write_success 200 Null, w1)"
    using assms(3) r by (simp add: handle_reset_secret_key_def generate_jwt_secret_key_def config_set_def config_put_def w1_def)
  have get: "config_get ConfigJwtSecretKey (w1\<lparr>wall := now\<rparr>) = Inr (hex_encode r)" for now
    using up by (simp add: config_get_def w1_def)
  have old: "jwt_parse lib (hex_encode r) now (jwt_sign lib secret t) = None" for now
    using assms(4) [OF r] by (simp add: sign_parse [OF assms(1,5)])
  have "jwt_bearer_middleware lib (Some (''Bearer '' @ jwt_sign lib secret t)) h (w1\<lparr>wall := now\<rparr>)
      = (write_failure 401 ''invalid bearer token'', w1\<lparr>wall := now\<rparr>)" for now h
    by (simp add: jwt_bearer_middleware_def bearer_token_header get old del: append_Cons)
  moreover have "refresh_access_token lib (Some (json_text (refresh_json (jwt_sign lib secret t)))) (w1\<lparr>wall := now\<rparr>)
      = (write_failure 401 ''bad token'', w1\<lparr>wall := now\<rparr>)" if "clock_ok now" for now
    using refresh_access_token_json [OF tags assms(6), of "w1\<lparr>wall := now\<rparr>" "hex_encode r"] that up old
    by (simp add: serving_def w1_def del: json_text.simps)
  moreover have "users w1 = users w" by (simp add: w1_def)
  ultimately show ?thesis using reset by blast
qed

theorem reset_secret_ends_sessions_witness:
  "\<exists>w1. handle_reset_secret_key demo_lib demo_admin demo_web = (write_success 200 Null, w1)
     \<and> jwt_bearer_middleware demo_lib (Some (''Bearer '' @ jwt_sign demo_lib ''s3cret'' demo_admin)) (\<lambda>c w. (forbidden, w))
           (w1\<lparr>wall := 1000000\<rparr>) = (write_failure 401 ''invalid bearer token'', w1\<lparr>wall := 1000000\<rparr>)"
proof -
  have "claims_ok demo_admin"
    unfolding demo_admin_def
    by (rule token_claims_ok [OF demo_lib_ok _ _ _ _ ascii_token_types(1)])
      (simp_all add: user_ok_def demo_user_def int64_def safe_str_def ascii_char_def clock_ok_def)
  moreover have "hex_encode r \<noteq> ''s3cret''" if "rand16 demo_lib (draws demo_web) = Some r" for r
  proof -
    have "length (hex_encode r) = 32" using that by (auto simp: demo_lib_def hex_encode_length)
    then show ?thesis by auto
  qed
  moreover have "jwt_sign demo_lib ''s3cret'' demo_admin \<noteq> []" by (simp add: demo_lib_def)
  ultimately show ?thesis
    using reset_secret_ends_sessions [OF demo_lib_ok demo_web_serving(1), of demo_admin demo_admin]
    by (auto simp: demo_admin_rating simp del: append_Cons)
qed

definition expiry_json :: "string \<Rightarrow> jsval" where
  "expiry_json s = Obj [(''expiry_date_time'', Str s)]"

lemma create_api_token_json:
  assumes "tags_ok lib" "parse_rfc3339 s = Some e" "e \<noteq> zero_time" "12 \<le> claims_NetworkRating c"
  shows "handle_create_api_token lib (Some (json_text (expiry_json s))) c w =
     (if e < wall w then (write_failure 400 ''expiry_date_time cannot be in the past'', w)
      else
        (case make_jwt_token lib ''access'' (claims_CID c) [] [] NetworkRatingAdministator
            (min (e - wall w) max_duration) w of
           (None, w1) \<Rightarrow> (internal_error, w1)
         | (Some tc, w1) \<Rightarrow>
             (case config_get ConfigJwtSecretKey w1 of
                Inl _ \<Rightarrow> (internal_error, w1)
              | Inr secret \<Rightarrow> (write_success 201 (Obj [(''token'', Str (jwt_sign lib secret tc))]), w1))))"
proof -
  have "body_members (Some (json_text (expiry_json s))) = Some [(''expiry_date_time'', Str s)]"
    unfolding expiry_json_def by (rule body_members_text) simp
  moreover have "ascii_lower ''expiry_date_time'' = ''expiry_date_time''"
    by (simp add: ascii_lower_def is_upper_def)
  ultimately show ?thesis
    using assms(2-4) by (simp add: handle_create_api_token_def binding_def tags_okD [OF assms(1)] Let_def)
qed

text \<open>The holder of a token for programs.\<close>

definition api_holder :: "int \<Rightarrow> user" where
  "api_holder cid = \<lparr>CID = cid, Password = [], FirstName = None, LastName = None, NetworkRating = 12\<rparr>"

definition api_validity :: "int \<Rightarrow> 'x web_scheme \<Rightarrow> int" where
  "api_validity e w = min (e - wall w) max_duration"

definition api_token :: "golib \<Rightarrow> string \<Rightarrow> int \<Rightarrow> int \<Rightarrow> 'x web_scheme \<Rightarrow> string" where
  "api_token lib secret cid e w =
     jwt_sign lib secret (token_claims lib ''access'' (api_holder cid) (api_validity e w) (draws w) (wall w))"

lemma create_api_token_succeeds:
  assumes "lib_ok lib" "serving w secret" "12 \<le> claims_NetworkRating c"
    and "parse_rfc3339 s = Some e" "e \<noteq> zero_time" "wall w \<le> e"
  shows "handle_create_api_token lib (Some (json_text (expiry_json s))) c w
     = (write_success 201 (Obj [(''token'', Str (api_token lib secret (claims_CID c) e w))]), w\<lparr>draws := Suc (draws w)\<rparr>)"
proof -
  have tags: "tags_ok lib" using assms(1) by (simp add: lib_ok_def)
  have "make_jwt_token lib ''access'' (claims_CID c) [] [] 12 (api_validity e w) w
      = (Some (token_claims lib ''access'' (api_holder (claims_CID c)) (api_validity e w) (draws w) (wall w)),
         w\<lparr>draws := Suc (draws w)\<rparr>)"
    using make_jwt_token_user [OF assms(1), of "''access''" "api_holder (claims_CID c)" "api_validity e w" w]
    by (simp add: api_holder_def safe_str_def)
  moreover have "config_get ConfigJwtSecretKey (w\<lparr>draws := Suc (draws w)\<rparr>) = Inr secret"
    using serving_secret [OF assms(2)] by (simp add: config_get_def split: if_splits)
  ultimately show ?thesis
    using assms(6) by (simp add: create_api_token_json [OF tags assms(4,5,3)] api_validity_def api_token_def)
qed

lemma api_holder_ok: "int64 cid \<Longrightarrow> user_ok (api_holder cid)"
  by (simp add: user_ok_def api_holder_def int64_def safe_str_def)

lemma api_validity_range: "wall w \<le> e \<Longrightarrow> 0 \<le> api_validity e w \<and> api_validity e w \<le> 10 ^ 13"
  by (simp add: api_validity_def max_duration_def)

text \<open>
  C33. A token for programs acts as an administrator until the date that was picked. A date in the
  past is refused; otherwise the token is accepted as the caller's access token with the rating
  of an administrator up to the second before the date, or before 292 years have passed where the
  date is later than that, and refused from then on. Nothing that happens to the caller's own
  rating or password ends it earlier.
\<close>

theorem api_token_until_expiry:
  assumes "lib_ok lib" "serving w secret" "12 \<le> claims_NetworkRating c" "int64 (claims_CID c)"
    and "parse_rfc3339 s = Some e" "e \<noteq> zero_time"
  shows "if e < wall w
     then handle_create_api_token lib (Some (json_text (expiry_json s))) c w
       = (write_failure 400 ''expiry_date_time cannot be in the past'', w)
     else \<exists>token. handle_create_api_token lib (Some (json_text (expiry_json s))) c w
         = (write_success 201 (Obj [(''token'', Str token)]), w\<lparr>draws := Suc (draws w)\<rparr>)
       \<and> (\<forall>now. (wall w \<le> now \<and> now \<le> wall w + api_validity e w - 1000
              \<longrightarrow> token_good lib secret ''access'' (api_holder (claims_CID c)) now token)
            \<and> (wall w + api_validity e w \<le> now \<longrightarrow> jwt_parse lib secret now token = None))"
proof (cases "e < wall w")
  case True
  have "tags_ok lib" using assms(1) by (simp add: lib_ok_def)
  with True show ?thesis by (simp add: create_api_token_json [OF _ assms(5,6,3)])
next
  case False
  then have now: "wall w \<le> e" and clk: "clock_ok (wall w)" using assms(2) by (simp_all add: serving_def)
  from token_lifetime [where n = "draws w" and secret = secret, OF assms(1) api_holder_ok [OF assms(4)] clk _ _ ascii_token_types(1)]
  show ?thesis
    using False api_validity_range [OF now] create_api_token_succeeds [OF assms(1-3,5,6) now]
    by (auto simp: api_token_def)
qed

theorem api_token_until_expiry_witness:
  "(\<exists>token. handle_create_api_token demo_lib (Some (json_text (expiry_json ''1970-01-02T00:00:00.000Z''))) demo_admin demo_web
         = (write_success 201 (Obj [(''token'', Str token)]), demo_web\<lparr>draws := 1\<rparr>)
       \<and> token_good demo_lib ''s3cret'' ''access'' (api_holder 1) 86399000 token
       \<and> jwt_parse demo_lib ''s3cret'' 86400000 token = None)
   \<and> handle_create_api_token demo_lib (Some (json_text (expiry_json ''1970-01-01T00:00:00.000Z''))) demo_admin demo_web
       = (write_failure 400 ''expiry_date_time cannot be in the past'', demo_web)"
proof -
  have p: "parse_rfc3339 ''1970-01-02T00:00:00.000Z'' = Some 86400000" "parse_rfc3339 ''1970-01-01T00:00:00.000Z'' = Some 0"
    by code_simp+
  have z: "86400000 \<noteq> zero_time" "0 \<noteq> zero_time" by (simp_all add: zero_time_def)
  have c: "12 \<le> claims_NetworkRating demo_admin" "claims_CID demo_admin = 1" "int64 (claims_CID demo_admin)"
    by (simp_all add: demo_admin_def token_claims_def demo_user_def int64_def)
  have w: "wall demo_web = 1000000" "draws demo_web = 0" by (simp_all add: demo_web_def)
  show ?thesis
    using api_token_until_expiry [OF demo_lib_ok demo_web_serving(1) c(1,3) p(1) z(1)]
      api_token_until_expiry [OF demo_lib_ok demo_web_serving(1) c(1,3) p(2) z(2)]
    by (auto simp: w c(2) api_validity_def max_duration_def)
qed

end
