(* ===== verification/Web_Status.thy ===== *)
theory Web_Status
  imports Web_Auth
begin

text \<open>
  The status documents of \<open>web/data.go\<close>: where the data feed and the lists of servers are found, as
  text from the templates under \<open>web/data_templates\<close> and as JSON, made from the configuration on
  every request. The replies of this file are plain texts, not the envelopes of the other routes.
\<close>

subsection \<open>What the configuration says\<close>

definition get_base_url :: "'x database_scheme \<Rightarrow> reply + string" where
  "get_base_url d =
     (case config_get ConfigApiServerBaseURL d of
        Inr base \<Rightarrow> Inr base
      | Inl ErrConfigKeyNotFound \<Rightarrow> Inl (Reply 500 ''API server base URL is not set in the config'')
      | Inl _ \<Rightarrow> Inl (Reply 500 []))"

record server_info =
  ident :: string
  hostname :: string
  location :: string

definition get_fsd_server_info :: "'x database_scheme \<Rightarrow> db_error + server_info" where
  "get_fsd_server_info d =
     (case config_get ConfigFsdServerIdent d of
        Inl e \<Rightarrow> Inl e
      | Inr i \<Rightarrow>
          (case config_get ConfigFsdServerHostname d of
             Inl e \<Rightarrow> Inl e
           | Inr h \<Rightarrow>
               (case config_get ConfigFsdServerLocation d of
                  Inl e \<Rightarrow> Inl e
                | Inr l \<Rightarrow> Inr \<lparr>ident = i, hostname = h, location = l\<rparr>)))"


subsection \<open>The documents as text\<close>

abbreviation newline :: char where "newline \<equiv> CHR 0x0A"

text \<open>\<open>strings.ReplaceAll\<close> of a line feed by a carriage return and a line feed.\<close>

definition crlf_lines :: "string \<Rightarrow> string" where
  "crlf_lines s = concat (map (\<lambda>c. if c = newline then [CHR 0x0D, newline] else [c]) s)"

text \<open>The templates; the last line of the first is a blank.\<close>

definition status_template :: "string \<Rightarrow> string" where
  "status_template base = join_with [newline]
     [''; IMPORTANT NOTE: This file can change as data sources change. Please check at regular intervals.'',
      '';'',
      ''; PEOPLE UTILISING THIS FEED ARE STRONGLY ENCOURAGED TO MIGRATE TO '' @ base @ ''/api/v1/data/status.json'',
      '';'',
      ''; Data formats are:'',
      '';'',
      ''; 120128:NOTCP - used by WhazzUp only'',
      ''; json3        - JSON Data Version 3'',
      ''; url1         - URLs where servers list data files are available. Please choose one randomly every time'',
      '';'',
      '';'',
      ''120218:NOTCP'',
      '';'',
      ''json3='' @ base @ ''/api/v1/data/openfsd-data.json'',
      '';'',
      ''url1='' @ base @ ''/api/v1/data/openfsd-servers.txt'',
      '';'',
      ''servers.live='' @ base @ ''/api/v1/data/openfsd-servers.txt'',
      '';'',
      ''voice0=afv'',
      '';'',
      ''; END'',
      '' '']"

definition generate_status_txt :: "string \<Rightarrow> string" where
  "generate_status_txt base = crlf_lines (status_template base)"

definition server_line :: "server_info \<Rightarrow> string \<Rightarrow> string" where
  "server_line i id_text = join_with '':'' [id_text, hostname i, location i, ident i, ''99'', []]"

definition servers_template :: "server_info \<Rightarrow> string" where
  "servers_template i = join_with [newline]
     [''!GENERAL:'', ''VERSION = 8'', ''RELOAD = 2'', ''UPDATE = 20220401021210'', ''ATIS ALLOW MIN = 5'',
      ''CONNECTED CLIENTS = 1'', '';'', '';'', ''!SERVERS:'', server_line i (ident i), server_line i ''AUTOMATIC'',
      '';'', '';   END'', []]"

definition generate_servers_txt :: "'x database_scheme \<Rightarrow> db_error + string" where
  "generate_servers_txt d = map_sum id (\<lambda>i. crlf_lines (servers_template i)) (get_fsd_server_info d)"

definition handle_get_status_txt :: "'x handler" where
  "handle_get_status_txt w =
     (case get_base_url w of
        Inl r \<Rightarrow> (r, w)
      | Inr base \<Rightarrow> (Reply 200 (generate_status_txt base), w))"

definition handle_get_servers_txt :: "'x handler" where
  "handle_get_servers_txt w =
     (case generate_servers_txt w of
        Inl _ \<Rightarrow> (Reply 500 ''Error generating status.txt'', w)
      | Inr txt \<Rightarrow> (Reply 200 txt, w))"


subsection \<open>The documents as JSON\<close>

text \<open>The keys of a map are written in the order of their names.\<close>

definition status_json :: "string \<Rightarrow> jsval" where
  "status_json base =
     Obj [(''data'', Obj
       [(''servers'', Arr [Str (base @ ''/api/v1/data/openfsd-servers.json'')]),
        (''servers_all'', Arr [Str (base @ ''/api/v1/data/all-servers.json'')]),
        (''servers_sweatbox'', Arr [Str (base @ ''/api/v1/data/sweatbox-servers.json'')]),
        (''v3'', Arr [Str (base @ ''/api/v1/data/openfsd-data.json'')])])]"

definition handle_get_status_json :: "'x handler" where
  "handle_get_status_json w =
     (case get_base_url w of
        Inl r \<Rightarrow> (r, w)
      | Inr base \<Rightarrow> (Reply 200 (json_text (status_json base)), w))"

definition server_json :: "bool \<Rightarrow> server_info \<Rightarrow> string \<Rightarrow> jsval" where
  "server_json sweatbox i id_text =
     Obj [(''ident'', Str id_text), (''hostname_or_ip'', Str (hostname i)), (''location'', Str (location i)),
          (''name'', Str (ident i)), (''clients_connection_allowed'', JInt 99),
          (''client_connections_allowed'', Bool True), (''is_sweatbox'', Bool sweatbox)]"

definition handle_get_servers_json :: "bool \<Rightarrow> 'x handler" where
  "handle_get_servers_json sweatbox w =
     (case get_fsd_server_info w of
        Inl _ \<Rightarrow> (Reply 500 ''Unable to load FSD server info from configuration'', w)
      | Inr i \<Rightarrow> (Reply 200 (json_text (Arr [server_json sweatbox i (ident i), server_json sweatbox i ''AUTOMATIC''])), w))"

lemma status_routes_state [simp]:
  "snd (handle_get_status_txt w) = w" "snd (handle_get_servers_txt w) = w"
  "snd (handle_get_status_json w) = w" "snd (handle_get_servers_json sweatbox w) = w"
  by (simp_all add: handle_get_status_txt_def handle_get_servers_txt_def handle_get_status_json_def
      handle_get_servers_json_def split: sum.split)

text \<open>With the four values in place every document is served.\<close>

definition server_configured :: "string \<Rightarrow> server_info \<Rightarrow> 'x database_scheme \<Rightarrow> bool" where
  "server_configured base i d \<longleftrightarrow>
     config_get ConfigApiServerBaseURL d = Inr base \<and> config_get ConfigFsdServerIdent d = Inr (ident i) \<and>
     config_get ConfigFsdServerHostname d = Inr (hostname i) \<and> config_get ConfigFsdServerLocation d = Inr (location i)"

lemma configured_replies:
  assumes "server_configured base i w"
  shows "get_fsd_server_info w = Inr i" "handle_get_status_txt w = (Reply 200 (generate_status_txt base), w)"
    "handle_get_status_json w = (Reply 200 (json_text (status_json base)), w)"
    "handle_get_servers_txt w = (Reply 200 (crlf_lines (servers_template i)), w)"
    "handle_get_servers_json sweatbox w
       = (Reply 200 (json_text (Arr [server_json sweatbox i (ident i), server_json sweatbox i ''AUTOMATIC''])), w)"
proof -
  show "get_fsd_server_info w = Inr i" using assms by (cases i) (simp add: get_fsd_server_info_def server_configured_def)
  moreover have "get_base_url w = Inr base" using assms by (simp add: get_base_url_def server_configured_def)
  ultimately show "handle_get_status_txt w = (Reply 200 (generate_status_txt base), w)"
    "handle_get_status_json w = (Reply 200 (json_text (status_json base)), w)"
    "handle_get_servers_txt w = (Reply 200 (crlf_lines (servers_template i)), w)"
    "handle_get_servers_json sweatbox w
       = (Reply 200 (json_text (Arr [server_json sweatbox i (ident i), server_json sweatbox i ''AUTOMATIC''])), w)"
    by (simp_all add: handle_get_status_txt_def handle_get_status_json_def handle_get_servers_txt_def generate_servers_txt_def
      handle_get_servers_json_def)
qed

lemma fresh_config_configured:
  assumes "random_ok lib" "db_up d" "\<And>kvs. mset (order kvs) = mset kvs" "config d = Map.empty"
  shows "server_configured ''http://localhost'' \<lparr>ident = ''OPENFSD'', hostname = ''localhost'', location = ''Earth''\<rparr>
     (snd (init_default_config lib order d))"
proof -
  obtain secret d' where "init_default_config lib order d = (Inr (), d')" "db_up d'"
      "\<forall>k. config d' k = map_of (default_config secret) k"
    using init_default_config_run [OF assms(1,2), of order, OF assms(3)] assms(4) by fastforce
  then show ?thesis by (simp add: server_configured_def config_get_def default_config_def)
qed

end
