(* ===== verification/Web_Server.thy ===== *)
theory Web_Server
  imports Web_Users Web_Config Web_Status
begin

text \<open>
  \<open>web/routes.go\<close>: the routes of the API, as the server a page talks to. The FSD server behind
  \<open>fsdconn\<close>, the datafeed and the time a request takes are parameters here; \<open>Fsd_Web\<close> and \<open>Fsd_Feed\<close>
  put the models of the first two in their place.
\<close>

definition status_text :: "nat \<Rightarrow> string" where
  "status_text n =
     (case map_of [(200, ''OK''), (201, ''Created''), (204, ''No Content''), (400, ''Bad Request''),
        (401, ''Unauthorized''), (403, ''Forbidden''), (404, ''Not Found''), (500, ''Internal Server Error'')] n of
        None \<Rightarrow> [] | Some s \<Rightarrow> s)"

text \<open>What the routes outside the modelled groups answer, and what stands behind the kick route.\<close>

record 'x outside =
  fsd_kick :: "string \<Rightarrow> 'x web_scheme \<Rightarrow> nat option \<times> 'x web_scheme"
  data_feed :: "'x web_scheme \<Rightarrow> reply"
  delay :: "request \<Rightarrow> nat"

definition guarded :: "golib \<Rightarrow> request \<Rightarrow> (claims \<Rightarrow> 'x handler) \<Rightarrow> 'x handler" where
  "guarded lib rq h = jwt_bearer_middleware lib (rq_auth rq) h"

text \<open>The body of \<open>/fsd-jwt\<close> when it is JSON; that clients may send it as a form is not modelled.\<close>

definition bind_fsd_jwt :: "string option \<Rightarrow> (string \<times> string) option" where
  "bind_fsd_jwt body =
     (case body_members body of
        None \<Rightarrow> None
      | Some kvs \<Rightarrow>
          (case (string_field ''cid'' kvs, string_field ''password'' kvs) of
             (Some cid, Some password) \<Rightarrow> Some (cid, password)
           | _ \<Rightarrow> None))"

definition api_route :: "golib \<Rightarrow> 'x outside \<Rightarrow> request \<Rightarrow> 'x handler" where
  "api_route lib out rq =
     (let body = rq_body rq; at = (\<lambda>m u. rq_method rq = m \<and> rq_url rq = u) in
      if at ''POST'' ''/api/v1/fsd-jwt'' then get_fsd_jwt lib (bind_fsd_jwt body)
      else if at ''POST'' ''/api/v1/auth/login'' then get_access_refresh_tokens lib body
      else if at ''POST'' ''/api/v1/auth/refresh'' then refresh_access_token lib body
      else if at ''POST'' ''/api/v1/user/load'' then guarded lib rq (handle_get_user lib body)
      else if at ''PATCH'' ''/api/v1/user/update'' then guarded lib rq (handle_update_user lib body)
      else if at ''POST'' ''/api/v1/user/create'' then guarded lib rq (handle_create_user lib body)
      else if at ''GET'' ''/api/v1/config/load'' then guarded lib rq handle_get_config
      else if at ''POST'' ''/api/v1/config/update'' then guarded lib rq (handle_update_config lib body)
      else if at ''POST'' ''/api/v1/config/resetsecretkey'' then guarded lib rq (handle_reset_secret_key lib)
      else if at ''POST'' ''/api/v1/config/createtoken'' then guarded lib rq (handle_create_api_token lib body)
      else if at ''POST'' ''/api/v1/fsdconn/kickuser'' then guarded lib rq (handle_kick lib (fsd_kick out) body)
      else if at ''GET'' ''/api/v1/data/status.txt'' then handle_get_status_txt
      else if at ''GET'' ''/api/v1/data/status.json'' then handle_get_status_json
      else if at ''GET'' ''/api/v1/data/openfsd-servers.txt'' then handle_get_servers_txt
      else if at ''GET'' ''/api/v1/data/openfsd-servers.json'' then handle_get_servers_json False
      else if at ''GET'' ''/api/v1/data/sweatbox-servers.json'' then handle_get_servers_json True
      else if at ''GET'' ''/api/v1/data/all-servers.json'' then handle_get_servers_json False
      else if at ''GET'' ''/api/v1/data/openfsd-data.json'' then (\<lambda>w. (data_feed out w, w))
      else (\<lambda>w. (Reply 404 ''404 page not found'', w)))"

text \<open>The clock of the server runs on by the time the request takes.\<close>

definition web_server :: "golib \<Rightarrow> 'x outside \<Rightarrow> 'x web_scheme server" where
  "web_server lib out w rq =
     (case api_route lib out rq w of
        (Reply status body, w1) \<Rightarrow>
          (Response status (status_text status) body, delay out rq,
           w1\<lparr>wall := wall w1 + int (delay out rq)\<rparr>))"

subsection \<open>Tables and requests\<close>

text \<open>The handler a request ends up with satisfies what all of them satisfy.\<close>

lemma api_route_cases:
  fixes P :: "'x handler \<Rightarrow> bool"
  assumes "P (get_fsd_jwt lib (bind_fsd_jwt (rq_body rq)))" "P (get_access_refresh_tokens lib (rq_body rq))" "P (refresh_access_token lib (rq_body rq))"
    and "P (guarded lib rq (handle_get_user lib (rq_body rq)))" "P (guarded lib rq (handle_update_user lib (rq_body rq)))"
    and "P (guarded lib rq (handle_create_user lib (rq_body rq)))" "P (guarded lib rq handle_get_config)"
    and "P (guarded lib rq (handle_update_config lib (rq_body rq)))" "P (guarded lib rq (handle_reset_secret_key lib))"
    and "P (guarded lib rq (handle_create_api_token lib (rq_body rq)))"
    and "P (guarded lib rq (handle_kick lib (fsd_kick out) (rq_body rq)))"
    and "P handle_get_status_txt" "P handle_get_status_json" "P handle_get_servers_txt" "\<And>b. P (handle_get_servers_json b)"
    and "P (\<lambda>w. (data_feed out w, w))" "P (\<lambda>w. (Reply 404 ''404 page not found'', w))"
  shows "P (api_route lib out rq)"
proof -
  have if_P: "P x \<Longrightarrow> P y \<Longrightarrow> P (if b then x else y)" for b x y by simp
  show ?thesis unfolding api_route_def Let_def by (intro if_P assms)
qed

text \<open>The claims a request is let through with.\<close>

definition bears :: "golib \<Rightarrow> request \<Rightarrow> claims \<Rightarrow> 'x web_scheme \<Rightarrow> bool" where
  "bears lib rq c w \<longleftrightarrow>
     (\<exists>token secret. bearer_token (rq_auth rq) = Some token \<and> config_get ConfigJwtSecretKey w = Inr secret
        \<and> jwt_parse lib secret (wall w) token = Some c \<and> TokenType c = ''access'')"

lemma guarded_result:
  "(\<exists>r. guarded lib rq h w = (r, w)) \<or> (\<exists>c. bears lib rq c w \<and> guarded lib rq h w = h c w)"
  by (auto simp: guarded_def jwt_bearer_middleware_def bears_def split: option.splits sum.splits)

definition tables :: "'x web_scheme \<Rightarrow> (int \<rightharpoonup> user) \<times> int \<times> (string \<rightharpoonup> string)" where
  "tables w = (users w, last_cid w, config w)"

lemma tables_simps [simp]:
  "tables (w\<lparr>draws := n\<rparr>) = tables w" "tables (w\<lparr>wall := t\<rparr>) = tables w"
  by (simp_all add: tables_def)

lemma make_token_tables:
  "make_jwt_token lib tt cid fn ln r v w = (x, w1) \<Longrightarrow> tables w1 = tables w"
  "make_access_token lib u s w = (y, w1) \<Longrightarrow> tables w1 = tables w"
  "make_refresh_token lib u rm s w = (y, w1) \<Longrightarrow> tables w1 = tables w"
  by (auto simp: make_jwt_token_def make_access_token_def make_refresh_token_def Let_def split: option.splits prod.splits)

lemma fsd_jwt_tables: "tables (snd (get_fsd_jwt lib bound w)) = tables w"
  by (auto simp: get_fsd_jwt_def split: option.splits sum.splits prod.splits db_error.splits if_splits dest!: make_token_tables)

lemma open_routes_tables:
  "tables (snd (get_access_refresh_tokens lib body w)) = tables w"
  "tables (snd (refresh_access_token lib body w)) = tables w"
  by (auto simp: get_access_refresh_tokens_def make_access_refresh_tokens_def refresh_access_token_def
      split: option.splits sum.splits prod.splits if_splits dest!: make_token_tables)

lemma reading_routes_tables:
  "snd (handle_get_user lib body c w) = w" "snd (handle_get_config c w) = w"
  "tables (snd (handle_create_api_token lib body c w)) = tables w"
  by (auto simp: handle_get_user_def handle_get_config_def handle_create_api_token_def Let_def
      split: option.splits sum.splits prod.splits if_splits db_error.splits dest!: make_token_tables)

text \<open>The FSD server does not write the tables.\<close>

definition quiet :: "'x outside \<Rightarrow> bool" where
  "quiet out \<longleftrightarrow> (\<forall>callsign w. tables (snd (fsd_kick out callsign w)) = tables w)"

lemma kick_tables: "quiet out \<Longrightarrow> tables (snd (handle_kick lib (fsd_kick out) body c w)) = tables w"
  by (auto simp: handle_kick_def quiet_def split: option.splits prod.splits)
    (metis snd_conv)+

text \<open>What the writing handlers may change.\<close>

lemma config_writes:
  "users (snd (handle_update_config lib body c w)) = users w"
  "last_cid (snd (handle_update_config lib body c w)) = last_cid w"
  "users (snd (handle_reset_secret_key lib c w)) = users w"
  "last_cid (snd (handle_reset_secret_key lib c w)) = last_cid w"
  "claims_NetworkRating c < 12 \<Longrightarrow> snd (handle_update_config lib body c w) = w"
  "claims_NetworkRating c < 12 \<Longrightarrow> snd (handle_reset_secret_key lib c w) = w"
proof -
  have "users (snd (write_config kvs w)) = users w \<and> last_cid (snd (write_config kvs w)) = last_cid w" for kvs and w :: "'a web_scheme"
    by (induction kvs arbitrary: w) (auto simp: config_set_def config_put_def split: prod.splits sum.splits if_splits)
  then show "users (snd (handle_update_config lib body c w)) = users w"
    "last_cid (snd (handle_update_config lib body c w)) = last_cid w"
    by (auto simp: handle_update_config_def split: option.splits prod.splits bool.splits) (metis snd_conv)+
qed (auto simp: handle_update_config_def handle_reset_secret_key_def generate_jwt_secret_key_def config_set_def
    config_put_def split: option.splits prod.splits sum.splits if_splits)

lemma user_writes_config:
  "config (snd (handle_update_user lib body c w)) = config w"
  "config (snd (handle_create_user lib body c w)) = config w"
  by (auto simp: handle_update_user_def handle_create_user_def sqlite_create_user_def create_user_def insert_user_def
      update_user_def exec_update_def Let_def split: option.splits prod.splits sum.splits if_splits db_error.splits)


lemma user_writes_up:
  "db_up (snd (handle_update_user lib body c w)) = db_up w"
  "db_up (snd (handle_create_user lib body c w)) = db_up w"
  by (auto simp: handle_update_user_def handle_create_user_def sqlite_create_user_def create_user_def insert_user_def
      update_user_def exec_update_def Let_def split: option.splits prod.splits sum.splits if_splits db_error.splits)

text \<open>
  The rows of a database the program made: under their own CID, which was handed out before, with
  a hash and a rating in range.
\<close>

definition rows_ok :: "golib \<Rightarrow> 'x database_scheme \<Rightarrow> bool" where
  "rows_ok lib w \<longleftrightarrow>
     0 \<le> last_cid w \<and>
     (\<forall>cid u. users w cid = Some u \<longrightarrow>
        row_ok lib cid u \<and> 1 \<le> cid \<and> cid \<le> last_cid w \<and> -1 \<le> NetworkRating u \<and> NetworkRating u \<le> 12)"

lemma rows_ok_tables: "tables w' = tables w \<Longrightarrow> rows_ok lib w' = rows_ok lib w"
  by (simp add: tables_def rows_ok_def)

lemma rows_ok_users: "users w' = users w \<Longrightarrow> last_cid w' = last_cid w \<Longrightarrow> rows_ok lib w' = rows_ok lib w"
  by (simp add: rows_ok_def)

lemma rows_ok_put:
  assumes "rows_ok lib w" "row_ok lib cid u" "1 \<le> cid" "cid \<le> last_cid w'" "last_cid w \<le> last_cid w'"
    and "-1 \<le> NetworkRating u" "NetworkRating u \<le> 12" "users w' = (users w)(cid \<mapsto> u)"
  shows "rows_ok lib w'"
proof -
  have "row_ok lib i v \<and> 1 \<le> i \<and> i \<le> last_cid w' \<and> -1 \<le> NetworkRating v \<and> NetworkRating v \<le> 12"
    if "users w' i = Some v" for i v
  proof (cases "i = cid")
    case False
    with that assms(8) have "users w i = Some v" by simp
    with assms(1) have "row_ok lib i v \<and> 1 \<le> i \<and> i \<le> last_cid w \<and> -1 \<le> NetworkRating v \<and> NetworkRating v \<le> 12"
      unfolding rows_ok_def by blast
    with assms(5) show ?thesis by linarith
  qed (use that assms in simp)
  moreover have "0 \<le> last_cid w'" using assms(1,5) unfolding rows_ok_def by linarith
  ultimately show ?thesis unfolding rows_ok_def by blast
qed

text \<open>An update that went through, seen from the row.\<close>

lemma update_user_row:
  assumes "update_user lib u w = (x, w1)"
  shows "tables w1 = tables w
    \<or> (\<exists>row h. users w (CID u) = Some row \<and> last_cid w1 = last_cid w
        \<and> (Password u = [] \<and> h = Password row \<or> hash_of lib (Password u) h)
        \<and> users w1 = (users w)(CID u \<mapsto> u\<lparr>CID := CID row, Password := h\<rparr>))"
proof -
  have "tables w1 = tables w
    \<or> (\<exists>row. users w (CID u) = Some row \<and> last_cid w1 = last_cid w \<and> users w1 = (users w)(CID u \<mapsto> f row))"
    if "exec_update f (CID u) w = (y, w1)" for f y and w w1 :: "'a web_scheme"
    using that by (auto simp: exec_update_def tables_def split: if_splits option.splits)
  note exec = this
  show ?thesis
  proof (cases "Password u = []")
    case True
    with assms exec [of _ w x w1] show ?thesis
      unfolding update_user_def by fastforce
  next
    case False
    show ?thesis
    proof (cases "CHR '':'' \<in> set (Password u) \<or> bcrypt lib (draws w) (Password u) = None")
      case True
      with False assms show ?thesis by (auto simp: update_user_def Let_def split: if_splits)
    next
      case bc: False
      then obtain h where h: "bcrypt lib (draws w) (Password u) = Some h" by auto
      with False bc assms have "exec_update
          (\<lambda>row. row\<lparr>Password := h, FirstName := FirstName u, LastName := LastName u, NetworkRating := NetworkRating u\<rparr>)
          (CID u) (w\<lparr>draws := Suc (draws w)\<rparr>) = (x, w1)"
        by (simp add: update_user_def Let_def)
      from exec [OF this] h show ?thesis by (fastforce simp: hash_of_def tables_def)
    qed
  qed
qed

lemma bind_update_rating:
  assumes "tags_ok lib" "bind_update lib body = Some rq" "ur_network_rating rq = Some r"
  shows "-1 \<le> r" "r \<le> 12"
proof -
  obtain cid where "binding lib [([AtLeast 1, Required], IntV cid), ([AtLeast (-1), AtMost 12], IntPtrV (Some r))]"
    using assms(2,3) unfolding bind_update_def by (auto split: option.splits if_splits)
  then show "-1 \<le> r" "r \<le> 12" by (simp_all add: binding_def tags_okD [OF assms(1)])
qed

lemma handle_update_user_row:
  assumes "rows_ok lib w"
  shows "tables (snd (handle_update_user lib body c w)) = tables w
    \<or> (\<exists>rq row u. bind_update lib body = Some rq \<and> 11 \<le> claims_NetworkRating c
        \<and> users w (ur_cid rq) = Some row \<and> NetworkRating row \<le> claims_NetworkRating c
        \<and> row_ok lib (ur_cid rq) u \<and> NetworkRating u = NetworkRating (merge_update rq row)
        \<and> users (snd (handle_update_user lib body c w)) = (users w)(ur_cid rq \<mapsto> u)
        \<and> last_cid (snd (handle_update_user lib body c w)) = last_cid w)"
proof (cases "claims_NetworkRating c < 11 \<or> bind_update lib body = None")
  case True
  then show ?thesis by (auto simp: handle_update_user_def)
next
  case False
  then obtain rq where rq: "11 \<le> claims_NetworkRating c" "bind_update lib body = Some rq" by auto
  show ?thesis
  proof (cases "\<exists>target. get_user_by_cid (ur_cid rq) w = Inr target \<and> NetworkRating target \<le> claims_NetworkRating c")
    case False
    with rq show ?thesis by (auto simp: handle_update_user_def split: sum.splits)
  next
    case True
    then obtain target where target: "get_user_by_cid (ur_cid rq) w = Inr target" "NetworkRating target \<le> claims_NetworkRating c"
      by blast
    then have row: "users w (ur_cid rq) = Some target" by (auto simp: get_user_by_cid_def split: if_splits option.splits)
    with assms have rok: "CID target = ur_cid rq" "\<exists>p. hash_of lib p (Password target)" by (auto simp: rows_ok_def row_ok_def)
    obtain x w1 where w1: "update_user lib (merge_update rq target) w = (x, w1)" by fastforce
    have snd_w1: "snd (handle_update_user lib body c w) = w1"
      using rq target w1 by (auto simp: handle_update_user_def Let_def split: sum.splits db_error.splits)
    have cid: "CID (merge_update rq target) = ur_cid rq" using rok(1) by (simp add: merge_update_def)
    from update_user_row [OF w1] show ?thesis
    proof
      assume "tables w1 = tables w"
      with snd_w1 show ?thesis by simp
    next
      assume "\<exists>row h. users w (CID (merge_update rq target)) = Some row \<and> last_cid w1 = last_cid w
        \<and> (Password (merge_update rq target) = [] \<and> h = Password row \<or> hash_of lib (Password (merge_update rq target)) h)
        \<and> users w1 = (users w)(CID (merge_update rq target) \<mapsto> (merge_update rq target)\<lparr>CID := CID row, Password := h\<rparr>)"
      then obtain h where h: "last_cid w1 = last_cid w" "\<exists>p. hash_of lib p h"
          "users w1 = (users w)(ur_cid rq \<mapsto> (merge_update rq target)\<lparr>CID := CID target, Password := h\<rparr>)"
        using row cid rok(2) by auto
      have "row_ok lib (ur_cid rq) ((merge_update rq target)\<lparr>CID := CID target, Password := h\<rparr>)"
        using rok(1) h(2) by (simp add: row_ok_def)
      with rq target(2) row h(1,3) snd_w1 show ?thesis by (auto intro!: exI)
    qed
  qed
qed

lemma create_user_row:
  assumes "create_user lib n u w = (x, w1)"
  shows "tables w1 = tables w
    \<or> (\<exists>h. hash_of lib (Password u) h \<and> last_cid w1 = last_cid w + 1
        \<and> users w1 = (users w)(last_cid w + 1 \<mapsto> u\<lparr>Password := h, CID := last_cid w + 1\<rparr>))"
  using assms
  by (auto simp: create_user_def insert_user_def Let_def tables_def hash_of_def split: if_splits option.splits)

lemma handle_create_user_row:
  assumes "tags_ok lib" "rows_ok lib w"
  shows "tables (snd (handle_create_user lib body c w)) = tables w
    \<or> (\<exists>u. 11 \<le> claims_NetworkRating c \<and> row_ok lib (last_cid w + 1) u
        \<and> -1 \<le> NetworkRating u \<and> NetworkRating u \<le> 12 \<and> NetworkRating u \<le> claims_NetworkRating c
        \<and> users (snd (handle_create_user lib body c w)) = (users w)(last_cid w + 1 \<mapsto> u)
        \<and> last_cid (snd (handle_create_user lib body c w)) = last_cid w + 1)"
proof (cases "snd (handle_create_user lib body c w) = w")
  case False
  obtain pw fn ln nr x w2 where b: "binding lib [([AtLeast 8, Required], StrV pw), ([AtLeast (-1), AtMost 12, Required], IntV nr)]"
      "11 \<le> claims_NetworkRating c" "nr \<le> claims_NetworkRating c"
      "sqlite_create_user lib \<lparr>CID = 0, Password = pw, FirstName = fn, LastName = ln, NetworkRating = nr\<rparr> w = (x, w2)"
      "snd (handle_create_user lib body c w) = w2"
    using False unfolding handle_create_user_def
    by (auto simp: Let_def split: option.splits prod.splits sum.splits if_splits)
  have "-1 \<le> nr" "nr \<le> 12" using b(1) by (simp_all add: binding_def tags_okD [OF assms(1)])
  moreover have "tables w2 = tables w \<or> (\<exists>u. row_ok lib (last_cid w + 1) u \<and> NetworkRating u = nr
      \<and> users w2 = (users w)(last_cid w + 1 \<mapsto> u) \<and> last_cid w2 = last_cid w + 1)"
    using create_user_row [OF b(4) [unfolded sqlite_create_user_def]]
  proof (elim disjE exE conjE)
    fix h
    assume "hash_of lib (Password \<lparr>CID = 0, Password = pw, FirstName = fn, LastName = ln, NetworkRating = nr\<rparr>) h"
      "last_cid w2 = last_cid w + 1" "users w2 = (users w)(last_cid w + 1 \<mapsto>
        \<lparr>CID = 0, Password = pw, FirstName = fn, LastName = ln, NetworkRating = nr\<rparr>\<lparr>Password := h, CID := last_cid w + 1\<rparr>)"
    then show ?thesis
      by (intro disjI2 exI [of _ "\<lparr>CID = last_cid w + 1, Password = h, FirstName = fn, LastName = ln, NetworkRating = nr\<rparr>"])
        (auto simp: row_ok_def)
  qed simp
  ultimately show ?thesis using b(2,3) unfolding b(5) by auto
qed simp

subsection \<open>Properties\<close>

fun serve_all :: "golib \<Rightarrow> 'x outside \<Rightarrow> request list \<Rightarrow> 'x web_scheme \<Rightarrow> 'x web_scheme" where
  "serve_all lib out [] w = w"
| "serve_all lib out (rq # rqs) w = serve_all lib out rqs (snd (snd (web_server lib out w rq)))"

lemma web_server_state:
  "snd (snd (web_server lib out w rq)) = (snd (api_route lib out rq w))\<lparr>wall := wall (snd (api_route lib out rq w)) + int (delay out rq)\<rparr>"
  by (simp add: web_server_def split: prod.splits reply.splits)

lemma user_routes_rows:
  assumes "tags_ok lib" "rows_ok lib w"
  shows "rows_ok lib (snd (handle_create_user lib body c w))" "rows_ok lib (snd (handle_update_user lib body c w))"
proof -
  have "0 \<le> last_cid w" using assms(2) by (simp add: rows_ok_def)
  then show "rows_ok lib (snd (handle_create_user lib body c w))"
    using handle_create_user_row [OF assms, of body c]
  proof (elim disjE exE conjE)
    show ?thesis if "tables (snd (handle_create_user lib body c w)) = tables w"
      using that assms(2) rows_ok_tables by blast
  next
    fix u
    assume "0 \<le> last_cid w" and u: "row_ok lib (last_cid w + 1) u" "-1 \<le> NetworkRating u" "NetworkRating u \<le> 12"
      "users (snd (handle_create_user lib body c w)) = (users w)(last_cid w + 1 \<mapsto> u)"
      "last_cid (snd (handle_create_user lib body c w)) = last_cid w + 1"
    then show ?thesis by (intro rows_ok_put [OF assms(2) u(1) _ _ _ u(2,3,4)]) simp_all
  qed
  show "rows_ok lib (snd (handle_update_user lib body c w))"
  proof (cases "tables (snd (handle_update_user lib body c w)) = tables w")
    case True
    with assms(2) show ?thesis using rows_ok_tables by blast
  next
    case False
    with handle_update_user_row [OF assms(2), of body c] obtain up row u where u:
        "bind_update lib body = Some up" "users w (ur_cid up) = Some row"
        "row_ok lib (ur_cid up) u" "NetworkRating u = NetworkRating (merge_update up row)"
        "users (snd (handle_update_user lib body c w)) = (users w)(ur_cid up \<mapsto> u)"
        "last_cid (snd (handle_update_user lib body c w)) = last_cid w"
      by blast
    have row: "1 \<le> ur_cid up" "ur_cid up \<le> last_cid w" "-1 \<le> NetworkRating row" "NetworkRating row \<le> 12"
      using assms(2) u(2) unfolding rows_ok_def by blast+
    have "-1 \<le> NetworkRating u" "NetworkRating u \<le> 12"
      using u(4) row(3,4) bind_update_rating [OF assms(1) u(1)]
      by (auto simp: merge_update_def split: option.splits)
    then show ?thesis
      by (intro rows_ok_put [OF assms(2) u(3) row(1) _ _ _ _ u(5)]) (simp_all add: u(6) row)
  qed
qed

lemma api_route_rows:
  assumes "tags_ok lib" "quiet out" "rows_ok lib w"
  shows "rows_ok lib (snd (api_route lib out rq w))"
proof (rule api_route_cases [where P = "\<lambda>h. rows_ok lib (snd (h w))"])
  have g: "rows_ok lib (snd (guarded lib rq h w))" if "\<And>c. rows_ok lib (snd (h c w))" for h
    using guarded_result [of lib rq h w] that assms(3) by auto
  have t: "tables (snd (h w)) = tables w \<Longrightarrow> rows_ok lib (snd (h w))" for h :: "'a handler"
    using assms(3) rows_ok_tables by blast
  show "rows_ok lib (snd (get_fsd_jwt lib (bind_fsd_jwt (rq_body rq)) w))" by (simp add: t fsd_jwt_tables)
  show "rows_ok lib (snd (get_access_refresh_tokens lib (rq_body rq) w))" "rows_ok lib (snd (refresh_access_token lib (rq_body rq) w))"
    by (simp_all add: t open_routes_tables)
  show "rows_ok lib (snd (guarded lib rq (handle_get_user lib (rq_body rq)) w))" "rows_ok lib (snd (guarded lib rq handle_get_config w))"
    by (simp_all add: g reading_routes_tables(1,2) assms(3))
  show "rows_ok lib (snd (guarded lib rq (handle_create_api_token lib (rq_body rq)) w))"
    "rows_ok lib (snd (guarded lib rq (handle_kick lib (fsd_kick out) (rq_body rq)) w))"
    by (intro g t reading_routes_tables kick_tables assms(2))+
  show "rows_ok lib (snd (guarded lib rq (handle_update_config lib (rq_body rq)) w))"
    "rows_ok lib (snd (guarded lib rq (handle_reset_secret_key lib) w))"
    by (rule g, simp add: rows_ok_users [where w = w] config_writes assms(3))+
  show "rows_ok lib (snd (guarded lib rq (handle_create_user lib (rq_body rq)) w))"
    "rows_ok lib (snd (guarded lib rq (handle_update_user lib (rq_body rq)) w))"
    by (intro g user_routes_rows assms)+
qed (simp_all add: assms(3))

text \<open>
  C11. The rows stay well formed. Whatever requests the server is sent, in whatever order: every row
  is stored under its own CID, which is one that was handed out, its password is a hash, never a
  plain text, and its rating is between -1 and 12.
\<close>

theorem requests_keep_rows:
  assumes "tags_ok lib" "quiet out" "rows_ok lib w"
  shows "rows_ok lib (serve_all lib out rqs w)"
  using assms(3)
proof (induction rqs arbitrary: w)
  case (Cons rq rqs)
  have "rows_ok lib (snd (snd (web_server lib out w rq)))"
    unfolding web_server_state using api_route_rows [OF assms(1,2) Cons.prems] by (simp add: rows_ok_def)
  with Cons.IH show ?case by simp
qed simp

definition demo_outside :: "unit outside" where
  "demo_outside = \<lparr>fsd_kick = (\<lambda>callsign w. (Some 404, w)), data_feed = (\<lambda>w. Reply 200 ''{}''), delay = (\<lambda>rq. 5)\<rparr>"

lemma demo_outside_quiet: "quiet demo_outside"
  by (simp add: quiet_def demo_outside_def)

lemma demo_rows: "rows_ok demo_lib demo_web"
proof -
  have "row_ok demo_lib 1 demo_user" by (rule demo_row)
  then show ?thesis by (simp add: rows_ok_def demo_web_def)
qed

definition demo_requests :: "request list" where
  "demo_requests =
     [\<lparr>rq_method = ''POST'', rq_url = ''/api/v1/auth/login'', rq_auth = None,
       rq_body = Some (json_text (login_json 1 ''correct horse'' False))\<rparr>,
      \<lparr>rq_method = ''PATCH'', rq_url = ''/api/v1/user/update'',
       rq_auth = Some (''Bearer '' @ login_access demo_lib ''s3cret'' demo_user demo_web),
       rq_body = Some (json_text (update_json 1 ''Ann'' ''Lee'' 11 ''new password''))\<rparr>]"

theorem requests_keep_rows_witness: "rows_ok demo_lib (serve_all demo_lib demo_outside demo_requests demo_web)"
proof -
  have "tags_ok demo_lib" using demo_lib_ok by (simp add: lib_ok_def)
  then show ?thesis by (rule requests_keep_rows [OF _ demo_outside_quiet demo_rows])
qed

text \<open>The rows and the configuration a handler changes for a caller who is let through, and by whom.\<close>

definition permitted :: "golib \<Rightarrow> request \<Rightarrow> 'x web_scheme \<Rightarrow> 'x web_scheme \<Rightarrow> bool" where
  "permitted lib rq w w' \<longleftrightarrow>
     (\<forall>cid. users w' cid \<noteq> users w cid \<longrightarrow>
        (\<exists>c. bears lib rq c w \<and> 11 \<le> claims_NetworkRating c
           \<and> (\<forall>u. users w cid = Some u \<longrightarrow> NetworkRating u \<le> claims_NetworkRating c)))
     \<and> (config w' \<noteq> config w \<longrightarrow> (\<exists>c. bears lib rq c w \<and> 12 \<le> claims_NetworkRating c))"

lemma permitted_tables: "tables w' = tables w \<Longrightarrow> permitted lib rq w w'"
  by (simp add: permitted_def tables_def)

lemma permitted_guarded:
  assumes "\<And>c. bears lib rq c w \<Longrightarrow> permitted lib rq w (snd (h c w))"
  shows "permitted lib rq w (snd (guarded lib rq h w))"
  using guarded_result [of lib rq h w] assms by (auto simp: permitted_tables)

lemma user_routes_permitted:
  assumes "tags_ok lib" "rows_ok lib w" "bears lib rq c w"
  shows "permitted lib rq w (snd (handle_create_user lib body c w))" "permitted lib rq w (snd (handle_update_user lib body c w))"
proof -
  have fresh: "users w (last_cid w + 1) = None"
  proof (rule ccontr)
    assume "users w (last_cid w + 1) \<noteq> None"
    then obtain u where "users w (last_cid w + 1) = Some u" by blast
    then have "last_cid w + 1 \<le> last_cid w" using assms(2) unfolding rows_ok_def by blast
    then show False by simp
  qed
  with handle_create_user_row [OF assms(1,2), of body c] assms(3)
  show "permitted lib rq w (snd (handle_create_user lib body c w))"
    by (auto simp: permitted_tables) (auto simp: permitted_def user_writes_config)
  from handle_update_user_row [OF assms(2), of body c] assms(3)
  show "permitted lib rq w (snd (handle_update_user lib body c w))"
    by (auto simp: permitted_tables) (auto simp: permitted_def user_writes_config)
qed

lemma config_routes_permitted:
  assumes "bears lib rq c w"
  shows "permitted lib rq w (snd (handle_update_config lib body c w))" "permitted lib rq w (snd (handle_reset_secret_key lib c w))"
proof -
  have "permitted lib rq w w'" if "users w' = users w" "claims_NetworkRating c < 12 \<Longrightarrow> w' = w" for w'
    using assms that by (cases "claims_NetworkRating c < 12") (auto simp: permitted_def)
  then show "permitted lib rq w (snd (handle_update_config lib body c w))" "permitted lib rq w (snd (handle_reset_secret_key lib c w))"
    using config_writes [where w = w and c = c and lib = lib] by blast+
qed

text \<open>
  C1. Only those who may do so change anything. A request changes a user's row, or adds one, only
  with a current access token of a supervisor or an administrator, and never the row of someone
  with a higher rating than the token has; it changes the configuration, the secret included,
  only with a current access token of an administrator.
\<close>

theorem changes_are_permitted:
  assumes "tags_ok lib" "quiet out" "rows_ok lib w"
  shows "permitted lib rq w (snd (snd (web_server lib out w rq)))"
proof -
  have "permitted lib rq w (snd (api_route lib out rq w))"
  proof (rule api_route_cases [where P = "\<lambda>h. permitted lib rq w (snd (h w))"])
    show "permitted lib rq w (snd (get_fsd_jwt lib (bind_fsd_jwt (rq_body rq)) w))"
      by (simp add: permitted_tables fsd_jwt_tables)
    show "permitted lib rq w (snd (get_access_refresh_tokens lib (rq_body rq) w))"
      "permitted lib rq w (snd (refresh_access_token lib (rq_body rq) w))"
      by (simp_all add: permitted_tables open_routes_tables)
    show "permitted lib rq w (snd (guarded lib rq (handle_get_user lib (rq_body rq)) w))"
      "permitted lib rq w (snd (guarded lib rq handle_get_config w))"
      by (simp_all add: permitted_guarded permitted_tables reading_routes_tables)
    show "permitted lib rq w (snd (guarded lib rq (handle_create_api_token lib (rq_body rq)) w))"
      "permitted lib rq w (snd (guarded lib rq (handle_kick lib (fsd_kick out) (rq_body rq)) w))"
      by (intro permitted_guarded permitted_tables reading_routes_tables kick_tables assms(2))+
    show "permitted lib rq w (snd (guarded lib rq (handle_update_config lib (rq_body rq)) w))"
      "permitted lib rq w (snd (guarded lib rq (handle_reset_secret_key lib) w))"
      by (intro permitted_guarded config_routes_permitted; assumption)+
    show "permitted lib rq w (snd (guarded lib rq (handle_create_user lib (rq_body rq)) w))"
      "permitted lib rq w (snd (guarded lib rq (handle_update_user lib (rq_body rq)) w))"
      by (intro permitted_guarded user_routes_permitted assms; assumption)+
  qed (simp_all add: permitted_tables)
  then show ?thesis unfolding web_server_state by (simp add: permitted_def)
qed

theorem changes_are_permitted_witness:
  "permitted demo_lib (demo_requests ! 1) demo_web (snd (snd (web_server demo_lib demo_outside demo_web (demo_requests ! 1))))"
proof -
  have "tags_ok demo_lib" using demo_lib_ok by (simp add: lib_ok_def)
  then show ?thesis by (rule changes_are_permitted [OF _ demo_outside_quiet demo_rows])
qed

subsection \<open>The status documents and the routes they name\<close>

definition get_request :: "string \<Rightarrow> request" where
  "get_request url = \<lparr>rq_method = ''GET'', rq_url = url, rq_auth = None, rq_body = None\<rparr>"

text \<open>The URLs in the lists of a status document.\<close>

fun listed_urls :: "jsval \<Rightarrow> string list" where
  "listed_urls (Obj kvs) = concat (map (listed_urls \<circ> snd) kvs)"
| "listed_urls (Arr vs) = concat (map listed_urls vs)"
| "listed_urls (Str s) = [s]"
| "listed_urls _ = []"

text \<open>
  C32. The status document leads to the data. Once the configuration has the four values, as it has after
  the first start, the status document is a JSON text, and every URL in it is the configured address
  followed by a path that this server answers with 200, as long as there is a data feed; the lists of
  servers both name the configured server, first under its name and then as the automatic choice.
\<close>

theorem status_urls_are_served:
  assumes "server_configured base i w" "data_feed out w = Reply 200 feed"
  shows "\<exists>doc. fst (api_route lib out (get_request ''/api/v1/data/status.json'') w) = Reply 200 (json_text doc)
     \<and> json_parse (json_text doc) = Some doc \<and> length (listed_urls doc) = 4
     \<and> (\<forall>u \<in> set (listed_urls doc). \<exists>path body. u = base @ path \<and> api_route lib out (get_request path) w = (Reply 200 body, w))
     \<and> fst (api_route lib out (get_request ''/api/v1/data/openfsd-servers.json'') w)
          = Reply 200 (json_text (Arr [server_json False i (ident i), server_json False i ''AUTOMATIC'']))"
proof -
  have r: "api_route lib out (get_request ''/api/v1/data/status.json'') = handle_get_status_json"
    "api_route lib out (get_request ''/api/v1/data/openfsd-servers.json'') = handle_get_servers_json False"
    "api_route lib out (get_request ''/api/v1/data/sweatbox-servers.json'') = handle_get_servers_json True"
    "api_route lib out (get_request ''/api/v1/data/all-servers.json'') = handle_get_servers_json False"
    "api_route lib out (get_request ''/api/v1/data/openfsd-data.json'') w = (data_feed out w, w)"
    by (simp_all add: api_route_def get_request_def)
  note reply = configured_replies [OF assms(1)]
  have u: "listed_urls (status_json base) = [base @ ''/api/v1/data/openfsd-servers.json'', base @ ''/api/v1/data/all-servers.json'',
      base @ ''/api/v1/data/sweatbox-servers.json'', base @ ''/api/v1/data/openfsd-data.json'']"
    by (simp add: status_json_def)
  have "json_ok (status_json base)" by (simp add: status_json_def)
  then have p: "json_parse (json_text (status_json base)) = Some (status_json base)" by (rule json_parse_text)
  have "\<exists>path body. x = base @ path \<and> api_route lib out (get_request path) w = (Reply 200 body, w)"
    if "x \<in> set (listed_urls (status_json base))" for x
    using that reply(5) [of False] reply(5) [of True] r assms(2) unfolding u by fastforce
  with p show ?thesis
    by (intro exI [of _ "status_json base"] conjI) (simp_all add: r reply u del: json_text.simps)
qed

definition demo_first_start :: web where
  "demo_first_start = snd (init_default_config demo_lib rev
     \<lparr>users = Map.empty, last_cid = 0, config = Map.empty, db_up = True, draws = 0, wall = 0\<rparr>)"

theorem status_urls_are_served_witness:
  "\<exists>doc. fst (api_route demo_lib demo_outside (get_request ''/api/v1/data/status.json'') demo_first_start) = Reply 200 (json_text doc)
     \<and> (\<forall>u \<in> set (listed_urls doc). \<exists>path. u = ''http://localhost'' @ path)"
proof -
  have "random_ok demo_lib" using demo_lib_ok by (simp add: lib_ok_def)
  then have c: "server_configured ''http://localhost'' \<lparr>ident = ''OPENFSD'', hostname = ''localhost'', location = ''Earth''\<rparr> demo_first_start"
    unfolding demo_first_start_def by (rule fresh_config_configured) simp_all
  have d: "data_feed demo_outside demo_first_start = Reply 200 ''{}''" by (simp add: demo_outside_def)
  show ?thesis
    using status_urls_are_served [OF c d, of demo_lib] by (elim exE conjE) (intro exI conjI, assumption, blast)
qed

end
