(* ===== verification/Web_Pages.thy ===== *)
theory Web_Pages
  imports Login_Page User_Editor Config_Editor Dashboard Web_Server
begin

text \<open>
  The pages against the server: an exchange of \<open>$.ajax\<close> with a route of \<open>web/routes.go\<close>, the
  tokens the server makes as the page reads them, and the requests of the editors with a live
  session.
\<close>

subsection \<open>An exchange\<close>

text \<open>The page and the server after an exchange that left the server's handler in \<open>v\<close>.\<close>

definition after :: "'x outside \<Rightarrow> request \<Rightarrow> 'x web_scheme \<Rightarrow> ('x web_scheme, 'y) browser_scheme \<Rightarrow> ('x web_scheme, 'y) browser_scheme" where
  "after out rq v w =
     w\<lparr>backend := v\<lparr>wall := wall v + int (delay out rq)\<rparr>, clock := clock w + int (delay out rq), sent := sent w @ [rq]\<rparr>"

lemma after_simps [simp]:
  "storage (after out rq v w) = storage w" "href (after out rq v w) = href w" "alerts (after out rq v w) = alerts w"
  "clock (after out rq v w) = clock w + int (delay out rq)" "backend (after out rq v w) = v\<lparr>wall := wall v + int (delay out rq)\<rparr>"
  "browser.more (after out rq v w) = browser.more w"
  by (simp_all add: after_def)

lemma ajax_success:
  assumes "api_route lib out rq (backend w) = (write_success status data, v)" "json_ok data"
    and "200 \<le> status" "status < 300" "status \<noteq> 204"
  shows "ajax (web_server lib out) rq w = (Done (envelope Null data), after out rq v w)"
proof -
  have "json_parse (json_text (envelope Null data)) = Some (envelope Null data)"
    using assms(2) by (intro json_parse_text) (simp add: envelope_def)
  with assms(1,3-5) show ?thesis
    by (simp add: ajax_def web_server_def write_success_def after_def Let_def del: json_text.simps)
qed

lemma ajax_failure:
  assumes "api_route lib out rq (backend w) = (write_failure status msg, v)" "status_text status \<noteq> []"
    and "300 \<le> status" "status \<noteq> 304"
  shows "ajax (web_server lib out) rq w = (Throw (Xhr (envelope (Str msg) Null) (status_text status)), after out rq v w)"
proof -
  have "json_parse (json_text (envelope (Str msg) Null)) = Some (envelope (Str msg) Null)"
    by (intro json_parse_text) (simp add: envelope_def)
  with assms show ?thesis
    by (simp add: ajax_def web_server_def write_failure_def after_def Let_def del: json_text.simps)
qed

lemma status_texts [simp]:
  "status_text 401 = ''Unauthorized''" "status_text 403 = ''Forbidden''" "status_text 400 = ''Bad Request''"
  "status_text 500 = ''Internal Server Error''" "status_text 404 = ''Not Found''"
  by (simp_all add: status_text_def)

subsection \<open>Tokens as the page reads them\<close>

lemma token_exp_signed:
  assumes "lib_ok lib" "claims_ok c"
  shows "token_exp (jwt_sign lib secret c) = Some (JInt (ExpiresAt c))" "jwt_sign lib secret c \<noteq> []"
proof -
  have "jwt_ok lib" using assms(1) by (simp add: lib_ok_def)
  then obtain h p s where h: "CHR ''.'' \<notin> set h" "utf8_valid p" "json_parse p = Some (claims_json c)"
      "jwt_sign lib secret c = jwt_compact h p s"
    using assms(2) unfolding jwt_ok_def by blast
  then show "token_exp (jwt_sign lib secret c) = Some (JInt (ExpiresAt c))"
    by (simp add: token_exp_def token_payload_compact claims_json_def obj_get_def)
  show "jwt_sign lib secret c \<noteq> []" by (simp add: h(4) jwt_compact_def)
qed

text \<open>A token of the server for a user: who signed it, for whom, when and for how long.\<close>

definition server_token :: "golib \<Rightarrow> string \<Rightarrow> string \<Rightarrow> user \<Rightarrow> int \<Rightarrow> int \<Rightarrow> string \<Rightarrow> bool" where
  "server_token lib secret tt u issued validity t \<longleftrightarrow>
     user_ok u \<and> clock_ok issued \<and> 0 \<le> validity \<and> validity \<le> 10 ^ 13 \<and> ascii_text tt
     \<and> (\<exists>n. t = jwt_sign lib secret (token_claims lib tt u validity n issued))"

lemma server_token_claims:
  assumes "lib_ok lib" "server_token lib secret tt u issued validity t"
  shows "\<exists>n. t = jwt_sign lib secret (token_claims lib tt u validity n issued) \<and> claims_ok (token_claims lib tt u validity n issued)"
proof -
  obtain n where n: "t = jwt_sign lib secret (token_claims lib tt u validity n issued)"
    using assms(2) by (auto simp: server_token_def)
  have "validity \<le> 10 ^ 15" using assms(2) by (simp add: server_token_def)
  then show ?thesis
    using n assms(2) by (intro exI [of _ n] conjI token_claims_ok [OF assms(1)]) (simp_all add: server_token_def)
qed

lemma server_token_read:
  assumes "lib_ok lib" "server_token lib secret tt u issued validity t"
  shows "token_exp t = Some (JInt ((issued + validity) div 1000))" "t \<noteq> []"
  using server_token_claims [OF assms] token_exp_signed [OF assms(1)] by (auto simp: token_claims_def)

lemma server_token_accepted:
  assumes "lib_ok lib" "server_token lib secret tt u issued validity t"
  shows "jwt_parse lib secret now t = Some c \<Longrightarrow> TokenType c = tt \<and> claims_CID c = CID u \<and> claims_NetworkRating c = NetworkRating u"
    "token_good lib secret tt u now t \<longleftrightarrow> now < (issued + validity) div 1000 * 1000 \<and> (issued - 30000) div 1000 * 1000 \<le> now"
proof -
  obtain n where n: "t = jwt_sign lib secret (token_claims lib tt u validity n issued)" "claims_ok (token_claims lib tt u validity n issued)"
    using server_token_claims [OF assms] by blast
  show "jwt_parse lib secret now t = Some c \<Longrightarrow> TokenType c = tt \<and> claims_CID c = CID u \<and> claims_NetworkRating c = NetworkRating u"
    by (simp add: n(1) sign_parse [OF assms(1) n(2)] split: if_splits) (auto simp: token_claims_def)
  show "token_good lib secret tt u now t \<longleftrightarrow> now < (issued + validity) div 1000 * 1000 \<and> (issued - 30000) div 1000 * 1000 \<le> now"
    using token_claims_current [of now lib tt u validity n issued]
    by (simp add: token_good_def n(1) sign_parse [OF assms(1) n(2)])
qed

text \<open>The page calls a token live while it has 15 seconds left, by whole seconds.\<close>

lemma live_server_token:
  assumes "lib_ok lib" "server_token lib secret tt u issued validity t"
  shows "live_token k t w \<longleftrightarrow> storage w k = Some t \<and> clock w div 1000 + 15 \<le> (issued + validity) div 1000"
    "stale_token k t w \<longleftrightarrow> storage w k = Some t \<and> (issued + validity) div 1000 < clock w div 1000 + 15"
  using server_token_read [OF assms]
  by (auto simp: live_token_def stale_token_def expires_soon_def now_seconds_def)

lemma live_margin:
  assumes "lib_ok lib" "server_token lib secret tt u issued validity t" "live_token k t w"
    and "issued - 30000 \<le> now" "now \<le> clock w + 14000"
  shows "token_good lib secret tt u now t"
proof -
  have a: "clock w div 1000 + 15 \<le> (issued + validity) div 1000"
    using assms(3) live_server_token(1) [OF assms(1,2), of k w] by simp
  have b: "clock w < (clock w div 1000 + 1) * 1000"
    using pos_mod_bound [of 1000 "clock w"] div_mult_mod_eq [of "clock w" 1000] unfolding distrib_right by linarith
  have "(issued - 30000) div 1000 * 1000 \<le> issued - 30000"
    using pos_mod_sign [of 1000 "issued - 30000"] div_mult_mod_eq [of "issued - 30000" 1000] by linarith
  then show ?thesis
    unfolding server_token_accepted(2) [OF assms(1,2)] using a b assms(4,5) by linarith
qed

lemma login_tokens:
  assumes "user_ok u" "clock_ok (wall w)"
  shows "server_token lib secret ''access'' u (wall w) (15 * minute) (login_access lib secret u w)"
    "server_token lib secret ''refresh'' u (wall w) (refresh_validity remember) (login_refresh lib secret u remember w)"
  using assms ascii_token_types
  by (auto simp: server_token_def login_access_def login_refresh_def refresh_validity_def)

subsection \<open>Requests\<close>

lemma json_stringify_Obj: "json_stringify (Obj kvs) = Some (json_text (Obj kvs))"
  by (simp add: json_stringify_def)

lemma login_request_text:
  assumes "texts w ''login-input-cid'' val = show_int cid" "int64 cid"
  shows "login_request (login_body w) =
     \<lparr>rq_method = ''POST'', rq_url = ''/api/v1/auth/login'', rq_auth = None,
      rq_body = Some (json_text (login_json cid (texts w ''login-input-password'' val) (flags w ''login-form-remember-me'' ''checked'')))\<rparr>"
  using assms int64_small by (simp add: login_request_def login_body_def login_json_def parse_int_show_int json_stringify_Obj del: json_text.simps)

lemma login_route:
  "api_route lib out \<lparr>rq_method = ''POST'', rq_url = ''/api/v1/auth/login'', rq_auth = None, rq_body = body\<rparr>
     = get_access_refresh_tokens lib body"
  by (simp add: api_route_def)

lemma refresh_route:
  "api_route lib out (refresh_request (Str r)) = refresh_access_token lib (Some (json_text (refresh_json r)))"
  by (simp add: api_route_def refresh_request_def refresh_json_def json_stringify_Obj del: json_text.simps)

text \<open>The form of the login page: the request and what the server makes of it.\<close>

lemma login_exchange:
  fixes w :: "('x web_scheme, 'y) page_scheme"
  assumes "lib_ok lib" "serving (backend w) secret" "get_user_by_cid cid (backend w) = Inr u" "1 \<le> cid" "int64 cid"
    and "texts w ''login-input-cid'' val = show_int cid" "texts w ''login-input-password'' val = password" "password \<noteq> []"
    and "remember = flags w ''login-form-remember-me'' ''checked''"
  shows "verify_password_hash lib password (Password u) \<Longrightarrow>
      ajax (web_server lib out) (login_request (login_body w)) w =
        (Done (envelope Null (Obj [(''access_token'', Str (login_access lib secret u (backend w))),
            (''refresh_token'', Str (login_refresh lib secret u remember (backend w)))])),
         after out (login_request (login_body w)) ((backend w)\<lparr>draws := Suc (Suc (draws (backend w)))\<rparr>) w)"
    "\<not> verify_password_hash lib password (Password u) \<Longrightarrow>
      ajax (web_server lib out) (login_request (login_body w)) w =
        (Throw (Xhr (envelope (Str ''Bad CID and/or password'') Null) ''Unauthorized''),
         after out (login_request (login_body w)) (backend w) w)"
proof -
  note rq = login_request_text [OF assms(6,5)]
  have tags: "tags_ok lib" using assms(1) by (simp add: lib_ok_def)
  show "ajax (web_server lib out) (login_request (login_body w)) w =
        (Done (envelope Null (Obj [(''access_token'', Str (login_access lib secret u (backend w))),
            (''refresh_token'', Str (login_refresh lib secret u remember (backend w)))])),
         after out (login_request (login_body w)) ((backend w)\<lparr>draws := Suc (Suc (draws (backend w)))\<rparr>) w)"
    if "verify_password_hash lib password (Password u)"
    by (rule ajax_success [where status = 200])
      (simp_all add: rq login_route assms(7,9) login_succeeds [OF assms(1-3) that assms(8,4,5)] del: json_text.simps)
  show "ajax (web_server lib out) (login_request (login_body w)) w =
        (Throw (Xhr (envelope (Str ''Bad CID and/or password'') Null) ''Unauthorized''),
         after out (login_request (login_body w)) (backend w) w)"
    if "\<not> verify_password_hash lib password (Password u)"
    using that assms(3,4,7,8)
    by (intro ajax_failure [where status = 401, unfolded status_texts])
      (simp_all add: rq login_route get_access_refresh_tokens_json [OF tags assms(5)] del: json_text.simps)
qed

text \<open>The request of an editor with a live session, as the middleware lets it through.\<close>

lemma live_api_request:
  assumes "live_token ''access_token'' t w"
  shows "doAPIRequestWithAuth srv m u d w = ajax srv (api_request m u True (Str t) d) w"
  unfolding doAPIRequestWithAuth_def by (rule live_request [OF assms])

lemma guarded_request:
  assumes "serving v secret" "jwt_parse lib secret (wall v) t = Some c" "TokenType c = ''access''"
  shows "guarded lib (api_request m u True (Str t) d) h v = h c v"
  using middleware_passes [OF assms] by (simp add: guarded_def api_request_def del: append_Cons)

subsection \<open>Logging in\<close>

text \<open>The pages read the clock the server has.\<close>

definition in_step :: "('x web_scheme, 'y) browser_scheme \<Rightarrow> bool" where
  "in_step w \<longleftrightarrow> clock w = wall (backend w)"

text \<open>A login form that holds a user's CID and password.\<close>

definition login_form :: "int \<Rightarrow> string \<Rightarrow> ('s, 'y) page_scheme \<Rightarrow> bool" where
  "login_form cid password w \<longleftrightarrow>
     texts w ''login-input-cid'' val = show_int cid \<and> texts w ''login-input-password'' val = password"

lemma login_accepted:
  fixes w :: "('x web_scheme, 'y) page_scheme"
  assumes "lib_ok lib" "serving (backend w) secret" "get_user_by_cid cid (backend w) = Inr u" "1 \<le> cid" "int64 cid"
    and "login_form cid password w" "password \<noteq> []" "verify_password_hash lib password (Password u)"
  shows "login_submit (web_server lib out) w = (Done (),
      (after out (login_request (login_body w)) ((backend w)\<lparr>draws := Suc (Suc (draws (backend w)))\<rparr>) w)
        \<lparr>storage := (storage w)(''access_token'' \<mapsto> login_access lib secret u (backend w),
            ''refresh_token'' \<mapsto> login_refresh lib secret u (flags w ''login-form-remember-me'' ''checked'') (backend w)),
         href := ''/dashboard''\<rparr>)"
  using assms(6) login_exchange(1) [OF assms(1-5) _ _ assms(7) refl assms(8)]
  by (intro login_submit_tokens) (simp add: login_form_def)

lemma login_rejected:
  fixes w :: "('x web_scheme, 'y) page_scheme"
  assumes "lib_ok lib" "serving (backend w) secret" "get_user_by_cid cid (backend w) = Inr u" "1 \<le> cid" "int64 cid"
    and "login_form cid password w" "password \<noteq> []" "\<not> verify_password_hash lib password (Password u)"
  shows "login_submit (web_server lib out) w = (Done (),
      (after out (login_request (login_body w)) (backend w) w)
        \<lparr>alerts := alerts w @ [''Unauthorized: Bad CID and/or password'']\<rparr>)"
proof -
  have "''Unauthorized'' @ '': '' @ ''Bad CID and/or password'' = ''Unauthorized: Bad CID and/or password''" by simp
  then show ?thesis
    using assms(6) login_submit_refused [OF login_exchange(2) [OF assms(1-5) _ _ assms(7) refl assms(8)]]
    by (simp add: login_form_def)
qed

subsection \<open>The editors\<close>

lemma editor_routes:
  "api_route lib out (api_request ''POST'' ''/api/v1/user/create'' True (Str t) (Obj d))
     = guarded lib (api_request ''POST'' ''/api/v1/user/create'' True (Str t) (Obj d)) (handle_create_user lib (Some (json_text (Obj d))))"
  "api_route lib out (api_request ''PATCH'' ''/api/v1/user/update'' True (Str t) (Obj d))
     = guarded lib (api_request ''PATCH'' ''/api/v1/user/update'' True (Str t) (Obj d)) (handle_update_user lib (Some (json_text (Obj d))))"
  "api_route lib out (api_request ''POST'' ''/api/v1/config/createtoken'' True (Str t) (Obj d))
     = guarded lib (api_request ''POST'' ''/api/v1/config/createtoken'' True (Str t) (Obj d)) (handle_create_api_token lib (Some (json_text (Obj d))))"
  by (simp_all add: api_route_def api_request_def json_stringify_Obj del: json_text.simps)

text \<open>The session of an editor: a token that is live for the page and good at the server.\<close>

definition session :: "golib \<Rightarrow> string \<Rightarrow> string \<Rightarrow> claims \<Rightarrow> ('x web_scheme, 'y) browser_scheme \<Rightarrow> bool" where
  "session lib secret t c w \<longleftrightarrow>
     serving (backend w) secret \<and> live_token ''access_token'' t w
     \<and> jwt_parse lib secret (wall (backend w)) t = Some c \<and> TokenType c = ''access''"

lemma session_request:
  assumes "session lib secret t c w"
    and "api_route lib out (api_request m u True (Str t) d) = guarded lib (api_request m u True (Str t) d) h"
    and "h c (backend w) = (write_success status data, v)" "json_ok data" "200 \<le> status" "status < 300" "status \<noteq> 204"
  shows "doAPIRequestWithAuth (web_server lib out) m u d w = (Done (envelope Null data), after out (api_request m u True (Str t) d) v w)"
proof -
  have s: "serving (backend w) secret" "live_token ''access_token'' t w"
      "jwt_parse lib secret (wall (backend w)) t = Some c" "TokenType c = ''access''"
    using assms(1) by (simp_all add: session_def)
  show ?thesis
    unfolding live_api_request [OF s(2)]
    by (rule ajax_success [OF _ assms(4-7)]) (simp add: assms(2,3) guarded_request [OF s(1,3,4)])
qed

lemma create_user_stored:
  assumes "lib_ok lib" "db_up w" "8 \<le> rune_count pw" "length pw \<le> 72" "CHR '':'' \<notin> set pw"
    and "-1 \<le> nr" "nr \<le> claims_NetworkRating c" "11 \<le> claims_NetworkRating c" "nr \<le> 12" "nr \<noteq> 0"
  shows "\<exists>h row. hash_of lib pw h \<and> Password row = h \<and>
     handle_create_user lib (Some (json_text (create_json pw nr fn ln))) c w =
       (created_reply \<lparr>CID = last_cid w + 1, Password = pw, FirstName = name_ptr fn, LastName = name_ptr ln, NetworkRating = nr\<rparr>,
        w\<lparr>draws := Suc (draws w), users := (users w)(last_cid w + 1 \<mapsto> row), last_cid := last_cid w + 1\<rparr>)"
proof -
  have tags: "tags_ok lib" using assms(1) by (simp add: lib_ok_def)
  obtain h where h: "bcrypt lib (draws w) pw = Some h"
    using assms(1,4) unfolding lib_ok_def bcrypt_ok_def by blast
  then have "hash_of lib pw h" by (auto simp: hash_of_def)
  with assms h show ?thesis
    by (intro exI [of _ h] exI [of _ "\<lparr>CID = last_cid w + 1, Password = h, FirstName = name_ptr fn, LastName = name_ptr ln, NetworkRating = nr\<rparr>"])
      (simp add: handle_create_user_json [OF tags assms(6,9)] sqlite_create_user_def create_user_def insert_user_def Let_def)
qed

lemma create_data_json:
  assumes "texts w ''create-network-rating'' val = show_int nr" "-1 \<le> nr" "nr \<le> 12"
  shows "create_data w = create_json (texts w ''create-password'' val) nr (texts w ''create-first-name'' val) (texts w ''create-last-name'' val)"
  using assms by (simp add: create_data_def create_json_def Let_def parse_int_show_int)

lemma create_submit_stores:
  fixes w :: "('x web_scheme, 'y) page_scheme"
  assumes "lib_ok lib" "session lib secret t c w" "11 \<le> claims_NetworkRating c"
    and "texts w ''create-password'' val = pw" "8 \<le> rune_count pw" "length pw \<le> 72" "CHR '':'' \<notin> set pw"
    and "texts w ''create-network-rating'' val = show_int nr" "-1 \<le> nr" "nr \<le> 12" "nr \<noteq> 0" "nr \<le> claims_NetworkRating c"
    and "cid = last_cid (backend w) + 1" "int64 cid"
  shows "\<exists>w1 row. create_submit (web_server lib out) w = (Done (), w1)
     \<and> alerts w1 = alerts w @ [''User created successfully. CID: '' @ show_int cid]
     \<and> get_user_by_cid cid (backend w1) = Inr row \<and> hash_of lib pw (Password row)
     \<and> db_up (backend w1) \<and> config (backend w1) ConfigJwtSecretKey = Some secret"
proof -
  define v where "v = backend w"
  have up: "db_up v" "config v ConfigJwtSecretKey = Some secret" using assms(2) by (simp_all add: session_def serving_def v_def)
  let ?fn = "texts w ''create-first-name'' val" and ?ln = "texts w ''create-last-name'' val"
  obtain h row where h: "hash_of lib pw h" "Password row = h"
      "handle_create_user lib (Some (json_text (create_json pw nr ?fn ?ln))) c v =
        (created_reply \<lparr>CID = cid, Password = pw, FirstName = name_ptr ?fn, LastName = name_ptr ?ln, NetworkRating = nr\<rparr>,
         v\<lparr>draws := Suc (draws v), users := (users v)(cid \<mapsto> row), last_cid := cid\<rparr>)"
    using create_user_stored [OF assms(1) up(1) assms(5-7,9,12,3,10,11)] unfolding assms(13) v_def [symmetric] by blast
  let ?v1 = "v\<lparr>draws := Suc (draws v), users := (users v)(cid \<mapsto> row), last_cid := cid\<rparr>"
  let ?data = "Obj [(''cid'', JInt cid), (''first_name'', name_json (name_ptr ?fn)),
             (''last_name'', name_json (name_ptr ?ln)), (''network_rating'', JInt nr)]"
  have small: "\<bar>cid\<bar> < 10 ^ 21" using assms(14) int64_small by simp
  have d: "create_data w = create_json pw nr ?fn ?ln"
    using create_data_json [OF assms(8-10)] assms(4) by simp
  obtain m where m: "create_json pw nr ?fn ?ln = Obj m" by (simp add: create_json_def)
  have "doAPIRequestWithAuth (web_server lib out) ''POST'' ''/api/v1/user/create'' (create_data w) w
      = (Done (envelope Null ?data), after out (api_request ''POST'' ''/api/v1/user/create'' True (Str t) (create_data w)) ?v1 w)"
    unfolding d m using h(3) small assms(9,10)
    by (intro session_request [OF assms(2) editor_routes(1), where status = 201])
      (simp_all add: created_reply_def m v_def name_json_def name_ptr_def del: json_text.simps)
  from create_submit_created [OF this _ small] obtain w1 where w1: "create_submit (web_server lib out) w = (Done (), w1)"
      "backend w1 = ?v1\<lparr>wall := wall v + int (delay out (api_request ''POST'' ''/api/v1/user/create'' True (Str t) (create_data w)))\<rparr>"
      "alerts w1 = alerts w @ [''User created successfully. CID: '' @ show_int cid]"
    by (auto simp: obj_get_def)
  have "get_user_by_cid cid (backend w1) = Inr row" "db_up (backend w1)" "config (backend w1) ConfigJwtSecretKey = Some secret"
    using up by (simp_all add: w1(2) get_user_by_cid_def)
  with w1(1,3) h(1,2) show ?thesis by blast
qed

text \<open>The login page on the server at a later time.\<close>

lemma login_later:
  fixes lp :: "('x web_scheme, 'z) page_scheme"
  assumes "lib_ok lib" "get_user_by_cid cid v = Inr row" "db_up v" "config v ConfigJwtSecretKey = Some secret"
    and "1 \<le> cid" "int64 cid" "password \<noteq> []"
    and "backend lp = v\<lparr>wall := now\<rparr>" "clock_ok now" "login_form cid password lp"
  shows "verify_password_hash lib password (Password row) \<Longrightarrow>
      \<exists>lp1. login_submit (web_server lib out) lp = (Done (), lp1) \<and> href lp1 = ''/dashboard''
        \<and> storage lp1 ''access_token'' \<noteq> None \<and> alerts lp1 = alerts lp"
    "\<not> verify_password_hash lib password (Password row) \<Longrightarrow>
      \<exists>lp1. login_submit (web_server lib out) lp = (Done (), lp1) \<and> storage lp1 = storage lp
        \<and> alerts lp1 = alerts lp @ [''Unauthorized: Bad CID and/or password'']"
proof -
  have s: "serving (backend lp) secret" "get_user_by_cid cid (backend lp) = Inr row"
    using assms(2-4,8,9) by (simp_all add: serving_def get_user_by_cid_def split: if_splits)
  show "\<exists>lp1. login_submit (web_server lib out) lp = (Done (), lp1) \<and> href lp1 = ''/dashboard''
        \<and> storage lp1 ''access_token'' \<noteq> None \<and> alerts lp1 = alerts lp"
    if "verify_password_hash lib password (Password row)"
    using login_accepted [OF assms(1) s assms(5,6,10,7) that, of out] by simp
  show "\<exists>lp1. login_submit (web_server lib out) lp = (Done (), lp1) \<and> storage lp1 = storage lp
        \<and> alerts lp1 = alerts lp @ [''Unauthorized: Bad CID and/or password'']"
    if "\<not> verify_password_hash lib password (Password row)"
    using login_rejected [OF assms(1) s assms(5,6,10,7) that, of out] by simp
qed

text \<open>The edit form with no password entered.\<close>

lemma edit_submit_blank:
  fixes w :: "('x web_scheme, 'y) page_scheme"
  assumes "lib_ok lib" "session lib secret t c w" "11 \<le> claims_NetworkRating c"
    and "edit_data w = user_json cid fn ln nr" "int64 cid" "1 \<le> cid" "-1 \<le> nr" "nr \<le> 12"
    and "get_user_by_cid cid (backend w) = Inr target" "row_ok lib cid target" "NetworkRating target \<le> claims_NetworkRating c"
  shows "\<exists>w1 row. edit_submit (web_server lib out) w = (Done (), w1)
     \<and> alerts w1 = alerts w @ [''User updated successfully'']
     \<and> get_user_by_cid cid (backend w1) = Inr row \<and> hash_of lib (Password target) (Password row)
     \<and> NetworkRating row = nr
     \<and> db_up (backend w1) \<and> config (backend w1) ConfigJwtSecretKey = Some secret"
proof -
  define v where "v = backend w"
  have up: "db_up v" "config v ConfigJwtSecretKey = Some secret" using assms(2) by (simp_all add: session_def serving_def v_def)
  have d: "edit_data w = update_json cid fn ln nr []" by (simp add: assms(4) user_json_def update_json_def)
  obtain m where m: "update_json cid fn ln nr [] = Obj m" by (simp add: update_json_def)
  let ?body = "Some (json_text (update_json cid fn ln nr []))"
  obtain h v1 u where v1: "handle_update_user lib ?body c v = (user_reply 200 u, v1)"
      "CID u = cid" "NetworkRating u = nr" "hash_of lib (Password target) h" "get_user_by_cid cid v1 = Inr (u\<lparr>Password := h\<rparr>)"
    using update_user_json_outcome [OF assms(1,5-8,3) assms(9) [folded v_def] assms(10,11), of "[]" fn ln] by auto
  have kept: "db_up v1" "config v1 ConfigJwtSecretKey = Some secret"
    using user_writes_config(1) [of lib ?body c v] user_writes_up(1) [of lib ?body c v] v1(1) up by simp_all
  have small: "\<bar>cid\<bar> < 10 ^ 21" using assms(5) int64_small by simp
  have "doAPIRequestWithAuth (web_server lib out) ''PATCH'' ''/api/v1/user/update'' (edit_data w) w
      = (Done (envelope Null (user_json (CID u) (safe_str (FirstName u)) (safe_str (LastName u)) (NetworkRating u))),
         after out (api_request ''PATCH'' ''/api/v1/user/update'' True (Str t) (edit_data w)) v1 w)"
    unfolding d m using v1 small assms(7,8)
    by (intro session_request [OF assms(2) editor_routes(2), where status = 200])
      (simp_all add: user_reply_def m v_def [symmetric] user_json_def del: json_text.simps)
  from edit_submit_saved [OF this] v1(3-5) kept show ?thesis
    by (auto simp: get_user_by_cid_def split: if_splits)
qed

end
