(* ===== verification/Server_Start.thy ===== *)
theory Server_Start
  imports Web_Pages
begin

text \<open>
  How a server comes up: \<open>db/repositories.go\<close> chooses the repositories by the database driver, and
  \<open>NewDefaultServer\<close> of \<open>fsd/server.go\<close> migrates the tables, makes an administrator where CID 1 is
  free, prints the password once, and fills in the configuration. Parameters are what the start
  finds outside: whether the database can be opened, the migration tool, and eight random octets.
\<close>

subsection \<open>The repositories of a driver\<close>

datatype sql_driver = PqDriver | SqliteDriver | OtherDriver

record 'd user_repo =
  CreateUser :: "user \<Rightarrow> 'd \<Rightarrow> (db_error + int) \<times> 'd"
  GetUserByCID :: "int \<Rightarrow> 'd \<Rightarrow> db_error + user"
  UpdateUser :: "user \<Rightarrow> 'd \<Rightarrow> (db_error + unit) \<times> 'd"
  VerifyPasswordHash :: "string \<Rightarrow> string \<Rightarrow> bool"

record 'd config_repo =
  ConfigSet :: "string \<Rightarrow> string \<Rightarrow> 'd \<Rightarrow> (db_error + unit) \<times> 'd"
  ConfigSetIfNotExists :: "string \<Rightarrow> string \<Rightarrow> 'd \<Rightarrow> (db_error + unit) \<times> 'd"
  ConfigGet :: "string \<Rightarrow> 'd \<Rightarrow> db_error + string"

record 'd repositories =
  UserRepo :: "'d user_repo"
  ConfigRepo :: "'d config_repo"

definition new_user_repository :: "golib \<Rightarrow> sql_driver \<Rightarrow> 'x database_scheme user_repo option" where
  "new_user_repository lib drv =
     (case drv of
        PqDriver \<Rightarrow> Some \<lparr>CreateUser = postgres_create_user lib, GetUserByCID = get_user_by_cid,
          UpdateUser = update_user lib, VerifyPasswordHash = verify_password_hash lib\<rparr>
      | SqliteDriver \<Rightarrow> Some \<lparr>CreateUser = sqlite_create_user lib, GetUserByCID = get_user_by_cid,
          UpdateUser = update_user lib, VerifyPasswordHash = verify_password_hash lib\<rparr>
      | OtherDriver \<Rightarrow> None)"

text \<open>The statements of the two configuration repositories are the same.\<close>

definition new_config_repository :: "sql_driver \<Rightarrow> 'x database_scheme config_repo option" where
  "new_config_repository drv =
     (case drv of
        OtherDriver \<Rightarrow> None
      | _ \<Rightarrow> Some \<lparr>ConfigSet = config_set, ConfigSetIfNotExists = config_set_if_not_exists, ConfigGet = config_get\<rparr>)"

definition new_repositories :: "golib \<Rightarrow> sql_driver \<Rightarrow> 'x database_scheme repositories option" where
  "new_repositories lib drv =
     (case new_user_repository lib drv of
        None \<Rightarrow> None
      | Some ur \<Rightarrow>
          (case new_config_repository drv of
             None \<Rightarrow> None
           | Some cr \<Rightarrow> Some \<lparr>UserRepo = ur, ConfigRepo = cr\<rparr>))"


subsection \<open>The start\<close>

record 'd start_env =
  opened :: "sql_driver option"
  pings :: bool
  auto_migrate :: bool
  migrate_up :: "sql_driver \<Rightarrow> 'd \<Rightarrow> 'd option"
  password_octets :: "string option"
  walk :: "(string \<times> string) list \<Rightarrow> (string \<times> string) list"

definition migrate_tables :: "'d start_env \<Rightarrow> sql_driver \<Rightarrow> 'd \<Rightarrow> 'd option" where
  "migrate_tables env drv d = (case drv of OtherDriver \<Rightarrow> None | _ \<Rightarrow> migrate_up env drv d)"

definition generate_default_admin_user ::
    "string option \<Rightarrow> 'd user_repo \<Rightarrow> 'd \<Rightarrow> (db_error + user) \<times> 'd" where
  "generate_default_admin_user octets repo d =
     (case octets of
        None \<Rightarrow> (Inl ErrRandom, d)
      | Some r \<Rightarrow>
          (let u = \<lparr>CID = 0, Password = hex_encode r, FirstName = Some ''Default Administrator'', LastName = None,
                    NetworkRating = NetworkRatingAdministator\<rparr>
           in case CreateUser repo u d of
                (Inl e, d1) \<Rightarrow> (Inl e, d1)
              | (Inr cid, d1) \<Rightarrow> (Inr (u\<lparr>CID := cid\<rparr>), d1)))"

text \<open>The credentials that are printed, when CID 1 was free.\<close>

definition ensure_admin ::
    "string option \<Rightarrow> 'd user_repo \<Rightarrow> 'd \<Rightarrow> (db_error + (int \<times> string) option) \<times> 'd" where
  "ensure_admin octets repo d =
     (case GetUserByCID repo 1 d of
        Inr _ \<Rightarrow> (Inr None, d)
      | Inl e \<Rightarrow>
          if e \<noteq> ErrNoRows then (Inl e, d)
          else
            (case generate_default_admin_user octets repo d of
               (Inl e, d1) \<Rightarrow> (Inl e, d1)
             | (Inr u, d1) \<Rightarrow> (Inr (Some (CID u, Password u)), d1)))"

text \<open>\<open>NewDefaultServer\<close>, up to the server it returns; the result is what has been printed.\<close>

definition new_default_server ::
    "golib \<Rightarrow> ('x database_scheme) start_env \<Rightarrow> 'x database_scheme
      \<Rightarrow> (db_error + (int \<times> string) option) \<times> 'x database_scheme" where
  "new_default_server lib env d =
     (case opened env of
        None \<Rightarrow> (Inl ErrEngine, d)
      | Some drv \<Rightarrow>
          if \<not> pings env then (Inl ErrEngine, d)
          else
            (case (if auto_migrate env then migrate_tables env drv d else Some d) of
               None \<Rightarrow> (Inl ErrEngine, d)
             | Some d0 \<Rightarrow>
                 (case new_repositories lib drv of
                    None \<Rightarrow> (Inl ErrEngine, d0)
                  | Some repos \<Rightarrow>
                      (case ensure_admin (password_octets env) (UserRepo repos) d0 of
                         (Inl e, d1) \<Rightarrow> (Inl e, d1)
                       | (Inr printed, d1) \<Rightarrow>
                           (case init_default_config lib (walk env) d1 of
                              (Inl e, d2) \<Rightarrow> (Inl e, d2)
                            | (Inr _, d2) \<Rightarrow> (Inr printed, d2))))))"


subsection \<open>What a start does\<close>

text \<open>The database a start works on, once it has been opened and migrated.\<close>

definition prepared :: "'d start_env \<Rightarrow> sql_driver \<Rightarrow> 'd \<Rightarrow> 'd \<Rightarrow> bool" where
  "prepared env drv d d0 \<longleftrightarrow>
     opened env = Some drv \<and> drv \<noteq> OtherDriver \<and> pings env \<and>
     (if auto_migrate env then migrate_up env drv d = Some d0 else d0 = d)"

definition walk_ok :: "'d start_env \<Rightarrow> bool" where
  "walk_ok env \<longleftrightarrow> (\<forall>kvs. mset (walk env kvs) = mset kvs)"

lemma start_prepared:
  assumes "prepared env drv d d0"
  shows "new_default_server lib env d =
     (case ensure_admin (password_octets env) (UserRepo (the (new_repositories lib drv))) d0 of
        (Inl e, d1) \<Rightarrow> (Inl e, d1)
      | (Inr printed, d1) \<Rightarrow>
          (case init_default_config lib (walk env) d1 of
             (Inl e, d2) \<Rightarrow> (Inl e, d2)
           | (Inr _, d2) \<Rightarrow> (Inr printed, d2)))"
  using assms
  by (cases drv) (auto simp: prepared_def new_default_server_def migrate_tables_def new_repositories_def
      new_user_repository_def new_config_repository_def)

lemma repositories_get [simp]: "drv \<noteq> OtherDriver \<Longrightarrow> GetUserByCID (UserRepo (the (new_repositories lib drv))) = get_user_by_cid"
  and repositories_create [simp]: "CreateUser (UserRepo (the (new_repositories lib SqliteDriver))) = sqlite_create_user lib"
    "CreateUser (UserRepo (the (new_repositories lib PqDriver))) = postgres_create_user lib"
  by (cases drv) (simp_all add: new_repositories_def new_user_repository_def new_config_repository_def)

text \<open>Filling in the configuration does not touch the users, whether it succeeds or not.\<close>

lemma set_defaults_users: "users (snd (set_defaults kvs d)) = users d" "last_cid (snd (set_defaults kvs d)) = last_cid d"
  by (induction kvs d rule: set_defaults.induct)
    (auto simp: config_set_if_not_exists_def config_put_def split: prod.splits sum.splits if_splits)

lemma init_default_config_users:
  "users (snd (init_default_config lib f d)) = users d" "last_cid (snd (init_default_config lib f d)) = last_cid d"
  by (simp_all add: init_default_config_def generate_jwt_secret_key_def set_defaults_users split: option.splits)

text \<open>Where CID 1 is taken the start only fills in the configuration.\<close>

lemma start_known:
  assumes "random_ok lib" "prepared env drv d d0" "walk_ok env" "db_up d0" "users d0 1 \<noteq> None"
  shows "\<exists>secret d2. length secret = 32 \<and> new_default_server lib env d = (Inr None, d2) \<and> db_up d2 \<and> users d2 = users d0
     \<and> last_cid d2 = last_cid d0
     \<and> (\<forall>k. config d2 k = (case config d0 k of Some v \<Rightarrow> Some v | None \<Rightarrow> map_of (default_config secret) k))"
proof -
  obtain secret d2 where c: "length secret = 32" "init_default_config lib (walk env) d0 = (Inr (), d2)" "db_up d2" "users d2 = users d0"
      "\<forall>k. config d2 k = (case config d0 k of Some v \<Rightarrow> Some v | None \<Rightarrow> map_of (default_config secret) k)"
    using init_default_config_run [OF assms(1,4), of "walk env"] assms(3) by (auto simp: walk_ok_def)
  obtain u where "get_user_by_cid 1 d0 = Inr u" using assms(4,5) by (auto simp: get_user_by_cid_def)
  then have "new_default_server lib env d = (Inr None, d2)"
    using assms(2) c(2) by (simp add: start_prepared [OF assms(2)] ensure_admin_def prepared_def)
  moreover have "last_cid d2 = last_cid d0" using init_default_config_users(2) [of lib "walk env" d0] c(2) by simp
  ultimately show ?thesis using c by blast
qed

text \<open>Where it is free the start makes the administrator.\<close>

lemma start_fresh:
  assumes "lib_ok lib" "prepared env SqliteDriver d d0" "walk_ok env" "db_up d0" "users d0 1 = None"
    and "password_octets env = Some r" "length r = 8"
  shows "\<exists>h secret d2. hash_of lib (hex_encode r) h \<and> length secret = 32 \<and> db_up d2
     \<and> new_default_server lib env d = (Inr (Some (last_cid d0 + 1, hex_encode r)), d2)
     \<and> users d2 = (users d0)(last_cid d0 + 1 \<mapsto> \<lparr>CID = last_cid d0 + 1, Password = h, FirstName = Some ''Default Administrator'',
          LastName = None, NetworkRating = NetworkRatingAdministator\<rparr>)
     \<and> (\<forall>k. config d2 k = (case config d0 k of Some v \<Rightarrow> Some v | None \<Rightarrow> map_of (default_config secret) k))"
proof -
  have "CHR '':'' \<noteq> hex_char n" if "n < 16" for n :: nat
  proof
    assume "CHR '':'' = hex_char n"
    then have "of_char (hex_char n) = (58 :: nat)" by (simp flip: \<open>CHR '':'' = hex_char n\<close>)
    then show False using that by (auto simp: hex_char_def split: if_splits)
  qed
  then have colon: "CHR '':'' \<notin> set (hex_encode r)"
    using of_char_less_256 by (fastforce simp: hex_encode_def less_mult_imp_div_less)
  have "length (hex_encode r) \<le> 72" using assms(7) by (simp add: hex_encode_length)
  then obtain h where h: "bcrypt lib (draws d0) (hex_encode r) = Some h"
    using assms(1) unfolding lib_ok_def bcrypt_ok_def by blast
  let ?u = "\<lparr>CID = last_cid d0 + 1, Password = h, FirstName = Some ''Default Administrator'',
          LastName = None, NetworkRating = NetworkRatingAdministator\<rparr>"
  let ?d1 = "d0\<lparr>draws := Suc (draws d0), users := (users d0)(last_cid d0 + 1 \<mapsto> ?u), last_cid := last_cid d0 + 1\<rparr>"
  have e: "ensure_admin (Some r) (UserRepo (the (new_repositories lib SqliteDriver))) d0
      = (Inr (Some (last_cid d0 + 1, hex_encode r)), ?d1)"
    using assms(4,5) colon h
    by (simp add: ensure_admin_def get_user_by_cid_def generate_default_admin_user_def sqlite_create_user_def create_user_def
        insert_user_def Let_def)
  have "random_ok lib" using assms(1) by (simp add: lib_ok_def)
  from init_default_config_run [OF this, of ?d1 "walk env"] assms(3,4) obtain secret d2 where
    c: "length secret = 32" "init_default_config lib (walk env) ?d1 = (Inr (), d2)" "db_up d2" "users d2 = users ?d1"
      "\<forall>k. config d2 k = (case config ?d1 k of Some v \<Rightarrow> Some v | None \<Rightarrow> map_of (default_config secret) k)"
    by (auto simp: walk_ok_def)
  have "new_default_server lib env d = (Inr (Some (last_cid d0 + 1, hex_encode r)), d2)"
    by (simp add: start_prepared [OF assms(2)] assms(6) e c(2))
  with c h show ?thesis by (auto simp: hash_of_def)
qed

text \<open>
  \<open>InitDefault\<close> of the PostgreSQL repository, which nothing calls: a secret is stored where there is none.
\<close>

definition ensure_secret_key_exists :: "golib \<Rightarrow> 'x database_scheme \<Rightarrow> (db_error + unit) \<times> 'x database_scheme" where
  "ensure_secret_key_exists lib d =
     (case generate_jwt_secret_key lib d of
        (Inl e, d1) \<Rightarrow> (Inl e, d1)
      | (Inr secret, d1) \<Rightarrow> config_set_if_not_exists ConfigJwtSecretKey secret d1)"

lemma ensure_secret_key_once:
  assumes "random_ok lib" "db_up d"
  shows "\<exists>secret d1. ensure_secret_key_exists lib d = (Inr (), d1) \<and> config_get ConfigJwtSecretKey d1 = Inr secret
     \<and> (config d ConfigJwtSecretKey = None \<longrightarrow> length secret = 32)
     \<and> (\<exists>d2. ensure_secret_key_exists lib d1 = (Inr (), d2) \<and> config d2 = config d1)"
proof -
  have "\<exists>r. rand16 lib n = Some r \<and> length r = 16" for n using assms(1) by (simp add: random_ok_def)
  then obtain f where "\<And>n. rand16 lib n = Some (f n) \<and> length (f n) = 16" by metis
  then show ?thesis
    using assms(2)
    by (auto simp: ensure_secret_key_exists_def generate_jwt_secret_key_def config_set_if_not_exists_def config_put_def config_get_def
        hex_encode_length)
qed


subsection \<open>Properties\<close>

text \<open>
  C5. The first start hands over the keys. On an empty SQLite database the start prints CID 1 and a password
  of sixteen digits, stores one user and a fresh secret; whoever then enters what was printed at the
  login page, from whatever browser and at whatever time, gets to the dashboard with an access token that the
  server takes for the administrator's.
\<close>

theorem first_start_admin_logs_in:
  fixes v :: "'x web_scheme"
  assumes "lib_ok lib" "prepared env SqliteDriver v v0" "walk_ok env" "password_octets env = Some r" "length r = 8"
    and "db_up v0" "users v0 = Map.empty" "last_cid v0 = 0" "config v0 = Map.empty"
  shows "\<exists>secret v1 u. new_default_server lib env v = (Inr (Some (1, hex_encode r)), v1)
     \<and> length (hex_encode r) = 16 \<and> length secret = 32 \<and> users v1 = [1 \<mapsto> u] \<and> NetworkRating u = NetworkRatingAdministator
     \<and> (\<forall>(lp :: ('x web_scheme, 'z) page_scheme) now.
          backend lp = v1\<lparr>wall := now\<rparr> \<and> clock_ok now \<and> login_form 1 (hex_encode r) lp \<longrightarrow>
            (\<exists>lp1 a. login_submit (web_server lib out) lp = (Done (), lp1) \<and> href lp1 = ''/dashboard'' \<and> alerts lp1 = alerts lp
               \<and> storage lp1 ''access_token'' = Some a \<and> token_good lib secret ''access'' u now a))"
proof -
  have "users v0 1 = None" using assms(7) by simp
  from start_fresh [OF assms(1-3,6) this assms(4,5)] assms(8,9) obtain h secret v1 where
    v1: "hash_of lib (hex_encode r) h" "length secret = 32" "db_up v1"
      "new_default_server lib env v = (Inr (Some (1, hex_encode r)), v1)"
      "users v1 = (users v0)(1 \<mapsto> \<lparr>CID = 1, Password = h, FirstName = Some ''Default Administrator'', LastName = None,
          NetworkRating = NetworkRatingAdministator\<rparr>)"
      "\<forall>k. config v1 k = map_of (default_config secret) k"
    by auto
  define u where "u = \<lparr>CID = 1, Password = h, FirstName = Some ''Default Administrator'', LastName = None,
    NetworkRating = NetworkRatingAdministator\<rparr>"
  have u: "user_ok u" by (simp add: user_ok_def u_def int64_def safe_str_def ascii_text_def ascii_char_def)
  have login: "\<exists>lp1 a. login_submit (web_server lib out) lp = (Done (), lp1) \<and> href lp1 = ''/dashboard'' \<and> alerts lp1 = alerts lp
      \<and> storage lp1 ''access_token'' = Some a \<and> token_good lib secret ''access'' u now a"
    if lp: "backend lp = v1\<lparr>wall := now\<rparr>" "clock_ok now" "login_form 1 (hex_encode r) lp"
    for lp :: "('x web_scheme, 'z) page_scheme" and now
  proof -
    have s: "serving (backend lp) secret" "get_user_by_cid 1 (backend lp) = Inr u"
      using lp(1,2) v1(3,5,6) by (simp_all add: serving_def get_user_by_cid_def default_config_def u_def)
    have p: "(1 :: int) \<le> 1" "int64 1" "hex_encode r \<noteq> []"
      using hex_encode_length [of r] assms(5) by (auto simp: int64_def)
    have "verify_password_hash lib (hex_encode r) (Password u)"
      using hash_row(4) [OF assms(1) v1(1)] by (simp add: verify_password_hash_def u_def)
    note l = login_accepted [OF assms(1) s p(1,2) lp(3) p(3) this, of out]
    have "token_good lib secret ''access'' u now (login_access lib secret u (backend lp))"
      unfolding login_access_def using lp(1,2)
      by (intro token_lifetime(1) [OF assms(1) u _ _ _ ascii_token_types(1)]) simp_all
    with l show ?thesis by simp
  qed
  have "users v1 = [1 \<mapsto> u]" using v1(5) assms(7) by (simp add: u_def)
  moreover have "NetworkRating u = NetworkRatingAdministator" by (simp add: u_def)
  ultimately show ?thesis using v1(2,4) login hex_encode_length [of r] assms(5)
    by (intro exI [of _ secret] exI [of _ v1] exI [of _ u]) simp
qed

text \<open>
  C31. Starting is safe to repeat. A start keeps every user and every value of the configuration, and adds
  exactly the missing ones of the six default keys; every later start, with whatever secret and
  password it draws and in whatever order it walks the defaults, prints nothing and changes neither users nor configuration.
\<close>

theorem restart_keeps_data:
  assumes "lib_ok lib" "prepared env SqliteDriver d d0" "walk_ok env" "password_octets env = Some r" "length r = 8"
    and "db_up d0" "users d0 1 \<noteq> None \<or> last_cid d0 = 0"
  shows "\<exists>printed d1. new_default_server lib env d = (Inr printed, d1) \<and> users d0 \<subseteq>\<^sub>m users d1 \<and> config d0 \<subseteq>\<^sub>m config d1
     \<and> dom (config d1) = dom (config d0) \<union> fst ` set (default_config [])
     \<and> (\<forall>env' drv. walk_ok env' \<and> prepared env' drv d1 d1 \<longrightarrow>
          (\<exists>d2. new_default_server lib env' d1 = (Inr None, d2) \<and> users d2 = users d1 \<and> last_cid d2 = last_cid d1 \<and> config d2 = config d1))"
proof -
  have ran: "random_ok lib" using assms(1) by (simp add: lib_ok_def)
  have "\<exists>printed secret d1. new_default_server lib env d = (Inr printed, d1) \<and> db_up d1 \<and> users d1 1 \<noteq> None \<and> users d0 \<subseteq>\<^sub>m users d1
     \<and> (\<forall>k. config d1 k = (case config d0 k of Some v \<Rightarrow> Some v | None \<Rightarrow> map_of (default_config secret) k))"
  proof (cases "users d0 1 = None")
    case True
    from start_fresh [OF assms(1-3,6) True assms(4,5)] assms(7) True show ?thesis
      by (fastforce simp: map_le_def)
  next
    case False
    from start_known [OF ran assms(2,3,6) False] False show ?thesis by fastforce
  qed
  then obtain printed secret d1 where d1: "new_default_server lib env d = (Inr printed, d1)" "db_up d1" "users d1 1 \<noteq> None"
      "users d0 \<subseteq>\<^sub>m users d1" "\<forall>k. config d1 k = (case config d0 k of Some v \<Rightarrow> Some v | None \<Rightarrow> map_of (default_config secret) k)"
    by blast
  have again: "\<exists>d2. new_default_server lib env' d1 = (Inr None, d2) \<and> users d2 = users d1 \<and> last_cid d2 = last_cid d1 \<and> config d2 = config d1"
    if e: "walk_ok env'" "prepared env' drv d1 d1" for env' drv
  proof -
    obtain secret' d2 where d2: "new_default_server lib env' d1 = (Inr None, d2)" "users d2 = users d1" "last_cid d2 = last_cid d1"
        "\<forall>k. config d2 k = (case config d1 k of Some v \<Rightarrow> Some v | None \<Rightarrow> map_of (default_config secret') k)"
      using start_known [OF ran e(2,1) d1(2,3)] by blast
    have "config d2 k = config d1 k" for k
      using d1(5) d2(4) by (auto simp: default_config_def split: option.splits)
    then show ?thesis using d2 by blast
  qed
  have "dom (config d1) = dom (config d0) \<union> fst ` set (default_config [])"
    using d1(5) by (auto simp: default_config_def dom_def split: option.splits if_splits)
  moreover have "config d0 \<subseteq>\<^sub>m config d1" using d1(5) by (auto simp: map_le_def)
  ultimately show ?thesis using d1(1,4) again by blast
qed

text \<open>
  C17. The server never starts on a new PostgreSQL database. The administrator it wants to make is refused by
  the engine, since the insert has five values for four columns, so the start fails before there is a
  configuration; nothing is stored, so the next start fails the same way.
\<close>

theorem postgres_never_starts:
  assumes "prepared env PqDriver d d0" "users d0 1 = None"
  shows "\<exists>e d1. new_default_server lib env d = (Inl e, d1) \<and> users d1 = users d0 \<and> last_cid d1 = last_cid d0 \<and> config d1 = config d0
     \<and> (\<forall>env' d'. prepared env' PqDriver d1 d' \<and> users d' = users d1 \<longrightarrow> (\<exists>e'. fst (new_default_server lib env' d1) = Inl e'))"
proof -
  have step: "\<exists>e d1. new_default_server lib env d = (Inl e, d1) \<and> users d1 = users d0 \<and> last_cid d1 = last_cid d0 \<and> config d1 = config d0"
    if "prepared env PqDriver d d0" "users d0 1 = None" for env d d0
    using that(2)
    by (auto simp: start_prepared [OF that(1)] ensure_admin_def generate_default_admin_user_def get_user_by_cid_def
        postgres_create_user_def create_user_def insert_user_def Let_def split: option.split)
  from step [OF assms] obtain e d1 where d1: "new_default_server lib env d = (Inl e, d1)" "users d1 = users d0"
      "last_cid d1 = last_cid d0" "config d1 = config d0" by blast
  have "\<exists>e'. fst (new_default_server lib env' d1) = Inl e'" if "prepared env' PqDriver d1 d'" "users d' = users d1" for env' d'
    using step [OF that(1)] that(2) d1(2) assms(2) by auto
  with d1 show ?thesis by blast
qed

text \<open>For the witnesses: a start on an empty database, with fixed octets.\<close>

definition demo_env :: "sql_driver \<Rightarrow> 'd start_env" where
  "demo_env drv = \<lparr>opened = Some drv, pings = True, auto_migrate = True, migrate_up = (\<lambda>_. Some),
     password_octets = Some ''openfsd!'', walk = rev\<rparr>"

definition empty_web :: web where
  "empty_web = \<lparr>users = Map.empty, last_cid = 0, config = Map.empty, db_up = True, draws = 0, wall = 0\<rparr>"

lemma demo_env_ok: "drv \<noteq> OtherDriver \<Longrightarrow> prepared (demo_env drv) drv d d" "walk_ok (demo_env drv)"
    "password_octets (demo_env drv) = Some ''openfsd!''"
  by (simp_all add: prepared_def demo_env_def walk_ok_def)

lemma empty_web_simps: "users empty_web = Map.empty" "last_cid empty_web = 0" "config empty_web = Map.empty" "db_up empty_web"
  by (simp_all add: empty_web_def)

lemma demo_start:
  "lib_ok demo_lib" "prepared (demo_env SqliteDriver) SqliteDriver empty_web empty_web" "walk_ok (demo_env SqliteDriver)"
  "password_octets (demo_env SqliteDriver) = Some ''openfsd!''" "length ''openfsd!'' = 8" "db_up empty_web"
  by (simp_all add: demo_lib_ok demo_env_ok empty_web_simps)

lemma demo_printed: "hex_encode ''openfsd!'' = ''6f70656e66736421''"
  by code_simp

definition first_login :: "web \<Rightarrow> web page" where
  "first_login v = browser.extend (sample_page None None (v\<lparr>wall := 5000\<rparr>))
     (page.fields (\<lambda>i p. if i = ''login-input-cid'' then show_int 1 else ''6f70656e66736421'') (\<lambda>_ _. False))"

theorem first_start_admin_logs_in_witness:
  "\<exists>v1 lp1. new_default_server demo_lib (demo_env SqliteDriver) empty_web = (Inr (Some (1, ''6f70656e66736421'')), v1)
     \<and> login_submit (web_server demo_lib demo_outside) (first_login v1) = (Done (), lp1) \<and> href lp1 = ''/dashboard''"
proof -
  have p: "backend (first_login v) = v\<lparr>wall := 5000\<rparr>" "login_form 1 ''6f70656e66736421'' (first_login v)" for v
    by (simp_all add: first_login_def browser.defs page.defs sample_page_def login_form_def)
  have c: "clock_ok 5000" by (simp add: clock_ok_def)
  show ?thesis
    using first_start_admin_logs_in [OF demo_start empty_web_simps(1-3), of demo_outside] p c unfolding demo_printed by blast
qed

theorem restart_keeps_data_witness:
  "\<exists>d1 d2. new_default_server demo_lib (demo_env SqliteDriver) empty_web = (Inr (Some (1, ''6f70656e66736421'')), d1)
     \<and> new_default_server demo_lib (demo_env SqliteDriver) d1 = (Inr None, d2) \<and> config d2 = config d1 \<and> users d2 = users d1"
proof -
  have "users empty_web 1 \<noteq> None \<or> last_cid empty_web = 0" by (simp add: empty_web_simps)
  from restart_keeps_data [OF demo_start this] obtain printed d1 where d1:
      "new_default_server demo_lib (demo_env SqliteDriver) empty_web = (Inr printed, d1)"
      "\<forall>env' drv. walk_ok env' \<and> prepared env' drv d1 d1 \<longrightarrow>
          (\<exists>d2. new_default_server demo_lib env' d1 = (Inr None, d2) \<and> users d2 = users d1 \<and> last_cid d2 = last_cid d1 \<and> config d2 = config d1)"
    by blast
  moreover have "printed = Some (1, ''6f70656e66736421'')"
    using start_fresh [OF demo_start(1-3,6) _ demo_start(4,5)] d1(1) by (auto simp: empty_web_simps demo_printed)
  ultimately show ?thesis using demo_env_ok(1) [of SqliteDriver d1] demo_env_ok(2) by blast
qed

theorem postgres_never_starts_witness:
  "\<exists>e d1. new_default_server demo_lib (demo_env PqDriver) empty_web = (Inl e, d1) \<and> users d1 = Map.empty \<and> config d1 = Map.empty"
  using postgres_never_starts [OF demo_env_ok(1) [of PqDriver empty_web], of demo_lib] by (auto simp: empty_web_simps)

end
