(* ===== verification/Account_Book.thy ===== *)
theory Account_Book
  imports Repositories
begin

text \<open>
  \<open>db.UserRepository\<close> against an abstract account book that keeps passwords in plain text: every
  sequence of calls has the answers of the book.
\<close>

subsection \<open>The account book\<close>

text \<open>
  An abstract view of the users: an account per CID with its password in plain text. Passwords the
  hash takes for the same are given by \<open>same\<close>.
\<close>

record account =
  acc_password :: string
  acc_first :: "string option"
  acc_last :: "string option"
  acc_rating :: int

datatype account_op =
    OpCreate user
  | OpUpdate user
  | OpLoad int
  | OpVerify int string

datatype account_result = CreatedAs int | Saved | AccountIs "string option" "string option" int | Verified bool | Refused

text \<open>What one call does to the book: the next CID and the accounts.\<close>

definition password_fits :: "string \<Rightarrow> bool" where
  "password_fits p \<longleftrightarrow> CHR '':'' \<notin> set p \<and> length p \<le> 72"

definition account_of :: "string \<Rightarrow> user \<Rightarrow> account" where
  "account_of p u = \<lparr>acc_password = p, acc_first = FirstName u, acc_last = LastName u, acc_rating = NetworkRating u\<rparr>"

type_synonym book = "int \<times> (int \<rightharpoonup> account)"

fun book_step :: "(string \<Rightarrow> string \<Rightarrow> bool) \<Rightarrow> account_op \<Rightarrow> book \<Rightarrow> account_result \<times> book" where
  "book_step same (OpCreate u) (n, b) =
     (if password_fits (Password u) then (CreatedAs (n + 1), (n + 1, b(n + 1 \<mapsto> account_of (Password u) u)))
      else (Refused, (n, b)))"
| "book_step same (OpUpdate u) (n, b) =
     (case b (CID u) of
        None \<Rightarrow> (Refused, (n, b))
      | Some a \<Rightarrow>
          if password_fits (Password u)
          then (Saved, (n, b(CID u \<mapsto> account_of (if Password u = [] then acc_password a else Password u) u)))
          else (Refused, (n, b)))"
| "book_step same (OpLoad cid) (n, b) =
     ((case b cid of None \<Rightarrow> Refused | Some a \<Rightarrow> AccountIs (acc_first a) (acc_last a) (acc_rating a)), (n, b))"
| "book_step same (OpVerify cid p) (n, b) =
     ((case b cid of None \<Rightarrow> Refused | Some a \<Rightarrow> Verified (same (acc_password a) p)), (n, b))"

text \<open>The same calls on the database.\<close>

fun repository_step :: "golib \<Rightarrow> account_op \<Rightarrow> 'x database_scheme \<Rightarrow> account_result \<times> 'x database_scheme" where
  "repository_step lib (OpCreate u) d =
     (case sqlite_create_user lib u d of (Inl _, d') \<Rightarrow> (Refused, d') | (Inr cid, d') \<Rightarrow> (CreatedAs cid, d'))"
| "repository_step lib (OpUpdate u) d =
     (case update_user lib u d of (Inl _, d') \<Rightarrow> (Refused, d') | (Inr _, d') \<Rightarrow> (Saved, d'))"
| "repository_step lib (OpLoad cid) d =
     ((case get_user_by_cid cid d of
         Inl _ \<Rightarrow> Refused
       | Inr u \<Rightarrow> AccountIs (FirstName u) (LastName u) (NetworkRating u)), d)"
| "repository_step lib (OpVerify cid p) d =
     ((case get_user_by_cid cid d of
         Inl _ \<Rightarrow> Refused
       | Inr u \<Rightarrow> Verified (verify_password_hash lib p (Password u))), d)"

fun run_ops :: "('o \<Rightarrow> 's \<Rightarrow> 'r \<times> 's) \<Rightarrow> 'o list \<Rightarrow> 's \<Rightarrow> 'r list \<times> 's" where
  "run_ops step [] s = ([], s)"
| "run_ops step (x # xs) s =
     (case step x s of (r, s1) \<Rightarrow> (case run_ops step xs s1 of (rs, s2) \<Rightarrow> (r # rs, s2)))"

text \<open>The comparison depends on the passwords only, not on the salt.\<close>

definition same_password :: "golib \<Rightarrow> (string \<Rightarrow> string \<Rightarrow> bool) \<Rightarrow> bool" where
  "same_password lib same \<longleftrightarrow> (\<forall>n p h q. bcrypt lib n p = Some h \<longrightarrow> bcrypt_cmp lib h q = same p q)"

definition hash_limit :: "golib \<Rightarrow> bool" where
  "hash_limit lib \<longleftrightarrow> (\<forall>n p. bcrypt lib n p = None \<longleftrightarrow> 72 < length p)"

definition books :: "golib \<Rightarrow> 'x database_scheme \<Rightarrow> book \<Rightarrow> bool" where
  "books lib d nb \<longleftrightarrow>
     db_up d \<and> last_cid d = fst nb \<and>
     (\<forall>cid. case users d cid of
        None \<Rightarrow> snd nb cid = None
      | Some row \<Rightarrow> CID row = cid \<and> (\<exists>p. snd nb cid = Some (account_of p row) \<and> hash_of lib p (Password row)))"

lemma books_get:
  assumes "books lib d (n, b)"
  shows "users d cid = None \<Longrightarrow> b cid = None"
    "users d cid = Some row \<Longrightarrow> CID row = cid \<and> (\<exists>p. b cid = Some (account_of p row) \<and> hash_of lib p (Password row))"
  using assms by (auto simp: books_def split: option.splits dest: spec [of _ cid])

lemma books_put:
  assumes "books lib d (n, b)" "CID row = cid" "hash_of lib p (Password row)"
    and "users d' = (users d)(cid \<mapsto> row)" "db_up d'"
  shows "books lib d' (last_cid d', b(cid \<mapsto> account_of p row))"
proof -
  have "case users d' c of None \<Rightarrow> (b(cid \<mapsto> account_of p row)) c = None
      | Some r \<Rightarrow> CID r = c \<and> (\<exists>p'. (b(cid \<mapsto> account_of p row)) c = Some (account_of p' r) \<and> hash_of lib p' (Password r))" for c
    using assms(2-4) books_get [OF assms(1), of c] by (cases "users d c") auto
  then show ?thesis
    unfolding books_def fst_conv snd_conv by (intro conjI assms(5) refl allI)
qed

lemma fits_hash:
  assumes "hash_limit lib" "password_fits p"
  shows "\<exists>h. bcrypt lib n p = Some h \<and> hash_of lib p h"
proof -
  have "bcrypt lib n p \<noteq> None" using assms unfolding hash_limit_def password_fits_def by simp
  then show ?thesis by (auto simp: hash_of_def)
qed

lemma unfit_no_hash: "hash_limit lib \<Longrightarrow> \<not> password_fits p \<Longrightarrow> CHR '':'' \<notin> set p \<Longrightarrow> bcrypt lib n p = None"
  by (simp add: hash_limit_def password_fits_def)

lemma books_cong:
  "users d' = users d \<Longrightarrow> last_cid d' = last_cid d \<Longrightarrow> db_up d' = db_up d \<Longrightarrow> books lib d' nb = books lib d nb"
  by (simp add: books_def)

lemma refused_keeps:
  "create_user lib k u d = (Inl e, d') \<Longrightarrow> users d' = users d \<and> last_cid d' = last_cid d \<and> db_up d' = db_up d"
  "update_user lib u d = (Inl e, d') \<Longrightarrow> users d' = users d \<and> last_cid d' = last_cid d \<and> db_up d' = db_up d"
  by (auto simp: create_user_def insert_user_def update_user_def exec_update_def Let_def split: if_splits option.splits)

lemma create_refused:
  "hash_limit lib \<Longrightarrow> \<not> password_fits (Password u) \<Longrightarrow> \<exists>e d'. sqlite_create_user lib u d = (Inl e, d')"
  using unfit_no_hash [of lib "Password u" "draws d"] by (auto simp: sqlite_create_user_def create_user_def Let_def)

lemma update_refused:
  assumes "hash_limit lib" "\<not> password_fits (Password u) \<or> users d (CID u) = None"
  shows "\<exists>e d'. update_user lib u d = (Inl e, d')"
proof -
  have "Password u \<noteq> []" if "\<not> password_fits (Password u)" using that by (auto simp: password_fits_def)
  then show ?thesis
    using assms unfit_no_hash [OF assms(1), of "Password u" "draws d"]
    by (auto simp: update_user_def exec_update_def Let_def split: option.splits)
qed

lemma create_simulated:
  assumes "hash_limit lib" "books lib d (n, b)"
  shows "\<exists>d'. repository_step lib (OpCreate u) d = (fst (book_step same (OpCreate u) (n, b)), d')
     \<and> books lib d' (snd (book_step same (OpCreate u) (n, b)))"
proof (cases "password_fits (Password u)")
  case True
  then obtain h where h: "bcrypt lib (draws d) (Password u) = Some h" "hash_of lib (Password u) h"
    using fits_hash [OF assms(1)] by blast
  let ?row = "u\<lparr>Password := h, CID := n + 1\<rparr>"
  let ?d = "d\<lparr>draws := Suc (draws d), users := (users d)(n + 1 \<mapsto> ?row), last_cid := n + 1\<rparr>"
  have up: "db_up d" "last_cid d = n" using assms(2) by (simp_all add: books_def)
  then have s: "repository_step lib (OpCreate u) d = (CreatedAs (n + 1), ?d)"
    using True h(1) by (simp add: sqlite_create_user_def create_user_def insert_user_def Let_def password_fits_def)
  have "books lib ?d (last_cid ?d, b(n + 1 \<mapsto> account_of (Password u) ?row))"
    by (rule books_put [OF assms(2)]) (use h up in simp_all)
  with True s show ?thesis by (simp add: account_of_def)
next
  case False
  then obtain e d' where "sqlite_create_user lib u d = (Inl e, d')" using create_refused assms(1) by blast
  with False refused_keeps(1) [of lib 4 u d e d'] show ?thesis
    using assms(2) books_cong [of d' d lib "(n, b)"] by (simp add: sqlite_create_user_def)
qed

lemma update_stored:
  assumes "hash_limit lib" "db_up d" "users d (CID u) = Some row" "password_fits (Password u)" "hash_of lib p (Password row)"
  shows "\<exists>h q d'. update_user lib u d = (Inr (), d') \<and> users d' = (users d)(CID u \<mapsto> u\<lparr>CID := CID row, Password := h\<rparr>)
     \<and> db_up d' \<and> last_cid d' = last_cid d \<and> q = (if Password u = [] then p else Password u) \<and> hash_of lib q h"
proof (cases "Password u = []")
  case True
  have "update_user lib u d = (Inr (), d\<lparr>users := (users d)(CID u \<mapsto> row\<lparr>FirstName := FirstName u, LastName := LastName u,
      NetworkRating := NetworkRating u\<rparr>)\<rparr>)"
    using True assms(2,3) by (simp add: update_user_def exec_update_def)
  then show ?thesis
    using True assms(2,5) by (intro exI [of _ "Password row"] exI [of _ p] exI) auto
next
  case False
  obtain h where h: "bcrypt lib (draws d) (Password u) = Some h" "hash_of lib (Password u) h"
    using fits_hash [OF assms(1,4)] by blast
  have "CHR '':'' \<notin> set (Password u)" using assms(4) by (simp add: password_fits_def)
  then have "update_user lib u d = (Inr (), d\<lparr>draws := Suc (draws d), users := (users d)(CID u \<mapsto> row\<lparr>Password := h,
      FirstName := FirstName u, LastName := LastName u, NetworkRating := NetworkRating u\<rparr>)\<rparr>)"
    using False assms(2,3) h(1) by (simp add: update_user_def exec_update_def Let_def)
  then show ?thesis
    using False assms(2) h(2) by (intro exI [of _ h] exI [of _ "Password u"] exI) auto
qed

lemma update_simulated:
  assumes "hash_limit lib" "books lib d (n, b)"
  shows "\<exists>d'. repository_step lib (OpUpdate u) d = (fst (book_step same (OpUpdate u) (n, b)), d')
     \<and> books lib d' (snd (book_step same (OpUpdate u) (n, b)))"
proof (cases "users d (CID u) = None \<or> \<not> password_fits (Password u)")
  case True
  then obtain e d' where u: "update_user lib u d = (Inl e, d')" using update_refused [OF assms(1)] by blast
  have "book_step same (OpUpdate u) (n, b) = (Refused, (n, b))"
    using True books_get(1) [OF assms(2), of "CID u"] by (auto split: option.splits)
  with u refused_keeps(2) [OF u] show ?thesis
    using assms(2) books_cong [of d' d lib "(n, b)"] by simp
next
  case False
  then obtain row where row: "users d (CID u) = Some row" and fits: "password_fits (Password u)" by auto
  from books_get(2) [OF assms(2) row] obtain p where
    p: "CID row = CID u" "b (CID u) = Some (account_of p row)" "hash_of lib p (Password row)" by blast
  have up: "db_up d" "last_cid d = n" using assms(2) by (simp_all add: books_def)
  obtain h q d' where h: "update_user lib u d = (Inr (), d')"
      "users d' = (users d)(CID u \<mapsto> u\<lparr>CID := CID row, Password := h\<rparr>)" "db_up d'" "last_cid d' = last_cid d"
      "q = (if Password u = [] then p else Password u)" "hash_of lib q h"
    using update_stored [OF assms(1) up(1) row fits p(3)] by blast
  have "books lib d' (last_cid d', b(CID u \<mapsto> account_of q (u\<lparr>CID := CID row, Password := h\<rparr>)))"
    by (rule books_put [OF assms(2) _ _ h(2,3)]) (simp_all add: p h(6))
  with fits h up(2) show ?thesis by (cases "Password u = []") (simp_all add: account_of_def p(2))
qed

lemma step_simulated:
  assumes "hash_limit lib" "same_password lib same" "books lib d nb"
  shows "\<exists>d'. repository_step lib x d = (fst (book_step same x nb), d') \<and> books lib d' (snd (book_step same x nb))"
proof -
  obtain n b where nb: "nb = (n, b)" by fastforce
  have up: "db_up d" using assms(3) by (simp add: books_def)
  show ?thesis
  proof (cases x)
    case (OpCreate u)
    then show ?thesis using create_simulated assms(1,3) nb by blast
  next
    case (OpUpdate u)
    then show ?thesis using update_simulated assms(1,3) nb by blast
  next
    case (OpLoad cid)
    then show ?thesis using assms(3) up books_get [OF assms(3) [unfolded nb], of cid]
      by (cases "users d cid") (auto simp: get_user_by_cid_def account_of_def nb)
  next
    case (OpVerify cid q)
    have "verify_password_hash lib q h = same p q" if "hash_of lib p h" for p h
      using that assms(2) by (auto simp: hash_of_def same_password_def verify_password_hash_def)
    then show ?thesis using assms(3) up books_get [OF assms(3) [unfolded nb], of cid] OpVerify
      by (cases "users d cid") (auto simp: get_user_by_cid_def account_of_def nb)
  qed
qed

subsection \<open>Properties\<close>

text \<open>
  C7. The user repository refines the account book: for every sequence of calls, creating,
  updating, loading and verifying, the database answers as the book with plain passwords does,
  and represents it again afterwards. In particular the CIDs count up, a blank password leaves the
  old one in force, and a password with a colon or of more than 72 octets is refused without
  effect.
\<close>

theorem repository_refines_book:
  assumes "hash_limit lib" "same_password lib same" "books lib d nb"
  shows "\<exists>d'. run_ops (repository_step lib) xs d = (fst (run_ops (book_step same) xs nb), d')
     \<and> books lib d' (snd (run_ops (book_step same) xs nb))"
  using assms(3)
proof (induction xs arbitrary: d nb)
  case (Cons x xs)
  obtain d1 where d1: "repository_step lib x d = (fst (book_step same x nb), d1)" "books lib d1 (snd (book_step same x nb))"
    using step_simulated [OF assms(1,2) Cons.prems] by blast
  from Cons.IH [OF d1(2)] obtain d2 where
    "run_ops (repository_step lib) xs d1 = (fst (run_ops (book_step same) xs (snd (book_step same x nb))), d2)"
    "books lib d2 (snd (run_ops (book_step same) xs (snd (book_step same x nb))))" by blast
  with d1(1) show ?case by (auto split: prod.splits)
qed auto

theorem repository_refines_book_witness:
  "\<exists>d'. run_ops (repository_step demo_lib)
       [OpCreate \<lparr>CID = 0, Password = ''battery'', FirstName = Some ''Ann'', LastName = None, NetworkRating = 1\<rparr>,
        OpUpdate \<lparr>CID = 1, Password = [], FirstName = Some ''Ann'', LastName = Some ''Lee'', NetworkRating = 4\<rparr>,
        OpVerify 1 ''battery'', OpVerify 1 ''staple'', OpLoad 1,
        OpCreate \<lparr>CID = 0, Password = ''a:b'', FirstName = None, LastName = None, NetworkRating = 1\<rparr>] empty_database
     = ([CreatedAs 1, Saved, Verified True, Verified False, AccountIs (Some ''Ann'') (Some ''Lee'') 4, Refused], d')"
proof -
  have "hash_limit demo_lib" by (simp add: hash_limit_def demo_lib_def)
  moreover have "same_password demo_lib (\<lambda>p q. demo_hash p = demo_hash q)"
    by (simp add: same_password_def demo_lib_def)
  moreover have "books demo_lib empty_database (0, Map.empty)"
    by (simp add: books_def empty_database_def)
  moreover have "demo_hash ''battery'' \<noteq> demo_hash ''staple''" by code_simp
  ultimately show ?thesis
    using repository_refines_book [of demo_lib "\<lambda>p q. demo_hash p = demo_hash q" empty_database "(0, Map.empty)"
      "[OpCreate \<lparr>CID = 0, Password = ''battery'', FirstName = Some ''Ann'', LastName = None, NetworkRating = 1\<rparr>,
        OpUpdate \<lparr>CID = 1, Password = [], FirstName = Some ''Ann'', LastName = Some ''Lee'', NetworkRating = 4\<rparr>,
        OpVerify 1 ''battery'', OpVerify 1 ''staple'', OpLoad 1,
        OpCreate \<lparr>CID = 0, Password = ''a:b'', FirstName = None, LastName = None, NetworkRating = 1\<rparr>]"]
    by (simp add: password_fits_def account_of_def) blast
qed

end
