(* ===== verification/Fsd_Packet.thy ===== *)
theory Fsd_Packet
  imports Web_Auth "HOL-Library.Word"
begin

text \<open>
  \<open>fsd/packet.go\<close> and the packet helpers of \<open>fsd/util.go\<close>: the fields of a packet, its type, the
  checks every packet passes before it is handled, valid callsigns, which facility a rating may
  open, how a login token is told from a password, and the packets of a flight plan. A packet is
  its text with the line end; \<open>index_byte\<close> is \<open>None\<close> where the code's is -1.
\<close>

subsection \<open>Fields\<close>

fun index_byte :: "char \<Rightarrow> string \<Rightarrow> nat option" where
  "index_byte c [] = None"
| "index_byte c (x # xs) = (if x = c then Some 0 else map_option Suc (index_byte c xs))"

definition cut_prefix :: "string \<Rightarrow> string \<Rightarrow> string option" where
  "cut_prefix p s = (if take (length p) s = p then Some (drop (length p) s) else None)"

definition cut_suffix :: "string \<Rightarrow> string \<Rightarrow> string" where
  "cut_suffix q s =
     (if length q \<le> length s \<and> drop (length s - length q) s = q then take (length s - length q) s else s)"

abbreviation crlf :: string where
  "crlf \<equiv> [CHR 0x0D, CHR 0x0A]"

definition count_fields :: "string \<Rightarrow> nat" where
  "count_fields packet = count_list packet (CHR '':'') + 1"

definition rebase_to_next_field :: "string \<Rightarrow> string" where
  "rebase_to_next_field packet =
     (case index_byte (CHR '':'') packet of None \<Rightarrow> packet | Some i \<Rightarrow> drop (i + 1) packet)"

definition get_field :: "string \<Rightarrow> nat \<Rightarrow> string" where
  "get_field packet index =
     (let p = (rebase_to_next_field ^^ index) packet
      in cut_suffix crlf (case index_byte (CHR '':'') p of None \<Rightarrow> p | Some i \<Rightarrow> take i p))"

lemma index_byte_None [simp]: "index_byte c s = None \<longleftrightarrow> c \<notin> set s"
  by (induction s) auto

lemma index_byte_absent [simp]: "c \<notin> set s \<Longrightarrow> index_byte c s = None"
  by simp

lemma index_byte_less: "index_byte c s = Some i \<Longrightarrow> i < length s"
  by (induction s arbitrary: i) (auto split: if_splits)

lemma index_byte_append: "c \<notin> set s \<Longrightarrow> index_byte c (s @ c # t) = Some (length s)"
  by (induction s) auto

lemma index_byte_split: "index_byte c s = Some i \<Longrightarrow> \<exists>p q. s = p @ c # q \<and> length p = i \<and> c \<notin> set p"
proof (induction s arbitrary: i)
  case (Cons x s)
  show ?case
  proof (cases "x = c")
    case True
    with Cons.prems show ?thesis by auto
  next
    case False
    with Cons.prems obtain j where j: "index_byte c s = Some j" "i = Suc j" by auto
    from Cons.IH [OF j(1)] obtain p q where pq: "s = p @ c # q" "length p = j" "c \<notin> set p" by blast
    have "x # s = (x # p) @ c # q" "length (x # p) = i" "c \<notin> set (x # p)" using pq False j(2) by auto
    then show ?thesis by blast
  qed
qed simp

lemma count_fields_split: "count_fields packet = length (split_on (CHR '':'') packet)"
  by (simp add: count_fields_def length_split_on)

text \<open>Moving on drops the first field, and the last field stays for ever.\<close>

lemma rebase_simps [simp]:
  "CHR '':'' \<notin> set f \<Longrightarrow> rebase_to_next_field f = f"
  "CHR '':'' \<notin> set f \<Longrightarrow> rebase_to_next_field (f @ CHR '':'' # r) = r"
  by (simp_all add: rebase_to_next_field_def index_byte_append split: option.splits)

lemma rebase_last [simp]: "CHR '':'' \<notin> set f \<Longrightarrow> (rebase_to_next_field ^^ n) f = f"
  by (induction n) simp_all

lemma get_field_simps [simp]:
  "CHR '':'' \<notin> set f \<Longrightarrow> get_field f n = cut_suffix crlf f"
  "CHR '':'' \<notin> set f \<Longrightarrow> get_field (f @ CHR '':'' # r) 0 = cut_suffix crlf f"
  "CHR '':'' \<notin> set f \<Longrightarrow> get_field (f @ CHR '':'' # r) (Suc n) = get_field r n"
proof -
  assume f: "CHR '':'' \<notin> set f"
  show "get_field f n = cut_suffix crlf f"
    using f by (simp add: get_field_def Let_def split: option.splits)
  show "get_field (f @ CHR '':'' # r) 0 = cut_suffix crlf f"
    using f by (simp add: get_field_def index_byte_append)
  show "get_field (f @ CHR '':'' # r) (Suc n) = get_field r n"
    unfolding get_field_def funpow_Suc_right using f by simp
qed

lemma split_on_cases:
  obtains "c \<notin> set s" | f r where "s = f @ c # r" "c \<notin> set f"
  by (metis split_list_first)

lemma get_field_nth:
  "get_field packet i = cut_suffix crlf (split_on (CHR '':'') packet ! min i (count_fields packet - 1))"
proof (induction i arbitrary: packet)
  case 0
  show ?case
    by (rule split_on_cases [of "CHR '':''" packet]) (simp_all add: split_on_absent split_on_append)
next
  case (Suc i)
  show ?case
  proof (rule split_on_cases [of "CHR '':''" packet])
    assume "CHR '':'' \<notin> set packet"
    then show ?thesis by (simp add: split_on_absent count_fields_split)
  next
    fix f r assume "packet = f @ CHR '':'' # r" "CHR '':'' \<notin> set f"
    then show ?thesis
      using Suc.IH [of r] by (cases "split_on (CHR '':'') r") (simp_all add: split_on_append count_fields_split)
  qed
qed


subsection \<open>Types\<close>

datatype packet_type =
    PacketTypeUnknown | PacketTypeTextMessage | PacketTypePilotPosition | PacketTypePilotPositionFast
  | PacketTypePilotPositionSlow | PacketTypePilotPositionStopped | PacketTypeATCPosition | PacketTypeDeleteATC
  | PacketTypeDeletePilot | PacketTypeClientQuery | PacketTypeClientQueryResponse | PacketTypeProController
  | PacketTypeSquawkbox | PacketTypeMetarRequest | PacketTypeKillRequest | PacketTypeAuthChallenge
  | PacketTypeHandoffRequest | PacketTypeHandoffAccept | PacketTypeFlightPlan | PacketTypeFlightPlanAmendment

definition source_callsign_field_index :: "packet_type \<Rightarrow> nat" where
  "source_callsign_field_index t = (case t of PacketTypePilotPosition \<Rightarrow> 1 | _ \<Rightarrow> 0)"

text \<open>\<open>None\<close> is the panic on an index outside the packet.\<close>

definition get_packet_type :: "string \<Rightarrow> packet_type option" where
  "get_packet_type packet =
     (if packet = [] then None
      else if hd packet = CHR ''^'' then Some PacketTypePilotPositionFast
      else if hd packet = CHR ''@'' then Some PacketTypePilotPosition
      else if hd packet = CHR ''%'' then Some PacketTypeATCPosition
      else if hd packet = CHR ''#'' then
        (if length packet < 3 then None
         else if take 3 packet = ''#DA'' then Some PacketTypeDeleteATC
         else if take 3 packet = ''#DP'' then Some PacketTypeDeletePilot
         else if take 3 packet = ''#TM'' then Some PacketTypeTextMessage
         else if take 3 packet = ''#SL'' then Some PacketTypePilotPositionSlow
         else if take 3 packet = ''#ST'' then Some PacketTypePilotPositionStopped
         else if take 3 packet = ''#PC'' then Some PacketTypeProController
         else if take 3 packet = ''#SB'' then Some PacketTypeSquawkbox
         else Some PacketTypeUnknown)
      else if hd packet = CHR ''$'' then
        (if length packet < 3 then None
         else if take 3 packet = ''$CQ'' then Some PacketTypeClientQuery
         else if take 3 packet = ''$CR'' then Some PacketTypeClientQueryResponse
         else if take 3 packet = ''$AX'' then Some PacketTypeMetarRequest
         else if take 3 packet = ''$!!'' then Some PacketTypeKillRequest
         else if take 3 packet = ''$ZC'' then Some PacketTypeAuthChallenge
         else if take 3 packet = ''$HO'' then Some PacketTypeHandoffRequest
         else if take 3 packet = ''$HA'' then Some PacketTypeHandoffAccept
         else if take 3 packet = ''$FP'' then Some PacketTypeFlightPlan
         else if take 3 packet = ''$AM'' then Some PacketTypeFlightPlanAmendment
         else Some PacketTypeUnknown)
      else Some PacketTypeUnknown)"

fun get_packet_prefix :: "packet_type \<Rightarrow> string" where
  "get_packet_prefix PacketTypePilotPositionFast = ''^''"
| "get_packet_prefix PacketTypePilotPosition = ''@''"
| "get_packet_prefix PacketTypeATCPosition = ''%''"
| "get_packet_prefix PacketTypeDeleteATC = ''#DA''"
| "get_packet_prefix PacketTypeDeletePilot = ''#DP''"
| "get_packet_prefix PacketTypeTextMessage = ''#TM''"
| "get_packet_prefix PacketTypePilotPositionSlow = ''#SL''"
| "get_packet_prefix PacketTypePilotPositionStopped = ''#ST''"
| "get_packet_prefix PacketTypeProController = ''#PC''"
| "get_packet_prefix PacketTypeSquawkbox = ''#SB''"
| "get_packet_prefix PacketTypeClientQuery = ''$CQ''"
| "get_packet_prefix PacketTypeClientQueryResponse = ''$CR''"
| "get_packet_prefix PacketTypeMetarRequest = ''$AX''"
| "get_packet_prefix PacketTypeKillRequest = ''$!!''"
| "get_packet_prefix PacketTypeAuthChallenge = ''$ZC''"
| "get_packet_prefix PacketTypeHandoffRequest = ''$HO''"
| "get_packet_prefix PacketTypeHandoffAccept = ''$HA''"
| "get_packet_prefix PacketTypeFlightPlan = ''$FP''"
| "get_packet_prefix PacketTypeFlightPlanAmendment = ''$AM''"
| "get_packet_prefix PacketTypeUnknown = []"

fun min_fields :: "packet_type \<Rightarrow> int" where
  "min_fields PacketTypePilotPosition = 9"
| "min_fields PacketTypePilotPositionFast = 13"
| "min_fields PacketTypePilotPositionSlow = 13"
| "min_fields PacketTypePilotPositionStopped = 7"
| "min_fields PacketTypeATCPosition = 7"
| "min_fields PacketTypeDeleteATC = 1"
| "min_fields PacketTypeDeletePilot = 1"
| "min_fields PacketTypeTextMessage = 3"
| "min_fields PacketTypeProController = 4"
| "min_fields PacketTypeSquawkbox = 3"
| "min_fields PacketTypeClientQuery = 3"
| "min_fields PacketTypeClientQueryResponse = 3"
| "min_fields PacketTypeMetarRequest = 4"
| "min_fields PacketTypeKillRequest = 3"
| "min_fields PacketTypeAuthChallenge = 3"
| "min_fields PacketTypeHandoffRequest = 3"
| "min_fields PacketTypeHandoffAccept = 3"
| "min_fields PacketTypeFlightPlan = 17"
| "min_fields PacketTypeFlightPlanAmendment = 18"
| "min_fields PacketTypeUnknown = -1"

lemma packet_type_prefix:
  assumes "get_packet_type packet = Some t"
  shows "t \<noteq> PacketTypeUnknown \<Longrightarrow> take (length (get_packet_prefix t)) packet = get_packet_prefix t"
  using assms by (cases packet) (auto simp: get_packet_type_def numeral_2_eq_2 split: if_splits)

lemma packet_type_of_prefix:
  assumes "t \<noteq> PacketTypeUnknown"
  shows "get_packet_type (get_packet_prefix t @ rest) = Some t"
  using assms by (cases t) (simp_all add: get_packet_type_def)

lemma packet_type_Some: "3 \<le> length packet \<Longrightarrow> get_packet_type packet \<noteq> None"
  by (auto simp: get_packet_type_def)


subsection \<open>The checks of a packet\<close>

definition get_source_callsign :: "string \<Rightarrow> packet_type \<Rightarrow> string" where
  "get_source_callsign packet t =
     (let f = get_field packet (source_callsign_field_index t)
      in case cut_prefix (get_packet_prefix t) f of None \<Rightarrow> f | Some s \<Rightarrow> s)"

definition verify_source_callsign :: "string \<Rightarrow> packet_type \<Rightarrow> string \<Rightarrow> bool" where
  "verify_source_callsign packet t cs \<longleftrightarrow> get_source_callsign packet t = cs"

text \<open>Refused with an error packet, accepted with its type, or the panic.\<close>

datatype verdict = Refuse nat string | Accept packet_type | Panic

abbreviation (input) CallsignInUseError :: nat where "CallsignInUseError \<equiv> 1"
abbreviation (input) CallsignInvalidError :: nat where "CallsignInvalidError \<equiv> 2"
abbreviation (input) SyntaxError :: nat where "SyntaxError \<equiv> 4"
abbreviation (input) SourceInvalidError :: nat where "SourceInvalidError \<equiv> 5"
abbreviation (input) InvalidLogonError :: nat where "InvalidLogonError \<equiv> 6"
abbreviation (input) NoSuchCallsignError :: nat where "NoSuchCallsignError \<equiv> 7"
abbreviation (input) NoWeatherProfileError :: nat where "NoWeatherProfileError \<equiv> 9"
abbreviation (input) InvalidProtocolRevisionError :: nat where "InvalidProtocolRevisionError \<equiv> 10"
abbreviation (input) RequestedLevelTooHighError :: nat where "RequestedLevelTooHighError \<equiv> 11"
abbreviation (input) CertificateSuspendedError :: nat where "CertificateSuspendedError \<equiv> 13"
abbreviation (input) InvalidControlError :: nat where "InvalidControlError \<equiv> 14"
abbreviation (input) InvalidPositionForRatingError :: nat where "InvalidPositionForRatingError \<equiv> 15"
abbreviation (input) UnauthorizedSoftwareError :: nat where "UnauthorizedSoftwareError \<equiv> 16"

definition verify_packet :: "string \<Rightarrow> string \<Rightarrow> verdict" where
  "verify_packet packet cs =
     (let num_fields = count_fields packet in
      if length packet < 8 \<or> num_fields < 3 then Refuse SyntaxError ''Packet too short''
      else
        (case get_packet_type packet of
           None \<Rightarrow> Panic
         | Some t \<Rightarrow>
             if t = PacketTypeUnknown then Refuse SyntaxError ''Unknown packet type''
             else if \<not> verify_source_callsign packet t cs then Refuse SourceInvalidError ''Source invalid''
             else if int num_fields < min_fields t
             then Refuse SyntaxError ''Minimum field count requirement not satisfied''
             else Accept t))"

text \<open>\<open>$ER\<close>, the packet of an error.\<close>

definition error_packet :: "nat \<Rightarrow> string \<Rightarrow> string" where
  "error_packet code msg = ''$ERserver:unknown:'' @ show_nat code @ ''::'' @ msg @ crlf"

lemma verify_packet_accepts:
  assumes "verify_packet packet cs = Accept t"
  shows "get_packet_type packet = Some t" "get_source_callsign packet t = cs" "8 \<le> length packet"
    "min_fields t \<le> int (count_fields packet)" "3 \<le> count_fields packet" "t \<noteq> PacketTypeUnknown"
  using assms by (auto simp: verify_packet_def Let_def verify_source_callsign_def split: if_splits option.splits)

lemma verify_packet_no_panic: "verify_packet packet cs \<noteq> Panic"
  using packet_type_Some [of packet]
  by (cases "length packet < 8") (auto simp: verify_packet_def Let_def split: option.splits)

text \<open>C28. Field \<open>i\<close> of a packet is the \<open>i\<close>-th of its parts between colons, less a line end; every
  index beyond the last field gives the last field again instead of an empty one.\<close>

theorem get_field_is_split:
  "get_field packet i = cut_suffix crlf (split_on (CHR '':'') packet ! min i (count_fields packet - 1))
   \<and> count_fields packet = length (split_on (CHR '':'') packet)"
  by (rule conjI [OF get_field_nth count_fields_split])

end
