(* ===== verification/Fsd_Util.thy ===== *)
theory Fsd_Util
  imports Fsd_Packet "HOL-Library.While_Combinator"
begin

text \<open>
  The other helpers of \<open>fsd/util.go\<close>: callsigns and facilities that are allowed, whether the token of
  a login is taken for a JSON web token, the packets of a flight plan and of a beacon code, and
  the angles packed into a position.
\<close>

subsection \<open>Ratings, callsigns, facilities\<close>

abbreviation (input) NetworkRatingObserver :: int where "NetworkRatingObserver \<equiv> 1"
abbreviation (input) NetworkRatingStudent1 :: int where "NetworkRatingStudent1 \<equiv> 2"
abbreviation (input) NetworkRatingStudent2 :: int where "NetworkRatingStudent2 \<equiv> 3"
abbreviation (input) NetworkRatingStudent3 :: int where "NetworkRatingStudent3 \<equiv> 4"
abbreviation (input) NetworkRatingController1 :: int where "NetworkRatingController1 \<equiv> 5"

definition is_valid_callsign_length :: "string \<Rightarrow> bool" where
  "is_valid_callsign_length cs \<longleftrightarrow> length cs \<le> 10 \<and> 2 \<le> length cs"

definition reserved_callsigns :: "string list" where
  "reserved_callsigns = [''SERVER'', ''CLIENT'', ''FP'']"

definition callsign_char :: "char \<Rightarrow> bool" where
  "callsign_char b \<longleftrightarrow> is_digit b \<or> is_upper b \<or> b = CHR ''-'' \<or> b = CHR ''_''"

definition is_valid_client_callsign :: "string \<Rightarrow> bool" where
  "is_valid_client_callsign cs \<longleftrightarrow>
     is_valid_callsign_length cs \<and> list_all callsign_char cs \<and> \<not> List.member reserved_callsigns cs"

text \<open>A type that is not in the map has the zero rating, which is refused.\<close>

definition is_allowed_facility_type :: "int \<Rightarrow> int \<Rightarrow> bool" where
  "is_allowed_facility_type rating facility =
     (if facility = 0 then True
      else
        (let min_rating =
           (case map_of [(1, NetworkRatingController1), (2, NetworkRatingStudent1), (3, NetworkRatingStudent1),
               (4, NetworkRatingStudent2), (5, NetworkRatingStudent3), (6, NetworkRatingController1)] facility of
              None \<Rightarrow> 0 | Some r \<Rightarrow> r)
         in if min_rating = 0 then False else min_rating \<le> rating))"

lemma valid_callsign_chars:
  assumes "is_valid_client_callsign cs"
  shows "CHR '':'' \<notin> set cs" "CHR 0x0A \<notin> set cs" "CHR 0x0D \<notin> set cs" "CHR ''@'' \<notin> set cs" "CHR ''*'' \<notin> set cs"
    "CHR ''#'' \<notin> set cs" "CHR ''$'' \<notin> set cs" "CHR ''%'' \<notin> set cs" "CHR ''^'' \<notin> set cs"
    "cs \<noteq> []" "cs \<noteq> ''SERVER''" "cs \<noteq> ''FP''"
proof -
  have *: "c \<notin> set cs" if "\<not> callsign_char c" for c
    using assms that by (auto simp: is_valid_client_callsign_def list_all_iff)
  have "\<not> callsign_char (CHR '':'')" "\<not> callsign_char (CHR 0x0A)" "\<not> callsign_char (CHR 0x0D)" "\<not> callsign_char (CHR ''@'')"
    "\<not> callsign_char (CHR ''*'')" "\<not> callsign_char (CHR ''#'')" "\<not> callsign_char (CHR ''$'')"
    "\<not> callsign_char (CHR ''%'')" "\<not> callsign_char (CHR ''^'')" by code_simp+
  then show "CHR '':'' \<notin> set cs" "CHR 0x0A \<notin> set cs" "CHR 0x0D \<notin> set cs" "CHR ''@'' \<notin> set cs" "CHR ''*'' \<notin> set cs"
    "CHR ''#'' \<notin> set cs" "CHR ''$'' \<notin> set cs" "CHR ''%'' \<notin> set cs" "CHR ''^'' \<notin> set cs" by (simp_all add: *)
  show "cs \<noteq> []" "cs \<noteq> ''SERVER''" "cs \<noteq> ''FP''"
    using assms by (auto simp: is_valid_client_callsign_def is_valid_callsign_length_def reserved_callsigns_def)
qed

lemma facility_rating:
  "is_allowed_facility_type rating facility \<Longrightarrow> facility \<noteq> 0 \<Longrightarrow> 1 \<le> facility \<and> facility \<le> 6 \<and> 2 \<le> rating"
  by (auto simp: is_allowed_facility_type_def Let_def split: if_splits)


subsection \<open>Token or password\<close>

text \<open>\<open>base64.StdEncoding\<close>: line ends are skipped, the padding is required.\<close>

fun std_quanta :: "string \<Rightarrow> nat list option" where
  "std_quanta [] = Some []"
| "std_quanta (a # b # c # d # r) =
     (case (b64_val a, b64_val b) of
        (Some x, Some y) \<Rightarrow>
          if c = CHR ''='' then
            (if d = CHR ''='' \<and> r = [] then Some (b64_octets [x, y]) else None)
          else
            (case b64_val c of
               None \<Rightarrow> None
             | Some z \<Rightarrow>
                 if d = CHR ''='' then (if r = [] then Some (b64_octets [x, y, z]) else None)
                 else
                   (case b64_val d of
                      None \<Rightarrow> None
                    | Some u \<Rightarrow> map_option (\<lambda>os. b64_octets [x, y, z, u] @ os) (std_quanta r)))
      | _ \<Rightarrow> None)"
| "std_quanta _ = None"

definition std_decode :: "string \<Rightarrow> string option" where
  "std_decode s = map_option (map char_of) (std_quanta (filter (\<lambda>c. c \<noteq> CHR 0x0D \<and> c \<noteq> CHR 0x0A) s))"

text \<open>The loop over the dots, with what is left of the token; it is left early at the third one.\<close>

definition dot_loop :: "string \<Rightarrow> (string \<times> nat) option" where
  "dot_loop token =
     while_option (\<lambda>(tmp, dots). index_byte (CHR ''.'') tmp \<noteq> None \<and> dots \<le> 2)
       (\<lambda>(tmp, dots). (drop (the (index_byte (CHR ''.'') tmp) + 1) tmp, dots + 1)) (token, 0)"

definition jwt_header :: "string \<Rightarrow> bool" where
  "jwt_header buf =
     (case json_parse buf of
        Some (Obj kvs) \<Rightarrow>
          (case (string_field ''alg'' kvs, string_field ''typ'' kvs) of
             (Some alg, Some typ) \<Rightarrow> alg \<noteq> [] \<and> typ \<noteq> []
           | _ \<Rightarrow> False)
      | _ \<Rightarrow> False)"

definition most_likely_jwt :: "string \<Rightarrow> bool" where
  "most_likely_jwt token =
     (case dot_loop token of
        None \<Rightarrow> False
      | Some (_, dots) \<Rightarrow>
          if dots \<noteq> 2 then False
          else
            (case index_byte (CHR ''.'') token of
               None \<Rightarrow> False
             | Some i \<Rightarrow> (case std_decode (take i token) of None \<Rightarrow> False | Some buf \<Rightarrow> jwt_header buf)))"

lemma dot_loop_count: "\<exists>tmp. dot_loop token = Some (tmp, min 3 (count_list token (CHR ''.'')))"
proof -
  let ?b = "\<lambda>(tmp, dots::nat). index_byte (CHR ''.'') tmp \<noteq> None \<and> dots \<le> 2"
  let ?c = "\<lambda>(tmp, dots::nat). (drop (the (index_byte (CHR ''.'') tmp) + 1) tmp, dots + 1)"
  let ?P = "\<lambda>(tmp, dots). count_list tmp (CHR ''.'') + dots = count_list token (CHR ''.'') \<and> dots \<le> 3"
  have step: "?P (?c s) \<and> length (fst (?c s)) < length (fst s)" if "?P s" "?b s" for s
  proof -
    obtain tmp dots where s: "s = (tmp, dots)" by fastforce
    with that(2) obtain i where "index_byte (CHR ''.'') tmp = Some i"
      by (cases "index_byte (CHR ''.'') tmp") auto
    with index_byte_split [OF this] that show ?thesis by (auto simp: s)
  qed
  obtain t where t: "while_option ?b ?c (token, 0) = Some t"
    using measure_while_option_Some [where P = ?P and b = ?b and c = ?c and f = "length \<circ> fst" and s = "(token, 0)"] step by auto
  have "?P t"
    by (rule while_option_rule [OF _ t]) (use step in auto)
  moreover have "\<not> ?b t" by (rule while_option_stop [OF t])
  ultimately have "snd t = min 3 (count_list token (CHR ''.''))"
    by (cases t) (auto simp: count_list_0_iff)
  with t show ?thesis by (cases t) (auto simp: dot_loop_def)
qed

lemma most_likely_jwt_parts:
  assumes "CHR ''.'' \<notin> set h" "CHR ''.'' \<notin> set p" "CHR ''.'' \<notin> set g"
  shows "most_likely_jwt (h @ ''.'' @ p @ ''.'' @ g)
     = (case std_decode h of None \<Rightarrow> False | Some buf \<Rightarrow> jwt_header buf)"
  using assms dot_loop_count [of "h @ ''.'' @ p @ ''.'' @ g"]
  by (auto simp: most_likely_jwt_def index_byte_append)

lemma not_jwt_without_dots: "CHR ''.'' \<notin> set token \<Longrightarrow> \<not> most_likely_jwt token"
  using dot_loop_count [of token] by (auto simp: most_likely_jwt_def)


subsection \<open>Flight plans\<close>

definition extract_flightplan_info :: "string \<Rightarrow> string" where
  "extract_flightplan_info packet =
     cut_suffix crlf
       ((rebase_to_next_field ^^ (if get_packet_type packet = Some PacketTypeFlightPlan then 2 else 3)) packet)"

definition build_flightplan_packet :: "string \<Rightarrow> string \<Rightarrow> string" where
  "build_flightplan_packet header fpl_info = header @ fpl_info @ crlf"

definition build_file_flightplan_packet :: "string \<Rightarrow> string \<Rightarrow> string \<Rightarrow> string" where
  "build_file_flightplan_packet source recipient fpl_info =
     build_flightplan_packet (''$FP'' @ source @ '':'' @ recipient @ '':'') fpl_info"

definition build_amend_flightplan_packet :: "string \<Rightarrow> string \<Rightarrow> string \<Rightarrow> string \<Rightarrow> string" where
  "build_amend_flightplan_packet source recipient target fpl_info =
     build_flightplan_packet (''$AM'' @ source @ '':'' @ recipient @ '':'' @ target @ '':'') fpl_info"

definition build_beacon_code_packet :: "string \<Rightarrow> string \<Rightarrow> string \<Rightarrow> string \<Rightarrow> string" where
  "build_beacon_code_packet source recipient target code =
     ''#PC'' @ source @ '':'' @ recipient @ '':CCP:BC:'' @ target @ '':'' @ code @ crlf"

definition send_fast_packet :: "string \<Rightarrow> bool \<Rightarrow> string" where
  "send_fast_packet cs enabled = ''$SFSERVER:'' @ cs @ '':'' @ (if enabled then ''1'' else ''0'') @ crlf"

lemma cut_suffix_append [simp]: "cut_suffix q (s @ q) = s"
  by (simp add: cut_suffix_def)

lemma cut_crlf_absent: "CHR 0x0A \<notin> set s \<Longrightarrow> cut_suffix crlf s = s"
  using in_set_dropD [of "CHR 0x0A"] unfolding cut_suffix_def by (metis list.set_intros)

lemma extract_filed_plan:
  assumes "CHR '':'' \<notin> set source" "CHR '':'' \<notin> set recipient"
  shows "extract_flightplan_info (build_file_flightplan_packet source recipient info) = info"
proof -
  have "get_packet_type (build_file_flightplan_packet source recipient info) = Some PacketTypeFlightPlan"
    using packet_type_of_prefix [of PacketTypeFlightPlan] by (simp add: build_file_flightplan_packet_def build_flightplan_packet_def)
  moreover have "(rebase_to_next_field ^^ 2) (build_file_flightplan_packet source recipient info) = info @ crlf"
    using assms rebase_simps(2) [of "''$FP'' @ source"]
    by (simp add: build_file_flightplan_packet_def build_flightplan_packet_def numeral_2_eq_2)
  ultimately show ?thesis by (simp add: extract_flightplan_info_def)
qed

lemma extract_amended_plan:
  assumes "CHR '':'' \<notin> set source" "CHR '':'' \<notin> set recipient" "CHR '':'' \<notin> set target"
  shows "extract_flightplan_info (build_amend_flightplan_packet source recipient target info) = info"
proof -
  have "get_packet_type (build_amend_flightplan_packet source recipient target info) = Some PacketTypeFlightPlanAmendment"
    using packet_type_of_prefix [of PacketTypeFlightPlanAmendment]
    by (simp add: build_amend_flightplan_packet_def build_flightplan_packet_def)
  moreover have "(rebase_to_next_field ^^ 3) (build_amend_flightplan_packet source recipient target info) = info @ crlf"
    using assms rebase_simps(2) [of "''$AM'' @ source"]
    by (simp add: build_amend_flightplan_packet_def build_flightplan_packet_def numeral_3_eq_3)
  ultimately show ?thesis by (simp add: extract_flightplan_info_def)
qed


subsection \<open>Angles\<close>

text \<open>The three 10-bit numbers in a word of 32 bits; the degrees are 359/1023 of each.\<close>

definition pitch_bank_heading :: "32 word \<Rightarrow> nat \<times> nat \<times> nat" where
  "pitch_bank_heading packed =
     (unat (and (drop_bit 22 packed) 1023), unat (and (drop_bit 12 packed) 1023), unat (and (drop_bit 2 packed) 1023))"

lemma pitch_bank_heading_le:
  assumes "pitch_bank_heading packed = (p, b, h)"
  shows "p \<le> 1023" "b \<le> 1023" "h \<le> 1023"
proof -
  have "unat (and w 1023) \<le> 1023" for w :: "32 word"
  proof -
    have "and w 1023 = take_bit 10 w" by (simp add: take_bit_eq_mask mask_eq_exp_minus_1 and.commute)
    then have "unat (and w 1023) = take_bit 10 (unat w)" by (simp add: unsigned_take_bit_eq)
    then show ?thesis by (simp add: take_bit_eq_mod)
  qed
  then show "p \<le> 1023" "b \<le> 1023" "h \<le> 1023" using assms by (auto simp: pitch_bank_heading_def)
qed

lemma hd_split_on: "index_byte c s = Some i \<Longrightarrow> hd (split_on c s) = take i s"
  by (auto dest!: index_byte_split simp: split_on_append)

text \<open>C29. The loop over the dots of a login token ends on every token, with three dots counted at
  most, and a token is taken for a JSON web token exactly when it has two dots and the first of its three
  parts is the base64 of a header with algorithm and type.\<close>

theorem dot_loop_ends:
  "(\<exists>tmp. dot_loop token = Some (tmp, min 3 (count_list token (CHR ''.''))))
   \<and> (most_likely_jwt token \<longleftrightarrow>
       count_list token (CHR ''.'') = 2
       \<and> (\<exists>buf. std_decode (hd (split_on (CHR ''.'') token)) = Some buf \<and> jwt_header buf))"
proof -
  obtain tmp where tmp: "dot_loop token = Some (tmp, min 3 (count_list token (CHR ''.'')))"
    using dot_loop_count by blast
  show ?thesis
  proof (cases "index_byte (CHR ''.'') token")
    case None
    then have "count_list token (CHR ''.'') = 0" by (simp add: count_list_0_iff)
    with tmp show ?thesis by (simp add: most_likely_jwt_def)
  next
    case (Some i)
    with tmp hd_split_on [OF Some] show ?thesis
      by (auto simp: most_likely_jwt_def min_def split: option.splits)
  qed
qed

end
