(* ===== verification/Md5.thy ===== *)
theory Md5
  imports Prelude "HOL-Library.Word"
begin

unbundle bit_operations_syntax

text \<open>
  The MD5 digest of Go's standard library (\<open>crypto/md5\<close>, RFC 1321), which the challenges of the
  FSD clients are answered with. Octets are characters, words have 32 bits and are read with
  the lowest octet first.
\<close>

type_synonym word32 = "32 word"

definition md5_table :: "word32 list" where
  "md5_table = [
     3614090360, 3905402710, 606105819, 3250441966, 4118548399, 1200080426,
     2821735955, 4249261313, 1770035416, 2336552879, 4294925233, 2304563134,
     1804603682, 4254626195, 2792965006, 1236535329, 4129170786, 3225465664,
     643717713, 3921069994, 3593408605, 38016083, 3634488961, 3889429448,
     568446438, 3275163606, 4107603335, 1163531501, 2850285829, 4243563512,
     1735328473, 2368359562, 4294588738, 2272392833, 1839030562, 4259657740,
     2763975236, 1272893353, 4139469664, 3200236656, 681279174, 3936430074,
     3572445317, 76029189, 3654602809, 3873151461, 530742520, 3299628645,
     4096336452, 1126891415, 2878612391, 4237533241, 1700485571, 2399980690,
     4293915773, 2240044497, 1873313359, 4264355552, 2734768916, 1309151649,
     4149444226, 3174756917, 718787259, 3951481745]"

definition md5_shifts :: "nat list" where
  "md5_shifts = [7, 12, 17, 22, 5, 9, 14, 20, 4, 11, 16, 23, 6, 10, 15, 21]"

definition word_of_octets :: "string \<Rightarrow> word32" where
  "word_of_octets s = word_of_int (foldr (\<lambda>c n. of_char c + 256 * n) s 0)"

definition octets_of_int :: "nat \<Rightarrow> int \<Rightarrow> string" where
  "octets_of_int k n = map (\<lambda>i. char_of (n div 256 ^ i mod 256)) [0..<k]"

fun words_of :: "string \<Rightarrow> word32 list" where
  "words_of (a # b # c # d # r) = word_of_octets [a, b, c, d] # words_of r"
| "words_of _ = []"

text \<open>The message, a one bit, zeros up to 56 octets modulo 64, and its length in bits.\<close>

definition md5_pad :: "string \<Rightarrow> string" where
  "md5_pad s =
     s @ CHR 0x80 # replicate ((119 - length s mod 64) mod 64) (CHR 0x00) @ octets_of_int 8 (8 * int (length s) mod 2 ^ 64)"

definition md5_step :: "word32 list \<Rightarrow> nat \<Rightarrow> word32 \<times> word32 \<times> word32 \<times> word32 \<Rightarrow> word32 \<times> word32 \<times> word32 \<times> word32" where
  "md5_step m i = (\<lambda>(a, b, c, d).
     let r = i div 16;
         f = (if r = 0 then (b AND c) OR (NOT b AND d)
              else if r = 1 then (d AND b) OR (NOT d AND c)
              else if r = 2 then b XOR c XOR d
              else c XOR (b OR NOT d));
         g = (if r = 0 then i else if r = 1 then (5 * i + 1) mod 16 else if r = 2 then (3 * i + 5) mod 16 else 7 * i mod 16);
         x = a + f + md5_table ! i + m ! g
     in (d, b + word_rotl (md5_shifts ! (4 * r + i mod 4)) x, b, c))"

definition md5_block :: "word32 list \<Rightarrow> word32 \<times> word32 \<times> word32 \<times> word32 \<Rightarrow> word32 \<times> word32 \<times> word32 \<times> word32" where
  "md5_block m h =
     (case (h, fold (md5_step m) [0..<64] h) of
        ((a0, b0, c0, d0), (a, b, c, d)) \<Rightarrow> (a0 + a, b0 + b, c0 + c, d0 + d))"

fun md5_blocks :: "nat \<Rightarrow> word32 list \<Rightarrow> word32 \<times> word32 \<times> word32 \<times> word32 \<Rightarrow> word32 \<times> word32 \<times> word32 \<times> word32" where
  "md5_blocks 0 ws h = h"
| "md5_blocks (Suc n) ws h = md5_blocks n (drop 16 ws) (md5_block (take 16 ws) h)"

definition md5_sum :: "string \<Rightarrow> string" where
  "md5_sum s =
     (let ws = words_of (md5_pad s) in
      case md5_blocks (length ws div 16) ws (0x67452301, 0xEFCDAB89, 0x98BADCFE, 0x10325476) of
        (a, b, c, d) \<Rightarrow> concat (map (octets_of_int 4 \<circ> uint) [a, b, c, d]))"

lemma length_octets [simp]: "length (octets_of_int k n) = k"
  by (simp add: octets_of_int_def)

lemma length_md5_sum [simp]: "length (md5_sum s) = 16"
  by (simp add: md5_sum_def Let_def split: prod.split)

end
