(* ===== verification/Fsd_Challenge.thy ===== *)
theory Fsd_Challenge
  imports Md5 Repositories
begin

text \<open>
  \<open>fsd/vatsimauth.go\<close>: the answers to the challenges of FSD clients. The state is the digest of the
  initial challenge, the current digest, and the number of the client program, whose key is
  built into the server.
\<close>

definition vatsim_auth_keys :: "(16 word \<times> string) list" where
  "vatsim_auth_keys = [
     (8464, ''945507c4c50222c34687e742729252e6''),
     (10452, ''0ad74157c7f449c216bfed04f3af9fb9''),
     (24515, ''3424cbcebcca6fe95f973b350ff85cef''),
     (27095, ''3518a62c421937ffa46ac3316957da43''),
     (33456, ''52d9343020e9c7d0c6b04b0cca20ad3b''),
     (35044, ''fe28334fb753cf0e3d19942197b9ce3e''),
     (48312, ''bc2eb1ef4d96709c683084055dd5e83f''),
     (55538, ''ImuL1WbbhVuD8d3MuKpWn2rrLZRa9iVP''),
     (56862, ''3518a62c421937ffa46ac3316957da43'')]"

record vatsim_auth_state =
  auth_init :: string
  auth_curr :: string
  auth_clientId :: "16 word"

definition no_auth_state :: vatsim_auth_state where
  "no_auth_state = \<lparr>auth_init = replicate 16 (CHR 0x00), auth_curr = replicate 16 (CHR 0x00), auth_clientId = 0\<rparr>"

text \<open>One round: the parts of the current digest and the halves of the challenge, interleaved.\<close>

definition run_obfuscation_round :: "16 word \<Rightarrow> string \<Rightarrow> string \<Rightarrow> string" where
  "run_obfuscation_round client_id digest challenge =
     (let half = length challenge div 2;
          (c1, c2) = (if and client_id 1 = 1 then (drop half challenge, take half challenge)
                      else (take half challenge, drop half challenge));
          s1 = take 12 digest; s2 = take 10 (drop 12 digest); s3 = take 10 (drop 22 digest)
      in md5_sum
          (if client_id mod 3 = 0 then s1 @ c1 @ s2 @ c2 @ s3
           else if client_id mod 3 = 1 then s2 @ c1 @ s3 @ c2 @ s1
           else s3 @ c1 @ s1 @ c2 @ s2))"

definition auth_initialize :: "16 word \<Rightarrow> string \<Rightarrow> vatsim_auth_state option" where
  "auth_initialize client_id challenge =
     (case map_of vatsim_auth_keys client_id of
        None \<Rightarrow> None
      | Some key \<Rightarrow>
          (let d = run_obfuscation_round client_id key challenge
           in Some \<lparr>auth_init = d, auth_curr = d, auth_clientId = client_id\<rparr>))"

definition get_response_for_challenge :: "string \<Rightarrow> vatsim_auth_state \<Rightarrow> string" where
  "get_response_for_challenge challenge st =
     hex_encode (run_obfuscation_round (auth_clientId st) (hex_encode (auth_curr st)) challenge)"

definition update_state :: "string \<Rightarrow> vatsim_auth_state \<Rightarrow> vatsim_auth_state" where
  "update_state d st = st\<lparr>auth_curr := md5_sum (hex_encode (auth_init st) @ d)\<rparr>"


subsection \<open>Lemmas\<close>

lemma response_length: "length (get_response_for_challenge challenge st) = 32"
  by (simp add: get_response_for_challenge_def hex_encode_length run_obfuscation_round_def Let_def split: prod.split)

end
