(* ===== verification/Fsd_Post_Office.thy ===== *)
theory Fsd_Post_Office
  imports Fsd_Util Fsd_Challenge "HOL-Library.Multiset"
begin

text \<open>
  \<open>fsd/client.go\<close> and \<open>fsd/postoffice.go\<close>: the connected clients, the post office that finds them by
  callsign and by position, and sending. The clients are objects that several parts share: the
  state holds them under addresses, and the map of callsigns and the R-tree hold addresses.

  Parameters are the R-tree (a third-party package) and the arithmetic of float64: a type
  \<open>'f\<close> with the operations the code applies to it, so that what is shown holds for rounded
  numbers, infinities and values that are not numbers. Also a parameter is which case a
  \<open>select\<close> takes when both are ready, that is when a packet is sent to a client whose context is
  already done. The queue of a client is what was put into its channel, in order; that a full
  queue makes the sender wait is not modelled.
\<close>

subsection \<open>State\<close>

type_synonym 'f point = "'f \<times> 'f"
type_synonym 'f box = "'f point \<times> 'f point"

record ('f, 't) fsdlib =
  parse_float :: "string \<Rightarrow> 'f option"
  lit :: "int \<Rightarrow> int \<Rightarrow> 'f"
  degToRad :: 'f
  metersPerDegreeLat :: 'f
  max_float :: 'f
  f_add :: "'f \<Rightarrow> 'f \<Rightarrow> 'f"
  f_sub :: "'f \<Rightarrow> 'f \<Rightarrow> 'f"
  f_mul :: "'f \<Rightarrow> 'f \<Rightarrow> 'f"
  f_div :: "'f \<Rightarrow> 'f \<Rightarrow> 'f"
  f_sin :: "'f \<Rightarrow> 'f"
  f_cos :: "'f \<Rightarrow> 'f"
  f_sqrt :: "'f \<Rightarrow> 'f"
  f_atan2 :: "'f \<Rightarrow> 'f \<Rightarrow> 'f"
  f_less :: "'f \<Rightarrow> 'f \<Rightarrow> bool"
  f_eq :: "'f \<Rightarrow> 'f \<Rightarrow> bool"
  f_trunc :: "'f \<Rightarrow> int"
  rt_insert :: "'f box \<Rightarrow> nat \<Rightarrow> 't \<Rightarrow> 't"
  rt_delete :: "'f box \<Rightarrow> nat \<Rightarrow> 't \<Rightarrow> 't"
  rt_search :: "'f box \<Rightarrow> 't \<Rightarrow> nat list"
  picks_send :: "nat \<Rightarrow> string \<Rightarrow> bool"

record login_data =
  clientChallenge :: string
  callsign :: string
  client_cid :: int
  realName :: string
  networkRating :: int
  maxNetworkRating :: int
  protoRevision :: int
  loginTime :: int
  clientId :: "16 word"
  isAtc :: bool

record 'f client = login_data +
  remoteAddr :: string
  coords :: "'f point"
  visRange :: 'f
  closestVelocityClientDistance :: 'f
  flightPlan :: string
  assignedBeaconCode :: string
  frequency :: string
  altitude :: "32 word"
  groundspeed :: "32 word"
  transponder :: string
  heading :: "32 word"
  lastUpdated :: int
  facilityType :: int
  authState :: vatsim_auth_state
  sendFastEnabled :: bool
  cancelled :: bool
  outbox :: "string list"

record ('f, 't) net = web +
  clients :: "nat \<Rightarrow> 'f client"
  next_client :: nat
  clientMap :: "(string \<times> nat) list"
  tree :: 't
  metarRequests :: "(nat \<times> string) list"

abbreviation modify :: "nat \<Rightarrow> ('f client \<Rightarrow> 'f client) \<Rightarrow> ('f, 't, 'x) net_scheme \<Rightarrow> ('f, 't, 'x) net_scheme" where
  "modify a f s \<equiv> s\<lparr>clients := (clients s)(a := f (clients s a))\<rparr>"


subsection \<open>Sending to a client\<close>

definition client_send ::
    "('f, 't) fsdlib \<Rightarrow> nat \<Rightarrow> string \<Rightarrow> ('f, 't, 'x) net_scheme \<Rightarrow> bool \<times> ('f, 't, 'x) net_scheme" where
  "client_send lib a packet s =
     (if cancelled (clients s a) \<and> \<not> picks_send lib a packet then (False, s)
      else (True, modify a (\<lambda>c. c\<lparr>outbox := outbox c @ [packet]\<rparr>) s))"

definition send_error ::
    "('f, 't) fsdlib \<Rightarrow> nat \<Rightarrow> nat \<Rightarrow> string \<Rightarrow> ('f, 't, 'x) net_scheme \<Rightarrow> ('f, 't, 'x) net_scheme" where
  "send_error lib a code msg s = snd (client_send lib a (error_packet code msg) s)"

definition cancel_ctx :: "nat \<Rightarrow> ('f, 't, 'x) net_scheme \<Rightarrow> ('f, 't, 'x) net_scheme" where
  "cancel_ctx a s = modify a (\<lambda>c. c\<lparr>cancelled := True\<rparr>) s"


subsection \<open>The post office\<close>

definition calculate_bounding_box :: "('f, 't) fsdlib \<Rightarrow> 'f point \<Rightarrow> 'f \<Rightarrow> 'f box" where
  "calculate_bounding_box lib center radius =
     (let latRad = f_mul lib (fst center) (degToRad lib);
          deltaLat = f_div lib radius (metersPerDegreeLat lib);
          metersPerDegreeLon = f_mul lib (metersPerDegreeLat lib) (f_cos lib latRad);
          deltaLon = f_div lib radius metersPerDegreeLon
      in ((f_sub lib (fst center) deltaLat, f_sub lib (snd center) deltaLon),
          (f_add lib (fst center) deltaLat, f_add lib (snd center) deltaLon)))"

definition distance :: "('f, 't) fsdlib \<Rightarrow> 'f \<Rightarrow> 'f \<Rightarrow> 'f \<Rightarrow> 'f \<Rightarrow> 'f" where
  "distance lib lat1 lon1 lat2 lon2 =
     (let mul = f_mul lib; half = lit lib 5 (-1);
          dLat = mul (f_sub lib lat2 lat1) (degToRad lib);
          dLon = mul (f_sub lib lon2 lon1) (degToRad lib);
          sinDLat2 = f_sin lib (mul dLat half);
          sinDLon2 = f_sin lib (mul dLon half);
          cosLat1 = f_cos lib (mul lat1 (degToRad lib));
          cosLat2 = f_cos lib (mul lat2 (degToRad lib));
          a = f_add lib (mul sinDLat2 sinDLat2) (mul (mul (mul cosLat1 cosLat2) sinDLon2) sinDLon2);
          c = mul (lit lib 2 0) (f_atan2 lib (f_sqrt lib a) (f_sqrt lib (f_sub lib (lit lib 1 0) a)))
      in mul (lit lib 6371000 0) c)"

definition client_box :: "('f, 't) fsdlib \<Rightarrow> 'f client \<Rightarrow> 'f box" where
  "client_box lib c = calculate_bounding_box lib (coords c) (visRange c)"

definition post_register ::
    "('f, 't) fsdlib \<Rightarrow> nat \<Rightarrow> ('f, 't, 'x) net_scheme \<Rightarrow> bool \<times> ('f, 't, 'x) net_scheme" where
  "post_register lib a s =
     (let c = clients s a in
      if map_of (clientMap s) (callsign c) \<noteq> None then (False, s)
      else (True, s\<lparr>clientMap := clientMap s @ [(callsign c, a)], tree := rt_insert lib (client_box lib c) a (tree s)\<rparr>))"

definition post_release ::
    "('f, 't) fsdlib \<Rightarrow> nat \<Rightarrow> ('f, 't, 'x) net_scheme \<Rightarrow> ('f, 't, 'x) net_scheme" where
  "post_release lib a s =
     (let c = clients s a in
      s\<lparr>clientMap := filter (\<lambda>(cs, b). cs \<noteq> callsign c) (clientMap s),
        tree := rt_delete lib (client_box lib c) a (tree s)\<rparr>)"

text \<open>\<open>==\<close> of Go on the corners.\<close>

definition same_box :: "('f, 't) fsdlib \<Rightarrow> 'f box \<Rightarrow> 'f box \<Rightarrow> bool" where
  "same_box lib b b' \<longleftrightarrow>
     f_eq lib (fst (fst b)) (fst (fst b')) \<and> f_eq lib (snd (fst b)) (snd (fst b')) \<and>
     f_eq lib (fst (snd b)) (fst (snd b')) \<and> f_eq lib (snd (snd b)) (snd (snd b'))"

definition update_position ::
    "('f, 't) fsdlib \<Rightarrow> nat \<Rightarrow> 'f point \<Rightarrow> 'f \<Rightarrow> ('f, 't, 'x) net_scheme \<Rightarrow> ('f, 't, 'x) net_scheme" where
  "update_position lib a newCenter newVisRange s =
     (let old = client_box lib (clients s a);
          new = calculate_bounding_box lib newCenter newVisRange;
          s1 = modify a (\<lambda>c. c\<lparr>coords := newCenter, visRange := newVisRange\<rparr>) s
      in if same_box lib old new then s1
         else s1\<lparr>tree := rt_insert lib new a (rt_delete lib old a (tree s1))\<rparr>)"

text \<open>One client the search came across; the callbacks of the program never stop the search.\<close>

definition visit ::
    "('f, 't) fsdlib \<Rightarrow> nat \<Rightarrow> (nat \<Rightarrow> ('f, 't, 'x) net_scheme \<Rightarrow> ('f, 't, 'x) net_scheme) \<Rightarrow> nat
       \<Rightarrow> ('f, 't, 'x) net_scheme \<Rightarrow> ('f, 't, 'x) net_scheme" where
  "visit lib a callback b s =
     (if b = a then s
      else
        (let me = clients s a; found = clients s b;
             dist = distance lib (fst (coords me)) (snd (coords me)) (fst (coords found)) (snd (coords found))
         in callback b
              (if \<not> isAtc me \<and> protoRevision me = 101 \<and> protoRevision found = 101
                  \<and> f_less lib dist (closestVelocityClientDistance me)
               then modify a (\<lambda>c. c\<lparr>closestVelocityClientDistance := dist\<rparr>) s else s)))"

definition post_search ::
    "('f, 't) fsdlib \<Rightarrow> nat \<Rightarrow> (nat \<Rightarrow> ('f, 't, 'x) net_scheme \<Rightarrow> ('f, 't, 'x) net_scheme)
       \<Rightarrow> ('f, 't, 'x) net_scheme \<Rightarrow> ('f, 't, 'x) net_scheme" where
  "post_search lib a callback s =
     fold (visit lib a callback) (rt_search lib (client_box lib (clients s a)) (tree s))
       (modify a (\<lambda>c. c\<lparr>closestVelocityClientDistance := max_float lib\<rparr>) s)"

definition post_find :: "string \<Rightarrow> ('f, 't, 'x) net_scheme \<Rightarrow> nat option" where
  "post_find cs s = map_of (clientMap s) cs"

definition post_send ::
    "('f, 't) fsdlib \<Rightarrow> string \<Rightarrow> string \<Rightarrow> ('f, 't, 'x) net_scheme \<Rightarrow> bool \<times> ('f, 't, 'x) net_scheme" where
  "post_send lib cs packet s =
     (case map_of (clientMap s) cs of None \<Rightarrow> (False, s) | Some b \<Rightarrow> client_send lib b packet s)"

definition post_all ::
    "nat \<Rightarrow> (nat \<Rightarrow> ('f, 't, 'x) net_scheme \<Rightarrow> ('f, 't, 'x) net_scheme)
       \<Rightarrow> ('f, 't, 'x) net_scheme \<Rightarrow> ('f, 't, 'x) net_scheme" where
  "post_all a callback s = fold (\<lambda>b s. if b = a then s else callback b s) (map snd (clientMap s)) s"


subsection \<open>Broadcasts\<close>

definition broadcast_ranged ::
    "('f, 't) fsdlib \<Rightarrow> nat \<Rightarrow> string \<Rightarrow> ('f, 't, 'x) net_scheme \<Rightarrow> ('f, 't, 'x) net_scheme" where
  "broadcast_ranged lib a packet = post_search lib a (\<lambda>b s. snd (client_send lib b packet s))"

definition broadcast_ranged_velocity ::
    "('f, 't) fsdlib \<Rightarrow> nat \<Rightarrow> string \<Rightarrow> ('f, 't, 'x) net_scheme \<Rightarrow> ('f, 't, 'x) net_scheme" where
  "broadcast_ranged_velocity lib a packet =
     post_search lib a (\<lambda>b s. if protoRevision (clients s b) \<noteq> 101 then s else snd (client_send lib b packet s))"

definition broadcast_ranged_atc_only ::
    "('f, 't) fsdlib \<Rightarrow> nat \<Rightarrow> string \<Rightarrow> ('f, 't, 'x) net_scheme \<Rightarrow> ('f, 't, 'x) net_scheme" where
  "broadcast_ranged_atc_only lib a packet =
     post_search lib a (\<lambda>b s. if \<not> isAtc (clients s b) then s else snd (client_send lib b packet s))"

definition broadcast_all ::
    "('f, 't) fsdlib \<Rightarrow> nat \<Rightarrow> string \<Rightarrow> ('f, 't, 'x) net_scheme \<Rightarrow> ('f, 't, 'x) net_scheme" where
  "broadcast_all lib a packet = post_all a (\<lambda>b s. snd (client_send lib b packet s))"

definition broadcast_all_atc ::
    "('f, 't) fsdlib \<Rightarrow> nat \<Rightarrow> string \<Rightarrow> ('f, 't, 'x) net_scheme \<Rightarrow> ('f, 't, 'x) net_scheme" where
  "broadcast_all_atc lib a packet =
     post_all a (\<lambda>b s. if \<not> isAtc (clients s b) then s else snd (client_send lib b packet s))"

definition broadcast_all_supervisors ::
    "('f, 't) fsdlib \<Rightarrow> nat \<Rightarrow> string \<Rightarrow> ('f, 't, 'x) net_scheme \<Rightarrow> ('f, 't, 'x) net_scheme" where
  "broadcast_all_supervisors lib a packet =
     post_all a (\<lambda>b s. if networkRating (clients s b) < NetworkRatingSupervisor then s
                       else snd (client_send lib b packet s))"

definition send_direct_or_err ::
    "('f, 't) fsdlib \<Rightarrow> nat \<Rightarrow> string \<Rightarrow> string \<Rightarrow> ('f, 't, 'x) net_scheme \<Rightarrow> ('f, 't, 'x) net_scheme" where
  "send_direct_or_err lib a recipient packet s =
     (case post_send lib recipient packet s of
        (True, s1) \<Rightarrow> s1
      | (False, s1) \<Rightarrow> send_error lib a NoSuchCallsignError ''No such callsign'' s1)"

definition forward_client_query ::
    "('f, 't) fsdlib \<Rightarrow> nat \<Rightarrow> string \<Rightarrow> ('f, 't, 'x) net_scheme \<Rightarrow> ('f, 't, 'x) net_scheme" where
  "forward_client_query lib a packet s =
     (let recipient = get_field packet 1 in
      if length recipient < 2 then send_error lib a NoSuchCallsignError ''Invalid recipient'' s
      else if recipient = ''@94835'' then broadcast_ranged_atc_only lib a packet s
      else if recipient = ''@94836'' then broadcast_ranged lib a packet s
      else send_direct_or_err lib a recipient packet s)"

end
