(* ===== verification/Fsd_Delivery.thy ===== *)
theory Fsd_Delivery
  imports Fsd_Post_Office
begin

text \<open>
  What the post office does, in terms of which queues a packet reaches: every broadcast is the
  delivery of the packet to a set of clients. The contract of the R-tree, the invariant that the
  map of callsigns and the tree agree, and that registering, releasing and moving keep it.
\<close>

subsection \<open>What a delivery changes\<close>

text \<open>A packet is put into the queues of a set of clients; nothing else changes.\<close>

definition receive :: "('f, 't) fsdlib \<Rightarrow> nat \<Rightarrow> string \<Rightarrow> 'f client \<Rightarrow> 'f client" where
  "receive lib b packet c =
     (if cancelled c \<and> \<not> picks_send lib b packet then c else c\<lparr>outbox := outbox c @ [packet]\<rparr>)"

definition deliver ::
    "('f, 't) fsdlib \<Rightarrow> nat set \<Rightarrow> string \<Rightarrow> ('f, 't, 'x) net_scheme \<Rightarrow> ('f, 't, 'x) net_scheme" where
  "deliver lib S packet s =
     s\<lparr>clients := (\<lambda>b. if b \<in> S then receive lib b packet (clients s b) else clients s b)\<rparr>"

definition set_closest :: "nat \<Rightarrow> 'f \<Rightarrow> ('f, 't, 'x) net_scheme \<Rightarrow> ('f, 't, 'x) net_scheme" where
  "set_closest a d s = modify a (\<lambda>c. c\<lparr>closestVelocityClientDistance := d\<rparr>) s"

text \<open>The addresses in the map, and everyone but one client for whom a test holds.\<close>

definition registered :: "('f, 't, 'x) net_scheme \<Rightarrow> nat set" where
  "registered s = snd ` set (clientMap s)"

lemma receive_simps [simp]:
  "login_data.truncate (receive lib b p c) = login_data.truncate c"
  "callsign (receive lib b p c) = callsign c" "isAtc (receive lib b p c) = isAtc c"
  "networkRating (receive lib b p c) = networkRating c" "maxNetworkRating (receive lib b p c) = maxNetworkRating c"
  "protoRevision (receive lib b p c) = protoRevision c" "client_cid (receive lib b p c) = client_cid c"
  "coords (receive lib b p c) = coords c" "visRange (receive lib b p c) = visRange c"
  "flightPlan (receive lib b p c) = flightPlan c" "facilityType (receive lib b p c) = facilityType c"
  "cancelled (receive lib b p c) = cancelled c"
  by (simp_all add: receive_def login_data.defs)

lemma client_send_deliver: "snd (client_send lib b p s) = deliver lib {b} p s"
  by (auto simp: client_send_def deliver_def receive_def intro!: net.equality)

lemma deliver_empty [simp]: "deliver lib {} p s = s"
  by (simp add: deliver_def)

lemma deliver_clients:
  "clients (deliver lib S p s) b = (if b \<in> S then receive lib b p (clients s b) else clients s b)"
  by (simp add: deliver_def)

lemma deliver_simps [simp]:
  "clientMap (deliver lib S p s) = clientMap s" "tree (deliver lib S p s) = tree s"
  "registered (deliver lib S p s) = registered s" "next_client (deliver lib S p s) = next_client s"
  "web.truncate (deliver lib S p s) = web.truncate s" "metarRequests (deliver lib S p s) = metarRequests s"
  by (simp_all add: deliver_def registered_def web.defs)

lemma set_closest_clients:
  "clients (set_closest a d s) b = (if b = a then (clients s a)\<lparr>closestVelocityClientDistance := d\<rparr> else clients s b)"
  by (simp add: set_closest_def)

lemma set_closest_simps [simp]:
  "clientMap (set_closest a d s) = clientMap s" "tree (set_closest a d s) = tree s"
  "registered (set_closest a d s) = registered s" "next_client (set_closest a d s) = next_client s"
  "web.truncate (set_closest a d s) = web.truncate s" "metarRequests (set_closest a d s) = metarRequests s"
  "set_closest a d (set_closest a d' s) = set_closest a d s"
  by (simp_all add: set_closest_def registered_def web.defs)

lemma deliver_insert:
  "b \<notin> S \<Longrightarrow> deliver lib S p (deliver lib {b} p s) = deliver lib (insert b S) p s"
  by (auto simp: deliver_def fun_eq_iff intro!: net.equality)

lemma deliver_set_closest:
  "a \<notin> S \<Longrightarrow> deliver lib S p (set_closest a d s) = set_closest a d (deliver lib S p s)"
  by (auto simp: deliver_def set_closest_def intro!: net.equality)

text \<open>A loop over clients that sends to those who pass a test on their login data.\<close>

definition login_test :: "('f client \<Rightarrow> bool) \<Rightarrow> bool" where
  "login_test P \<longleftrightarrow> (\<forall>c c'. login_data.truncate c = login_data.truncate c' \<longrightarrow> P c = P c')"

lemma login_tests:
  "login_test (\<lambda>_. True)" "login_test isAtc" "login_test (\<lambda>c. protoRevision c = 101)"
  "login_test (\<lambda>c. \<not> networkRating c < k)"
  by (simp_all add: login_test_def login_data.defs)

lemma login_test_receive [simp]: "login_test P \<Longrightarrow> P (receive lib b p c) = P c"
  unfolding login_test_def using receive_simps(1) by blast

lemma all_fold:
  assumes "login_test P" "distinct bs"
  shows "fold (\<lambda>b s. if b = a then s else if P (clients s b) then snd (client_send lib b p s) else s) bs s
     = deliver lib {b \<in> set bs. b \<noteq> a \<and> P (clients s b)} p s"
  using assms(2)
proof (induction bs arbitrary: s)
  case (Cons b bs)
  let ?S = "{b \<in> set bs. b \<noteq> a \<and> P (clients s b)}"
  show ?case
  proof (cases "b \<noteq> a \<and> P (clients s b)")
    case True
    then have "{b' \<in> set bs. b' \<noteq> a \<and> P (clients (deliver lib {b} p s) b')} = ?S"
      using Cons.prems by (auto simp: deliver_clients)
    moreover have "{b' \<in> set (b # bs). b' \<noteq> a \<and> P (clients s b')} = insert b ?S" "b \<notin> ?S"
      using True Cons.prems by auto
    ultimately show ?thesis
      using True Cons by (simp add: client_send_deliver deliver_insert)
  next
    case False
    then have "{b' \<in> set (b # bs). b' \<noteq> a \<and> P (clients s b')} = ?S" by auto
    with False Cons show ?thesis by auto
  qed
qed simp

lemma visit_callback:
  assumes "b \<noteq> a"
  shows "\<exists>d1. visit lib a callback b (set_closest a d0 s) = callback b (set_closest a d1 s)"
proof -
  have m: "modify a (\<lambda>c. c\<lparr>closestVelocityClientDistance := d\<rparr>) t = set_closest a d t" for d t
    by (simp add: set_closest_def)
  show ?thesis
    using assms by (simp add: visit_def Let_def m) (metis set_closest_simps(7))
qed

lemma search_fold:
  assumes "login_test P" "distinct bs"
  shows "\<exists>d. fold (visit lib a (\<lambda>b s. if P (clients s b) then snd (client_send lib b p s) else s)) bs (set_closest a d0 s)
     = set_closest a d (deliver lib {b \<in> set bs. b \<noteq> a \<and> P (clients s b)} p s)"
  using assms(2)
proof (induction bs arbitrary: s d0)
  case (Cons b bs)
  let ?f = "visit lib a (\<lambda>b s. if P (clients s b) then snd (client_send lib b p s) else s)"
  let ?S = "{b \<in> set bs. b \<noteq> a \<and> P (clients s b)}"
  show ?case
  proof (cases "b = a")
    case True
    then have "{b' \<in> set (b # bs). b' \<noteq> a \<and> P (clients s b')} = ?S" by auto
    with True Cons show ?thesis by (simp add: visit_def)
  next
    case False
    let ?cb = "\<lambda>b s. if P (clients s b) then snd (client_send lib b p s) else s"
    obtain d1 where v: "visit lib a ?cb b (set_closest a d0 s) = ?cb b (set_closest a d1 s)"
      using visit_callback [OF False, of lib ?cb d0 s] by blast
    have d1: "?f b (set_closest a d0 s) = set_closest a d1 (if P (clients s b) then deliver lib {b} p s else s)"
      unfolding v using False by (simp add: Let_def set_closest_clients client_send_deliver deliver_set_closest)
    have same: "{b' \<in> set bs. b' \<noteq> a \<and> P (clients (deliver lib {b} p s) b')} = ?S"
      using Cons.prems by (auto simp: deliver_clients)
    show ?thesis
    proof (cases "P (clients s b)")
      case True
      moreover have "{b' \<in> set (b # bs). b' \<noteq> a \<and> P (clients s b')} = insert b ?S" "b \<notin> ?S"
        using True False Cons.prems by auto
      ultimately show ?thesis
        using Cons.IH [of d1 "deliver lib {b} p s"] Cons.prems unfolding same by (simp add: d1 deliver_insert)
    next
      case f: False
      then have "{b' \<in> set (b # bs). b' \<noteq> a \<and> P (clients s b')} = ?S" by auto
      with f show ?thesis using Cons by (simp add: d1)
    qed
  qed
qed auto

lemma search_sends:
  assumes "login_test P" "distinct (rt_search lib (client_box lib (clients s a)) (tree s))"
  shows "\<exists>d. post_search lib a (\<lambda>b s. if P (clients s b) then snd (client_send lib b p s) else s) s
     = set_closest a d (deliver lib {b \<in> set (rt_search lib (client_box lib (clients s a)) (tree s)).
         b \<noteq> a \<and> P (clients s b)} p s)"
  using search_fold [OF assms, of lib a p "max_float lib" s] by (simp add: post_search_def set_closest_def)


subsection \<open>The contract of the R-tree\<close>

text \<open>
  A box is comparable when none of its corners is NaN. Two closed boxes overlap when neither
  lies beyond the other. What the package documents: inserting adds an entry, searching visits
  the entries whose boxes overlap the given one, each once; deleting removes the entry of an
  item that has one, given its box.
\<close>

definition comparable :: "('f, 't) fsdlib \<Rightarrow> 'f box \<Rightarrow> bool" where
  "comparable lib b \<longleftrightarrow> same_box lib b b"

definition overlaps :: "('f, 't) fsdlib \<Rightarrow> 'f box \<Rightarrow> 'f box \<Rightarrow> bool" where
  "overlaps lib b b' \<longleftrightarrow>
     \<not> f_less lib (fst (snd b')) (fst (fst b)) \<and> \<not> f_less lib (fst (snd b)) (fst (fst b')) \<and>
     \<not> f_less lib (snd (snd b')) (snd (fst b)) \<and> \<not> f_less lib (snd (snd b)) (snd (fst b'))"

definition rtree_ok :: "('f, 't) fsdlib \<Rightarrow> ('t \<Rightarrow> ('f box \<times> nat) multiset) \<Rightarrow> bool" where
  "rtree_ok lib entries \<longleftrightarrow>
     (\<forall>b a t. entries (rt_insert lib b a t) = add_mset (b, a) (entries t)) \<and>
     (\<forall>b b' a t. filter_mset (\<lambda>e. snd e = a) (entries t) = {#(b', a)#} \<and> same_box lib b b' \<longrightarrow>
        entries (rt_delete lib b a t) = entries t - {#(b', a)#}) \<and>
     (\<forall>b t. mset (rt_search lib b t) = image_mset snd (filter_mset (\<lambda>e. overlaps lib b (fst e)) (entries t)))"

lemma rtree_okD:
  assumes "rtree_ok lib entries"
  shows "entries (rt_insert lib b a t) = add_mset (b, a) (entries t)"
    "filter_mset (\<lambda>e. snd e = a) (entries t) = {#(b', a)#} \<Longrightarrow> same_box lib b b' \<Longrightarrow>
       entries (rt_delete lib b a t) = entries t - {#(b', a)#}"
    "mset (rt_search lib b t) = image_mset snd (filter_mset (\<lambda>e. overlaps lib b (fst e)) (entries t))"
  using assms unfolding rtree_ok_def by blast+

text \<open>Of float64: \<open>==\<close> is symmetric and transitive, and \<open><\<close> does not tell equal numbers apart.\<close>

definition arith_ok :: "('f, 't) fsdlib \<Rightarrow> bool" where
  "arith_ok lib \<longleftrightarrow>
     (\<forall>x y. f_eq lib x y \<longrightarrow> f_eq lib y x) \<and>
     (\<forall>x y z. f_eq lib x y \<and> f_eq lib y z \<longrightarrow> f_eq lib x z) \<and>
     (\<forall>x y z. f_eq lib x y \<longrightarrow> f_less lib x z = f_less lib y z \<and> f_less lib z x = f_less lib z y)"

lemma arith_okD:
  assumes "arith_ok lib"
  shows "f_eq lib x y \<Longrightarrow> f_eq lib y x" "f_eq lib x y \<Longrightarrow> f_eq lib y z \<Longrightarrow> f_eq lib x z"
    "f_eq lib x y \<Longrightarrow> f_less lib x z = f_less lib y z" "f_eq lib x y \<Longrightarrow> f_less lib z x = f_less lib z y"
proof -
  note a = assms [unfolded arith_ok_def]
  show "f_eq lib x y \<Longrightarrow> f_eq lib y x" by (rule conjunct1 [OF a, rule_format])
  show "f_eq lib x y \<Longrightarrow> f_eq lib y z \<Longrightarrow> f_eq lib x z"
    by (rule conjunct1 [OF conjunct2 [OF a], rule_format, OF conjI])
  show "f_eq lib x y \<Longrightarrow> f_less lib x z = f_less lib y z" "f_eq lib x y \<Longrightarrow> f_less lib z x = f_less lib z y"
    using conjunct2 [OF conjunct2 [OF a], rule_format] by simp_all
qed

lemma same_box_trans:
  assumes "arith_ok lib" "same_box lib b b'" "same_box lib b' b''"
  shows "same_box lib b b''"
  using assms(2,3) unfolding same_box_def by (elim conjE, intro conjI) (erule (1) arith_okD(2) [OF assms(1)])+

lemma same_box_sym:
  assumes "arith_ok lib" "same_box lib b b'"
  shows "same_box lib b' b"
  using assms(2) unfolding same_box_def by (elim conjE, intro conjI) (erule arith_okD(1) [OF assms(1)])+

lemma overlaps_same:
  assumes "arith_ok lib" "same_box lib b b'"
  shows "overlaps lib r b = overlaps lib r b'"
proof -
  note e = arith_okD(3,4) [OF assms(1)] and b = assms(2) [unfolded same_box_def]
  have "f_eq lib (fst (fst b)) (fst (fst b'))" "f_eq lib (snd (fst b)) (snd (fst b'))"
    "f_eq lib (fst (snd b)) (fst (snd b'))" "f_eq lib (snd (snd b)) (snd (snd b'))"
    using b by blast+
  note f = this
  have "f_less lib (fst (snd b)) z = f_less lib (fst (snd b')) z" "f_less lib (snd (snd b)) z = f_less lib (snd (snd b')) z"
    "f_less lib z (fst (fst b)) = f_less lib z (fst (fst b'))" "f_less lib z (snd (fst b)) = f_less lib z (snd (fst b'))" for z
    by (rule e, rule f)+
  then show ?thesis by (simp only: overlaps_def)
qed

text \<open>
  The post office is in order: no two entries of the map share a callsign or a client, every
  client is under its own callsign, and the tree has one entry for each client of the map, with
  the box of its position.
\<close>

definition tree_agrees ::
    "('f, 't) fsdlib \<Rightarrow> ('t \<Rightarrow> ('f box \<times> nat) multiset) \<Rightarrow> (nat \<Rightarrow> 'f box) \<Rightarrow> ('f, 't, 'x) net_scheme \<Rightarrow> bool" where
  "tree_agrees lib entries box s \<longleftrightarrow>
     entries (tree s) = image_mset (\<lambda>a. (box a, a)) (mset (map snd (clientMap s))) \<and>
     (\<forall>a \<in> registered s. same_box lib (box a) (client_box lib (clients s a)))"

definition office_ok ::
    "('f, 't) fsdlib \<Rightarrow> ('t \<Rightarrow> ('f box \<times> nat) multiset) \<Rightarrow> ('f, 't, 'x) net_scheme \<Rightarrow> bool" where
  "office_ok lib entries s \<longleftrightarrow>
     distinct (map fst (clientMap s)) \<and> distinct (map snd (clientMap s)) \<and>
     (\<forall>(cs, a) \<in> set (clientMap s). callsign (clients s a) = cs \<and> a < next_client s) \<and>
     (\<exists>box. tree_agrees lib entries box s)"

lemma office_okE:
  assumes "office_ok lib entries s"
  obtains box where "distinct (map fst (clientMap s))" "distinct (map snd (clientMap s))"
    "\<And>cs a. (cs, a) \<in> set (clientMap s) \<Longrightarrow> callsign (clients s a) = cs \<and> a < next_client s"
    "tree_agrees lib entries box s"
  using assms by (auto simp: office_ok_def)

lemma office_frame:
  assumes "office_ok lib entries s" "clientMap s' = clientMap s" "tree s' = tree s" "next_client s \<le> next_client s'"
    and "\<And>a. a \<in> registered s \<Longrightarrow> callsign (clients s' a) = callsign (clients s a) \<and>
      coords (clients s' a) = coords (clients s a) \<and> visRange (clients s' a) = visRange (clients s a)"
  shows "office_ok lib entries s'"
proof -
  obtain box where o: "distinct (map fst (clientMap s))" "distinct (map snd (clientMap s))"
    "\<And>cs a. (cs, a) \<in> set (clientMap s) \<Longrightarrow> callsign (clients s a) = cs \<and> a < next_client s"
    "tree_agrees lib entries box s" using assms(1) by (rule office_okE) blast
  have "callsign (clients s' a) = cs \<and> a < next_client s'" if "(cs, a) \<in> set (clientMap s)" for cs a
    using o(3) [OF that] assms(4,5) that by (force simp: registered_def)
  moreover have "tree_agrees lib entries box s'"
    using o(4) assms(2,3,5) by (simp add: tree_agrees_def client_box_def registered_def)
  ultimately show ?thesis using o(1,2) assms(2) by (auto simp: office_ok_def)
qed

lemma search_reaches:
  assumes "rtree_ok lib entries" "arith_ok lib" "office_ok lib entries s"
  shows "set (rt_search lib r (tree s)) = {b \<in> registered s. overlaps lib r (client_box lib (clients s b))}"
    "distinct (rt_search lib r (tree s))"
proof -
  obtain box where o: "distinct (map snd (clientMap s))" "tree_agrees lib entries box s"
    using assms(3) by (rule office_okE) blast
  have "mset (rt_search lib r (tree s)) = image_mset snd (filter_mset (\<lambda>e. overlaps lib r (fst e)) (entries (tree s)))"
    by (rule rtree_okD(3) [OF assms(1)])
  also have "\<dots> = image_mset snd (filter_mset (\<lambda>e. overlaps lib r (fst e)) (image_mset (\<lambda>a. (box a, a)) (mset (map snd (clientMap s)))))"
    using o(2) by (simp add: tree_agrees_def)
  also have "\<dots> = filter_mset (\<lambda>a. overlaps lib r (box a)) (mset (map snd (clientMap s)))"
    by (simp add: filter_mset_image_mset image_mset.compositionality comp_def)
  also have "\<dots> = mset (filter (\<lambda>a. overlaps lib r (box a)) (map snd (clientMap s)))"
    by (simp only: mset_filter)
  finally have m: "mset (rt_search lib r (tree s)) = mset (filter (\<lambda>a. overlaps lib r (box a)) (map snd (clientMap s)))" .
  have "overlaps lib r (box a) = overlaps lib r (client_box lib (clients s a))" if "a \<in> registered s" for a
    using o(2) that by (intro overlaps_same [OF assms(2)]) (simp add: tree_agrees_def)
  with mset_eq_setD [OF m] show "set (rt_search lib r (tree s)) = {b \<in> registered s. overlaps lib r (client_box lib (clients s b))}"
    by (auto simp: registered_def)
  from m o(1) show "distinct (rt_search lib r (tree s))"
    by (metis distinct_filter mset_eq_imp_distinct_iff)
qed

lemma map_of_registered: "map_of (clientMap s) cs = Some a \<Longrightarrow> a \<in> registered s"
  by (force simp: registered_def dest: map_of_SomeD)

lemma office_find:
  assumes "office_ok lib entries s" "a \<in> registered s"
  shows "map_of (clientMap s) (callsign (clients s a)) = Some a"
  using assms by (auto simp: office_ok_def registered_def intro!: map_of_is_SomeI)

lemma register_office:
  assumes "rtree_ok lib entries" "office_ok lib entries s" "a \<notin> registered s" "a < next_client s"
    and "comparable lib (client_box lib (clients s a))" "post_register lib a s = (True, s')"
  shows "office_ok lib entries s'" "registered s' = insert a (registered s)"
proof -
  obtain box where o: "distinct (map fst (clientMap s))" "distinct (map snd (clientMap s))"
    "\<And>cs a. (cs, a) \<in> set (clientMap s) \<Longrightarrow> callsign (clients s a) = cs \<and> a < next_client s"
    "tree_agrees lib entries box s" using assms(2) by (rule office_okE) blast
  let ?c = "clients s a"
  have new: "callsign ?c \<notin> set (map fst (clientMap s))" and
    s': "s' = s\<lparr>clientMap := clientMap s @ [(callsign ?c, a)], tree := rt_insert lib (client_box lib ?c) a (tree s)\<rparr>"
    using assms(6) by (auto simp: post_register_def Let_def map_of_eq_None_iff split: if_splits)
  have a: "a \<notin> set (map snd (clientMap s))" using assms(3) by (simp add: registered_def)
  show "registered s' = insert a (registered s)" by (simp add: s' registered_def)
  have "image_mset (\<lambda>b. ((box(a := client_box lib ?c)) b, b)) (mset (map snd (clientMap s)))
      = image_mset (\<lambda>b. (box b, b)) (mset (map snd (clientMap s)))"
    using a by (intro image_mset_cong) auto
  with o(4) assms(1,5) a have "tree_agrees lib entries (box(a := client_box lib ?c)) s'"
    by (auto simp: tree_agrees_def s' rtree_okD [OF assms(1)] registered_def comparable_def)
  moreover have "distinct (map fst (clientMap s'))" "distinct (map snd (clientMap s'))"
    using o(1,2) new a by (simp_all add: s')
  moreover have "callsign (clients s' b) = cs \<and> b < next_client s'" if "(cs, b) \<in> set (clientMap s')" for cs b
    using that o(3) assms(4) by (auto simp: s')
  ultimately show "office_ok lib entries s'" by (auto simp: office_ok_def)
qed

text \<open>The entry of one client of the map, and what is left without it.\<close>

lemma tree_members:
  assumes "office_ok lib entries s" "a \<in> registered s"
  shows "mset (map snd (clientMap s)) = {#a#} + mset (filter (\<lambda>b. b \<noteq> a) (map snd (clientMap s)))"
    "filter_mset (\<lambda>b. b = a) (mset (map snd (clientMap s))) = {#a#}"
proof -
  let ?as = "map snd (clientMap s)"
  have d: "distinct ?as" "a \<in> set ?as" using assms by (auto simp: office_ok_def registered_def)
  show one: "filter_mset (\<lambda>b. b = a) (mset ?as) = {#a#}"
    using d distinct_count_atmost_1 [of ?as] by (simp add: filter_eq_replicate_mset)
  have "mset ?as = filter_mset (\<lambda>b. b = a) (mset ?as) + filter_mset (\<lambda>b. b \<noteq> a) (mset ?as)"
    by (rule multiset_partition)
  also have "\<dots> = {#a#} + mset (filter (\<lambda>b. b \<noteq> a) ?as)"
    by (simp only: one mset_filter)
  finally show "mset ?as = {#a#} + mset (filter (\<lambda>b. b \<noteq> a) ?as)" .
qed

lemma tree_entry:
  assumes "office_ok lib entries s" "tree_agrees lib entries box s" "a \<in> registered s"
  shows "filter_mset (\<lambda>e. snd e = a) (entries (tree s)) = {#(box a, a)#}"
    "entries (tree s) - {#(box a, a)#} = image_mset (\<lambda>b. (box b, b)) (mset (filter (\<lambda>b. b \<noteq> a) (map snd (clientMap s))))"
proof -
  let ?as = "map snd (clientMap s)"
  have e: "entries (tree s) = image_mset (\<lambda>b. (box b, b)) (mset ?as)" using assms(2) by (simp add: tree_agrees_def)
  show "filter_mset (\<lambda>e. snd e = a) (entries (tree s)) = {#(box a, a)#}"
    unfolding e using tree_members(2) [OF assms(1,3)] by (simp add: filter_mset_image_mset)
  have "entries (tree s) = add_mset (box a, a) (image_mset (\<lambda>b. (box b, b)) (mset (filter (\<lambda>b. b \<noteq> a) ?as)))"
    unfolding e by (subst tree_members(1) [OF assms(1,3)]) simp
  then show "entries (tree s) - {#(box a, a)#} = image_mset (\<lambda>b. (box b, b)) (mset (filter (\<lambda>b. b \<noteq> a) ?as))"
    by simp
qed

lemma release_office:
  assumes "rtree_ok lib entries" "arith_ok lib" "office_ok lib entries s" "a \<in> registered s"
  shows "office_ok lib entries (post_release lib a s)" "registered (post_release lib a s) = registered s - {a}"
proof -
  obtain box where o: "distinct (map fst (clientMap s))" "distinct (map snd (clientMap s))"
    "\<And>cs a. (cs, a) \<in> set (clientMap s) \<Longrightarrow> callsign (clients s a) = cs \<and> a < next_client s"
    "tree_agrees lib entries box s" using assms(3) by (rule office_okE) blast
  let ?s = "post_release lib a s"
  have a: "(callsign (clients s a), a) \<in> set (clientMap s)"
    using o(3) assms(4) by (auto simp: registered_def)
  have key: "cs = callsign (clients s a) \<longleftrightarrow> b = a" if "(cs, b) \<in> set (clientMap s)" for cs b
    using eq_key_imp_eq_value [OF o(1) a, of b] o(3) [OF that] that by metis
  have m: "clientMap ?s = filter (\<lambda>(cs, b). b \<noteq> a) (clientMap s)"
    unfolding post_release_def Let_def using key by (auto intro!: filter_cong)
  have snds: "map snd (filter (\<lambda>(cs, b). b \<noteq> a) xs) = filter (\<lambda>b. b \<noteq> a) (map snd xs)" for xs :: "(string \<times> nat) list"
    by (induction xs) auto
  show r: "registered ?s = registered s - {a}"
    unfolding registered_def m by auto
  have "same_box lib (client_box lib (clients s a)) (box a)"
    by (rule same_box_sym [OF assms(2)]) (use o(4) assms(4) in \<open>simp add: tree_agrees_def\<close>)
  then have "entries (tree ?s) = entries (tree s) - {#(box a, a)#}"
    using rtree_okD(2) [OF assms(1) tree_entry(1) [OF assms(3) o(4) assms(4)]] by (simp add: post_release_def Let_def)
  then have "entries (tree ?s) = image_mset (\<lambda>b. (box b, b)) (mset (map snd (clientMap ?s)))"
    unfolding m snds tree_entry(2) [OF assms(3) o(4) assms(4)] .
  moreover have "clients ?s = clients s" "next_client ?s = next_client s" by (simp_all add: post_release_def Let_def)
  ultimately have "tree_agrees lib entries box ?s"
    using o(4) r by (auto simp: tree_agrees_def)
  moreover have "distinct (map fst (clientMap ?s))" "distinct (map snd (clientMap ?s))"
    using o(1,2) by (simp_all add: m snds distinct_map_filter)
  moreover have "callsign (clients ?s b) = cs \<and> b < next_client ?s" if "(cs, b) \<in> set (clientMap ?s)" for cs b
    using that o(3) by (auto simp: m post_release_def Let_def)
  ultimately show "office_ok lib entries ?s" by (auto simp: office_ok_def)
qed

lemma update_position_office:
  assumes "rtree_ok lib entries" "arith_ok lib" "office_ok lib entries s" "a \<in> registered s"
    and "comparable lib (calculate_bounding_box lib center vis)"
  shows "office_ok lib entries (update_position lib a center vis s)"
proof -
  obtain box where o: "distinct (map fst (clientMap s))" "distinct (map snd (clientMap s))"
    "\<And>cs a. (cs, a) \<in> set (clientMap s) \<Longrightarrow> callsign (clients s a) = cs \<and> a < next_client s"
    "tree_agrees lib entries box s" using assms(3) by (rule office_okE) blast
  let ?s = "update_position lib a center vis s" and ?old = "client_box lib (clients s a)"
  let ?new = "calculate_bounding_box lib center vis"
  have old: "same_box lib (box a) ?old" using o(4) assms(4) by (simp add: tree_agrees_def)
  have unchanged: "clientMap ?s = clientMap s" "next_client ?s = next_client s" "registered ?s = registered s"
    "\<And>b. callsign (clients ?s b) = callsign (clients s b)"
    "\<And>b. client_box lib (clients ?s b) = (if b = a then ?new else client_box lib (clients s b))"
    by (auto simp: update_position_def Let_def registered_def client_box_def)
  have "\<exists>box'. tree_agrees lib entries box' ?s"
  proof (cases "same_box lib ?old ?new")
    case True
    then have "tree_agrees lib entries box ?s"
      using o(4) same_box_trans [OF assms(2) old True] unchanged
      by (auto simp: tree_agrees_def) (auto simp: update_position_def Let_def)
    then show ?thesis by blast
  next
    case False
    have "entries (rt_delete lib ?old a (tree s)) = entries (tree s) - {#(box a, a)#}"
      by (rule rtree_okD(2) [OF assms(1) tree_entry(1) [OF assms(3) o(4) assms(4)] same_box_sym [OF assms(2) old]])
    then have "entries (tree ?s) = add_mset (?new, a) (entries (tree s) - {#(box a, a)#})"
      using False by (simp add: update_position_def Let_def rtree_okD(1) [OF assms(1)])
    also have "\<dots> = add_mset (?new, a) (image_mset (\<lambda>b. ((box(a := ?new)) b, b)) (mset (filter (\<lambda>b. b \<noteq> a) (map snd (clientMap s)))))"
      unfolding tree_entry(2) [OF assms(3) o(4) assms(4)] by (auto intro!: image_mset_cong)
    also have "\<dots> = image_mset (\<lambda>b. ((box(a := ?new)) b, b)) (mset (map snd (clientMap s)))"
      by (subst tree_members(1) [OF assms(3,4)]) simp
    finally have "tree_agrees lib entries (box(a := ?new)) ?s"
      using o(4) unchanged assms(5) by (simp add: tree_agrees_def comparable_def)
    then show ?thesis by blast
  qed
  with o(1-3) unchanged show ?thesis by (auto simp: office_ok_def)
qed

end
