(* ===== verification/Fsd_Handlers.thy ===== *)
theory Fsd_Handlers
  imports Fsd_Delivery
begin

text \<open>
  \<open>fsd/handler.go\<close>: what the server does with a packet of each type, and the iteration of the event
  loop (\<open>fsd/client.go\<close>) that checks a packet and hands it to its handler. A handler maps the
  address of the client, the packet and the state of the server to the new state.
\<close>

type_synonym ('f, 't, 'x) fsd_handler = "nat \<Rightarrow> string \<Rightarrow> ('f, 't, 'x) net_scheme \<Rightarrow> ('f, 't, 'x) net_scheme"


subsection \<open>Numbers in packets\<close>

text \<open>
  \<open>strconv.ParseUint\<close> in base 10 up to a largest value. It stops at the first character that is no
  digit, and as soon as the value is too large.
\<close>

datatype num_error = ErrSyntax | ErrRange

fun scan_digits :: "int \<Rightarrow> int \<Rightarrow> string \<Rightarrow> num_error + int" where
  "scan_digits maxv n [] = Inr n"
| "scan_digits maxv n (c # cs) =
     (if \<not> is_digit c then Inl ErrSyntax
      else if 10 * n + int (digit_val c) > maxv then Inl ErrRange
      else scan_digits maxv (10 * n + int (digit_val c)) cs)"

definition parse_uint :: "int \<Rightarrow> string \<Rightarrow> num_error + int" where
  "parse_uint maxv s = (if s = [] then Inl ErrSyntax else scan_digits maxv 0 s)"

text \<open>The value \<open>ParseUint\<close> returns beside its error.\<close>

definition parse_uint_value :: "int \<Rightarrow> string \<Rightarrow> int" where
  "parse_uint_value maxv s =
     (case parse_uint maxv s of Inr n \<Rightarrow> n | Inl ErrSyntax \<Rightarrow> 0 | Inl ErrRange \<Rightarrow> maxv)"

text \<open>\<open>ParseInt\<close> with a width, and the value \<open>Atoi\<close> returns beside its error.\<close>

definition signed_digits :: "string \<Rightarrow> bool \<times> string" where
  "signed_digits s =
     (case s of
        [] \<Rightarrow> (False, [])
      | c # cs \<Rightarrow> if c = CHR ''-'' then (True, cs) else if c = CHR ''+'' then (False, cs) else (False, s))"

definition parse_int_bits :: "nat \<Rightarrow> string \<Rightarrow> num_error + int" where
  "parse_int_bits bits s =
     (let (neg, ds) = signed_digits s; cutoff = 2 ^ (bits - 1) in
      case parse_uint (2 ^ bits - 1) ds of
        Inl e \<Rightarrow> Inl e
      | Inr n \<Rightarrow>
          if \<not> neg \<and> cutoff \<le> n then Inl ErrRange
          else if neg \<and> cutoff < n then Inl ErrRange
          else Inr (if neg then - n else n))"

definition atoi_value :: "string \<Rightarrow> int" where
  "atoi_value s =
     (case parse_int_bits 64 s of
        Inr n \<Rightarrow> n
      | Inl ErrSyntax \<Rightarrow> 0
      | Inl ErrRange \<Rightarrow> if fst (signed_digits s) then - (2 ^ 63) else 2 ^ 63 - 1)"

definition parse_lat_lon :: "('f, 't) fsdlib \<Rightarrow> string \<Rightarrow> nat \<Rightarrow> nat \<Rightarrow> 'f point option" where
  "parse_lat_lon lib packet lat_index lon_index =
     (case parse_float lib (get_field packet lat_index) of
        None \<Rightarrow> None
      | Some lat \<Rightarrow> map_option (Pair lat) (parse_float lib (get_field packet lon_index)))"

definition parse_vis_range :: "('f, 't) fsdlib \<Rightarrow> string \<Rightarrow> nat \<Rightarrow> 'f option" where
  "parse_vis_range lib packet index =
     map_option (\<lambda>nm. f_mul lib nm (lit lib 1852 0)) (parse_float lib (get_field packet index))"

definition heading_degrees :: "('f, 't) fsdlib \<Rightarrow> 32 word \<Rightarrow> 'f" where
  "heading_degrees lib packed =
     (case pitch_bank_heading packed of
        (_, _, h) \<Rightarrow> f_mul lib (lit lib (int h) 0) (f_div lib (lit lib 359 0) (lit lib 1023 0)))"


subsection \<open>Text and positions\<close>

definition handle_text_message :: "('f, 't) fsdlib \<Rightarrow> ('f, 't, 'x) fsd_handler" where
  "handle_text_message lib a packet s =
     (let me = clients s a; recipient = get_field packet 1 in
      if recipient = ''@49999'' then
        (if \<not> isAtc me then s else broadcast_ranged_atc_only lib a packet s)
      else if take 1 recipient = ''@'' then broadcast_ranged lib a packet s
      else if recipient = ''*S'' then broadcast_all_supervisors lib a packet s
      else if recipient = ''*'' then
        (if networkRating me < NetworkRatingSupervisor then s else broadcast_all lib a packet s)
      else if recipient = ''FP'' then s
      else if recipient = ''SERVER'' then s
      else send_direct_or_err lib a recipient packet s)"

definition handle_atc_position :: "('f, 't) fsdlib \<Rightarrow> ('f, 't, 'x) fsd_handler" where
  "handle_atc_position lib a packet s =
     (case parse_int_bits 32 (get_field packet 2) of
        Inl _ \<Rightarrow> send_error lib a SyntaxError ''Invalid facility type'' s
      | Inr facility \<Rightarrow>
          if \<not> is_allowed_facility_type (networkRating (clients s a)) facility then
            cancel_ctx a (send_error lib a InvalidPositionForRatingError ''Invalid position for rating'' s)
          else
            (let s1 = modify a (\<lambda>c. c\<lparr>facilityType := facility\<rparr>) s in
             case parse_lat_lon lib packet 5 6 of
               None \<Rightarrow> send_error lib a SyntaxError ''Invalid latitude/longitude'' s1
             | Some center \<Rightarrow>
                 (case parse_vis_range lib packet 3 of
                    None \<Rightarrow> send_error lib a SyntaxError ''Invalid visibility range'' s1
                  | Some vis \<Rightarrow>
                      (let s2 = broadcast_ranged lib a packet (update_position lib a center vis s1)
                       in modify a (\<lambda>c. c\<lparr>lastUpdated := wall s2\<rparr>) s2))))"

text \<open>The end of \<open>handlePilotPosition\<close>: whether the client is to send fast positions.\<close>

definition update_send_fast :: "('f, 't) fsdlib \<Rightarrow> nat \<Rightarrow> ('f, 't, 'x) net_scheme \<Rightarrow> ('f, 't, 'x) net_scheme" where
  "update_send_fast lib a s =
     (let me = clients s a; miles = f_div lib (closestVelocityClientDistance me) (lit lib 1852 0) in
      if protoRevision me \<noteq> 101 then s
      else if sendFastEnabled me then
        (if f_less lib (lit lib 5 0) miles
         then snd (client_send lib a (send_fast_packet (callsign me) False) (modify a (\<lambda>c. c\<lparr>sendFastEnabled := False\<rparr>) s))
         else s)
      else
        (if f_less lib miles (lit lib 5 0)
         then snd (client_send lib a (send_fast_packet (callsign me) True) (modify a (\<lambda>c. c\<lparr>sendFastEnabled := True\<rparr>) s))
         else s))"

definition pilot_vis_range :: "('f, 't) fsdlib \<Rightarrow> 'f" where
  "pilot_vis_range lib = lit lib 92600 0"

definition handle_pilot_position :: "('f, 't) fsdlib \<Rightarrow> ('f, 't, 'x) fsd_handler" where
  "handle_pilot_position lib a packet s =
     (case parse_lat_lon lib packet 4 5 of
        None \<Rightarrow> send_error lib a SyntaxError ''Invalid latitude/longitude'' s
      | Some center \<Rightarrow>
          (let s1 = broadcast_ranged lib a packet (update_position lib a center (pilot_vis_range lib) s);
               packed = word_of_int (parse_uint_value (2 ^ 32 - 1) (get_field packet 8)) :: 32 word
           in update_send_fast lib a
                (modify a
                   (\<lambda>c. c\<lparr>transponder := get_field packet 2,
                          groundspeed := word_of_int (atoi_value (get_field packet 7)),
                          altitude := word_of_int (atoi_value (get_field packet 6)),
                          heading := word_of_int (f_trunc lib (heading_degrees lib packed)),
                          lastUpdated := wall s1\<rparr>) s1)))"

definition handle_fast_pilot_position :: "('f, 't) fsdlib \<Rightarrow> ('f, 't, 'x) fsd_handler" where
  "handle_fast_pilot_position lib a packet s = broadcast_ranged_velocity lib a packet s"

definition handle_delete :: "('f, 't) fsdlib \<Rightarrow> ('f, 't, 'x) fsd_handler" where
  "handle_delete lib a packet s = cancel_ctx a (broadcast_all lib a packet s)"


subsection \<open>Controllers\<close>

definition handle_squawkbox :: "('f, 't) fsdlib \<Rightarrow> ('f, 't, 'x) fsd_handler" where
  "handle_squawkbox lib a packet s = send_direct_or_err lib a (get_field packet 1) packet s"

definition pc_unprivileged :: "string list" where
  "pc_unprivileged = [''VER'', ''ID'', ''DI'', ''IC'', ''IK'', ''IB'', ''IO'', ''OC'', ''OK'', ''OB'', ''OO'',
     ''MC'', ''MK'', ''MB'', ''MO'']"

definition pc_privileged :: "string list" where
  "pc_privileged = [''IH'', ''SC'', ''GD'', ''TA'', ''FA'', ''VT'', ''BC'', ''HC'', ''PT'', ''DP'', ''ST'']"

definition handle_procontroller :: "('f, 't) fsdlib \<Rightarrow> ('f, 't, 'x) fsd_handler" where
  "handle_procontroller lib a packet s =
     (let me = clients s a; recipient = get_field packet 1; pc_type = get_field packet 3 in
      if \<not> isAtc me then s
      else if length recipient < 2 then send_error lib a SyntaxError ''Invalid recipient'' s
      else if List.member pc_unprivileged pc_type then send_direct_or_err lib a recipient packet s
      else if List.member pc_privileged pc_type then
        (if facilityType me \<le> 0 then send_error lib a InvalidControlError ''Invalid control'' s
         else if hd recipient = CHR ''@'' then broadcast_ranged_atc_only lib a packet s
         else send_direct_or_err lib a recipient packet s)
      else s)"

definition handle_handoff :: "('f, 't) fsdlib \<Rightarrow> ('f, 't, 'x) fsd_handler" where
  "handle_handoff lib a packet s =
     (let me = clients s a in
      if \<not> isAtc me \<or> facilityType me \<le> 1 then s
      else send_direct_or_err lib a (get_field packet 1) packet s)"

definition handle_file_flightplan :: "('f, 't) fsdlib \<Rightarrow> ('f, 't, 'x) fsd_handler" where
  "handle_file_flightplan lib a packet s =
     (let info = extract_flightplan_info packet;
          s1 = modify a (\<lambda>c. c\<lparr>flightPlan := info\<rparr>) s
      in broadcast_all_atc lib a (build_file_flightplan_packet (callsign (clients s a)) ''*A'' info) s1)"

definition handle_amend_flightplan :: "('f, 't) fsdlib \<Rightarrow> ('f, 't, 'x) fsd_handler" where
  "handle_amend_flightplan lib a packet s =
     (let me = clients s a; info = extract_flightplan_info packet; target = get_field packet 2 in
      if \<not> isAtc me \<or> facilityType me \<le> 0 then s
      else
        (case post_find target s of
           None \<Rightarrow> send_error lib a NoSuchCallsignError (''No such callsign: '' @ target) s
         | Some b \<Rightarrow>
             broadcast_all_atc lib a (build_amend_flightplan_packet (callsign me) ''*A'' target info)
               (modify b (\<lambda>c. c\<lparr>flightPlan := info\<rparr>) s)))"


subsection \<open>Queries\<close>

definition handle_query_atc :: "('f, 't) fsdlib \<Rightarrow> ('f, 't, 'x) fsd_handler" where
  "handle_query_atc lib a packet s =
     (if count_fields packet \<noteq> 4 then send_error lib a SyntaxError ''Invalid ATC request'' s
      else
        (let target = get_field packet 3 in
         case post_find target s of
           None \<Rightarrow> send_error lib a NoSuchCallsignError ''No such callsign'' s
         | Some b \<Rightarrow>
             snd (client_send lib a
               (''$CRSERVER:'' @ callsign (clients s a) @ (if facilityType (clients s b) > 0 then '':ATC:Y:'' else '':ATC:N:'')
                 @ target @ crlf) s)))"

definition handle_query_ip :: "('f, 't) fsdlib \<Rightarrow> ('f, 't, 'x) fsd_handler" where
  "handle_query_ip lib a packet s =
     snd (client_send lib a
       (''$CRSERVER:'' @ callsign (clients s a) @ '':IP:''
         @ takeWhile (\<lambda>c. c \<noteq> CHR '':'') (remoteAddr (clients s a)) @ crlf) s)"

definition handle_query_flightplan :: "('f, 't) fsdlib \<Rightarrow> ('f, 't, 'x) fsd_handler" where
  "handle_query_flightplan lib a packet s =
     (let me = clients s a; target = get_field packet 3 in
      if \<not> isAtc me then s
      else if count_fields packet \<noteq> 4 then send_error lib a SyntaxError ''Invalid flightplan request syntax'' s
      else
        (case post_find target s of
           None \<Rightarrow> send_error lib a NoSuchCallsignError (''No such callsign: '' @ target) s
         | Some b \<Rightarrow>
             (let info = flightPlan (clients s b);
                  code = (if assignedBeaconCode (clients s b) = [] then ''0'' else assignedBeaconCode (clients s b))
              in if info = [] then s
                 else
                   snd (client_send lib a (build_beacon_code_packet ''server'' (callsign me) target code)
                     (snd (client_send lib a (build_file_flightplan_packet target ''*A'' info) s))))))"

definition cq_atc :: "string list" where
  "cq_atc = [''BY'', ''HI'', ''HLP'', ''NOHLP'', ''WH'', ''NEWATIS'', ''NEWINFO'']"

definition cq_active_atc :: "string list" where
  "cq_active_atc = [''IT'', ''DR'', ''HT'', ''TA'', ''FA'', ''BC'', ''SC'', ''VT'', ''EST'', ''GD'', ''IPC'']"

definition cq_any :: "string list" where
  "cq_any = [''ACC'', ''CAPS'', ''C?'', ''RN'', ''ATIS'', ''SV'']"

definition handle_client_query :: "('f, 't) fsdlib \<Rightarrow> ('f, 't, 'x) fsd_handler" where
  "handle_client_query lib a packet s =
     (let me = clients s a; recipient = get_field packet 1; query = get_field packet 2 in
      if recipient = ''SERVER'' then
        (if query = ''ATC'' then handle_query_atc lib a packet s
         else if query = ''IP'' then handle_query_ip lib a packet s
         else if query = ''FP'' then handle_query_flightplan lib a packet s
         else s)
      else if List.member cq_atc query then
        (if \<not> isAtc me then send_error lib a InvalidControlError ''Invalid control'' s
         else forward_client_query lib a packet s)
      else if List.member cq_active_atc query then
        (if \<not> isAtc me \<or> facilityType me \<le> 0 then send_error lib a InvalidControlError ''Invalid control'' s
         else forward_client_query lib a packet s)
      else if List.member cq_any query then forward_client_query lib a packet s
      else if query = ''INF'' then
        (if get_packet_type packet = Some PacketTypeClientQueryResponse then send_direct_or_err lib a recipient packet s
         else if networkRating me < NetworkRatingSupervisor then send_error lib a InvalidControlError ''Invalid control'' s
         else forward_client_query lib a packet s)
      else s)"

text \<open>
  The request for a METAR is queued unless the context of the client is done and the \<open>select\<close>
  takes that case.
\<close>

definition handle_metar_request_packet :: "('f, 't) fsdlib \<Rightarrow> ('f, 't, 'x) fsd_handler" where
  "handle_metar_request_packet lib a packet s =
     (let recipient = get_field packet 1; static_field = get_field packet 2; icao = get_field packet 3 in
      if recipient \<noteq> ''SERVER'' \<or> static_field \<noteq> ''METAR'' then s
      else if cancelled (clients s a) \<and> \<not> picks_send lib a icao then s
      else s\<lparr>metarRequests := metarRequests s @ [(a, icao)]\<rparr>)"


subsection \<open>Supervision and authentication\<close>

definition handle_kill_request :: "('f, 't) fsdlib \<Rightarrow> ('f, 't, 'x) fsd_handler" where
  "handle_kill_request lib a packet s =
     (if networkRating (clients s a) < NetworkRatingSupervisor then s
      else
        (case post_find (get_field packet 1) s of
           None \<Rightarrow> send_error lib a NoSuchCallsignError ''No such callsign'' s
         | Some victim \<Rightarrow> cancel_ctx victim s))"

definition handle_auth_challenge :: "('f, 't) fsdlib \<Rightarrow> ('f, 't, 'x) fsd_handler" where
  "handle_auth_challenge lib a packet s =
     (let me = clients s a in
      if clientChallenge me = [] then
        send_error lib a UnauthorizedSoftwareError
          ''Cannot reply to auth challenge since no initial challenge was recieved'' s
      else
        (let resp = get_response_for_challenge (get_field packet 2) (authState me)
         in snd (client_send lib a (''$ZRSERVER:'' @ callsign me @ '':'' @ resp @ crlf)
              (modify a (\<lambda>c. c\<lparr>authState := update_state resp (authState me)\<rparr>) s))))"


subsection \<open>The event loop\<close>

fun get_handler :: "('f, 't) fsdlib \<Rightarrow> packet_type \<Rightarrow> ('f, 't, 'x) fsd_handler" where
  "get_handler lib PacketTypeTextMessage = handle_text_message lib"
| "get_handler lib PacketTypeATCPosition = handle_atc_position lib"
| "get_handler lib PacketTypePilotPosition = handle_pilot_position lib"
| "get_handler lib PacketTypePilotPositionFast = handle_fast_pilot_position lib"
| "get_handler lib PacketTypePilotPositionSlow = handle_fast_pilot_position lib"
| "get_handler lib PacketTypePilotPositionStopped = handle_fast_pilot_position lib"
| "get_handler lib PacketTypeDeletePilot = handle_delete lib"
| "get_handler lib PacketTypeDeleteATC = handle_delete lib"
| "get_handler lib PacketTypeSquawkbox = handle_squawkbox lib"
| "get_handler lib PacketTypeProController = handle_procontroller lib"
| "get_handler lib PacketTypeClientQuery = handle_client_query lib"
| "get_handler lib PacketTypeClientQueryResponse = handle_client_query lib"
| "get_handler lib PacketTypeKillRequest = handle_kill_request lib"
| "get_handler lib PacketTypeAuthChallenge = handle_auth_challenge lib"
| "get_handler lib PacketTypeHandoffRequest = handle_handoff lib"
| "get_handler lib PacketTypeHandoffAccept = handle_handoff lib"
| "get_handler lib PacketTypeMetarRequest = handle_metar_request_packet lib"
| "get_handler lib PacketTypeFlightPlan = handle_file_flightplan lib"
| "get_handler lib PacketTypeFlightPlanAmendment = handle_amend_flightplan lib"
| "get_handler lib PacketTypeUnknown = (\<lambda>a packet s. s)"

text \<open>One iteration of \<open>eventLoop\<close> on a line; a panic would end the connection.\<close>

definition handle_packet :: "('f, 't) fsdlib \<Rightarrow> nat \<Rightarrow> string \<Rightarrow> ('f, 't, 'x) net_scheme \<Rightarrow> ('f, 't, 'x) net_scheme" where
  "handle_packet lib a packet s =
     (case verify_packet packet (callsign (clients s a)) of
        Refuse code msg \<Rightarrow> send_error lib a code msg s
      | Panic \<Rightarrow> cancel_ctx a s
      | Accept t \<Rightarrow> get_handler lib t a packet s)"

end
