(* ===== verification/Fsd_Effects.thy ===== *)
theory Fsd_Effects
  imports Fsd_Handlers
begin

text \<open>
  What the packets of a client can change. \<open>acts\<close> relates the states before and after: other clients
  only get packets under the sender's callsign, and lose their flight plan or their connection only
  to a controller or a supervisor; \<open>moves\<close> adds the sender's own move to the position it reports.
  Every operation and every handler is classified once, and the invariants follow.
\<close>

subsection \<open>Whose packet it is\<close>

definition from_callsign :: "string \<Rightarrow> string \<Rightarrow> bool" where
  "from_callsign cs q \<longleftrightarrow> (\<exists>t. get_packet_type q = Some t \<and> t \<noteq> PacketTypeUnknown \<and> get_source_callsign q t = cs)"

lemma accepted_from: "verify_packet packet cs = Accept t \<Longrightarrow> from_callsign cs packet"
  using verify_packet_accepts by (fastforce simp: from_callsign_def)

lemma source_of_prefix:
  assumes "CHR '':'' \<notin> set cs" "CHR 0x0A \<notin> set cs" "source_callsign_field_index t = 0" "t \<noteq> PacketTypeUnknown"
  shows "from_callsign cs (get_packet_prefix t @ cs @ CHR '':'' # rest)"
proof -
  have "CHR '':'' \<notin> set (get_packet_prefix t)" "CHR 0x0A \<notin> set (get_packet_prefix t)" by (cases t; simp)+
  then have f: "CHR '':'' \<notin> set (get_packet_prefix t @ cs)" "CHR 0x0A \<notin> set (get_packet_prefix t @ cs)"
    using assms(1,2) by simp_all
  have "get_field ((get_packet_prefix t @ cs) @ CHR '':'' # rest) 0 = get_packet_prefix t @ cs"
    using get_field_simps(2) [OF f(1)] cut_crlf_absent [OF f(2)] by simp
  then have "get_source_callsign (get_packet_prefix t @ cs @ CHR '':'' # rest) t = cs"
    using assms(3) by (simp add: get_source_callsign_def cut_prefix_def Let_def)
  with packet_type_of_prefix [OF assms(4), of "cs @ CHR '':'' # rest"] assms(4) show ?thesis
    by (auto simp: from_callsign_def)
qed

lemma plan_packets_from:
  assumes "is_valid_client_callsign cs"
  shows "from_callsign cs (build_file_flightplan_packet cs r info)" "from_callsign cs (build_amend_flightplan_packet cs r target info)"
  using source_of_prefix [OF valid_callsign_chars(1,2) [OF assms], of PacketTypeFlightPlan]
    source_of_prefix [OF valid_callsign_chars(1,2) [OF assms], of PacketTypeFlightPlanAmendment]
  by (simp_all add: source_callsign_field_index_def build_file_flightplan_packet_def build_amend_flightplan_packet_def
      build_flightplan_packet_def)

subsection \<open>What a packet can do\<close>

text \<open>
  What the packets of a client \<open>me\<close> can do to another client: put packets under \<open>me\<close>'s callsign into
  its queue, change its flight plan when \<open>me\<close> is an active controller, and end its connection
  when \<open>me\<close> is a supervisor.
\<close>

definition touches :: "'f client \<Rightarrow> 'f client \<Rightarrow> 'f client \<Rightarrow> bool" where
  "touches me c c' \<longleftrightarrow>
     c' = c\<lparr>flightPlan := flightPlan c', cancelled := cancelled c', outbox := outbox c'\<rparr> \<and>
     (flightPlan c' \<noteq> flightPlan c \<longrightarrow> isAtc me \<and> 0 < facilityType me) \<and>
     (cancelled c' \<noteq> cancelled c \<longrightarrow> cancelled c' \<and> NetworkRatingSupervisor \<le> networkRating me) \<and>
     (\<exists>ps. outbox c' = outbox c @ ps \<and> (\<forall>q \<in> set ps. from_callsign (callsign me) q))"

text \<open>What they can do to itself: everything but its login data, its facility only if its rating allows it.\<close>

definition touches_self :: "'f client \<Rightarrow> 'f client \<Rightarrow> bool" where
  "touches_self c c' \<longleftrightarrow>
     login_data.truncate c' = login_data.truncate c \<and> remoteAddr c' = remoteAddr c \<and>
     (facilityType c' = facilityType c \<or> is_allowed_facility_type (networkRating c) (facilityType c')) \<and>
     (cancelled c \<longrightarrow> cancelled c') \<and> (\<exists>ps. outbox c' = outbox c @ ps)"

definition acts :: "nat \<Rightarrow> 'f client \<Rightarrow> ('f, 't, 'x) net_scheme \<Rightarrow> ('f, 't, 'x) net_scheme \<Rightarrow> bool" where
  "acts a me s s' \<longleftrightarrow>
     s' = s\<lparr>clients := clients s', metarRequests := metarRequests s'\<rparr> \<and>
     (\<forall>b. b \<noteq> a \<longrightarrow> touches me (clients s b) (clients s' b)) \<and> touches_self (clients s a) (clients s' a) \<and>
     coords (clients s' a) = coords (clients s a) \<and> visRange (clients s' a) = visRange (clients s a)"

lemma touches_refl [simp]: "touches me c c"
  by (simp add: touches_def)

lemma touches_self_refl [simp]: "touches_self c c"
  by (simp add: touches_self_def)

lemma acts_refl [simp]: "acts a me s s"
  by (simp add: acts_def)

lemma touches_trans: "touches me c c' \<Longrightarrow> touches me c' c'' \<Longrightarrow> touches me c c''"
  unfolding touches_def by (cases c; cases c'; cases c'') auto

lemma touches_self_trans: "touches_self c c' \<Longrightarrow> touches_self c' c'' \<Longrightarrow> touches_self c c''"
  unfolding touches_self_def by (auto simp: login_data.defs)

lemma acts_trans [trans]:
  assumes "acts a me s s'" "acts a me s' s''"
  shows "acts a me s s''"
proof -
  have "s'' = s\<lparr>clients := clients s'', metarRequests := metarRequests s''\<rparr>"
    using assms unfolding acts_def by (cases s; cases s'; cases s'') simp
  with assms show ?thesis
    unfolding acts_def using touches_trans touches_self_trans by metis
qed

subsection \<open>The operations handlers are made of\<close>

lemma acts_modify:
  assumes "b = a \<Longrightarrow> touches_self (clients s a) (f (clients s a)) \<and> coords (f (clients s a)) = coords (clients s a)
      \<and> visRange (f (clients s a)) = visRange (clients s a)"
    and "b \<noteq> a \<Longrightarrow> touches me (clients s b) (f (clients s b))"
  shows "acts a me s (modify b f s)"
  using assms unfolding acts_def by (cases "b = a") auto

lemma acts_send:
  assumes "b = a \<or> from_callsign (callsign me) p"
  shows "acts a me s (snd (client_send lib b p s))"
  using assms by (auto simp: client_send_def touches_def touches_self_def login_data.defs intro!: acts_modify)

lemma acts_error: "acts a me s (send_error lib a code msg s)"
  unfolding send_error_def by (rule acts_send) simp

lemma acts_self:
  assumes "\<And>c. login_data.truncate (f c) = login_data.truncate c \<and> remoteAddr (f c) = remoteAddr c
      \<and> facilityType (f c) = facilityType c \<and> (cancelled c \<longrightarrow> cancelled (f c)) \<and> outbox (f c) = outbox c
      \<and> coords (f c) = coords c \<and> visRange (f c) = visRange c"
  shows "acts a me s (modify a f s)"
  using assms by (intro acts_modify) (auto simp: touches_self_def)

lemma acts_cancel_self: "acts a me s (cancel_ctx a s)"
  unfolding cancel_ctx_def by (rule acts_self) (simp add: login_data.defs)

lemma acts_cancel: "NetworkRatingSupervisor \<le> networkRating me \<Longrightarrow> acts a me s (cancel_ctx b s)"
  unfolding cancel_ctx_def
  by (intro acts_modify) (auto simp: touches_def touches_self_def login_data.defs)

lemma acts_flight_plan:
  "isAtc me \<Longrightarrow> 0 < facilityType me \<Longrightarrow> acts a me s (modify b (\<lambda>c. c\<lparr>flightPlan := info\<rparr>) s)"
  by (intro acts_modify) (auto simp: touches_def touches_self_def login_data.defs)

lemma acts_fold:
  "(\<And>b s. acts a me s (f b s)) \<Longrightarrow> acts a me s (fold f bs s)"
  by (induction bs arbitrary: s) (auto intro: acts_trans)

lemma acts_visit:
  assumes "\<And>b s. b \<noteq> a \<Longrightarrow> acts a me s (callback b s)"
  shows "acts a me s (visit lib a callback b s)"
proof (cases "b = a")
  case False
  have "acts a me s (if c then modify a (\<lambda>c. c\<lparr>closestVelocityClientDistance := d\<rparr>) s else s)" for c d
    by (auto intro!: acts_self simp: login_data.defs)
  then show ?thesis
    using False unfolding visit_def Let_def by (simp only: if_False) (rule acts_trans [OF _ assms])
qed (simp add: visit_def)

lemma acts_search:
  assumes "\<And>b s. b \<noteq> a \<Longrightarrow> acts a me s (callback b s)"
  shows "acts a me s (post_search lib a callback s)"
  unfolding post_search_def
  by (rule acts_trans [OF acts_self acts_fold]) (use assms in \<open>auto intro: acts_visit simp: login_data.defs\<close>)

lemma acts_all:
  assumes "\<And>b s. b \<noteq> a \<Longrightarrow> acts a me s (callback b s)"
  shows "acts a me s (post_all a callback s)"
  unfolding post_all_def by (rule acts_fold) (simp add: assms)

lemma acts_broadcast:
  assumes "from_callsign (callsign me) p"
  shows "acts a me s (broadcast_ranged lib a p s)" "acts a me s (broadcast_ranged_velocity lib a p s)"
    "acts a me s (broadcast_ranged_atc_only lib a p s)" "acts a me s (broadcast_all lib a p s)"
    "acts a me s (broadcast_all_atc lib a p s)" "acts a me s (broadcast_all_supervisors lib a p s)"
  unfolding broadcast_ranged_def broadcast_ranged_velocity_def broadcast_ranged_atc_only_def broadcast_all_def
    broadcast_all_atc_def broadcast_all_supervisors_def
  using assms by (auto intro!: acts_search acts_all acts_send)

lemma acts_direct:
  assumes "from_callsign (callsign me) p"
  shows "acts a me s (send_direct_or_err lib a r p s)"
proof (cases "post_send lib r p s")
  case (Pair ok s1)
  then have "acts a me s s1"
    using assms by (auto simp: post_send_def split: option.splits dest!: arg_cong [where f = snd] intro: acts_send)
  then show ?thesis
    using Pair acts_trans [OF _ acts_error] by (cases ok) (auto simp: send_direct_or_err_def)
qed

lemma acts_forward:
  "from_callsign (callsign me) p \<Longrightarrow> acts a me s (forward_client_query lib a p s)"
  by (simp add: forward_client_query_def Let_def acts_error acts_broadcast acts_direct)

lemmas acts_intros = acts_refl acts_error acts_broadcast acts_direct acts_forward acts_send acts_cancel_self

subsection \<open>The handlers\<close>

lemma acts_text: "from_callsign (callsign me) p \<Longrightarrow> acts a me s (handle_text_message lib a p s)"
  by (simp add: handle_text_message_def Let_def acts_intros)

lemma acts_fast: "from_callsign (callsign me) p \<Longrightarrow> acts a me s (handle_fast_pilot_position lib a p s)"
  by (simp add: handle_fast_pilot_position_def acts_intros)

lemma acts_delete: "from_callsign (callsign me) p \<Longrightarrow> acts a me s (handle_delete lib a p s)"
  unfolding handle_delete_def by (rule acts_trans [OF _ acts_cancel_self]) (rule acts_broadcast)

lemma acts_controllers:
  assumes "from_callsign (callsign me) p"
  shows "acts a me s (handle_squawkbox lib a p s)" "acts a me s (handle_procontroller lib a p s)"
    "acts a me s (handle_handoff lib a p s)"
  using assms by (simp_all add: handle_squawkbox_def handle_procontroller_def handle_handoff_def Let_def acts_intros)

lemma acts_queries:
  assumes "from_callsign (callsign me) p"
  shows "acts a me s (handle_client_query lib a p s)"
proof -
  have "acts a me s (handle_query_atc lib a p s)" "acts a me s (handle_query_ip lib a p s)"
    by (simp_all add: handle_query_atc_def handle_query_ip_def Let_def acts_intros split: option.split)
  moreover have "acts a me s (handle_query_flightplan lib a p s)"
    by (auto simp: handle_query_flightplan_def Let_def split: option.split intro!: acts_intros acts_trans [OF acts_send acts_send])
  ultimately show ?thesis
    using assms by (simp add: handle_client_query_def Let_def acts_intros)
qed

lemma acts_metar: "acts a me s (handle_metar_request_packet lib a p s)"
  by (simp add: handle_metar_request_packet_def Let_def acts_def)

lemma acts_kill: "me = clients s a \<Longrightarrow> acts a me s (handle_kill_request lib a p s)"
  by (auto simp: handle_kill_request_def intro!: acts_intros acts_cancel split: option.split)

lemma acts_challenge: "acts a me s (handle_auth_challenge lib a p s)"
  unfolding handle_auth_challenge_def Let_def
  by (auto intro!: acts_intros acts_trans [OF acts_self acts_send] simp: login_data.defs)

lemma acts_plans:
  assumes "me = clients s a" "is_valid_client_callsign (callsign me)"
  shows "acts a me s (handle_file_flightplan lib a p s)" "acts a me s (handle_amend_flightplan lib a p s)"
proof -
  note plan = plan_packets_from [OF assms(2)]
  show "acts a me s (handle_file_flightplan lib a p s)"
    unfolding handle_file_flightplan_def Let_def using plan(1)
    by (auto intro!: acts_trans [OF acts_self acts_broadcast(5)] simp: login_data.defs assms(1))
  show "acts a me s (handle_amend_flightplan lib a p s)"
    unfolding handle_amend_flightplan_def Let_def using plan(2)
    by (auto intro!: acts_intros acts_trans [OF acts_flight_plan acts_broadcast(5)] simp: assms(1) split: option.split)
qed

subsection \<open>Positions\<close>

text \<open>The position and range a packet reports, and that it is one the tree can find again: no NaN.\<close>

definition reported_position :: "('f, 't) fsdlib \<Rightarrow> string \<Rightarrow> ('f point \<times> 'f) option" where
  "reported_position lib packet =
     (if get_packet_type packet = Some PacketTypeATCPosition then
        (case (parse_lat_lon lib packet 5 6, parse_vis_range lib packet 3) of
           (Some center, Some vis) \<Rightarrow> Some (center, vis) | _ \<Rightarrow> None)
      else if get_packet_type packet = Some PacketTypePilotPosition then
        map_option (\<lambda>center. (center, pilot_vis_range lib)) (parse_lat_lon lib packet 4 5)
      else None)"

definition position_comparable :: "('f, 't) fsdlib \<Rightarrow> string \<Rightarrow> bool" where
  "position_comparable lib packet \<longleftrightarrow>
     (\<forall>center vis. reported_position lib packet = Some (center, vis) \<longrightarrow>
        comparable lib (calculate_bounding_box lib center vis))"

text \<open>A handler acts, and in between may move its client to the reported position.\<close>

definition moves ::
    "('f, 't) fsdlib \<Rightarrow> nat \<Rightarrow> 'f client \<Rightarrow> string \<Rightarrow> ('f, 't, 'x) net_scheme \<Rightarrow> ('f, 't, 'x) net_scheme \<Rightarrow> bool" where
  "moves lib a me packet s s' \<longleftrightarrow>
     acts a me s s' \<or>
     (\<exists>center vis s0. reported_position lib packet = Some (center, vis) \<and> acts a me s s0 \<and>
        acts a me (update_position lib a center vis s0) s')"

lemma acts_send_fast: "acts a me s (update_send_fast lib a s)"
proof -
  have "acts a me s (snd (client_send lib a p (modify a (\<lambda>c. c\<lparr>sendFastEnabled := b\<rparr>) s)))" for p b
    by (rule acts_trans [OF acts_self acts_send]) (simp_all add: login_data.defs)
  then show ?thesis by (simp add: update_send_fast_def Let_def)
qed

lemma acts_pilot_position:
  assumes "from_callsign (callsign me) p" "parse_lat_lon lib p 4 5 = Some center"
  shows "acts a me (update_position lib a center (pilot_vis_range lib) s) (handle_pilot_position lib a p s)"
  unfolding handle_pilot_position_def assms(2) option.case Let_def
  by (intro acts_trans [OF acts_broadcast(1) acts_trans [OF acts_self acts_send_fast]] assms(1)) (simp add: login_data.defs)

lemma moves_pilot:
  assumes "from_callsign (callsign me) p" "get_packet_type p = Some PacketTypePilotPosition"
  shows "moves lib a me p s (handle_pilot_position lib a p s)"
proof (cases "parse_lat_lon lib p 4 5")
  case None
  then show ?thesis by (simp add: handle_pilot_position_def moves_def acts_error)
next
  case (Some center)
  let ?s1 = "update_position lib a center (pilot_vis_range lib) s"
  have "acts a me ?s1 (handle_pilot_position lib a p s)" by (rule acts_pilot_position [OF assms(1) Some])
  then show ?thesis using Some assms(2) by (auto simp: moves_def reported_position_def intro: acts_refl)
qed

lemma moves_atc:
  assumes "from_callsign (callsign me) p" "get_packet_type p = Some PacketTypeATCPosition"
  shows "moves lib a me p s (handle_atc_position lib a p s)"
proof (cases "\<exists>facility. parse_int_bits 32 (get_field p 2) = Inr facility \<and> is_allowed_facility_type (networkRating (clients s a)) facility")
  case False
  then have "acts a me s (handle_atc_position lib a p s)"
    by (auto simp: handle_atc_position_def intro!: acts_error acts_trans [OF acts_error acts_cancel_self] split: sum.split)
  then show ?thesis by (simp add: moves_def)
next
  case True
  then obtain facility where f: "parse_int_bits 32 (get_field p 2) = Inr facility"
      "is_allowed_facility_type (networkRating (clients s a)) facility" by blast
  define s1 where "s1 = modify a (\<lambda>c. c\<lparr>facilityType := facility\<rparr>) s"
  have s1: "acts a me s s1"
    unfolding s1_def using f(2) by (intro acts_modify) (auto simp: touches_self_def login_data.defs)
  show ?thesis
  proof (cases "parse_lat_lon lib p 5 6")
    case None
    then show ?thesis
      using f acts_trans [OF s1 acts_error] by (simp add: handle_atc_position_def s1_def moves_def)
  next
    case center: (Some center)
    show ?thesis
    proof (cases "parse_vis_range lib p 3")
      case None
      then show ?thesis
        using f center acts_trans [OF s1 acts_error] by (simp add: handle_atc_position_def s1_def moves_def)
    next
      case (Some vis)
      have "acts a me (update_position lib a center vis s1) (handle_atc_position lib a p s)"
        using f unfolding handle_atc_position_def
        by (simp add: center Some Let_def flip: s1_def)
          (intro acts_trans [OF acts_broadcast(1) acts_self] assms(1), simp add: login_data.defs)
      with s1 show ?thesis using center Some assms(2) by (auto simp: moves_def reported_position_def)
    qed
  qed
qed

lemma moves_handler:
  assumes "verify_packet p (callsign me) = Accept t" "me = clients s a" "is_valid_client_callsign (callsign me)"
  shows "moves lib a me p s (get_handler lib t a p s)"
proof -
  have p: "from_callsign (callsign me) p" and t: "get_packet_type p = Some t"
    using assms(1) accepted_from verify_packet_accepts(1) by auto
  note acts = acts_text [OF p] acts_fast [OF p] acts_delete [OF p] acts_controllers [OF p] acts_queries [OF p] acts_metar
    acts_kill [OF assms(2)] acts_challenge acts_plans [OF assms(2,3)]
  show ?thesis
  proof (cases t)
    case PacketTypeATCPosition
    with moves_atc [OF p] t show ?thesis by simp
  next
    case PacketTypePilotPosition
    with moves_pilot [OF p] t show ?thesis by simp
  qed (simp_all add: moves_def acts)
qed

lemma moves_packet:
  assumes "is_valid_client_callsign (callsign (clients s a))"
  shows "moves lib a (clients s a) p s (handle_packet lib a p s)"
  using moves_handler [OF _ refl assms, of p] verify_packet_no_panic [of p]
  by (auto simp: handle_packet_def moves_def acts_error split: verdict.split)

subsection \<open>What is kept\<close>

lemma update_position_clients:
  "b \<noteq> a \<Longrightarrow> clients (update_position lib a center vis s) b = clients s b"
  "clients (update_position lib a center vis s) a = (clients s a)\<lparr>coords := center, visRange := vis\<rparr>"
  "clientMap (update_position lib a center vis s) = clientMap s" "next_client (update_position lib a center vis s) = next_client s"
  "web.truncate (update_position lib a center vis s) = web.truncate s"
  by (simp_all add: update_position_def Let_def web.defs)

lemma acts_touches:
  assumes "acts a me s s'"
  shows "b \<noteq> a \<Longrightarrow> touches me (clients s b) (clients s' b)" "touches_self (clients s a) (clients s' a)"
    "clientMap s' = clientMap s" "tree s' = tree s" "next_client s' = next_client s" "web.truncate s' = web.truncate s"
proof -
  have s': "s' = s\<lparr>clients := clients s', metarRequests := metarRequests s'\<rparr>" using assms by (simp add: acts_def)
  show "clientMap s' = clientMap s" "tree s' = tree s" "next_client s' = next_client s" "web.truncate s' = web.truncate s"
    by (subst s', simp add: web.defs)+
qed (use assms in \<open>simp_all add: acts_def\<close>)

lemma moves_touches:
  assumes "moves lib a me p s s'"
  shows "b \<noteq> a \<Longrightarrow> touches me (clients s b) (clients s' b)" "touches_self (clients s a) (clients s' a)"
    "clientMap s' = clientMap s" "next_client s' = next_client s" "web.truncate s' = web.truncate s"
proof -
  consider "acts a me s s'" | center vis s0 where "acts a me s s0" "acts a me (update_position lib a center vis s0) s'"
    using assms by (auto simp: moves_def)
  note cases = this
  have self: "touches_self c (c\<lparr>coords := center, visRange := vis\<rparr>)" for c :: "'a client" and center vis
    by (simp add: touches_self_def login_data.defs)
  show "b \<noteq> a \<Longrightarrow> touches me (clients s b) (clients s' b)"
    using cases by cases (auto dest!: acts_touches(1) simp: update_position_clients intro: touches_trans)
  show "touches_self (clients s a) (clients s' a)"
    using cases by cases (auto dest!: acts_touches(2) simp: update_position_clients intro: touches_self_trans [OF touches_self_trans [OF _ self]])
  show "clientMap s' = clientMap s" "next_client s' = next_client s" "web.truncate s' = web.truncate s"
    using cases by (cases; simp add: acts_touches(3,5,6) update_position_clients)+
qed

lemma touches_kept:
  "touches me c c' \<Longrightarrow> login_data.truncate c' = login_data.truncate c \<and> coords c' = coords c \<and> visRange c' = visRange c
     \<and> facilityType c' = facilityType c"
  unfolding touches_def by (cases c; cases c') (simp add: login_data.defs)

lemma login_fields:
  "login_data.truncate c' = login_data.truncate c \<Longrightarrow>
     callsign c' = callsign c \<and> networkRating c' = networkRating c \<and> maxNetworkRating c' = maxNetworkRating c
     \<and> protoRevision c' = protoRevision c \<and> isAtc c' = isAtc c \<and> client_cid c' = client_cid c"
  by (simp add: login_data.defs)

lemma acts_office:
  assumes "acts a me s s'" "office_ok lib entries s"
  shows "office_ok lib entries s'"
proof (rule office_frame [OF assms(2)])
  fix b assume "b \<in> registered s"
  have "login_data.truncate (clients s' b) = login_data.truncate (clients s b) \<and> coords (clients s' b) = coords (clients s b)
      \<and> visRange (clients s' b) = visRange (clients s b)"
  proof (cases "b = a")
    case True
    with assms(1) show ?thesis by (simp add: acts_def touches_self_def)
  next
    case False
    with touches_kept [OF acts_touches(1) [OF assms(1)]] show ?thesis by simp
  qed
  then show "callsign (clients s' b) = callsign (clients s b) \<and> coords (clients s' b) = coords (clients s b)
      \<and> visRange (clients s' b) = visRange (clients s b)"
    using login_fields [of "clients s' b" "clients s b"] by simp
qed (use acts_touches(3-5) [OF assms(1)] in simp_all)

lemma moves_office:
  assumes "rtree_ok lib entries" "arith_ok lib" "office_ok lib entries s" "a \<in> registered s"
    and "moves lib a me p s s'" "position_comparable lib p"
  shows "office_ok lib entries s'"
  using assms(5) unfolding moves_def
proof
  assume "\<exists>center vis s0. reported_position lib p = Some (center, vis) \<and> acts a me s s0 \<and>
      acts a me (update_position lib a center vis s0) s'"
  then obtain center vis s0 where s0: "reported_position lib p = Some (center, vis)" "acts a me s s0"
      "acts a me (update_position lib a center vis s0) s'" by blast
  have "registered s0 = registered s" by (simp add: registered_def acts_touches(3) [OF s0(2)])
  then have "office_ok lib entries (update_position lib a center vis s0)"
    using assms(4,6) s0(1)
    by (intro update_position_office [OF assms(1,2) acts_office [OF s0(2) assms(3)]]) (auto simp: position_comparable_def)
  then show ?thesis by (rule acts_office [OF s0(3)])
qed (rule acts_office [OF _ assms(3)])

end
