(* ===== verification/Fsd_Connection.thy ===== *)
theory Fsd_Connection
  imports Fsd_Effects
begin

text \<open>
  \<open>fsd/conn.go\<close>: a connection from its two login packets to its end. The lines read from the socket
  are arguments (\<open>None\<close> when there is none), and so is whether the socket can still be written
  to. A refused login is the error packet written to the socket, or none.
\<close>

subsection \<open>The login packets\<close>

type_synonym refusal = "(nat \<times> string) option"

abbreviation refuse :: "nat \<Rightarrow> string \<Rightarrow> refusal + 'a" where
  "refuse code msg \<equiv> Inl (Some (code, msg))"

text \<open>\<open>strconv.ParseUint\<close> in base 16 with 16 bits.\<close>

fun scan_hex :: "nat \<Rightarrow> string \<Rightarrow> nat option" where
  "scan_hex n [] = Some n"
| "scan_hex n (c # cs) =
     (case hex_val c of
        None \<Rightarrow> None
      | Some d \<Rightarrow> if 16 * n + d > 65535 then None else scan_hex (16 * n + d) cs)"

definition parse_hex16 :: "string \<Rightarrow> 16 word option" where
  "parse_hex16 s = (if s = [] then None else map_option word_of_nat (scan_hex 0 s))"

text \<open>The optional challenge of the identification packet and the number of the client program.\<close>

definition read_challenge :: "string \<Rightarrow> refusal + (string \<times> 16 word)" where
  "read_challenge idPacket =
     (if count_fields idPacket = 9 then
        (case parse_hex16 (get_field idPacket 2) of
           None \<Rightarrow> refuse SyntaxError ''Error parsing client ID''
         | Some n \<Rightarrow> Inr (get_field idPacket 8, n))
      else Inr ([], 0))"

definition read_add_atc :: "string \<Rightarrow> login_data \<Rightarrow> refusal + (login_data \<times> string)" where
  "read_add_atc p data =
     (case atoi (get_field p 3) of
        None \<Rightarrow> refuse SyntaxError ''Invalid CID in ATC add packet''
      | Some cid \<Rightarrow>
          (case atoi (get_field p 5) of
             None \<Rightarrow> refuse SyntaxError ''Invalid network rating in pilot add packet''
           | Some rating \<Rightarrow>
               (case atoi (get_field p 6) of
                  None \<Rightarrow> refuse SyntaxError ''Invalid protocol revision in ATC add packet''
                | Some revision \<Rightarrow>
                    Inr (data\<lparr>client_cid := cid, realName := get_field p 2, networkRating := rating, protoRevision := revision\<rparr>,
                         get_field p 4))))"

definition read_add_pilot :: "string \<Rightarrow> login_data \<Rightarrow> refusal + (login_data \<times> string)" where
  "read_add_pilot p data =
     (case atoi (get_field p 2) of
        None \<Rightarrow> refuse SyntaxError ''Invalid CID in pilot add packet''
      | Some cid \<Rightarrow>
          (case atoi (get_field p 4) of
             None \<Rightarrow> refuse SyntaxError ''Invalid network rating in pilot add packet''
           | Some rating \<Rightarrow>
               (case atoi (get_field p 5) of
                  None \<Rightarrow> refuse SyntaxError ''Invalid protocol revision in pilot add packet''
                | Some revision \<Rightarrow>
                    Inr (data\<lparr>client_cid := cid, realName := get_field p 7, networkRating := rating, protoRevision := revision\<rparr>,
                         get_field p 3))))"

definition read_add_packet :: "string \<Rightarrow> login_data \<Rightarrow> refusal + (login_data \<times> string)" where
  "read_add_packet p data =
     (if length p < 16 then refuse SyntaxError ''Invalid add packet''
      else if take 3 p \<noteq> ''#AA'' \<and> take 3 p \<noteq> ''#AP'' then refuse SyntaxError ''Invalid add packet prefix''
      else
        (let atc = (take 3 p = ''#AA'') in
         if atc \<and> count_fields p \<noteq> 7 then refuse SyntaxError ''Invalid number of fields in ATC add packet''
         else if \<not> atc \<and> count_fields p \<noteq> 8 then refuse SyntaxError ''Invalid number of fields in pilot add packet''
         else
           (case cut_prefix (take 3 p) (get_field p 0) of
              None \<Rightarrow> refuse SyntaxError ''Invalid callsign in add packet''
            | Some cs \<Rightarrow>
                (if atc then read_add_atc p (data\<lparr>callsign := cs, isAtc := True\<rparr>)
                 else read_add_pilot p (data\<lparr>callsign := cs, isAtc := False\<rparr>)))))"

definition no_login_data :: login_data where
  "no_login_data =
     \<lparr>clientChallenge = [], callsign = [], client_cid = 0, realName = [], networkRating = 0, maxNetworkRating = 0,
      protoRevision = 0, loginTime = 0, clientId = 0, isAtc = False\<rparr>"

definition read_login_packets :: "string option \<Rightarrow> string option \<Rightarrow> int \<Rightarrow> refusal + (login_data \<times> string)" where
  "read_login_packets id_line add_line now =
     (case id_line of
        None \<Rightarrow> refuse SyntaxError ''Error reading Client ident packet''
      | Some idPacket \<Rightarrow>
          (case add_line of
             None \<Rightarrow> refuse SyntaxError ''Error reading add packet''
           | Some addPacket \<Rightarrow>
               (case read_challenge idPacket of
                  Inl e \<Rightarrow> Inl e
                | Inr (challenge, n) \<Rightarrow>
                    (case read_add_packet addPacket (no_login_data\<lparr>clientChallenge := challenge, clientId := n\<rparr>) of
                       Inl e \<Rightarrow> Inl e
                     | Inr (data, token) \<Rightarrow>
                         if protoRevision data < 100 \<or> 101 < protoRevision data
                         then refuse InvalidProtocolRevisionError ''Invalid protocol revision''
                         else Inr (data\<lparr>loginTime := now\<rparr>, token)))))"


subsection \<open>A new client\<close>

text \<open>The zero time of Go, in ms, for a client that has not reported a position.\<close>

definition zero_time :: int where
  "zero_time = -62135596800000"

definition new_client :: "('f, 't) fsdlib \<Rightarrow> login_data \<Rightarrow> string \<Rightarrow> 'f client" where
  "new_client lib data addr =
     login_data.extend data
       (client.fields addr (lit lib 0 0, lit lib 0 0) (lit lib 0 0) (lit lib 0 0) [] [] [] 0 0 [] 0 zero_time 0
          no_auth_state False False [])"

text \<open>\<open>attemptAuthentication\<close>: the ratings are compared the same way for a token and for a password.\<close>

definition check_rating :: "'f client \<Rightarrow> int \<Rightarrow> refusal + 'f client" where
  "check_rating c max_rating =
     (if networkRating c > max_rating then refuse RequestedLevelTooHighError ''Requested level too high''
      else if networkRating c < NetworkRatingObserver
      then refuse CertificateSuspendedError ''Certificate inactive or suspended''
      else Inr (c\<lparr>maxNetworkRating := max_rating\<rparr>))"

definition authenticate_token :: "golib \<Rightarrow> 'f client \<Rightarrow> string \<Rightarrow> 'x web_scheme \<Rightarrow> refusal + 'f client" where
  "authenticate_token glib c token w =
     (case config_get ConfigJwtSecretKey w of
        Inl _ \<Rightarrow> Inl None
      | Inr secret \<Rightarrow>
          (case jwt_parse glib secret (wall w) token of
             None \<Rightarrow> refuse InvalidLogonError ''Invalid CID/password''
           | Some cl \<Rightarrow>
               if TokenType cl \<noteq> ''fsd'' then refuse InvalidLogonError ''Invalid CID/password''
               else if client_cid c \<noteq> claims_CID cl then refuse RequestedLevelTooHighError ''Invalid CID/password''
               else check_rating c (claims_NetworkRating cl)))"

definition authenticate_password :: "golib \<Rightarrow> 'f client \<Rightarrow> string \<Rightarrow> 'x web_scheme \<Rightarrow> refusal + 'f client" where
  "authenticate_password glib c password w =
     (case get_user_by_cid (client_cid c) w of
        Inl _ \<Rightarrow> refuse InvalidLogonError ''Invalid CID/password''
      | Inr u \<Rightarrow>
          if \<not> verify_password_hash glib password (Password u) then refuse InvalidLogonError ''Invalid CID/password''
          else check_rating c (NetworkRating u))"

definition attempt_authentication :: "golib \<Rightarrow> 'f client \<Rightarrow> string \<Rightarrow> 'x web_scheme \<Rightarrow> refusal + 'f client" where
  "attempt_authentication glib c token w =
     (case (if clientChallenge c = [] then Some c
            else map_option (\<lambda>st. c\<lparr>authState := st\<rparr>) (auth_initialize (clientId c) (clientChallenge c))) of
        None \<Rightarrow> refuse UnauthorizedSoftwareError ''Client incompatible with auth challenges''
      | Some c1 \<Rightarrow>
          if most_likely_jwt token then authenticate_token glib c1 token w
          else authenticate_password glib c1 token w)"


subsection \<open>The connection\<close>

definition add_packet :: "'f client \<Rightarrow> string" where
  "add_packet c =
     (if isAtc c then
        ''#AA'' @ callsign c @ '':SERVER:'' @ realName c @ '':'' @ show_int (client_cid c) @ ''::''
          @ show_int (networkRating c) @ '':'' @ show_int (protoRevision c) @ crlf
      else
        ''#AP'' @ callsign c @ '':SERVER:'' @ show_int (client_cid c) @ ''::'' @ show_int (networkRating c) @ '':''
          @ show_int (protoRevision c) @ '':1:'' @ realName c @ crlf)"

definition delete_packet :: "'f client \<Rightarrow> string" where
  "delete_packet c =
     (if isAtc c then ''#DA'' else ''#DP'') @ callsign c @ '':SERVER:'' @ show_int (client_cid c) @ crlf"

definition motd_packets :: "'f client \<Rightarrow> 'x database_scheme \<Rightarrow> string list" where
  "motd_packets c d =
     (let msg = get_welcome_message d;
          lines = (if msg \<noteq> [] then split_on (CHR 0x0A) msg else [''Connected to openfsd''])
      in map (\<lambda>line. ''#TMserver:'' @ callsign c @ '':'' @ line @ crlf) lines)"

datatype conn_result = Rejected refusal | LoggedIn nat "string list" | Lost

text \<open>\<open>handleConn\<close> up to the event loop; \<open>writable\<close> is whether the welcome message can be written.\<close>

definition connect ::
    "('f, 't) fsdlib \<Rightarrow> golib \<Rightarrow> string \<Rightarrow> bool \<Rightarrow> string option \<Rightarrow> string option
       \<Rightarrow> ('f, 't, 'x) net_scheme \<Rightarrow> conn_result \<times> ('f, 't, 'x) net_scheme" where
  "connect lib glib addr writable id_line add_line s =
     (case read_login_packets id_line add_line (wall s) of
        Inl e \<Rightarrow> (Rejected e, s)
      | Inr (data, token) \<Rightarrow>
          if \<not> is_valid_client_callsign (callsign data) then (Rejected (Some (CallsignInvalidError, ''Callsign invalid'')), s)
          else
            (case attempt_authentication glib (new_client lib data addr) token s of
               Inl e \<Rightarrow> (Rejected e, s)
             | Inr c \<Rightarrow>
                 (let a = next_client s;
                      s1 = s\<lparr>clients := (clients s)(a := c), next_client := Suc a\<rparr>
                  in case post_register lib a s1 of
                       (False, s2) \<Rightarrow> (Rejected (Some (CallsignInUseError, ''Callsign already in use'')), s2)
                     | (True, s2) \<Rightarrow>
                         if \<not> writable then (Lost, post_release lib a s2)
                         else (LoggedIn a (motd_packets c s2), broadcast_all lib a (add_packet c) s2))))"

text \<open>
  What a connection writes to its socket up to the event loop: the identification of the server, then
  the error or the welcome. A connection that cannot be written to at first is closed at once.
\<close>

definition server_ident_packet :: string where
  "server_ident_packet = ''$DISERVER:CLIENT:openfsd:6f70656e667364'' @ crlf"

fun login_error_packet :: "nat \<times> string \<Rightarrow> string" where
  "login_error_packet (code, msg) = ''$ERserver:unknown:'' @ show_nat code @ ''::'' @ msg @ crlf"

fun login_output :: "conn_result \<Rightarrow> string list" where
  "login_output (Rejected None) = []"
| "login_output (Rejected (Some e)) = [login_error_packet e]"
| "login_output (LoggedIn _ motd) = motd"
| "login_output Lost = []"

fun logged_in :: "conn_result \<Rightarrow> nat option" where
  "logged_in (LoggedIn a _) = Some a"
| "logged_in _ = None"

definition handle_conn ::
    "('f, 't) fsdlib \<Rightarrow> golib \<Rightarrow> string \<Rightarrow> bool \<Rightarrow> bool \<Rightarrow> string option \<Rightarrow> string option
       \<Rightarrow> ('f, 't, 'x) net_scheme \<Rightarrow> string list \<times> nat option \<times> ('f, 't, 'x) net_scheme" where
  "handle_conn lib glib addr ident_sent writable id_line add_line s =
     (if \<not> ident_sent then ([], None, s)
      else
        (case connect lib glib addr writable id_line add_line s of
           (r, s1) \<Rightarrow> (server_ident_packet # login_output r, logged_in r, s1)))"

text \<open>Everything that is written is a line.\<close>

lemma connect_motd:
  "fst (connect lib glib addr writable id_line add_line s) = LoggedIn a motd \<Longrightarrow> \<exists>c d. motd = motd_packets (c :: 'f client) (d :: ('f, 't, 'x) net_scheme)"
  for s :: "('f, 't, 'x) net_scheme"
  by (auto simp: connect_def Let_def split: sum.splits prod.splits if_splits bool.splits)

lemma handle_conn_lines:
  assumes "p \<in> set (fst (handle_conn lib glib addr ident_sent writable id_line add_line s))"
  shows "\<exists>line. p = line @ crlf"
proof -
  let ?r = "fst (connect lib glib addr writable id_line add_line s)"
  have "p = server_ident_packet \<or> p \<in> set (login_output ?r)"
    using assms by (auto simp: handle_conn_def split: prod.splits if_splits)
  then show ?thesis
  proof
    assume p: "p \<in> set (login_output ?r)"
    show ?thesis
    proof (cases "\<exists>a motd. ?r = LoggedIn a motd")
      case True
      then obtain a motd where r: "?r = LoggedIn a motd" by blast
      from connect_motd [OF r] p r show ?thesis by (auto simp: motd_packets_def Let_def)
    next
      case False
      with p show ?thesis by (cases ?r rule: login_output.cases) auto
    qed
  qed (simp add: server_ident_packet_def)
qed

text \<open>The end of \<open>handleConn\<close>: its deferred calls after the event loop has returned.\<close>

definition disconnect :: "('f, 't) fsdlib \<Rightarrow> nat \<Rightarrow> ('f, 't, 'x) net_scheme \<Rightarrow> ('f, 't, 'x) net_scheme" where
  "disconnect lib a s =
     (let s1 = cancel_ctx a s
      in post_release lib a (broadcast_all lib a (delete_packet (clients s1 a)) s1))"

end
