(* ===== verification/Fsd_Service.thy ===== *)
theory Fsd_Service
  imports Fsd_Connection
begin

text \<open>
  The other ways into the FSD server. \<open>fsd/http_service.go\<close>: the routes the web server calls, guarded by
  a service token; the request for them that \<open>web/data.go\<close> makes; and the workers of
  \<open>fsd/metar.go\<close>, which answer the queued requests for weather reports. What the weather service
  on the network answers is a parameter.
\<close>

subsection \<open>The guard\<close>

text \<open>The status a request is refused with, or none when it is let through.\<close>

definition service_refusal :: "golib \<Rightarrow> string option \<Rightarrow> 'x web_scheme \<Rightarrow> nat option" where
  "service_refusal glib auth w =
     (case bearer_token auth of
        None \<Rightarrow> Some 400
      | Some token \<Rightarrow>
          (case config_get ConfigJwtSecretKey w of
             Inl _ \<Rightarrow> Some 500
           | Inr secret \<Rightarrow>
               (case jwt_parse glib secret (wall w) token of
                  None \<Rightarrow> Some 400
                | Some c \<Rightarrow>
                    if TokenType c \<noteq> ''fsd_service'' \<or> claims_NetworkRating c < NetworkRatingAdministator then Some 403
                    else None)))"


subsection \<open>Kicking\<close>

text \<open>
  What binding a body leaves in a string field, and whether it succeeded. A member of another type
  is an error, but the decoder goes on with the members after it.
\<close>

definition bound_string :: "golib \<Rightarrow> string \<Rightarrow> string option \<Rightarrow> bool \<times> string" where
  "bound_string glib k body =
     (case body_members body of
        None \<Rightarrow> (False, [])
      | Some kvs \<Rightarrow>
          (let v = foldl (\<lambda>s j. case set_string j s of None \<Rightarrow> s | Some t \<Rightarrow> t) [] (members k kvs)
           in (string_field k kvs \<noteq> None \<and> binding glib [([Required], StrV v)], v)))"

text \<open>
  After a body that cannot be bound the handler goes on; the first status written is the one that
  is sent.
\<close>

definition handle_kick_user :: "golib \<Rightarrow> string option \<Rightarrow> ('f, 't, 'x) net_scheme \<Rightarrow> nat \<times> ('f, 't, 'x) net_scheme" where
  "handle_kick_user glib body s =
     (let (ok, cs) = bound_string glib ''callsign'' body;
          status = (\<lambda>n. if ok then n else 400)
      in case post_find cs s of
           None \<Rightarrow> (status 404, s)
         | Some b \<Rightarrow> (status 204, cancel_ctx b s))"

definition service_kick_user ::
    "golib \<Rightarrow> string option \<Rightarrow> string option \<Rightarrow> ('f, 't, 'x) net_scheme \<Rightarrow> nat \<times> ('f, 't, 'x) net_scheme" where
  "service_kick_user glib auth body s =
     (case service_refusal glib auth s of
        Some status \<Rightarrow> (status, s)
      | None \<Rightarrow> handle_kick_user glib body s)"

text \<open>
  The web server's side: a token for the service, then the request. No status when the token cannot
  be made or the service not be reached.
\<close>

definition make_service_token :: "golib \<Rightarrow> 'x web_scheme \<Rightarrow> string option \<times> 'x web_scheme" where
  "make_service_token glib w =
     (case make_jwt_token glib ''fsd_service'' (-1) [] [] NetworkRatingAdministator (15 * minute) w of
        (None, w1) \<Rightarrow> (None, w1)
      | (Some c, w1) \<Rightarrow>
          (case config_get ConfigJwtSecretKey w1 of
             Inl _ \<Rightarrow> (None, w1)
           | Inr secret \<Rightarrow> (Some (jwt_sign glib secret c), w1)))"

definition kick_over_http ::
    "golib \<Rightarrow> bool \<Rightarrow> string \<Rightarrow> ('f, 't, 'x) net_scheme \<Rightarrow> nat option \<times> ('f, 't, 'x) net_scheme" where
  "kick_over_http glib reachable cs s =
     (case make_service_token glib s of
        (None, s1) \<Rightarrow> (None, s1)
      | (Some token, s1) \<Rightarrow>
          if \<not> reachable then (None, s1)
          else
            (case service_kick_user glib (Some (''Bearer '' @ token)) (Some (json_text (Obj [(''callsign'', Str cs)]))) s1 of
               (status, s2) \<Rightarrow> (Some status, s2)))"


subsection \<open>The online users\<close>

record 'f online_user =
  on_callsign :: string
  on_cid :: int
  on_name :: string
  on_rating :: int
  on_max_rating :: int
  on_latlon :: "'f point"
  on_logon :: int
  on_updated :: int

datatype 'f online =
    OnlinePilot "'f online_user" int int int string
  | OnlineATC "'f online_user" string int int

definition general_data :: "'f client \<Rightarrow> 'f online_user" where
  "general_data c =
     \<lparr>on_callsign = callsign c, on_cid = client_cid c, on_name = realName c, on_rating = networkRating c,
      on_max_rating = maxNetworkRating c, on_latlon = coords c, on_logon = loginTime c, on_updated = lastUpdated c\<rparr>"

definition online_entry :: "('f, 't) fsdlib \<Rightarrow> 'f client \<Rightarrow> 'f online" where
  "online_entry lib c =
     (if isAtc c then
        OnlineATC (general_data c) (frequency c) (facilityType c) (f_trunc lib (f_mul lib (visRange c) (lit lib 539957 (-9))))
      else OnlinePilot (general_data c) (sint (altitude c)) (sint (groundspeed c)) (sint (heading c)) (transponder c))"

text \<open>
  The pilots and the controllers of the reply, in the order in which the map is walked. Go walks a
  copy of it in an arbitrary order; the order of the association list stands for that one.
\<close>

definition get_online_users :: "('f, 't) fsdlib \<Rightarrow> ('f, 't, 'x) net_scheme \<Rightarrow> 'f online list \<times> 'f online list" where
  "get_online_users lib s =
     (let cs = map (\<lambda>(_, a). clients s a) (clientMap s)
      in (map (online_entry lib) (filter (\<lambda>c. \<not> isAtc c) cs), map (online_entry lib) (filter isAtc cs)))"


subsection \<open>Weather reports\<close>

definition build_metar_request_url :: "string \<Rightarrow> string" where
  "build_metar_request_url icao = ''https://tgftp.nws.noaa.gov/data/observations/metar/stations/'' @ icao @ ''.TXT''"

definition build_metar_response_packet :: "string \<Rightarrow> string \<Rightarrow> string" where
  "build_metar_response_packet cs metar = ''$ARSERVER:'' @ cs @ '':METAR:'' @ metar @ crlf"

definition send_metar_error ::
    "('f, 't) fsdlib \<Rightarrow> nat \<Rightarrow> string \<Rightarrow> ('f, 't, 'x) net_scheme \<Rightarrow> ('f, 't, 'x) net_scheme" where
  "send_metar_error lib a icao s = send_error lib a NoWeatherProfileError (''Error fetching METAR for '' @ icao) s"

text \<open>
  The buffer starts with 512 zero octets, which go away with the first line, the time. The second
  line is the report, with its line end.
\<close>

definition second_line :: "string \<Rightarrow> string option" where
  "second_line body =
     (let buf = replicate 512 (CHR 0x00) @ body in
      if count_list buf (CHR 0x0A) \<noteq> 2 then None
      else
        (case index_byte (CHR 0x0A) buf of
           None \<Rightarrow> None
         | Some i \<Rightarrow>
             (let rest = drop (i + 1) buf in
              case index_byte (CHR 0x0A) rest of None \<Rightarrow> None | Some j \<Rightarrow> Some (take (j + 1) rest))))"

definition handle_metar_request ::
    "('f, 't) fsdlib \<Rightarrow> (string \<Rightarrow> (nat \<times> string option) option) \<Rightarrow> nat \<times> string
       \<Rightarrow> ('f, 't, 'x) net_scheme \<Rightarrow> ('f, 't, 'x) net_scheme" where
  "handle_metar_request lib fetch req s =
     (case req of
        (a, icao) \<Rightarrow>
          (case fetch (build_metar_request_url icao) of
             None \<Rightarrow> send_metar_error lib a icao s
           | Some (status, content) \<Rightarrow>
               (if status \<noteq> 200 then send_metar_error lib a icao s
                else
                  (case Option.bind content second_line of
                     None \<Rightarrow> send_metar_error lib a icao s
                   | Some metar \<Rightarrow> snd (client_send lib a (build_metar_response_packet (callsign (clients s a)) metar) s)))))"

text \<open>A worker takes the oldest request of the queue.\<close>

definition metar_worker ::
    "('f, 't) fsdlib \<Rightarrow> (string \<Rightarrow> (nat \<times> string option) option) \<Rightarrow> ('f, 't, 'x) net_scheme \<Rightarrow> ('f, 't, 'x) net_scheme" where
  "metar_worker lib fetch s =
     (case metarRequests s of
        [] \<Rightarrow> s
      | req # reqs \<Rightarrow> handle_metar_request lib fetch req (s\<lparr>metarRequests := reqs\<rparr>))"

end
