(* ===== verification/Fsd_Server.thy ===== *)
theory Fsd_Server
  imports Fsd_Service
begin

text \<open>
  The FSD server as a machine: the steps of its connections, of the service and of the weather
  workers in any order, and the invariant they keep. In every state that can be reached the map of
  callsigns and the tree agree, and every connected client has a valid callsign, a rating
  between observer and what its account allows, a known protocol revision, and a facility its
  rating may open.
\<close>

subsection \<open>The parts of the server\<close>

text \<open>Who a client is never changes once it is connected; what it may be is this.\<close>

definition client_ok :: "'f client \<Rightarrow> bool" where
  "client_ok c \<longleftrightarrow>
     is_valid_client_callsign (callsign c) \<and> NetworkRatingObserver \<le> networkRating c \<and>
     networkRating c \<le> maxNetworkRating c \<and> protoRevision c \<in> {100, 101} \<and>
     is_allowed_facility_type (networkRating c) (facilityType c)"

definition net_ok ::
    "('f, 't) fsdlib \<Rightarrow> ('t \<Rightarrow> ('f box \<times> nat) multiset) \<Rightarrow> ('f, 't, 'x) net_scheme \<Rightarrow> bool" where
  "net_ok lib entries s \<longleftrightarrow> office_ok lib entries s \<and> (\<forall>a \<in> registered s. client_ok (clients s a))"

text \<open>The web server and the clock change the tables and the time, not the clients.\<close>

definition same_office :: "('f, 't, 'x) net_scheme \<Rightarrow> ('f, 't, 'x) net_scheme \<Rightarrow> bool" where
  "same_office s s' \<longleftrightarrow>
     clients s' = clients s \<and> next_client s' = next_client s \<and> clientMap s' = clientMap s \<and> tree s' = tree s
     \<and> metarRequests s' = metarRequests s"

text \<open>
  The steps of the server. Any number of connections take their steps in any order; a handler runs
  as one step. A packet may still be handled after its client's context is done.
\<close>

inductive net_step ::
    "('f, 't) fsdlib \<Rightarrow> golib \<Rightarrow> ('f, 't, 'x) net_scheme \<Rightarrow> ('f, 't, 'x) net_scheme \<Rightarrow> bool"
  for lib glib where
  step_connect: "connect lib glib addr writable id_line add_line s = (r, s') \<Longrightarrow> net_step lib glib s s'"
| step_packet: "a \<in> registered s \<Longrightarrow> position_comparable lib packet \<Longrightarrow>
     net_step lib glib s (handle_packet lib a packet s)"
| step_disconnect: "a \<in> registered s \<Longrightarrow> net_step lib glib s (disconnect lib a s)"
| step_service: "service_kick_user glib auth body s = (status, s') \<Longrightarrow> net_step lib glib s s'"
| step_metar: "net_step lib glib s (metar_worker lib fetch s)"
| step_web: "same_office s s' \<Longrightarrow> net_step lib glib s s'"

inductive net_steps ::
    "('f, 't) fsdlib \<Rightarrow> golib \<Rightarrow> ('f, 't, 'x) net_scheme \<Rightarrow> ('f, 't, 'x) net_scheme \<Rightarrow> bool"
  for lib glib where
  steps_refl: "net_steps lib glib s s"
| steps_step: "net_steps lib glib s s' \<Longrightarrow> net_step lib glib s' s'' \<Longrightarrow> net_steps lib glib s s''"


text \<open>A connection, with what it writes, is such a step or none.\<close>

lemma handle_conn_steps: "net_steps lib glib s (snd (snd (handle_conn lib glib addr ident_sent writable id_line add_line s)))"
  by (auto simp: handle_conn_def split: prod.split intro: steps_refl steps_step step_connect)


subsection \<open>Every step keeps the invariant\<close>

lemma client_ok_kept:
  assumes "client_ok c" "login_data.truncate c' = login_data.truncate c"
    and "facilityType c' = facilityType c \<or> is_allowed_facility_type (networkRating c) (facilityType c')"
  shows "client_ok c'"
  using assms login_fields [OF assms(2)] by (auto simp: client_ok_def)

lemma touches_client_ok: "touches me c c' \<Longrightarrow> client_ok c \<Longrightarrow> client_ok c'"
  using touches_kept [of me c c'] client_ok_kept [of c c'] by simp

lemma touches_self_client_ok: "touches_self c c' \<Longrightarrow> client_ok c \<Longrightarrow> client_ok c'"
  using client_ok_kept [of c c'] by (simp add: touches_self_def)

lemma acts_net_ok:
  assumes "acts a me s s'" "net_ok lib entries s"
  shows "net_ok lib entries s'"
proof -
  have "client_ok (clients s' b)" if "b \<in> registered s" for b
    using assms that acts_touches(1) [OF assms(1), of b] acts_touches(2) [OF assms(1)]
    by (cases "b = a") (auto simp: net_ok_def intro: touches_client_ok touches_self_client_ok)
  then show ?thesis
    using assms acts_office acts_touches(3) [OF assms(1)] by (auto simp: net_ok_def registered_def)
qed

lemma packet_net_ok:
  assumes "rtree_ok lib entries" "arith_ok lib" "net_ok lib entries s" "a \<in> registered s" "position_comparable lib p"
  shows "net_ok lib entries (handle_packet lib a p s)"
proof -
  have "is_valid_client_callsign (callsign (clients s a))"
    using assms(3,4) by (auto simp: net_ok_def client_ok_def)
  note m = moves_packet [OF this, of lib p]
  have "client_ok (clients (handle_packet lib a p s) b)" if "b \<in> registered s" for b
    using assms(3) that moves_touches(1) [OF m, of b] moves_touches(2) [OF m]
    by (cases "b = a") (auto simp: net_ok_def intro: touches_client_ok touches_self_client_ok)
  moreover have "registered (handle_packet lib a p s) = registered s"
    by (simp add: registered_def moves_touches(3) [OF m])
  ultimately show ?thesis
    using moves_office [OF assms(1,2) _ assms(4) m assms(5)] assms(3) by (simp add: net_ok_def)
qed

lemma net_ok_clients:
  "office_ok lib entries s \<Longrightarrow> (\<And>a. a \<in> registered s \<Longrightarrow> client_ok (clients s a)) \<Longrightarrow> net_ok lib entries s"
  by (simp add: net_ok_def)

text \<open>A broadcast in the name of the server, and cancelling, are no one's packets but change no more.\<close>

lemma deliver_net_ok:
  assumes "net_ok lib entries s"
  shows "net_ok lib entries (deliver lib' S p s)"
proof (rule net_ok_clients)
  show "office_ok lib entries (deliver lib' S p s)"
    by (rule office_frame [of lib entries s]) (use assms in \<open>auto simp: net_ok_def deliver_clients\<close>)
  show "client_ok (clients (deliver lib' S p s) a)" if "a \<in> registered (deliver lib' S p s)" for a
    using assms that by (auto simp: net_ok_def deliver_clients client_ok_def)
qed

lemma cancel_net_ok:
  assumes "net_ok lib entries s"
  shows "net_ok lib entries (cancel_ctx b s)"
proof (rule net_ok_clients)
  show "office_ok lib entries (cancel_ctx b s)"
    by (rule office_frame [of lib entries s]) (use assms in \<open>auto simp: net_ok_def cancel_ctx_def\<close>)
  show "client_ok (clients (cancel_ctx b s) a)" if "a \<in> registered (cancel_ctx b s)" for a
    using assms that by (auto simp: net_ok_def cancel_ctx_def registered_def client_ok_def)
qed

lemma broadcast_all_deliver:
  assumes "office_ok lib entries s"
  shows "broadcast_all lib a p s = deliver lib (registered s - {a}) p s"
proof -
  have "distinct (map snd (clientMap s))" using assms by (simp add: office_ok_def)
  from all_fold [OF login_tests(1) this, of a lib p s, unfolded if_True]
  have "broadcast_all lib a p s = deliver lib {b \<in> set (map snd (clientMap s)). b \<noteq> a} p s"
    by (simp add: broadcast_all_def post_all_def)
  moreover have "{b \<in> set (map snd (clientMap s)). b \<noteq> a} = registered s - {a}" by (auto simp: registered_def)
  ultimately show ?thesis by simp
qed

lemma release_net_ok:
  assumes "rtree_ok lib entries" "arith_ok lib" "net_ok lib entries s" "a \<in> registered s"
  shows "net_ok lib entries (post_release lib a s)" "registered (post_release lib a s) = registered s - {a}"
  using release_office [OF assms(1,2) _ assms(4)] assms(3) by (auto simp: net_ok_def post_release_def Let_def)

lemma disconnect_net_ok:
  assumes "rtree_ok lib entries" "arith_ok lib" "net_ok lib entries s" "a \<in> registered s"
  shows "net_ok lib entries (disconnect lib a s)" "registered (disconnect lib a s) = registered s - {a}"
proof -
  let ?s1 = "cancel_ctx a s"
  have s1: "net_ok lib entries ?s1" "registered ?s1 = registered s"
    using cancel_net_ok [OF assms(3)] by (simp_all add: cancel_ctx_def registered_def)
  then have b: "broadcast_all lib a p ?s1 = deliver lib (registered s - {a}) p ?s1" for p
    using broadcast_all_deliver by (metis net_ok_def)
  show "net_ok lib entries (disconnect lib a s)" "registered (disconnect lib a s) = registered s - {a}"
    unfolding disconnect_def Let_def b
    using release_net_ok [OF assms(1,2) deliver_net_ok [OF s1(1)]] assms(4) s1(2) by simp_all
qed

subsection \<open>Logging in\<close>

text \<open>Where no position has been reported, the box is that of the origin; its corners are numbers.\<close>

definition fsdlib_ok :: "('f, 't) fsdlib \<Rightarrow> ('t \<Rightarrow> ('f box \<times> nat) multiset) \<Rightarrow> bool" where
  "fsdlib_ok lib entries \<longleftrightarrow>
     rtree_ok lib entries \<and> arith_ok lib \<and>
     comparable lib (calculate_bounding_box lib (lit lib 0 0, lit lib 0 0) (lit lib 0 0))"

text \<open>The credentials a login is admitted with, and the rating they stand for.\<close>

definition credentials :: "golib \<Rightarrow> int \<Rightarrow> string \<Rightarrow> int \<Rightarrow> 'x web_scheme \<Rightarrow> bool" where
  "credentials glib cid token max_rating w \<longleftrightarrow>
     (if most_likely_jwt token then
        (\<exists>secret cl. config_get ConfigJwtSecretKey w = Inr secret \<and> jwt_parse glib secret (wall w) token = Some cl \<and>
           TokenType cl = ''fsd'' \<and> claims_CID cl = cid \<and> claims_NetworkRating cl = max_rating)
      else
        (\<exists>u. get_user_by_cid cid w = Inr u \<and> verify_password_hash glib token (Password u) \<and> NetworkRating u = max_rating))"

lemma check_rating_Inr:
  "check_rating c m = Inr c' \<longleftrightarrow> 1 \<le> networkRating c \<and> networkRating c \<le> m \<and> c' = c\<lparr>maxNetworkRating := m\<rparr>"
  by (auto simp: check_rating_def)

lemma authenticated:
  assumes "attempt_authentication glib c token w = Inr c'"
  shows "\<exists>st m. c' = c\<lparr>authState := st, maxNetworkRating := m\<rparr> \<and> credentials glib (client_cid c) token m w
     \<and> 1 \<le> networkRating c \<and> networkRating c \<le> m"
proof -
  define c1 where "c1 = (if clientChallenge c = [] then Some c
            else map_option (\<lambda>st. c\<lparr>authState := st\<rparr>) (auth_initialize (clientId c) (clientChallenge c)))"
  obtain st where st: "c1 = Some (c\<lparr>authState := st\<rparr>)"
  proof (cases c1)
    case None
    with assms show ?thesis by (simp add: attempt_authentication_def flip: c1_def)
  next
    case (Some d)
    then have "d = c\<lparr>authState := authState d\<rparr>" by (auto simp: c1_def split: if_splits)
    with Some that show ?thesis by metis
  qed
  have *: "client_cid (c\<lparr>authState := st\<rparr>) = client_cid c" "networkRating (c\<lparr>authState := st\<rparr>) = networkRating c" by simp_all
  show ?thesis
  proof (cases "most_likely_jwt token")
    case True
    then have "authenticate_token glib (c\<lparr>authState := st\<rparr>) token w = Inr c'"
      using assms by (simp add: attempt_authentication_def st flip: c1_def)
    with True show ?thesis
      by (intro exI [of _ st] exI [of _ "maxNetworkRating c'"])
        (auto simp: authenticate_token_def check_rating_Inr credentials_def split: sum.splits option.splits if_splits)
  next
    case False
    then have "authenticate_password glib (c\<lparr>authState := st\<rparr>) token w = Inr c'"
      using assms by (simp add: attempt_authentication_def st flip: c1_def)
    with False show ?thesis
      by (intro exI [of _ st] exI [of _ "maxNetworkRating c'"])
        (auto simp: authenticate_password_def check_rating_Inr credentials_def split: sum.splits option.splits if_splits)
  qed
qed

lemma login_packets_revision:
  assumes "read_login_packets id_line add_line now = Inr (data, token)"
  shows "protoRevision data \<in> {100, 101}" "loginTime data = now"
proof -
  have "100 \<le> protoRevision data \<and> protoRevision data \<le> 101 \<and> loginTime data = now"
    using assms by (auto simp: read_login_packets_def split: option.splits sum.splits prod.splits if_splits)
  then show "protoRevision data \<in> {100, 101}" "loginTime data = now" by auto
qed

text \<open>
  What a login packet presents, by its layout on the wire: a pilot's fields are the callsign, the
  recipient, the CID, the password or token, the rating, the revision, the simulator and the name; a
  controller's are the callsign, the recipient, the name, the CID, the password or token, the rating
  and the revision.
\<close>

definition presents :: "string \<Rightarrow> 'x login_data_scheme \<Rightarrow> string \<Rightarrow> bool" where
  "presents p d token \<longleftrightarrow>
     (\<exists>to cid_text rating_text revision simulator.
        map (cut_suffix crlf) (split_on (CHR '':'') p) =
          (if isAtc d then [''#AA'' @ callsign d, to, realName d, cid_text, token, rating_text, revision]
           else [''#AP'' @ callsign d, to, cid_text, token, rating_text, revision, simulator, realName d])
        \<and> atoi cid_text = Some (client_cid d) \<and> atoi rating_text = Some (networkRating d)
        \<and> atoi revision = Some (protoRevision d))"

lemma presents_same:
  "callsign d = callsign e \<Longrightarrow> client_cid d = client_cid e \<Longrightarrow> realName d = realName e \<Longrightarrow> networkRating d = networkRating e
     \<Longrightarrow> protoRevision d = protoRevision e \<Longrightarrow> isAtc d = isAtc e \<Longrightarrow> presents p d token = presents p e token"
  by (simp add: presents_def)

lemma packet_fields:
  "count_fields p = 7 \<Longrightarrow> map (cut_suffix crlf) (split_on (CHR '':'') p) =
     [get_field p 0, get_field p 1, get_field p 2, get_field p 3, get_field p 4, get_field p 5, get_field p 6]"
  "count_fields p = 8 \<Longrightarrow> map (cut_suffix crlf) (split_on (CHR '':'') p) =
     [get_field p 0, get_field p 1, get_field p 2, get_field p 3, get_field p 4, get_field p 5, get_field p 6, get_field p 7]"
  unfolding get_field_nth count_fields_split by (auto simp: length_Suc_conv eval_nat_numeral)

lemma login_packets_presents:
  assumes "read_login_packets id_line add_line now = Inr (data, token)"
  shows "\<exists>p. add_line = Some p \<and> presents p data token"
proof -
  obtain p d0 d where p: "add_line = Some p" "read_add_packet p d0 = Inr (d, token)" "data = d\<lparr>loginTime := now\<rparr>"
    using assms by (auto simp: read_login_packets_def split: option.splits sum.splits prod.splits if_splits)
  have cut: "cut_prefix q s = Some cs \<Longrightarrow> s = q @ cs" for q s cs :: string
    by (metis append_take_drop_id cut_prefix_def option.inject option.simps(3))
  have "presents p d token"
  proof (cases "take 3 p = ''#AA''")
    case True
    with p(2) obtain cs where n: "count_fields p = 7" and c: "cut_prefix ''#AA'' (get_field p 0) = Some cs"
      and r: "read_add_atc p (d0\<lparr>callsign := cs, isAtc := True\<rparr>) = Inr (d, token)"
      by (auto simp: read_add_packet_def Let_def split: if_splits option.splits)
    from r cut [OF c] show ?thesis
      unfolding presents_def packet_fields(1) [OF n] by (auto simp: read_add_atc_def split: option.splits)
  next
    case False
    with p(2) obtain cs where n: "count_fields p = 8" and c: "cut_prefix ''#AP'' (get_field p 0) = Some cs"
      and r: "read_add_pilot p (d0\<lparr>callsign := cs, isAtc := False\<rparr>) = Inr (d, token)"
      by (auto simp: read_add_packet_def Let_def split: if_splits option.splits)
    from r cut [OF c] show ?thesis
      unfolding presents_def packet_fields(2) [OF n] by (auto simp: read_add_pilot_def split: option.splits)
  qed
  then have "presents p data token" by (subst presents_same [of data d]) (simp_all add: p(3))
  with p(1) show ?thesis by blast
qed

lemma new_client_simps [simp]:
  "login_data.truncate (new_client lib data addr) = data" "coords (new_client lib data addr) = (lit lib 0 0, lit lib 0 0)"
  "visRange (new_client lib data addr) = lit lib 0 0" "facilityType (new_client lib data addr) = 0"
  "cancelled (new_client lib data addr) = False" "outbox (new_client lib data addr) = []"
  "callsign (new_client lib data addr) = callsign data" "client_cid (new_client lib data addr) = client_cid data"
  "networkRating (new_client lib data addr) = networkRating data" "protoRevision (new_client lib data addr) = protoRevision data"
  "isAtc (new_client lib data addr) = isAtc data" "clientChallenge (new_client lib data addr) = clientChallenge data"
  "flightPlan (new_client lib data addr) = []" "realName (new_client lib data addr) = realName data"
  by (cases data; simp add: new_client_def login_data.defs client.defs)+

text \<open>A client that has passed the checks of \<open>handleConn\<close> before the post office.\<close>

definition admitted ::
    "('f, 't) fsdlib \<Rightarrow> golib \<Rightarrow> string \<Rightarrow> string option \<Rightarrow> string option \<Rightarrow> 'x web_scheme \<Rightarrow> 'f client \<Rightarrow> bool" where
  "admitted lib glib addr id_line add_line w c \<longleftrightarrow>
     (\<exists>data token st m. read_login_packets id_line add_line (wall w) = Inr (data, token)
        \<and> is_valid_client_callsign (callsign data) \<and> credentials glib (client_cid data) token m w
        \<and> 1 \<le> networkRating data \<and> networkRating data \<le> m
        \<and> c = (new_client lib data addr)\<lparr>authState := st, maxNetworkRating := m\<rparr>)"

lemma admitted_presents:
  assumes "admitted lib glib addr id_line add_line w c"
  shows "\<exists>p token. add_line = Some p \<and> presents p c token \<and> credentials glib (client_cid c) token (maxNetworkRating c) w
     \<and> 1 \<le> networkRating c \<and> networkRating c \<le> maxNetworkRating c \<and> is_valid_client_callsign (callsign c)"
proof -
  obtain data token st m where d: "read_login_packets id_line add_line (wall w) = Inr (data, token)"
      "is_valid_client_callsign (callsign data)" "credentials glib (client_cid data) token m w"
      "1 \<le> networkRating data" "networkRating data \<le> m"
      "c = (new_client lib data addr)\<lparr>authState := st, maxNetworkRating := m\<rparr>"
    using assms by (auto simp: admitted_def)
  obtain p where "add_line = Some p" "presents p data token" using login_packets_presents [OF d(1)] by blast
  moreover from this have "presents p c token" by (subst presents_same [of c data]) (simp_all add: d(6))
  moreover have "credentials glib (client_cid c) token (maxNetworkRating c) w" "1 \<le> networkRating c"
      "networkRating c \<le> maxNetworkRating c" "is_valid_client_callsign (callsign c)"
    using d(2-5) by (simp_all add: d(6))
  ultimately show ?thesis by blast
qed

lemma connect_cases:
  assumes "connect lib glib addr writable id_line add_line s = (r, s')"
  obtains e where "r = Rejected e" "s' = s"
  | c s1 where "admitted lib glib addr id_line add_line s c"
      "s1 = s\<lparr>clients := (clients s)(next_client s := c), next_client := Suc (next_client s)\<rparr>"
      "r = Rejected (Some (CallsignInUseError, ''Callsign already in use''))" "s' = s1"
      "map_of (clientMap s) (callsign c) \<noteq> None"
  | c s1 s2 where "admitted lib glib addr id_line add_line s c"
      "s1 = s\<lparr>clients := (clients s)(next_client s := c), next_client := Suc (next_client s)\<rparr>"
      "post_register lib (next_client s) s1 = (True, s2)"
      "r = Lost \<and> s' = post_release lib (next_client s) s2 \<or>
       r = LoggedIn (next_client s) (motd_packets c s2) \<and> s' = broadcast_all lib (next_client s) (add_packet c) s2"
proof (cases "read_login_packets id_line add_line (wall s)")
  case (Inl e)
  with assms show thesis by (intro that(1) [of e]) (auto simp: connect_def)
next
  case (Inr dt)
  obtain data token where dt: "dt = (data, token)" by fastforce
  show thesis
  proof (cases "is_valid_client_callsign (callsign data)")
    case False
    with assms Inr dt show thesis
      by (intro that(1) [of "Some (CallsignInvalidError, ''Callsign invalid'')"]) (auto simp: connect_def)
  next
    case valid: True
    show thesis
    proof (cases "attempt_authentication glib (new_client lib data addr) token s")
      case (Inl e)
      with assms Inr dt valid show thesis by (intro that(1) [of e]) (auto simp: connect_def)
    next
      case c: (Inr c)
      from authenticated [OF c] obtain st m where m: "c = (new_client lib data addr)\<lparr>authState := st, maxNetworkRating := m\<rparr>"
          "credentials glib (client_cid data) token m s" "1 \<le> networkRating data" "networkRating data \<le> m"
        by auto
      then have adm: "admitted lib glib addr id_line add_line s c"
        using Inr valid unfolding admitted_def dt by blast
      define s1 where "s1 = s\<lparr>clients := (clients s)(next_client s := c), next_client := Suc (next_client s)\<rparr>"
      obtain ok s2 where reg: "post_register lib (next_client s) s1 = (ok, s2)" by fastforce
      show thesis
      proof (cases ok)
        case False
        then have "s2 = s1" "map_of (clientMap s) (callsign c) \<noteq> None"
          using reg by (auto simp: post_register_def Let_def s1_def split: if_splits)
        with False assms Inr dt valid c reg show thesis
          by (intro that(2) [OF adm s1_def]) (auto simp: connect_def simp flip: s1_def)
      next
        case True
        with assms Inr dt valid c reg that(3) [OF adm s1_def] show thesis
          by (auto simp: connect_def Let_def simp flip: s1_def split: if_splits)
      qed
    qed
  qed
qed

lemma admitted_client_ok:
  assumes "admitted lib glib addr id_line add_line w c"
  shows "client_ok c" "coords c = (lit lib 0 0, lit lib 0 0)" "visRange c = lit lib 0 0" "\<not> cancelled c" "outbox c = []"
  using assms login_packets_revision(1) by (fastforce simp: admitted_def client_ok_def is_allowed_facility_type_def)+

lemma connect_net_ok:
  assumes "fsdlib_ok lib entries" "net_ok lib entries s" "connect lib glib addr writable id_line add_line s = (r, s')"
  shows "net_ok lib entries s'"
proof -
  have rt: "rtree_ok lib entries" "arith_ok lib" using assms(1) by (simp_all add: fsdlib_ok_def)
  have new: "next_client s \<notin> registered s"
    using assms(2) by (auto simp: net_ok_def office_ok_def registered_def)
  show ?thesis
    using assms(3)
  proof (cases rule: connect_cases)
    case (1 e)
    with assms(2) show ?thesis by simp
  next
    case (2 c s1)
    have "office_ok lib entries s1"
      by (rule office_frame [of lib entries s]) (use assms(2) new in \<open>auto simp: net_ok_def 2(2)\<close>)
    moreover have "registered s1 = registered s" by (simp add: 2(2) registered_def)
    moreover have "clients s1 = (clients s)(next_client s := c)" by (simp add: 2(2))
    ultimately show ?thesis using assms(2) new by (auto simp: net_ok_def 2(4))
  next
    case (3 c s1 s2)
    let ?a = "next_client s"
    note c = admitted_client_ok [OF 3(1)]
    have o1: "office_ok lib entries s1"
      by (rule office_frame [of lib entries s]) (use assms(2) new in \<open>auto simp: net_ok_def 3(2)\<close>)
    have s1: "registered s1 = registered s" "clients s1 = (clients s)(?a := c)" "next_client s1 = Suc ?a"
      by (simp_all add: 3(2) registered_def)
    have "comparable lib (client_box lib (clients s1 ?a))"
      using assms(1) by (simp add: s1(2) client_box_def c fsdlib_ok_def)
    then have s2: "office_ok lib entries s2" "registered s2 = insert ?a (registered s)"
      using register_office [OF rt(1) o1 _ _ _ 3(3)] new by (simp_all add: s1)
    have "clients s2 = clients s1" using 3(3) by (auto simp: post_register_def Let_def split: if_splits)
    then have ok: "net_ok lib entries s2"
      using assms(2) c(1) s2 new by (auto simp: net_ok_def s1(2))
    then have "net_ok lib entries (post_release lib ?a s2)"
      using release_net_ok [OF rt ok] s2(2) by simp
    moreover have "net_ok lib entries (broadcast_all lib ?a (add_packet c) s2)"
      unfolding broadcast_all_deliver [OF s2(1)] by (rule deliver_net_ok [OF ok])
    ultimately show ?thesis using 3(4) by auto
  qed
qed

lemma service_net_ok:
  assumes "net_ok lib entries s" "service_kick_user glib auth body s = (status, s')"
  shows "net_ok lib entries s'"
  using assms cancel_net_ok
  by (auto simp: service_kick_user_def handle_kick_user_def Let_def split: option.splits prod.splits)

lemma same_office_net_ok: "same_office s s' \<Longrightarrow> net_ok lib entries s \<Longrightarrow> net_ok lib entries s'"
  by (simp add: same_office_def net_ok_def office_ok_def tree_agrees_def registered_def)

lemma metar_net_ok:
  assumes "net_ok lib entries s"
  shows "net_ok lib entries (metar_worker lib' fetch s)"
proof (cases "metarRequests s")
  case (Cons req reqs)
  let ?s = "s\<lparr>metarRequests := reqs\<rparr>"
  have ok: "net_ok lib entries ?s"
    using assms by (simp add: net_ok_def office_ok_def tree_agrees_def registered_def)
  have "net_ok lib entries (snd (client_send lib' b p ?s))" for b p
    unfolding client_send_deliver by (rule deliver_net_ok [OF ok])
  then show ?thesis
    by (simp add: metar_worker_def Cons handle_metar_request_def send_metar_error_def send_error_def split: prod.split option.split)
qed (simp add: metar_worker_def assms)

lemma net_step_ok:
  assumes "net_step lib glib s s'" "fsdlib_ok lib entries" "net_ok lib entries s"
  shows "net_ok lib entries s'"
proof -
  have rt: "rtree_ok lib entries" "arith_ok lib" using assms(2) by (simp_all add: fsdlib_ok_def)
  show ?thesis
    using assms(1)
  proof cases
    case (step_connect addr writable id_line add_line r)
    then show ?thesis by (rule connect_net_ok [OF assms(2,3)])
  next
    case (step_packet a packet)
    then show ?thesis using packet_net_ok [OF rt assms(3)] by simp
  next
    case (step_disconnect a)
    then show ?thesis using disconnect_net_ok(1) [OF rt assms(3)] by simp
  next
    case (step_service auth body status)
    then show ?thesis by (rule service_net_ok [OF assms(3)])
  next
    case (step_metar fetch)
    then show ?thesis using metar_net_ok [OF assms(3)] by simp
  next
    case step_web
    then show ?thesis by (rule same_office_net_ok [OF _ assms(3)])
  qed
qed

text \<open>The server as it starts: no clients and an empty tree.\<close>

definition starting :: "('t \<Rightarrow> ('f box \<times> nat) multiset) \<Rightarrow> ('f, 't, 'x) net_scheme \<Rightarrow> bool" where
  "starting entries s \<longleftrightarrow> clientMap s = [] \<and> entries (tree s) = {#} \<and> metarRequests s = []"

lemma starting_net_ok: "starting entries s \<Longrightarrow> net_ok lib entries s"
  by (simp add: starting_def net_ok_def office_ok_def tree_agrees_def registered_def)

lemma net_steps_ok:
  assumes "net_steps lib glib s s'" "fsdlib_ok lib entries" "net_ok lib entries s"
  shows "net_ok lib entries s'"
  using assms by (induction rule: net_steps.induct) (auto intro: net_step_ok)

lemma reachable_net_ok:
  "fsdlib_ok lib entries \<Longrightarrow> starting entries s0 \<Longrightarrow> net_steps lib glib s0 s \<Longrightarrow> net_ok lib entries s"
  using net_steps_ok starting_net_ok by blast

end
