(* ===== verification/Fsd_Reader.thy ===== *)
theory Fsd_Reader
  imports Fsd_Handlers
begin

text \<open>
  How the event loop (\<open>fsd/client.go\<close>) gets its packets from the socket. It reads through a scanner
  with a buffer of 4096 octets (\<open>handleConn\<close> in \<open>fsd/conn.go\<close>). The scanner returns a line as a part of
  this buffer, without its line end; the loop then appends a line end to it, which writes into the
  buffer behind the line, as far as that has room. After a line that ended in CR LF these are the
  same two octets. After a line that ended in LF alone the second one is the first octet of
  the next line, when that is already in the buffer; octets that are still in the socket are safe.

  What the socket delivers is a parameter: a list of pieces, of which a read gets the first one or as
  much of it as there is room for, and whether the connection is closed after them.
\<close>

subsection \<open>The scanner\<close>

text \<open>The octets that have been read into the buffer, how many of them have been returned, and what is to come.\<close>

record scanner =
  sc_buf :: string
  sc_start :: nat
  sc_err :: bool
  sc_arriving :: "string list"
  sc_closing :: bool

definition buffer_size :: nat where
  "buffer_size = 4096"

definition pending :: "scanner \<Rightarrow> string" where
  "pending sc = drop (sc_start sc) (sc_buf sc)"

definition drop_cr :: "string \<Rightarrow> string" where
  "drop_cr line = (if line \<noteq> [] \<and> last line = CHR 0x0D then butlast line else line)"

text \<open>\<open>bufio.ScanLines\<close>: how far to go on and the line; the rest of a closed connection is a line too.\<close>

definition scan_lines :: "bool \<Rightarrow> string \<Rightarrow> (nat \<times> string) option" where
  "scan_lines at_eof data =
     (case index_byte (CHR 0x0A) data of
        Some i \<Rightarrow> Some (i + 1, drop_cr (take i data))
      | None \<Rightarrow> if at_eof \<and> data \<noteq> [] then Some (length data, drop_cr data) else None)"

text \<open>What is pending is moved to the front when the buffer is full or more than half of it has been returned.\<close>

definition make_room :: "scanner \<Rightarrow> scanner" where
  "make_room sc =
     (if 0 < sc_start sc \<and> (length (sc_buf sc) = buffer_size \<or> buffer_size div 2 < sc_start sc)
      then sc\<lparr>sc_buf := pending sc, sc_start := 0\<rparr> else sc)"

text \<open>A line and where in the buffer it starts; or the scanner waits for more; or it has stopped.\<close>

datatype scan_result = Token nat string | Waiting | Stopped

function scan :: "scanner \<Rightarrow> scan_result \<times> scanner" where
  "scan sc =
     (case scan_lines (sc_err sc) (pending sc) of
        Some (advance, token) \<Rightarrow> (Token (sc_start sc) token, sc\<lparr>sc_start := sc_start sc + advance\<rparr>)
      | None \<Rightarrow>
          if sc_err sc then (Stopped, sc\<lparr>sc_buf := [], sc_start := 0\<rparr>)
          else
            (let sc1 = make_room sc; room = buffer_size - length (sc_buf sc1) in
             if buffer_size \<le> length (sc_buf sc1) then (Stopped, sc1\<lparr>sc_err := True\<rparr>)
             else
               (case sc_arriving sc1 of
                  [] \<Rightarrow> if sc_closing sc1 then scan (sc1\<lparr>sc_err := True\<rparr>) else (Waiting, sc1)
                | piece # pieces \<Rightarrow>
                    scan (sc1\<lparr>sc_buf := sc_buf sc1 @ take room piece,
                              sc_arriving := (if length piece \<le> room then pieces else drop room piece # pieces)\<rparr>))))"
  by auto

lemma make_room_frame [simp]:
  "sc_err (make_room sc) = sc_err sc" "sc_arriving (make_room sc) = sc_arriving sc" "sc_closing (make_room sc) = sc_closing sc"
  "pending (make_room sc) = pending sc"
  by (simp_all add: make_room_def pending_def)

termination scan
  by (relation "measure (\<lambda>sc. sum_list (map (Suc \<circ> length) (sc_arriving sc)) + (if sc_err sc then 0 else 1))") auto

declare scan.simps [simp del]


subsection \<open>The packets\<close>

text \<open>\<open>append(line, '\r', '\n')\<close> for a line in the buffer: in place where there is room, a copy otherwise.\<close>

definition overwrite :: "nat \<Rightarrow> string \<Rightarrow> string \<Rightarrow> string" where
  "overwrite i xs buf = take (length buf) (take i buf @ xs @ drop (i + length xs) buf)"

definition append_crlf :: "nat \<Rightarrow> string \<Rightarrow> scanner \<Rightarrow> scanner" where
  "append_crlf pos token sc =
     (if pos + length token + 2 \<le> buffer_size
      then sc\<lparr>sc_buf := overwrite (pos + length token) crlf (sc_buf sc)\<rparr> else sc)"

definition next_packet :: "scanner \<Rightarrow> string option \<times> scanner" where
  "next_packet sc =
     (case scan sc of
        (Token pos token, sc1) \<Rightarrow> (Some (token @ crlf), append_crlf pos token sc1)
      | (_, sc1) \<Rightarrow> (None, sc1))"

function read_packets :: "scanner \<Rightarrow> string list" where
  "read_packets sc =
     (case next_packet sc of
        (None, _) \<Rightarrow> []
      | (Some packet, sc1) \<Rightarrow> packet # read_packets sc1)"
  by auto

definition octets :: "scanner \<Rightarrow> nat" where
  "octets sc = length (pending sc) + length (concat (sc_arriving sc))"

lemma scan_lines_advance: "scan_lines e data = Some (advance, token) \<Longrightarrow> 0 < advance \<and> advance \<le> length data"
  by (auto simp: scan_lines_def dest: index_byte_less split: option.splits if_splits)

lemma scan_octets: "scan sc = (Token pos token, sc1) \<Longrightarrow> octets sc1 < octets sc"
proof (induction sc rule: scan.induct)
  case (1 sc)
  show ?case
  proof (cases "scan_lines (sc_err sc) (pending sc)")
    case (Some r)
    obtain advance line where r: "r = (advance, line)" by fastforce
    with Some 1(3) scan_lines_advance [of "sc_err sc" "pending sc" advance line] show ?thesis
      by (subst (asm) scan.simps) (auto simp: octets_def pending_def)
  next
    case None
    let ?sc1 = "make_room sc"
    let ?room = "buffer_size - length (sc_buf ?sc1)"
    have e: "\<not> sc_err sc" and f: "\<not> buffer_size \<le> length (sc_buf ?sc1)"
      using 1(3) None by (subst (asm) scan.simps, simp add: Let_def split: if_splits)+
    have o: "octets ?sc1 = octets sc" by (simp add: octets_def)
    show ?thesis
    proof (cases "sc_arriving sc")
      case Nil
      then have "sc_closing sc" "scan (?sc1\<lparr>sc_err := True\<rparr>) = (Token pos token, sc1)"
        using 1(3) None e f by (subst (asm) scan.simps, simp add: Let_def split: if_splits)+
      from 1(1) [OF None e refl refl f _ _ this(2)] Nil this(1) o show ?thesis by (simp add: octets_def pending_def)
    next
      case (Cons piece pieces)
      let ?sc2 = "?sc1\<lparr>sc_buf := sc_buf ?sc1 @ take ?room piece,
          sc_arriving := (if length piece \<le> ?room then pieces else drop ?room piece # pieces)\<rparr>"
      have "scan ?sc2 = (Token pos token, sc1)"
        using 1(3) None e f Cons by (subst (asm) scan.simps) (simp add: Let_def)
      from 1(2) [OF None e refl refl f _ this] Cons have "octets sc1 < octets ?sc2" by simp
      also have "octets ?sc2 \<le> octets ?sc1" by (simp add: octets_def pending_def Cons) arith
      finally show ?thesis using o by simp
    qed
  qed
qed

lemma append_crlf_frame [simp]:
  "sc_err (append_crlf pos token sc) = sc_err sc" "sc_arriving (append_crlf pos token sc) = sc_arriving sc"
  "sc_closing (append_crlf pos token sc) = sc_closing sc" "sc_start (append_crlf pos token sc) = sc_start sc"
  by (simp_all add: append_crlf_def)

lemma append_crlf_octets: "octets (append_crlf pos token sc) \<le> octets sc"
  by (auto simp: octets_def pending_def append_crlf_def overwrite_def)

termination read_packets
proof (relation "measure octets")
  show "(sc1, sc) \<in> measure octets" if "(o1, sc1) = next_packet sc" "o1 = Some packet" for sc o1 sc1 packet
    using that scan_octets [of sc] append_crlf_octets
    by (fastforce simp: next_packet_def split: prod.splits scan_result.splits intro: le_less_trans)
qed simp

declare read_packets.simps [simp del]

text \<open>The packets that are read, handled one after the other.\<close>

definition handle_input :: "('f, 't) fsdlib \<Rightarrow> nat \<Rightarrow> scanner \<Rightarrow> ('f, 't, 'x) net_scheme \<Rightarrow> ('f, 't, 'x) net_scheme" where
  "handle_input lib a sc s = fold (handle_packet lib a) (read_packets sc) s"


subsection \<open>Lemmas\<close>

definition scanner_ok :: "scanner \<Rightarrow> bool" where
  "scanner_ok sc \<longleftrightarrow> sc_start sc \<le> length (sc_buf sc) \<and> length (sc_buf sc) \<le> buffer_size"

lemma make_room_ok: "scanner_ok sc \<Longrightarrow> scanner_ok (make_room sc)"
  by (auto simp: scanner_ok_def make_room_def pending_def)

lemma make_room_full:
  "scanner_ok sc \<Longrightarrow> buffer_size \<le> length (sc_buf (make_room sc)) \<Longrightarrow> length (pending sc) = buffer_size"
  by (auto simp: scanner_ok_def make_room_def pending_def split: if_splits)

text \<open>A scanner with its line end behind a line in the buffer returns that line at once.\<close>

lemma scan_line:
  assumes "pending sc = line @ CHR 0x0A # rest" "CHR 0x0A \<notin> set line"
  shows "scan sc = (Token (sc_start sc) (drop_cr line), sc\<lparr>sc_start := sc_start sc + length line + 1\<rparr>)"
  using assms by (subst scan.simps) (simp add: scan_lines_def index_byte_append)

lemma first_line_unique:
  fixes c :: char
  assumes "p @ c # q = p' @ c # q'" "c \<notin> set p" "c \<notin> set p'"
  shows "p = p' \<and> q = q'"
proof -
  have "index_byte c (p @ c # q) = Some (length p)" "index_byte c (p @ c # q) = Some (length p')"
    using index_byte_append assms by metis+
  then show ?thesis using assms(1) by simp
qed

text \<open>
  However the octets arrive, the scanner returns the line they begin with, and it still has its line end
  behind it in the buffer.
\<close>

lemma scan_next_line:
  assumes "scanner_ok sc" "\<not> sc_err sc" "pending sc @ concat (sc_arriving sc) = line @ crlf @ rest"
    and "CHR 0x0A \<notin> set line" "length line + 2 \<le> buffer_size"
  shows "\<exists>pos sc1. scan sc = (Token pos line, sc1) \<and> scanner_ok sc1 \<and> \<not> sc_err sc1
     \<and> pending sc1 @ concat (sc_arriving sc1) = rest \<and> sc_closing sc1 = sc_closing sc
     \<and> (\<exists>before. length before = pos \<and> sc_buf sc1 = before @ line @ crlf @ pending sc1) \<and> sc_start sc1 = pos + length line + 2"
  using assms
proof (induction sc rule: scan.induct)
  case (1 sc)
  note prems = 1(3-7)
  show ?case
  proof (cases "CHR 0x0A \<in> set (pending sc)")
    case True
    then obtain p q where pq: "pending sc = p @ CHR 0x0A # q" "CHR 0x0A \<notin> set p" by (metis split_list_first)
    with prems(3) have "p @ CHR 0x0A # (q @ concat (sc_arriving sc)) = (line @ [CHR 0x0D]) @ CHR 0x0A # rest" by simp
    then have p: "p = line @ [CHR 0x0D]" "q @ concat (sc_arriving sc) = rest"
      using first_line_unique [of p _ _ "line @ [CHR 0x0D]"] pq(2) prems(4) by auto
    let ?sc1 = "sc\<lparr>sc_start := sc_start sc + length p + 1\<rparr>"
    have "scan sc = (Token (sc_start sc) line, ?sc1)"
      using scan_line [OF pq] by (simp add: p(1) drop_cr_def)
    moreover have l: "length (sc_buf sc) = sc_start sc + length p + 1 + length q"
      using prems(1) arg_cong [OF pq(1), of length] by (simp add: scanner_ok_def pending_def)
    moreover have b: "sc_buf sc = take (sc_start sc) (sc_buf sc) @ p @ CHR 0x0A # q"
      using pq(1) by (metis append_take_drop_id pending_def)
    moreover have q: "pending ?sc1 = q"
    proof -
      have "pending ?sc1 = drop (length p + 1) (pending sc)" by (simp add: pending_def add.commute)
      then show ?thesis by (simp add: pq(1))
    qed
    moreover have "sc_buf sc = take (sc_start sc) (sc_buf sc) @ line @ crlf @ q" using b p(1) by simp
    moreover have "length (take (sc_start sc) (sc_buf sc)) = sc_start sc" using prems(1) by (simp add: scanner_ok_def)
    ultimately show ?thesis
      using prems(1,2) p l
      by (intro exI [of _ "sc_start sc"] exI [of _ ?sc1] conjI exI [of _ "take (sc_start sc) (sc_buf sc)"])
        (simp_all add: scanner_ok_def)
  next
    case False
    let ?sc1 = "make_room sc"
    let ?room = "buffer_size - length (sc_buf ?sc1)"
    have none: "scan_lines (sc_err sc) (pending sc) = None" using False prems(2) by (simp add: scan_lines_def)
    have "length (pending sc) < buffer_size"
    proof (rule ccontr)
      assume "\<not> ?thesis"
      then have "length (line @ crlf) \<le> length (pending sc)" using prems(5) by simp
      then have "take (length (line @ crlf)) (pending sc) = line @ crlf"
        using prems(3) by (metis append.assoc append_eq_append_conv_if append_eq_conv_conj take_append)
      then show False using False by (metis append_is_Nil_conv in_set_takeD last_in_set list.set_intros(1) Un_iff set_append list.set_intros(2))
    qed
    then have f: "\<not> buffer_size \<le> length (sc_buf ?sc1)" using make_room_full [OF prems(1)] by auto
    have "sc_arriving sc \<noteq> []"
      using prems(3) False by (auto dest: arg_cong [where f = set])
    then obtain piece pieces where a: "sc_arriving sc = piece # pieces" by (cases "sc_arriving sc") auto
    let ?sc2 = "?sc1\<lparr>sc_buf := sc_buf ?sc1 @ take ?room piece,
          sc_arriving := (if length piece \<le> ?room then pieces else drop ?room piece # pieces)\<rparr>"
    have s: "scan sc = scan ?sc2"
      using none prems(2) f a by (subst scan.simps) (simp add: Let_def)
    have ok1: "scanner_ok ?sc1" by (rule make_room_ok [OF prems(1)])
    have p2: "pending ?sc2 = pending sc @ take ?room piece"
      using ok1 make_room_frame(4) [of sc] by (simp add: pending_def scanner_ok_def)
    have ok2: "scanner_ok ?sc2" using ok1 by (auto simp: scanner_ok_def)
    have c: "pending ?sc2 @ concat (sc_arriving ?sc2) = line @ crlf @ rest"
    proof -
      have "take ?room piece @ concat (sc_arriving ?sc2) = piece @ concat pieces"
        by (cases "length piece \<le> ?room") simp_all
      then show ?thesis using prems(3) a unfolding p2 by simp
    qed
    have a1: "sc_arriving ?sc1 = piece # pieces" and e2: "\<not> sc_err ?sc2" and c2: "sc_closing ?sc2 = sc_closing sc"
      using a prems(2) by simp_all
    show ?thesis
      using 1(2) [OF none prems(2) refl refl f a1 ok2 e2 c prems(4,5)] unfolding s c2 .
  qed
qed


text \<open>Putting the line end back behind such a line changes nothing.\<close>

lemma append_crlf_same:
  "sc_buf sc = before @ token @ crlf @ rest \<Longrightarrow> append_crlf (length before) token sc = sc"
  by (simp add: append_crlf_def overwrite_def)

lemma next_packet_crlf:
  assumes "scanner_ok sc" "\<not> sc_err sc" "pending sc @ concat (sc_arriving sc) = line @ crlf @ rest"
    and "CHR 0x0A \<notin> set line" "length line + 2 \<le> buffer_size"
  obtains sc1 where "next_packet sc = (Some (line @ crlf), sc1)" "scanner_ok sc1" "\<not> sc_err sc1"
    "pending sc1 @ concat (sc_arriving sc1) = rest"
proof -
  obtain pos sc1 before where sc1: "scan sc = (Token pos line, sc1)" "scanner_ok sc1" "\<not> sc_err sc1"
    "pending sc1 @ concat (sc_arriving sc1) = rest" "length before = pos" "sc_buf sc1 = before @ line @ crlf @ pending sc1"
    using scan_next_line [OF assms] by blast
  from append_crlf_same [OF sc1(6)] sc1(1,5) have "next_packet sc = (Some (line @ crlf), sc1)"
    by (simp add: next_packet_def)
  from that [OF this sc1(2-4)] show ?thesis .
qed

lemma read_nothing:
  assumes "octets sc = 0"
  shows "read_packets sc = []"
proof -
  have "scan sc \<noteq> (Token pos token, sc1)" for pos token sc1
    using scan_octets [of sc pos token sc1] assms by auto
  then show ?thesis
    by (subst read_packets.simps) (auto simp: next_packet_def split: prod.split scan_result.split)
qed

lemma read_crlf_lines:
  assumes "scanner_ok sc" "\<not> sc_err sc" "pending sc @ concat (sc_arriving sc) = concat (map (\<lambda>l. l @ crlf) ls)"
    and "\<forall>l \<in> set ls. CHR 0x0A \<notin> set l \<and> length l + 2 \<le> buffer_size"
  shows "read_packets sc = map (\<lambda>l. l @ crlf) ls"
  using assms
proof (induction ls arbitrary: sc)
  case Nil
  then show ?case using read_nothing [of sc] by (simp add: octets_def)
next
  case (Cons l ls)
  obtain sc1 where sc1: "next_packet sc = (Some (l @ crlf), sc1)" "scanner_ok sc1" "\<not> sc_err sc1"
    "pending sc1 @ concat (sc_arriving sc1) = concat (map (\<lambda>l. l @ crlf) ls)"
    using next_packet_crlf [of sc l "concat (map (\<lambda>l. l @ crlf) ls)"] Cons.prems by auto
  with Cons.IH [of sc1] Cons.prems(4) show ?case by (subst read_packets.simps) simp
qed

text \<open>Behind a line that ended in LF alone, the first octet in the buffer becomes the end of another line.\<close>

lemma next_packet_lf:
  assumes "scanner_ok sc" "pending sc = line @ CHR 0x0A # rest" "CHR 0x0A \<notin> set line" "line = [] \<or> last line \<noteq> CHR 0x0D"
  obtains sc1 where "next_packet sc = (Some (line @ crlf), sc1)" "scanner_ok sc1"
    "pending sc1 = (case rest of [] \<Rightarrow> [] | _ # cs \<Rightarrow> CHR 0x0A # cs)"
    "sc_arriving sc1 = sc_arriving sc" "sc_closing sc1 = sc_closing sc" "sc_err sc1 = sc_err sc"
proof -
  let ?sc0 = "sc\<lparr>sc_start := sc_start sc + length line + 1\<rparr>"
  let ?sc1 = "append_crlf (sc_start sc) line ?sc0"
  have buf: "sc_buf sc = take (sc_start sc) (sc_buf sc) @ line @ CHR 0x0A # rest"
    using assms(2) by (metis append_take_drop_id pending_def)
  then obtain before where b: "sc_buf sc = before @ line @ CHR 0x0A # rest" "length before = sc_start sc"
    using assms(1) by (metis length_take min.absorb2 scanner_ok_def)
  have "next_packet sc = (Some (line @ crlf), ?sc1)"
    using scan_line [OF assms(2,3)] assms(4) by (auto simp: next_packet_def drop_cr_def)
  moreover have "scanner_ok ?sc1"
    using assms(1) b by (simp add: scanner_ok_def append_crlf_def overwrite_def)
  moreover have "pending ?sc1 = (case rest of [] \<Rightarrow> [] | _ # cs \<Rightarrow> CHR 0x0A # cs)"
    using assms(1) b by (cases rest) (simp_all add: scanner_ok_def append_crlf_def overwrite_def pending_def)
  ultimately show ?thesis using that by simp
qed

lemma read_empty_lines:
  assumes "scanner_ok sc" "pending sc = CHR 0x0A # cs"
  shows "\<exists>sc'. read_packets sc = replicate (length cs + 1) crlf @ read_packets sc' \<and> scanner_ok sc' \<and> pending sc' = []
     \<and> sc_arriving sc' = sc_arriving sc \<and> sc_closing sc' = sc_closing sc \<and> sc_err sc' = sc_err sc"
  using assms
proof (induction cs arbitrary: sc)
  case Nil
  obtain sc1 where "next_packet sc = (Some crlf, sc1)" "scanner_ok sc1" "pending sc1 = []"
    "sc_arriving sc1 = sc_arriving sc" "sc_closing sc1 = sc_closing sc" "sc_err sc1 = sc_err sc"
    using next_packet_lf [of sc "[]" "[]"] Nil by auto
  then show ?case by (subst read_packets.simps) auto
next
  case (Cons c cs)
  obtain sc1 where sc1: "next_packet sc = (Some crlf, sc1)" "scanner_ok sc1" "pending sc1 = CHR 0x0A # cs"
    "sc_arriving sc1 = sc_arriving sc" "sc_closing sc1 = sc_closing sc" "sc_err sc1 = sc_err sc"
    using next_packet_lf [of sc "[]" "c # cs"] Cons.prems by auto
  from Cons.IH [OF sc1(2,3)] sc1(1,4-6) show ?case by (subst read_packets.simps) auto
qed

lemma read_after_lf:
  assumes "scanner_ok sc" "pending sc = line @ CHR 0x0A # rest" "CHR 0x0A \<notin> set line" "line = [] \<or> last line \<noteq> CHR 0x0D"
  shows "\<exists>sc'. read_packets sc = (line @ crlf) # replicate (length rest) crlf @ read_packets sc' \<and> scanner_ok sc' \<and> pending sc' = []
     \<and> sc_arriving sc' = sc_arriving sc \<and> sc_closing sc' = sc_closing sc \<and> sc_err sc' = sc_err sc"
proof -
  obtain sc1 where sc1: "next_packet sc = (Some (line @ crlf), sc1)" "scanner_ok sc1"
    "pending sc1 = (case rest of [] \<Rightarrow> [] | _ # cs \<Rightarrow> CHR 0x0A # cs)"
    "sc_arriving sc1 = sc_arriving sc" "sc_closing sc1 = sc_closing sc" "sc_err sc1 = sc_err sc"
    using next_packet_lf [OF assms] by blast
  show ?thesis
  proof (cases rest)
    case Nil
    then show ?thesis using sc1 by (subst read_packets.simps) auto
  next
    case (Cons c cs)
    then show ?thesis using read_empty_lines [of sc1 cs] sc1 by (subst read_packets.simps) auto
  qed
qed


subsection \<open>Properties\<close>

text \<open>A scanner at the start of its buffer, with what is in the buffer and what is still to come.\<close>

definition connected_scanner :: "string \<Rightarrow> string list \<Rightarrow> scanner" where
  "connected_scanner buf pieces = \<lparr>sc_buf = buf, sc_start = 0, sc_err = False, sc_arriving = pieces, sc_closing = True\<rparr>"

text \<open>
  C26. Lines that end in CR LF are read as they were sent, however many there are and in whatever pieces
  they arrive, as long as each fits into the buffer of 4096 octets.
\<close>

theorem crlf_lines_are_read:
  assumes "scanner_ok sc" "\<not> sc_err sc" "pending sc @ concat (sc_arriving sc) = concat (map (\<lambda>l. l @ crlf) ls)"
    and "\<forall>l \<in> set ls. CHR 0x0A \<notin> set l \<and> length l < 4095"
  shows "read_packets sc = map (\<lambda>l. l @ crlf) ls"
  using assms by (intro read_crlf_lines) (auto simp: buffer_size_def)

theorem crlf_lines_are_read_witness:
  "read_packets (connected_scanner [] [''#TMAAL1:*S:he'', ''lp'' @ crlf @ ''$PIAA'', ''L1'' @ crlf])
     = [''#TMAAL1:*S:help'' @ crlf, ''$PIAAL1'' @ crlf]"
  using crlf_lines_are_read [of "connected_scanner [] [''#TMAAL1:*S:he'', ''lp'' @ crlf @ ''$PIAA'', ''L1'' @ crlf]"
      "[''#TMAAL1:*S:help'', ''$PIAAL1'']"]
  by (simp add: connected_scanner_def scanner_ok_def pending_def)

text \<open>
  C27. What is already in the buffer behind a line that ends in LF alone is lost. The line is handled,
  but the line end put behind it overwrites the octet that follows; this is read as an empty line,
  which overwrites the next, and so on to the end of what has been read into the buffer, which has
  room for 4096 octets: every one of these octets becomes an empty packet, each of which is refused. What
  is still in the socket then is not touched: lines with CR LF there are read as they were sent.
\<close>

theorem input_after_lf_is_lost:
  assumes "scanner_ok sc" "pending sc = line @ CHR 0x0A # rest" "CHR 0x0A \<notin> set line" "line = [] \<or> last line \<noteq> CHR 0x0D"
  shows "(\<exists>sc'. read_packets sc = (line @ crlf) # replicate (length rest) crlf @ read_packets sc' \<and> pending sc' = []
          \<and> sc_arriving sc' = sc_arriving sc \<and> sc_err sc' = sc_err sc \<and> sc_closing sc' = sc_closing sc)
     \<and> (\<not> sc_err sc \<longrightarrow> concat (sc_arriving sc) = concat (map (\<lambda>l. l @ crlf) ls)
          \<longrightarrow> (\<forall>l \<in> set ls. CHR 0x0A \<notin> set l \<and> length l < 4095)
          \<longrightarrow> read_packets sc = (line @ crlf) # replicate (length rest) crlf @ map (\<lambda>l. l @ crlf) ls)
     \<and> verify_packet crlf cs = Refuse SyntaxError ''Packet too short''"
proof -
  obtain sc' where sc': "read_packets sc = (line @ crlf) # replicate (length rest) crlf @ read_packets sc'" "scanner_ok sc'"
    "pending sc' = []" "sc_arriving sc' = sc_arriving sc" "sc_closing sc' = sc_closing sc" "sc_err sc' = sc_err sc"
    using read_after_lf [OF assms] by blast
  have "read_packets sc' = map (\<lambda>l. l @ crlf) ls"
    if "\<not> sc_err sc" "concat (sc_arriving sc) = concat (map (\<lambda>l. l @ crlf) ls)" "\<forall>l \<in> set ls. CHR 0x0A \<notin> set l \<and> length l < 4095"
    using that sc' by (intro read_crlf_lines) (auto simp: buffer_size_def)
  with sc' show ?thesis by (auto simp: verify_packet_def)
qed

theorem input_after_lf_is_lost_witness:
  "read_packets (connected_scanner (''#TMAAL1:*S:help'' @ CHR 0x0A # ''#DPAAL1:1:'') [''$PIAAL1'' @ crlf])
     = (''#TMAAL1:*S:help'' @ crlf) # replicate (length ''#DPAAL1:1:'') crlf @ [''$PIAAL1'' @ crlf]"
  using input_after_lf_is_lost [of "connected_scanner (''#TMAAL1:*S:help'' @ CHR 0x0A # ''#DPAAL1:1:'') [''$PIAAL1'' @ crlf]"
      "''#TMAAL1:*S:help''" "''#DPAAL1:1:''" "[''$PIAAL1'']" "''AAL1''"]
  by (simp add: connected_scanner_def scanner_ok_def pending_def buffer_size_def)

end
