(* ===== verification/Fsd_Promises.thy ===== *)
theory Fsd_Promises
  imports Fsd_Server Fsd_Reader
begin

text \<open>
  What the FSD server promises its users, in every state it can reach: who a connected client can be
  and what it took to connect, where each kind of message goes, what a client's packets can do to
  others, how flight plans and disconnections get around.
\<close>

subsection \<open>A library and a server for the witnesses\<close>

text \<open>Whole numbers for float64, and the list of its entries for the tree.\<close>

definition demo_fsdlib :: "(int, (int box \<times> nat) list) fsdlib" where
  "demo_fsdlib =
     \<lparr>parse_float = (\<lambda>s. case parse_int_bits 64 s of Inr n \<Rightarrow> Some n | Inl _ \<Rightarrow> None),
      lit = (\<lambda>m e. if 0 \<le> e then m * 10 ^ nat e else m div 10 ^ nat (- e)),
      degToRad = 1, metersPerDegreeLat = 111195, max_float = 10 ^ 9,
      f_add = (+), f_sub = (-), f_mul = (*), f_div = (div), f_sin = (\<lambda>x. x), f_cos = (\<lambda>_. 1), f_sqrt = (\<lambda>x. x),
      f_atan2 = (\<lambda>x y. x + y), f_less = (<), f_eq = (=), f_trunc = (\<lambda>x. x),
      rt_insert = (\<lambda>b a t. (b, a) # t), rt_delete = (\<lambda>b a t. filter (\<lambda>e. snd e \<noteq> a) t),
      rt_search = (\<lambda>b t. map snd (filter (\<lambda>e.
         \<not> fst (snd (fst e)) < fst (fst b) \<and> \<not> fst (snd b) < fst (fst (fst e)) \<and>
         \<not> snd (snd (fst e)) < snd (fst b) \<and> \<not> snd (snd b) < snd (fst (fst e))) t)),
      picks_send = (\<lambda>_ _. True)\<rparr>"

lemma demo_overlaps:
  "rt_search demo_fsdlib b t = map snd (filter (\<lambda>e. overlaps demo_fsdlib b (fst e)) t)"
  by (simp add: demo_fsdlib_def overlaps_def)

lemma demo_fsdlib_ok: "fsdlib_ok demo_fsdlib mset"
proof -
  have del: "mset (filter (\<lambda>e. snd e \<noteq> a) t) = mset t - {#(b', a)#}"
    if "filter_mset (\<lambda>e. snd e = a) (mset t) = {#(b', a)#}" for a b' and t :: "(int box \<times> nat) list"
  proof -
    have "mset t = add_mset (b', a) (mset (filter (\<lambda>e. snd e \<noteq> a) t))"
      using multiset_partition [of "mset t" "\<lambda>e. snd e = a"] unfolding that by simp
    then show ?thesis by (metis add_mset_remove_trivial)
  qed
  have "rtree_ok demo_fsdlib mset"
    unfolding rtree_ok_def demo_overlaps using del by (simp add: demo_fsdlib_def)
  moreover have "arith_ok demo_fsdlib" by (simp add: arith_ok_def demo_fsdlib_def)
  moreover have "comparable demo_fsdlib b" for b by (simp add: comparable_def same_box_def demo_fsdlib_def)
  ultimately show ?thesis by (simp add: fsdlib_ok_def)
qed

definition demo_net :: "(int, (int box \<times> nat) list) net" where
  "demo_net = web.extend demo_web (net.fields (\<lambda>_. new_client demo_fsdlib no_login_data []) 0 [] [] [])"


text \<open>A pilot at the origin and a controller near by, both of the one user there is.\<close>

definition demo_connect :: "string \<Rightarrow> (int, (int box \<times> nat) list) net \<Rightarrow> (int, (int box \<times> nat) list) net" where
  "demo_connect line s = snd (connect demo_fsdlib demo_lib ''10.0.0.1:4321'' True (Some ''$ID'') (Some line) s)"

definition demo_pilot :: string where "demo_pilot = ''#APAAL1:SERVER:1:correct horse:1:100:1:Ann''"
definition demo_atc :: string where "demo_atc = ''#AANY_TWR:SERVER:Ann:1:correct horse:3:100''"

definition demo_two :: "(int, (int box \<times> nat) list) net" where
  "demo_two = demo_connect demo_atc (demo_connect demo_pilot demo_net)"


text \<open>The two states, evaluated once for all witnesses.\<close>

definition demo_view :: "(int, (int box \<times> nat) list) net \<Rightarrow> (string \<times> nat) list \<times> nat \<times> int \<times> bool \<times> (db_error + user) \<times> string option \<times> int client \<times> int client" where
  "demo_view s = (clientMap s, next_client s, wall s, db_up s, get_user_by_cid 1 s, config s ConfigJwtSecretKey, clients s 0, clients s 1)"

definition demo_client :: "string \<Rightarrow> int \<Rightarrow> bool \<Rightarrow> string list \<Rightarrow> int client" where
  "demo_client cs rating atc packets =
     \<lparr>clientChallenge = [], callsign = cs, client_cid = 1, realName = ''Ann'', networkRating = rating, maxNetworkRating = 11,
      protoRevision = 100, loginTime = 1000000, clientId = 0, isAtc = atc, remoteAddr = ''10.0.0.1:4321'', coords = (0, 0),
      visRange = 0, closestVelocityClientDistance = 0, flightPlan = [], assignedBeaconCode = [], frequency = [],
      altitude = 0, groundspeed = 0, transponder = [], heading = 0, lastUpdated = -62135596800000, facilityType = 0,
      authState = no_auth_state, sendFastEnabled = False, cancelled = False, outbox = packets\<rparr>"

lemma demo_login_view:
  "(case connect demo_fsdlib demo_lib ''10.0.0.1:4321'' True (Some ''$ID'') (Some demo_pilot) demo_net of
      (r, s) \<Rightarrow> (r, clientMap s, clients s 0))
   = (LoggedIn 0 [''#TMserver:AAL1:Connected to openfsd'' @ crlf], [(''AAL1'', 0)], demo_client ''AAL1'' 1 False [])"
  by code_simp

lemma demo_two_view:
  "demo_view demo_two
   = ([(''AAL1'', 0), (''NY_TWR'', 1)], 2, 1000000, True, Inr demo_user, Some ''s3cret'',
      demo_client ''AAL1'' 1 False [''#AANY_TWR:SERVER:Ann:1::3:100'' @ crlf], demo_client ''NY_TWR'' 3 True [])"
  by code_simp

lemma demo_two_simps:
  "clientMap demo_two = [(''AAL1'', 0), (''NY_TWR'', 1)]" "next_client demo_two = 2" "wall demo_two = 1000000" "db_up demo_two"
  "get_user_by_cid 1 demo_two = Inr demo_user" "config demo_two ConfigJwtSecretKey = Some ''s3cret''"
  "clients demo_two 0 = demo_client ''AAL1'' 1 False [''#AANY_TWR:SERVER:Ann:1::3:100'' @ crlf]"
  "clients demo_two 1 = demo_client ''NY_TWR'' 3 True []"
  using demo_two_view by (simp_all add: demo_view_def)

lemma demo_client_simps [simp]:
  "callsign (demo_client cs r atc ps) = cs" "isAtc (demo_client cs r atc ps) = atc" "\<not> cancelled (demo_client cs r atc ps)"
  "facilityType (demo_client cs r atc ps) = 0" "client_cid (demo_client cs r atc ps) = 1" "outbox (demo_client cs r atc ps) = ps"
  "networkRating (demo_client cs r atc ps) = r" "maxNetworkRating (demo_client cs r atc ps) = 11"
  "coords (demo_client cs r atc ps) = (0, 0)" "visRange (demo_client cs r atc ps) = 0"
  by (simp_all add: demo_client_def)

lemma demo_two_known:
  "registered demo_two = {0, 1}" "post_find ''AAL1'' demo_two = Some 0" "post_find ''NY_TWR'' demo_two = Some 1"
  "callsign (clients demo_two 0) = ''AAL1''" "callsign (clients demo_two 1) = ''NY_TWR''"
  "isAtc (clients demo_two 1)" "\<not> cancelled (clients demo_two 0)" "\<not> cancelled (clients demo_two 1)"
  unfolding registered_def post_find_def demo_two_simps by auto

lemma demo_steps: "net_steps demo_fsdlib demo_lib demo_net demo_two"
proof -
  have "net_step demo_fsdlib demo_lib s (demo_connect line s)" for line s
    unfolding demo_connect_def by (rule step_connect) (rule surjective_pairing)
  then show ?thesis
    unfolding demo_two_def by (blast intro: steps_refl steps_step)
qed

lemma demo_starting: "starting mset demo_net"
  by (simp add: starting_def demo_net_def net.defs web.defs)

subsection \<open>Where broadcasts go\<close>

definition in_range :: "('f, 't) fsdlib \<Rightarrow> nat \<Rightarrow> ('f, 't, 'x) net_scheme \<Rightarrow> nat set" where
  "in_range lib a s =
     {b \<in> registered s - {a}. overlaps lib (client_box lib (clients s a)) (client_box lib (clients s b))}"

lemma ranged_deliver:
  assumes "fsdlib_ok lib entries" "net_ok lib entries s" "login_test P"
  shows "\<exists>d. post_search lib a (\<lambda>b s. if P (clients s b) then snd (client_send lib b p s) else s) s
     = set_closest a d (deliver lib {b \<in> in_range lib a s. P (clients s b)} p s)"
proof -
  have o: "rtree_ok lib entries" "arith_ok lib" "office_ok lib entries s"
    using assms(1,2) by (simp_all add: fsdlib_ok_def net_ok_def)
  note r = search_reaches [OF o]
  have "{b \<in> set (rt_search lib (client_box lib (clients s a)) (tree s)). b \<noteq> a \<and> P (clients s b)}
      = {b \<in> in_range lib a s. P (clients s b)}"
    by (auto simp: r(1) in_range_def)
  with search_sends [OF assms(3) r(2)] show ?thesis by metis
qed

lemma all_deliver:
  assumes "net_ok lib entries s" "login_test P"
  shows "post_all a (\<lambda>b s. if P (clients s b) then snd (client_send lib b p s) else s) s
     = deliver lib {b \<in> registered s - {a}. P (clients s b)} p s"
proof -
  have "distinct (map snd (clientMap s))" using assms(1) by (simp add: net_ok_def office_ok_def)
  moreover have "{b \<in> set (map snd (clientMap s)). b \<noteq> a \<and> P (clients s b)} = {b \<in> registered s - {a}. P (clients s b)}"
    by (auto simp: registered_def)
  ultimately show ?thesis
    unfolding post_all_def by (simp only: all_fold [OF assms(2)])
qed

lemma broadcast_reach:
  assumes "fsdlib_ok lib entries" "net_ok lib entries s"
  shows "\<exists>d. broadcast_ranged lib a p s = set_closest a d (deliver lib (in_range lib a s) p s)"
    "\<exists>d. broadcast_ranged_velocity lib a p s
       = set_closest a d (deliver lib {b \<in> in_range lib a s. protoRevision (clients s b) = 101} p s)"
    "\<exists>d. broadcast_ranged_atc_only lib a p s = set_closest a d (deliver lib {b \<in> in_range lib a s. isAtc (clients s b)} p s)"
    "broadcast_all lib a p s = deliver lib (registered s - {a}) p s"
    "broadcast_all_atc lib a p s = deliver lib {b \<in> registered s - {a}. isAtc (clients s b)} p s"
    "broadcast_all_supervisors lib a p s
       = deliver lib {b \<in> registered s - {a}. NetworkRatingSupervisor \<le> networkRating (clients s b)} p s"
proof -
  have swap: "(if \<not> c then x else y) = (if c then y else x)" for c and x y :: "('a, 'b, 'c) net_scheme" by simp
  note range = ranged_deliver [OF assms] and all = all_deliver [OF assms(2)]
  show "\<exists>d. broadcast_ranged lib a p s = set_closest a d (deliver lib (in_range lib a s) p s)"
    using range [OF login_tests(1), unfolded if_True] by (simp add: broadcast_ranged_def)
  show "\<exists>d. broadcast_ranged_velocity lib a p s
       = set_closest a d (deliver lib {b \<in> in_range lib a s. protoRevision (clients s b) = 101} p s)"
    unfolding broadcast_ranged_velocity_def swap by (rule range [OF login_tests(3)])
  show "\<exists>d. broadcast_ranged_atc_only lib a p s = set_closest a d (deliver lib {b \<in> in_range lib a s. isAtc (clients s b)} p s)"
    unfolding broadcast_ranged_atc_only_def swap by (rule range [OF login_tests(2)])
  show "broadcast_all lib a p s = deliver lib (registered s - {a}) p s"
    using assms(2) unfolding net_ok_def by (blast intro: broadcast_all_deliver)
  show "broadcast_all_atc lib a p s = deliver lib {b \<in> registered s - {a}. isAtc (clients s b)} p s"
    unfolding broadcast_all_atc_def swap by (rule all [OF login_tests(2)])
  have "(if c then x else y) = (if \<not> c then y else x)" for c and x y :: "('a, 'b, 'c) net_scheme" by simp
  note swap = this
  show "broadcast_all_supervisors lib a p s
       = deliver lib {b \<in> registered s - {a}. NetworkRatingSupervisor \<le> networkRating (clients s b)} p s"
    unfolding broadcast_all_supervisors_def
    by (subst (1) swap) (use all [OF login_tests(4), of a 11 p] in \<open>simp add: not_less\<close>)
qed

text \<open>A direct message as the others see it.\<close>

lemma direct_reach:
  assumes "b \<noteq> a"
  shows "clients (send_direct_or_err lib a r p s) b
     = (if post_find r s = Some b then receive lib b p (clients s b) else clients s b)"
proof -
  have e: "clients (send_error lib a code msg t) b = clients t b" for code msg t
    using assms by (simp add: send_error_def client_send_deliver deliver_clients)
  have c: "clients t b = (if c = b then receive lib b p (clients s b) else clients s b)"
    if "client_send lib c p s = (ok, t)" for c ok t
    using arg_cong [OF that, where f = snd] unfolding client_send_deliver by (auto simp: deliver_clients)
  show ?thesis
    by (auto simp: send_direct_or_err_def post_send_def post_find_def e split: option.split prod.split bool.split dest: c)
qed


subsection \<open>Properties\<close>

text \<open>
  C6. Connected clients, in every state the server can reach, whatever the order in which the
  connections, the service and the workers took their steps (positions that are not numbers
  excepted). Each has a valid callsign that no other has and under which it is found, a rating of
  at least observer and at most what its account allows, and a facility this rating may open; and
  a search of the tree yields exactly the connected clients whose boxes overlap.
\<close>

theorem connected_clients:
  assumes "fsdlib_ok lib entries" "starting entries s0" "net_steps lib glib s0 s"
  shows "(\<forall>a \<in> registered s. client_ok (clients s a) \<and> post_find (callsign (clients s a)) s = Some a)
     \<and> (\<forall>cs a. post_find cs s = Some a \<longrightarrow> a \<in> registered s \<and> callsign (clients s a) = cs)
     \<and> (\<forall>r. set (rt_search lib r (tree s)) = {b \<in> registered s. overlaps lib r (client_box lib (clients s b))})"
proof (intro conjI)
  have ok: "net_ok lib entries s" by (rule reachable_net_ok [OF assms])
  then have o: "office_ok lib entries s" by (simp add: net_ok_def)
  show "\<forall>a \<in> registered s. client_ok (clients s a) \<and> post_find (callsign (clients s a)) s = Some a"
    using ok office_find [OF o] by (simp add: net_ok_def post_find_def)
  show "\<forall>cs a. post_find cs s = Some a \<longrightarrow> a \<in> registered s \<and> callsign (clients s a) = cs"
    using o map_of_registered [of s] by (fastforce simp: post_find_def office_ok_def dest: map_of_SomeD)
  show "\<forall>r. set (rt_search lib r (tree s)) = {b \<in> registered s. overlaps lib r (client_box lib (clients s b))}"
    using search_reaches(1) [OF _ _ o] assms(1) by (simp add: fsdlib_ok_def)
qed

theorem connected_clients_witness:
  "post_find ''AAL1'' demo_two = Some 0 \<and> client_ok (clients demo_two 0)"
proof -
  have "post_find ''AAL1'' demo_two = Some 0" by (simp add: demo_two_known)
  with connected_clients [OF demo_fsdlib_ok demo_starting demo_steps] show ?thesis by blast
qed

text \<open>
  C8. No login without credentials. Whoever is connected under a callsign has presented, in the fourth field
  of a pilot's login packet or the fifth of a controller's, a token for the FSD server that the
  server's secret signed for the CID in that packet, or the password of this CID; the callsign, the
  name and the rating of the connection are those of the packet, and the rating is at least observer
  and at most that of the token or of the account; the callsign is valid and was free.
\<close>

theorem login_needs_credentials:
  assumes "connect lib glib addr writable id_line add_line s = (LoggedIn a motd, s')"
    and "fsdlib_ok lib entries" "net_ok lib entries s"
  shows "\<exists>packet token. add_line = Some packet \<and> presents packet (clients s' a) token
     \<and> credentials glib (client_cid (clients s' a)) token (maxNetworkRating (clients s' a)) s
     \<and> 1 \<le> networkRating (clients s' a) \<and> networkRating (clients s' a) \<le> maxNetworkRating (clients s' a)
     \<and> is_valid_client_callsign (callsign (clients s' a)) \<and> post_find (callsign (clients s' a)) s = None
     \<and> post_find (callsign (clients s' a)) s' = Some a"
  using assms(1)
proof (cases rule: connect_cases)
  case (3 c s1 s2)
  then have a: "a = next_client s" and s': "s' = broadcast_all lib a (add_packet c) s2" by auto
  have s2: "clients s2 = (clients s)(a := c)" "map_of (clientMap s) (callsign c) = None"
      "clientMap s2 = clientMap s @ [(callsign c, a)]"
    using 3(2,3) by (auto simp: post_register_def Let_def a split: if_splits)
  have "clients s' a = c" "clientMap s' = clientMap s2"
  proof -
    have "distinct (map snd (clientMap s2))"
      using assms(3) by (auto simp: s2(3) a net_ok_def office_ok_def)
    then have "s' = deliver lib {b \<in> set (map snd (clientMap s2)). b \<noteq> a \<and> True} (add_packet c) s2"
      unfolding s' broadcast_all_def post_all_def
      by (rule all_fold [OF login_tests(1), of _ a lib _ s2, unfolded if_True])
    then show "clients s' a = c" "clientMap s' = clientMap s2" by (simp_all add: deliver_clients s2(1))
  qed
  moreover obtain packet token where "add_line = Some packet" "presents packet c token"
      "credentials glib (client_cid c) token (maxNetworkRating c) s" "1 \<le> networkRating c"
      "networkRating c \<le> maxNetworkRating c" "is_valid_client_callsign (callsign c)"
    using admitted_presents [OF 3(1)] by blast
  ultimately show ?thesis using s2 by (auto simp: post_find_def map_add_def)
qed simp_all

theorem login_needs_credentials_witness:
  "\<exists>token. presents demo_pilot (clients (demo_connect demo_pilot demo_net) 0) token \<and> credentials demo_lib 1 token 11 demo_net
     \<and> post_find ''AAL1'' (demo_connect demo_pilot demo_net) = Some 0"
proof -
  let ?r = "connect demo_fsdlib demo_lib ''10.0.0.1:4321'' True (Some ''$ID'') (Some demo_pilot) demo_net"
  have r: "?r = (LoggedIn 0 [''#TMserver:AAL1:Connected to openfsd'' @ crlf], demo_connect demo_pilot demo_net)"
    and "clients (demo_connect demo_pilot demo_net) 0 = demo_client ''AAL1'' 1 False []"
    using demo_login_view by (auto simp: demo_connect_def split: prod.splits)
  then have c: "client_cid (clients (demo_connect demo_pilot demo_net) 0) = 1" "maxNetworkRating (clients (demo_connect demo_pilot demo_net) 0) = 11"
      "callsign (clients (demo_connect demo_pilot demo_net) 0) = ''AAL1''" by simp_all
  show ?thesis
    using login_needs_credentials [OF r demo_fsdlib_ok starting_net_ok [OF demo_starting]] unfolding c option.inject by blast
qed

lemma clients_if:
  assumes "P \<Longrightarrow> clients x b = (if b \<in> A then u else v)" "\<not> P \<Longrightarrow> clients y b = (if b \<in> B then u else v)"
  shows "clients (if P then x else y) b = (if b \<in> (if P then A else B) then u else v)"
  using assms by simp

text \<open>Whom a text message to a recipient reaches.\<close>

definition text_recipients :: "('f, 't) fsdlib \<Rightarrow> nat \<Rightarrow> string \<Rightarrow> ('f, 't, 'x) net_scheme \<Rightarrow> nat set" where
  "text_recipients lib a r s =
     (if r = ''@49999'' then (if isAtc (clients s a) then {b \<in> in_range lib a s. isAtc (clients s b)} else {})
      else if take 1 r = ''@'' then in_range lib a s
      else if r = ''*S'' then {b \<in> registered s - {a}. NetworkRatingSupervisor \<le> networkRating (clients s b)}
      else if r = ''*'' then (if NetworkRatingSupervisor \<le> networkRating (clients s a) then registered s - {a} else {})
      else if r = ''FP'' then {}
      else if r = ''SERVER'' then {}
      else set_option (post_find r s))"

text \<open>
  C10. Where a text message goes: to the controllers in range for the controllers' chat, to everyone
  in range for a frequency, to the supervisors for a call for help, to everyone for a broadcast of a
  supervisor, and otherwise to the one client with that callsign. They get the packet as it is,
  at the end of their queues; no other client is changed in any way. In range means that the boxes
  of the two positions overlap.
\<close>

theorem text_message_reaches:
  assumes "fsdlib_ok lib entries" "net_ok lib entries s"
    and "verify_packet packet (callsign (clients s a)) = Accept PacketTypeTextMessage" "b \<noteq> a"
  shows "clients (handle_packet lib a packet s) b
     = (if b \<in> text_recipients lib a (get_field packet 1) s then receive lib b packet (clients s b) else clients s b)"
proof -
  have ranged: "clients t b = (if b \<in> S then receive lib b packet (clients s b) else clients s b)"
    if "\<exists>d. t = set_closest a d (deliver lib S packet s)" for t S
    using that assms(4) by (auto simp: set_closest_clients deliver_clients)
  note reach = broadcast_reach [OF assms(1,2), of a packet]
  have h: "handle_packet lib a packet s = handle_text_message lib a packet s"
    by (simp add: handle_packet_def assms(3))
  have m: "b \<in> set_option (post_find r s) \<longleftrightarrow> post_find r s = Some b" for r by auto
  show ?thesis
    unfolding h handle_text_message_def Let_def text_recipients_def
    by (intro clients_if)
      (simp_all add: ranged [OF reach(1)] ranged [OF reach(3)] reach(4,6) deliver_clients m direct_reach [OF assms(4)])
qed

theorem text_message_reaches_witness:
  "let p = ''#TMNY_TWR:AAL1:cleared to land'' @ crlf
   in outbox (clients (handle_packet demo_fsdlib 1 p demo_two) 0) = outbox (clients demo_two 0) @ [p]"
proof -
  let ?p = "''#TMNY_TWR:AAL1:cleared to land'' @ crlf"
  have ok: "net_ok demo_fsdlib mset demo_two" by (rule reachable_net_ok [OF demo_fsdlib_ok demo_starting demo_steps])
  have v: "verify_packet ?p (callsign (clients demo_two 1)) = Accept PacketTypeTextMessage"
    unfolding demo_two_known by code_simp
  have f: "get_field ?p 1 = ''AAL1''" by code_simp
  have "0 \<in> text_recipients demo_fsdlib 1 (get_field ?p 1) demo_two"
    unfolding f by (simp add: text_recipients_def demo_two_known)
  then show ?thesis
    using text_message_reaches [OF demo_fsdlib_ok ok v, of 0] by (simp add: Let_def receive_def demo_fsdlib_def)
qed

text \<open>
  C2. A client's packets stay within its rights, whatever they contain and whatever type they have.
  What they put into other clients' queues is under the sender's own callsign; the flight plan
  of another client changes only if the sender is a controller with an open position, its connection
  ends only if the sender is a supervisor, and nothing else of it changes.
\<close>

theorem packets_within_rights:
  assumes "fsdlib_ok lib entries" "starting entries s0" "net_steps lib glib s0 s" "a \<in> registered s" "b \<noteq> a"
    and "c = clients s b" "c' = clients (handle_packet lib a packet s) b" "me = clients s a"
  shows "(\<exists>ps. outbox c' = outbox c @ ps \<and> (\<forall>q \<in> set ps. from_callsign (callsign me) q))
     \<and> (flightPlan c' \<noteq> flightPlan c \<longrightarrow> isAtc me \<and> 0 < facilityType me)
     \<and> (cancelled c' \<noteq> cancelled c \<longrightarrow> NetworkRatingSupervisor \<le> networkRating me)
     \<and> c' = c\<lparr>flightPlan := flightPlan c', cancelled := cancelled c', outbox := outbox c'\<rparr>"
proof -
  have "net_ok lib entries s" by (rule reachable_net_ok [OF assms(1-3)])
  then have "is_valid_client_callsign (callsign me)"
    using assms(4,8) by (simp add: net_ok_def client_ok_def)
  from moves_touches(1) [OF moves_packet [OF this [unfolded assms(8)]] assms(5), of lib packet]
  show ?thesis by (simp add: touches_def assms(6-8))
qed

theorem packets_within_rights_witness:
  "flightPlan (clients (handle_packet demo_fsdlib 1 (''$AMNY_TWR:SERVER:AAL1:I:B738:x:x:x:x:x:x:x:x:x:x:x:x:x:x'' @ crlf) demo_two) 0)
     = flightPlan (clients demo_two 0)"
proof -
  have "1 \<in> registered demo_two" "\<not> 0 < facilityType (clients demo_two 1)"
    unfolding demo_two_known demo_two_simps by simp_all
  then show ?thesis
    using packets_within_rights [OF demo_fsdlib_ok demo_starting demo_steps _ _ refl refl refl, of 1 0] by auto
qed

text \<open>
  The delete packet a client is documented to send before it leaves, its callsign and its CID
  and nothing else, is refused as too short: two fields are not three. The connection is not ended
  and nobody else is told; only an error packet comes back.
\<close>

theorem documented_delete_is_refused:
  assumes "is_valid_client_callsign cs" "callsign (clients s a) = cs" "0 \<le> cid" "\<not> cancelled (clients s a)"
    and "kind \<in> {''#DP'', ''#DA''}"
  shows "handle_packet lib a (kind @ cs @ '':'' @ show_int cid @ crlf) s
     = modify a (\<lambda>c. c\<lparr>outbox := outbox c @ [error_packet SyntaxError ''Packet too short'']\<rparr>) s"
proof -
  have "CHR '':'' \<notin> set (show_int cid)"
    using show_nat_digits [of "nat cid"] assms(3) by (auto simp: show_int_def is_digit_def)
  moreover have "CHR '':'' \<notin> set cs" by (rule valid_callsign_chars(1) [OF assms(1)])
  moreover have "CHR '':'' \<notin> set kind" using assms(5) by auto
  ultimately have "count_fields (kind @ cs @ '':'' @ show_int cid @ crlf) = 2"
    by (simp add: count_fields_def)
  then show ?thesis
    using assms(4) by (simp add: handle_packet_def verify_packet_def assms(2) send_error_def client_send_def)
qed

theorem documented_delete_is_refused_witness:
  "handle_packet demo_fsdlib 0 (''#DPAAL1:7'' @ crlf) demo_two
     = modify 0 (\<lambda>c. c\<lparr>outbox := outbox c @ [error_packet SyntaxError ''Packet too short'']\<rparr>) demo_two"
proof -
  have "is_valid_client_callsign ''AAL1''" "show_int 7 = ''7''" by code_simp+
  then show ?thesis
    using documented_delete_is_refused [of "''AAL1''" demo_two 0 7 "''#DP''" demo_fsdlib] by (simp add: demo_two_known)
qed

text \<open>
  C23. When a connection ends its callsign is free again, every other connected client gets the delete
  packet for it, and the client is found neither by callsign nor by position.
\<close>

theorem disconnect_tells_everyone:
  assumes "fsdlib_ok lib entries" "net_ok lib entries s" "a \<in> registered s"
  shows "post_find (callsign (clients s a)) (disconnect lib a s) = None
     \<and> registered (disconnect lib a s) = registered s - {a}
     \<and> (\<forall>r. a \<notin> set (rt_search lib r (tree (disconnect lib a s))))
     \<and> (\<forall>b \<in> registered s - {a}. clients (disconnect lib a s) b = receive lib b (delete_packet (clients s a)) (clients s b))"
proof (intro conjI)
  have rt: "rtree_ok lib entries" "arith_ok lib" using assms(1) by (simp_all add: fsdlib_ok_def)
  note d = disconnect_net_ok [OF rt assms(2,3)]
  show "registered (disconnect lib a s) = registered s - {a}" by (rule d(2))
  have o: "office_ok lib entries (disconnect lib a s)" using d(1) by (simp add: net_ok_def)
  show "\<forall>r. a \<notin> set (rt_search lib r (tree (disconnect lib a s)))"
    using search_reaches(1) [OF rt o] d(2) by simp
  have s1: "net_ok lib entries (cancel_ctx a s)" by (rule cancel_net_ok [OF assms(2)])
  have c: "delete_packet (clients (cancel_ctx a s) a) = delete_packet (clients s a)"
    by (simp add: delete_packet_def cancel_ctx_def)
  have e: "disconnect lib a s
      = post_release lib a (deliver lib (registered (cancel_ctx a s) - {a}) (delete_packet (clients s a)) (cancel_ctx a s))"
    unfolding disconnect_def Let_def c broadcast_reach(4) [OF assms(1) s1] ..
  show "\<forall>b \<in> registered s - {a}. clients (disconnect lib a s) b = receive lib b (delete_packet (clients s a)) (clients s b)"
    unfolding e by (auto simp: post_release_def Let_def deliver_clients cancel_ctx_def registered_def)
  show "post_find (callsign (clients s a)) (disconnect lib a s) = None"
    unfolding e by (auto simp: post_find_def post_release_def Let_def deliver_clients cancel_ctx_def map_of_eq_None_iff)
qed

theorem disconnect_tells_everyone_witness:
  "post_find ''AAL1'' (disconnect demo_fsdlib 0 demo_two) = None
     \<and> clients (disconnect demo_fsdlib 0 demo_two) 1 = receive demo_fsdlib 1 (''#DPAAL1:SERVER:1'' @ crlf) (clients demo_two 1)"
proof -
  have ok: "net_ok demo_fsdlib mset demo_two" by (rule reachable_net_ok [OF demo_fsdlib_ok demo_starting demo_steps])
  note r = demo_two_known(1)
  have "callsign (clients demo_two 0) = ''AAL1''" "delete_packet (clients demo_two 0) = ''#DPAAL1:SERVER:1'' @ crlf"
    unfolding demo_two_simps by code_simp+
  then show ?thesis
    using disconnect_tells_everyone [OF demo_fsdlib_ok ok, of 0] unfolding r by simp
qed

text \<open>A controller's question for the flight plan of a client.\<close>

definition plan_query :: "string \<Rightarrow> string \<Rightarrow> string" where
  "plan_query cs target = ''$CQ'' @ cs @ '':SERVER:FP:'' @ target @ crlf"

lemma plan_query_fields:
  assumes "is_valid_client_callsign cs" "is_valid_client_callsign target"
  shows "verify_packet (plan_query cs target) cs = Accept PacketTypeClientQuery"
    "get_field (plan_query cs target) 1 = ''SERVER''" "get_field (plan_query cs target) 2 = ''FP''"
    "get_field (plan_query cs target) 3 = target" "count_fields (plan_query cs target) = 4"
proof -
  have c: "CHR '':'' \<notin> set cs" "CHR 0x0A \<notin> set cs" "CHR '':'' \<notin> set target" "CHR 0x0A \<notin> set target"
    using valid_callsign_chars(1,2) assms by auto
  have q: "plan_query cs target = (''$CQ'' @ cs) @ CHR '':'' # (''SERVER'' @ CHR '':'' # (''FP'' @ CHR '':'' # (target @ crlf)))"
    by (simp add: plan_query_def)
  note f = get_field_simps(2,3) [of "''$CQ'' @ cs"] get_field_simps(2,3) [of "''SERVER''"] get_field_simps(2,3) [of "''FP''"]
    get_field_simps(1) [of "target @ crlf"]
  show "get_field (plan_query cs target) 1 = ''SERVER''" "get_field (plan_query cs target) 2 = ''FP''"
    "get_field (plan_query cs target) 3 = target"
    unfolding q using c f by (simp_all add: numeral_2_eq_2 numeral_3_eq_3 cut_crlf_absent)
  show n: "count_fields (plan_query cs target) = 4" using c by (simp add: plan_query_def count_fields_def)
  have "get_field (plan_query cs target) 0 = ''$CQ'' @ cs"
    unfolding q using c f by (simp add: cut_crlf_absent)
  then have "get_source_callsign (plan_query cs target) PacketTypeClientQuery = cs"
    by (simp add: get_source_callsign_def source_callsign_field_index_def cut_prefix_def Let_def)
  moreover have "get_packet_type (plan_query cs target) = Some PacketTypeClientQuery"
    using packet_type_of_prefix [of PacketTypeClientQuery] by (simp add: plan_query_def)
  ultimately show "verify_packet (plan_query cs target) cs = Accept PacketTypeClientQuery"
    using n by (simp add: verify_packet_def verify_source_callsign_def) (simp add: plan_query_def)
qed

lemma server_query:
  assumes "client_ok (clients s b)" "is_valid_client_callsign target"
  shows "handle_packet lib b (plan_query (callsign (clients s b)) target) s
     = handle_query_flightplan lib b (plan_query (callsign (clients s b)) target) s"
proof -
  have "is_valid_client_callsign (callsign (clients s b))" using assms(1) by (simp add: client_ok_def)
  note f = plan_query_fields [OF this assms(2)]
  show ?thesis by (simp add: handle_packet_def f handle_client_query_def f(2,3) [unfolded One_nat_def])
qed

text \<open>
  C22. A flight plan a client files is what the controllers get: every other connected controller is
  sent it at once, and one that asks for it later is sent the same plan, followed by the beacon
  code of the client. The plan can be read back from the packet as it was filed.
\<close>

theorem filed_plan_is_served:
  assumes "fsdlib_ok lib entries" "net_ok lib entries s" "a \<in> registered s"
    and "verify_packet packet (callsign (clients s a)) = Accept PacketTypeFlightPlan"
    and "info = extract_flightplan_info packet" "info \<noteq> []" "cs = callsign (clients s a)"
    and "plan = build_file_flightplan_packet cs ''*A'' info" "s1 = handle_packet lib a packet s"
    and "b \<in> registered s" "b \<noteq> a" "isAtc (clients s b)" "\<not> cancelled (clients s b)"
    and "s2 = handle_packet lib b (plan_query (callsign (clients s b)) cs) s1"
  shows "outbox (clients s1 b) = outbox (clients s b) @ [plan]
     \<and> (\<exists>beacon. outbox (clients s2 b) = outbox (clients s1 b) @ [plan, beacon])
     \<and> extract_flightplan_info plan = info"
proof -
  have ca: "is_valid_client_callsign cs" and cb: "client_ok (clients s b)"
    using assms(2,3,7,10) by (simp_all add: net_ok_def client_ok_def)
  define s0 where "s0 = modify a (\<lambda>c. c\<lparr>flightPlan := info\<rparr>) s"
  have "acts a (clients s a) s s0"
    unfolding s0_def by (rule acts_self) (simp add: login_data.defs)
  then have s0: "net_ok lib entries s0" by (rule acts_net_ok [OF _ assms(2)])
  have "s1 = handle_file_flightplan lib a packet s"
    using assms(4) by (simp add: assms(9) handle_packet_def)
  then have "s1 = broadcast_all_atc lib a plan s0"
    by (simp add: handle_file_flightplan_def Let_def s0_def assms(5,7,8))
  then have s1: "s1 = deliver lib {b \<in> registered s0 - {a}. isAtc (clients s0 b)} plan s0"
    using broadcast_reach(5) [OF assms(1) s0] by simp
  have b1: "clients s1 b = (clients s b)\<lparr>outbox := outbox (clients s b) @ [plan]\<rparr>"
    using assms(10-13) by (simp add: s1 deliver_clients s0_def registered_def receive_def)
  have a1: "flightPlan (clients s1 a) = info" "post_find cs s1 = Some a"
    using assms(2,3) office_find [of lib entries s a]
    by (simp_all add: s1 deliver_clients s0_def post_find_def assms(7) net_ok_def)
  have "client_ok (clients s1 b)" using cb by (simp add: b1 client_ok_def)
  from server_query [OF this ca, of lib]
  have "s2 = handle_query_flightplan lib b (plan_query (callsign (clients s b)) cs) s1"
    by (simp add: assms(14) b1)
  moreover have "is_valid_client_callsign (callsign (clients s b))" using cb by (simp add: client_ok_def)
  note f = plan_query_fields(4,5) [OF this ca]
  ultimately have "\<exists>beacon. outbox (clients s2 b) = outbox (clients s1 b) @ [plan, beacon]"
    using a1 assms(6,12,13) by (simp add: handle_query_flightplan_def f Let_def b1 client_send_def assms(8))
  moreover have "CHR '':'' \<notin> set cs" by (rule valid_callsign_chars(1) [OF ca])
  ultimately show ?thesis
    by (simp add: b1 assms(8) extract_filed_plan)
qed

theorem filed_plan_is_served_witness:
  "let p = ''$FPAAL1:SERVER:I:B738:450:KJFK:1200:1200:350:KBOS:1:0:3:0:KPVD:none:direct'' @ crlf; s1 = handle_packet demo_fsdlib 0 p demo_two
   in \<exists>beacon. outbox (clients (handle_packet demo_fsdlib 1 (plan_query ''NY_TWR'' ''AAL1'') s1) 1)
     = outbox (clients s1 1)
       @ [''$FPAAL1:*A:I:B738:450:KJFK:1200:1200:350:KBOS:1:0:3:0:KPVD:none:direct'' @ crlf, beacon]"
proof -
  let ?p = "''$FPAAL1:SERVER:I:B738:450:KJFK:1200:1200:350:KBOS:1:0:3:0:KPVD:none:direct'' @ crlf"
  have ok: "net_ok demo_fsdlib mset demo_two" by (rule reachable_net_ok [OF demo_fsdlib_ok demo_starting demo_steps])
  have r: "0 \<in> registered demo_two" "1 \<in> registered demo_two" by (simp_all add: demo_two_known)
  note cs = demo_two_known(4-6,8)
  have v: "verify_packet ?p ''AAL1'' = Accept PacketTypeFlightPlan" by code_simp
  have ne: "extract_flightplan_info ?p \<noteq> []" "(1::nat) \<noteq> 0" by code_simp+
  have i: "extract_flightplan_info ?p = ''I:B738:450:KJFK:1200:1200:350:KBOS:1:0:3:0:KPVD:none:direct''" by code_simp
  have b: "build_file_flightplan_packet ''AAL1'' ''*A'' ''I:B738:450:KJFK:1200:1200:350:KBOS:1:0:3:0:KPVD:none:direct''
      = ''$FPAAL1:*A:I:B738:450:KJFK:1200:1200:350:KBOS:1:0:3:0:KPVD:none:direct'' @ crlf" by code_simp
  have "\<exists>beacon. outbox (clients (handle_packet demo_fsdlib 1 (plan_query ''NY_TWR'' ''AAL1'') (handle_packet demo_fsdlib 0 ?p demo_two)) 1)
     = outbox (clients (handle_packet demo_fsdlib 0 ?p demo_two) 1)
       @ [build_file_flightplan_packet ''AAL1'' ''*A'' ''I:B738:450:KJFK:1200:1200:350:KBOS:1:0:3:0:KPVD:none:direct'', beacon]"
    using filed_plan_is_served [OF demo_fsdlib_ok ok r(1) v [folded cs(1)] refl ne(1) refl refl refl r(2) ne(2) cs(3,4) refl]
    unfolding cs i by blast
  then show ?thesis unfolding b Let_def .
qed

lemma send_fast_others: "b \<noteq> a \<Longrightarrow> clients (update_send_fast lib a s) b = clients s b"
  by (simp add: update_send_fast_def Let_def client_send_deliver deliver_clients)

lemma send_fast_self:
  "coords (clients (update_send_fast lib a s) a) = coords (clients s a)"
  "visRange (clients (update_send_fast lib a s) a) = visRange (clients s a)"
  by (simp_all add: update_send_fast_def Let_def client_send_deliver deliver_clients)

lemma send_fast_map:
  "clientMap (update_send_fast lib a s) = clientMap s" "tree (update_send_fast lib a s) = tree s"
  by (simp_all add: acts_touches(3,4) [OF acts_send_fast])

text \<open>
  C21. A pilot's position report moves the pilot there and reaches those in range of the new position:
  the packet goes to exactly the other connected clients whose boxes overlap the box of the
  reported position at 50 nautical miles, and from then on searches find the pilot at that box.
\<close>

theorem position_report_reaches:
  assumes "fsdlib_ok lib entries" "net_ok lib entries s" "a \<in> registered s"
    and "verify_packet packet (callsign (clients s a)) = Accept PacketTypePilotPosition"
    and "parse_lat_lon lib packet 4 5 = Some center" "box = calculate_bounding_box lib center (lit lib 92600 0)"
    and "comparable lib box" "s' = handle_packet lib a packet s" "b \<in> registered s" "b \<noteq> a"
  shows "clients s' b = (if overlaps lib box (client_box lib (clients s b)) then receive lib b packet (clients s b) else clients s b)
     \<and> coords (clients s' a) = center
     \<and> (\<forall>r. a \<in> set (rt_search lib r (tree s')) \<longleftrightarrow> overlaps lib r box)"
proof -
  let ?s1 = "update_position lib a center (lit lib 92600 0) s"
  have rt: "rtree_ok lib entries" "arith_ok lib" using assms(1) by (simp_all add: fsdlib_ok_def)
  have ok1: "net_ok lib entries ?s1"
  proof (rule net_ok_clients)
    show "office_ok lib entries ?s1"
      using assms(2,3,6,7) by (intro update_position_office [OF rt]) (simp_all add: net_ok_def)
    show "client_ok (clients ?s1 c)" if "c \<in> registered ?s1" for c
      using assms(2) that by (cases "c = a") (auto simp: net_ok_def registered_def update_position_clients client_ok_def)
  qed
  obtain d where d: "broadcast_ranged lib a packet ?s1 = set_closest a d (deliver lib (in_range lib a ?s1) packet ?s1)"
    using broadcast_reach(1) [OF assms(1) ok1] by blast
  let ?s2 = "broadcast_ranged lib a packet ?s1"
  have "s' = handle_pilot_position lib a packet s" using assms(4) by (simp add: assms(8) handle_packet_def)
  then obtain f where s': "s' = update_send_fast lib a (modify a f ?s2)"
      and f: "\<And>c. coords (f c) = coords c" "\<And>c. visRange (f c) = visRange c"
    unfolding handle_pilot_position_def assms(5) option.case Let_def pilot_vis_range_def by (rule that) simp_all
  have ab: "clients ?s1 a = (clients s a)\<lparr>coords := center, visRange := lit lib 92600 0\<rparr>" "clients ?s1 b = clients s b"
    "registered ?s1 = registered s"
    using assms(10) by (simp_all add: update_position_clients registered_def)
  then have "b \<in> in_range lib a ?s1 \<longleftrightarrow> overlaps lib box (client_box lib (clients s b))"
    using assms(9,10) by (simp add: in_range_def client_box_def assms(6))
  then have "clients s' b = (if overlaps lib box (client_box lib (clients s b)) then receive lib b packet (clients s b) else clients s b)"
    using assms(10) ab(2) by (simp add: s' send_fast_others d set_closest_clients deliver_clients)
  moreover have a': "coords (clients s' a) = center" "visRange (clients s' a) = lit lib 92600 0"
    by (simp_all add: s' send_fast_self f d set_closest_clients deliver_clients ab(1))
  moreover have "net_ok lib entries s'"
    unfolding assms(8) using assms(5-7)
    by (intro packet_net_ok [OF rt assms(2,3)])
      (auto simp: position_comparable_def reported_position_def pilot_vis_range_def verify_packet_accepts(1) [OF assms(4)])
  then have "a \<in> set (rt_search lib r (tree s')) \<longleftrightarrow> overlaps lib r box" for r
    using search_reaches(1) [OF rt, of s' r] assms(3) a'
    by (simp add: net_ok_def client_box_def assms(6) s' send_fast_map d registered_def update_position_clients)
  ultimately show ?thesis by blast
qed

theorem position_report_reaches_witness:
  "let p = ''@N:AAL1:1200:1:0:0:3000:120:0:0'' @ crlf
   in outbox (clients (handle_packet demo_fsdlib 0 p demo_two) 1) = outbox (clients demo_two 1) @ [p]"
proof -
  let ?p = "''@N:AAL1:1200:1:0:0:3000:120:0:0'' @ crlf"
  have ok: "net_ok demo_fsdlib mset demo_two" by (rule reachable_net_ok [OF demo_fsdlib_ok demo_starting demo_steps])
  have r: "0 \<in> registered demo_two" "1 \<in> registered demo_two" by (simp_all add: demo_two_known)
  have v: "verify_packet ?p (callsign (clients demo_two 0)) = Accept PacketTypePilotPosition"
    "parse_lat_lon demo_fsdlib ?p 4 5 = Some (0, 0)"
    "overlaps demo_fsdlib (calculate_bounding_box demo_fsdlib (0, 0) (lit demo_fsdlib 92600 0)) (client_box demo_fsdlib (clients demo_two 1))"
    unfolding demo_two_simps demo_client_simps by code_simp+
  have "comparable demo_fsdlib b" for b by (simp add: comparable_def same_box_def demo_fsdlib_def)
  then show ?thesis
    using position_report_reaches [OF demo_fsdlib_ok ok r(1) v(1,2) refl _ refl r(2)] v(3)
    by (simp add: Let_def receive_def demo_fsdlib_def)
qed

end
