(* ===== verification/Fsd_Web.thy ===== *)
theory Fsd_Web
  imports Fsd_Promises Web_Pages
begin

text \<open>
  The FSD server and the web server together: the kick of a supervisor from the dashboard through the
  web server and the service API to the client, and the login of a client with a token the web
  server has made.
\<close>

subsection \<open>Kicking over HTTP\<close>

text \<open>The claims of a service token, as those of a user without name.\<close>

definition service_user :: user where
  "service_user = \<lparr>CID = -1, Password = [], FirstName = None, LastName = None, NetworkRating = NetworkRatingAdministator\<rparr>"

lemma make_service_token_good:
  assumes "lib_ok glib" "serving w secret"
  shows "\<exists>token. make_service_token glib w = (Some token, w\<lparr>draws := Suc (draws w)\<rparr>)
     \<and> token_good glib secret ''fsd_service'' service_user (wall w) token"
proof -
  have c: "clock_ok (wall w)" using assms(2) by (simp add: serving_def)
  have u: "user_ok service_user" by (simp add: user_ok_def service_user_def int64_def safe_str_def)
  have s: "config_get ConfigJwtSecretKey (w\<lparr>draws := n\<rparr>) = Inr secret" for n
    using serving_secret [OF assms(2)] by (simp add: config_get_def split: if_splits)
  have t: "ascii_text ''fsd_service''" by (simp add: ascii_char_def)
  have "make_service_token glib w
      = (Some (jwt_sign glib secret (token_claims glib ''fsd_service'' service_user (15 * minute) (draws w) (wall w))),
         w\<lparr>draws := Suc (draws w)\<rparr>)"
    using make_jwt_token_user [OF assms(1), of "''fsd_service''" service_user "15 * minute" w]
    by (simp add: make_service_token_def service_user_def safe_str_def s)
  moreover have "token_good glib secret ''fsd_service'' service_user (wall w)
      (jwt_sign glib secret (token_claims glib ''fsd_service'' service_user (15 * minute) (draws w) (wall w)))"
    by (rule token_lifetime(1) [OF assms(1) u c _ _ t]) simp_all
  ultimately show ?thesis by blast
qed

lemma service_token_accepted:
  assumes "lib_ok glib" "serving s secret"
  shows "\<exists>token. make_service_token glib s = (Some token, s\<lparr>draws := Suc (draws s)\<rparr>)
     \<and> service_refusal glib (Some (''Bearer '' @ token)) (s\<lparr>draws := Suc (draws s)\<rparr>) = None"
proof -
  let ?s1 = "s\<lparr>draws := Suc (draws s)\<rparr>"
  obtain token cl where t: "make_service_token glib s = (Some token, ?s1)" "jwt_parse glib secret (wall s) token = Some cl"
      "TokenType cl = ''fsd_service''" "claims_NetworkRating cl = NetworkRatingAdministator"
    using make_service_token_good [OF assms] by (auto simp: token_good_def service_user_def)
  have "config_get ConfigJwtSecretKey ?s1 = Inr secret"
    using serving_secret [OF assms(2)] by (simp add: config_get_def split: if_splits)
  then have "service_refusal glib (Some (''Bearer '' @ token)) ?s1 = None"
    using t(2-4) by (simp add: service_refusal_def bearer_token_def)
  with t(1) show ?thesis by blast
qed

lemma callsign_body:
  "body_members (Some (json_text (Obj [(''callsign'', Str cs)]))) = Some [(''callsign'', Str cs)]"
  by (rule body_members_text) simp

lemma callsign_key: "ascii_lower ''callsign'' = ''callsign''"
  by (simp add: ascii_lower_def is_upper_def)

lemma kick_reaches:
  assumes "lib_ok glib" "serving s secret" "post_find cs s = Some b" "cs \<noteq> []"
  shows "kick_over_http glib True cs s = (Some 204, cancel_ctx b (s\<lparr>draws := Suc (draws s)\<rparr>))"
proof -
  let ?s1 = "s\<lparr>draws := Suc (draws s)\<rparr>"
  obtain token where t: "make_service_token glib s = (Some token, ?s1)"
      and "service_refusal glib (Some (''Bearer '' @ token)) ?s1 = None"
    using service_token_accepted [OF assms(1,2)] by blast
  moreover have "tags_ok glib" using assms(1) by (simp add: lib_ok_def)
  then have "bound_string glib ''callsign'' (Some (json_text (Obj [(''callsign'', Str cs)]))) = (True, cs)"
    using assms(4) unfolding bound_string_def callsign_body
    by (simp add: callsign_key string_field_def binding_def tags_okD)
  moreover have "post_find cs ?s1 = Some b" using assms(3) by (simp add: post_find_def)
  ultimately show ?thesis
    unfolding kick_over_http_def t(1) by (simp add: service_kick_user_def handle_kick_user_def del: append_Cons json_text.simps)
qed

text \<open>The kick of a supervisor, from the button of the dashboard to the FSD server.\<close>

lemma kick_route:
  "api_route lib out (api_request ''POST'' ''/api/v1/fsdconn/kickuser'' True (Str t) (Obj d))
     = guarded lib (api_request ''POST'' ''/api/v1/fsdconn/kickuser'' True (Str t) (Obj d)) (handle_kick lib (fsd_kick out) (Some (json_text (Obj d))))"
  by (simp add: api_route_def api_request_def json_stringify_Obj del: json_text.simps)

lemma kick_button_reaches:
  fixes w :: "(('f, 't, 'z) net_scheme, 'y) browser_scheme"
  assumes "lib_ok lib" "session lib secret t c w" "NetworkRatingSupervisor \<le> claims_NetworkRating c"
    and "fsd_kick out = kick_over_http lib True" "post_find cs (backend w) = Some b" "cs \<noteq> []"
  shows "\<exists>w1. kickUser (web_server lib out) (Str cs) w = (Done (), w1)
     \<and> alerts w1 = alerts w @ [''User kicked successfully'']
     \<and> clients (backend w1) = clients (cancel_ctx b (backend w)) \<and> clientMap (backend w1) = clientMap (backend w)"
proof -
  let ?s = "backend w" and ?data = "Obj [(''callsign'', Str cs)]"
  let ?v = "cancel_ctx b (?s\<lparr>draws := Suc (draws ?s)\<rparr>)"
  have s: "serving ?s secret" using assms(2) by (simp add: session_def)
  have "tags_ok lib" using assms(1) by (simp add: lib_ok_def)
  then have h: "handle_kick lib (fsd_kick out) (Some (json_text ?data)) c ?s = (write_success 200 Null, ?v)"
    using assms(3,6) kick_reaches [OF assms(1) s assms(5,6)] unfolding handle_kick_def callsign_body
    by (simp add: callsign_key string_field_def binding_def tags_okD assms(4))
  have "doAPIRequestWithAuth (web_server lib out) ''POST'' ''/api/v1/fsdconn/kickuser'' ?data w
      = (Done (envelope Null Null), after out (api_request ''POST'' ''/api/v1/fsdconn/kickuser'' True (Str t) ?data) ?v w)"
    by (rule session_request [OF assms(2) kick_route h]) simp_all
  then have "kickUser (web_server lib out) (Str cs) w
      = (Done (), (after out (api_request ''POST'' ''/api/v1/fsdconn/kickuser'' True (Str t) ?data) ?v w)
          \<lparr>alerts := alerts w @ [''User kicked successfully'']\<rparr>)"
    by (simp add: kickUser_def js_monad alert_def)
  then show ?thesis by (auto simp: cancel_ctx_def)
qed

subsection \<open>Logging in to the FSD server with a token\<close>

lemma atoi_show_int:
  assumes "0 \<le> i" "int64 i"
  shows "atoi (show_int i) = Some i"
proof -
  have d: "list_all is_digit (show_nat (nat i))" using show_nat_digits by (simp add: list_all_iff)
  moreover obtain c cs where c: "show_nat (nat i) = c # cs" by (cases "show_nat (nat i)") auto
  ultimately have "is_digit c" by simp
  then have "c \<noteq> CHR ''-''" "c \<noteq> CHR ''+''" by (auto simp: is_digit_def)
  with assms c d show ?thesis
    using read_digits_show_nat [of "nat i"] by (simp add: atoi_def show_int_def)
qed

lemma show_int_plain:
  assumes "0 \<le> i"
  shows "CHR '':'' \<notin> set (show_int i)" "CHR 0x0A \<notin> set (show_int i)" "show_int i \<noteq> []"
  using show_nat_digits [of "nat i"] assms by (auto simp: show_int_def is_digit_def)

definition pilot_login :: "string \<Rightarrow> int \<Rightarrow> string \<Rightarrow> int \<Rightarrow> string \<Rightarrow> string" where
  "pilot_login cs cid token rating real_name =
     ''#AP'' @ cs @ '':SERVER:'' @ show_int cid @ '':'' @ token @ '':'' @ show_int rating @ '':100:1:'' @ real_name"

lemma pilot_login_read:
  assumes "is_valid_client_callsign cs" "0 \<le> cid" "int64 cid" "0 \<le> rating" "int64 rating"
    and "CHR '':'' \<notin> set token" "CHR 0x0A \<notin> set token" "CHR '':'' \<notin> set real_name" "CHR 0x0A \<notin> set real_name"
    and "count_fields id_line \<noteq> 9"
  shows "read_login_packets (Some id_line) (Some (pilot_login cs cid token rating real_name)) now
     = Inr (no_login_data\<lparr>callsign := cs, client_cid := cid, realName := real_name, networkRating := rating,
              protoRevision := 100, loginTime := now\<rparr>, token)"
proof -
  let ?p = "pilot_login cs cid token rating real_name"
  have plain: "CHR '':'' \<notin> set cs" "CHR 0x0A \<notin> set cs" "CHR '':'' \<notin> set (show_int cid)" "CHR 0x0A \<notin> set (show_int cid)"
    "CHR '':'' \<notin> set (show_int rating)" "CHR 0x0A \<notin> set (show_int rating)"
    using valid_callsign_chars(1,2) [OF assms(1)] show_int_plain assms(2,4) by auto
  have p: "?p = (''#AP'' @ cs) @ CHR '':'' # (''SERVER'' @ CHR '':'' # (show_int cid @ CHR '':'' # (token @ CHR '':'' #
      (show_int rating @ CHR '':'' # (''100'' @ CHR '':'' # (''1'' @ CHR '':'' # real_name))))))"
    by (simp add: pilot_login_def)
  note g = get_field_simps(2,3) [of "''#AP'' @ cs"] get_field_simps(2,3) [of "''SERVER''"] get_field_simps(2,3) [of "show_int cid"]
    get_field_simps(2,3) [of token] get_field_simps(2,3) [of "show_int rating"] get_field_simps(2,3) [of "''100''"]
    get_field_simps(2,3) [of "''1''"] get_field_simps(1) [of real_name]
  have f: "get_field ?p 0 = ''#AP'' @ cs" "get_field ?p (Suc (Suc 0)) = show_int cid" "get_field ?p (Suc (Suc (Suc 0))) = token"
    "get_field ?p (Suc (Suc (Suc (Suc 0)))) = show_int rating" "get_field ?p (Suc (Suc (Suc (Suc (Suc 0))))) = ''100''"
    "get_field ?p (Suc (Suc (Suc (Suc (Suc (Suc (Suc 0))))))) = real_name"
    unfolding p using plain assms(6-9) g by (simp_all add: cut_crlf_absent)
  have n: "count_fields ?p = 8" using plain assms(6,8) by (simp add: pilot_login_def count_fields_def)
  have l: "16 \<le> length ?p"
    using show_int_plain(3) [OF assms(2)] show_int_plain(3) [OF assms(4)]
    by (cases "show_int cid"; cases "show_int rating") (simp_all add: pilot_login_def)
  have t: "take 3 ?p = ''#AP''" by (simp add: pilot_login_def)
  have a: "atoi ''100'' = Some 100" by code_simp
  have "read_add_packet ?p d = Inr (d\<lparr>callsign := cs, isAtc := False, client_cid := cid, realName := real_name,
      networkRating := rating, protoRevision := 100\<rparr>, token)" for d
    using l n t f assms(2-5)
    by (simp add: read_add_packet_def Let_def cut_prefix_def read_add_pilot_def eval_nat_numeral atoi_show_int a)
  then show ?thesis
    using assms(10) by (simp add: read_login_packets_def read_challenge_def no_login_data_def)
qed

text \<open>
  A signed token is in the compact form of RFC 7515: three parts in the base64url alphabet, the first
  being the header of HS256.
\<close>

definition compact_form :: "string \<Rightarrow> bool" where
  "compact_form t \<longleftrightarrow>
     (\<exists>p g. t = hs256_header @ ''.'' @ p @ ''.'' @ g \<and>
        (\<forall>c \<in> set p \<union> set g. c \<noteq> CHR ''.'' \<and> c \<noteq> CHR '':'' \<and> c \<noteq> CHR 0x0A))"

definition signs_compact :: "golib \<Rightarrow> bool" where
  "signs_compact glib \<longleftrightarrow> (\<forall>k c. claims_ok c \<longrightarrow> compact_form (jwt_sign glib k c))"

lemma demo_signs_compact: "signs_compact demo_lib"
  unfolding signs_compact_def compact_form_def demo_lib_def jwt_compact_def
  by (auto intro!: exI [of _ "base64url_encode (json_text (claims_json _))"] exI [of _ "base64url_encode _"] dest: base64url_plain [THEN notE])

lemma hs256_header_decoded: "(case std_decode hs256_header of None \<Rightarrow> False | Some buf \<Rightarrow> jwt_header buf)"
  by code_simp

lemma compact_token:
  assumes "compact_form t"
  shows "most_likely_jwt t" "CHR '':'' \<notin> set t" "CHR 0x0A \<notin> set t"
proof -
  obtain p g where t: "t = hs256_header @ ''.'' @ p @ ''.'' @ g"
      and c: "\<forall>c \<in> set p \<union> set g. c \<noteq> CHR ''.'' \<and> c \<noteq> CHR '':'' \<and> c \<noteq> CHR 0x0A"
    using assms by (auto simp: compact_form_def)
  have d: "CHR ''.'' \<notin> set p" "CHR ''.'' \<notin> set g" using c by auto
  show "most_likely_jwt t"
    unfolding t most_likely_jwt_parts [OF hs256_header_plain(1) d] by (rule hs256_header_decoded)
  show "CHR '':'' \<notin> set t" "CHR 0x0A \<notin> set t" using c by (auto simp: t hs256_header_plain)
qed

text \<open>The sender of a broadcast is left alone.\<close>

lemma all_self:
  "clientMap (fold (\<lambda>b s. if b = a then s else snd (client_send lib b p s)) bs s) = clientMap s
     \<and> clients (fold (\<lambda>b s. if b = a then s else snd (client_send lib b p s)) bs s) a = clients s a"
  by (induction bs arbitrary: s) (simp_all add: client_send_deliver deliver_clients)

lemma connect_succeeds:
  assumes "read_login_packets id_line add_line (wall s) = Inr (data, token)" "is_valid_client_callsign (callsign data)"
    and "attempt_authentication glib (new_client lib data addr) token s = Inr c" "callsign c = callsign data"
    and "post_find (callsign data) s = None" "a = next_client s"
  shows "\<exists>motd s'. connect lib glib addr True id_line add_line s = (LoggedIn a motd, s') \<and> post_find (callsign data) s' = Some a
     \<and> login_data.truncate (clients s' a) = login_data.truncate c"
proof -
  let ?s1 = "s\<lparr>clients := (clients s)(a := c), next_client := Suc a\<rparr>"
  let ?s2 = "?s1\<lparr>clientMap := clientMap s @ [(callsign c, a)], tree := rt_insert lib (client_box lib c) a (tree s)\<rparr>"
  have "post_register lib a ?s1 = (True, ?s2)"
    using assms(4,5) by (simp add: post_register_def post_find_def)
  then have c: "connect lib glib addr True id_line add_line s = (LoggedIn a (motd_packets c ?s2), broadcast_all lib a (add_packet c) ?s2)"
    using assms(1-3,6) by (simp add: connect_def Let_def)
  let ?s' = "broadcast_all lib a (add_packet c) ?s2"
  have "clientMap ?s' = clientMap ?s2 \<and> clients ?s' a = clients ?s2 a"
    unfolding broadcast_all_def post_all_def by (rule all_self)
  then have "post_find (callsign data) ?s' = Some a" "clients ?s' a = c"
    using assms(4,5) by (auto simp: post_find_def map_add_def)
  with c show ?thesis by auto
qed

lemma token_authenticates:
  assumes "clientChallenge data = []" "compact_form token" "config_get ConfigJwtSecretKey w = Inr secret"
    and "token_good glib secret ''fsd'' u (wall w) token" "client_cid data = CID u"
    and "1 \<le> networkRating data" "networkRating data \<le> NetworkRating u"
  shows "attempt_authentication glib (new_client lib data addr) token w
     = Inr ((new_client lib data addr)\<lparr>maxNetworkRating := NetworkRating u\<rparr>)"
  using assms compact_token(1) [OF assms(2)]
  by (auto simp: attempt_authentication_def authenticate_token_def check_rating_def token_good_def)

lemma token_login:
  assumes "signs_compact glib" "claims_ok cl" "token = jwt_sign glib secret cl"
    and "serving s secret" "token_good glib secret ''fsd'' u (wall s) token" "CID u = cid" "0 \<le> cid" "int64 cid"
    and "is_valid_client_callsign cs" "post_find cs s = None" "1 \<le> rating" "rating \<le> NetworkRating u" "int64 rating"
    and "CHR '':'' \<notin> set real_name" "CHR 0x0A \<notin> set real_name" "count_fields id_line \<noteq> 9" "a = next_client s"
  shows "\<exists>motd s'. connect lib glib addr True (Some id_line) (Some (pilot_login cs cid token rating real_name)) s = (LoggedIn a motd, s')
     \<and> post_find cs s' = Some a \<and> client_cid (clients s' a) = cid \<and> networkRating (clients s' a) = rating"
proof -
  have t: "compact_form token" using assms(1-3) by (simp add: signs_compact_def)
  let ?data = "no_login_data\<lparr>callsign := cs, client_cid := cid, realName := real_name, networkRating := rating,
              protoRevision := 100, loginTime := wall s\<rparr>"
  let ?c = "(new_client lib ?data addr)\<lparr>maxNetworkRating := NetworkRating u\<rparr>"
  have r: "read_login_packets (Some id_line) (Some (pilot_login cs cid token rating real_name)) (wall s) = Inr (?data, token)"
    using assms(11) by (intro pilot_login_read assms compact_token [OF t]) simp
  have au: "attempt_authentication glib (new_client lib ?data addr) token s = Inr ?c"
    by (rule token_authenticates [OF _ t serving_secret [OF assms(4)] assms(5)])
      (use assms(6,11,12) in \<open>simp_all add: no_login_data_def\<close>)
  have "\<exists>motd s'. connect lib glib addr True (Some id_line) (Some (pilot_login cs cid token rating real_name)) s = (LoggedIn a motd, s')
      \<and> post_find (callsign ?data) s' = Some a \<and> login_data.truncate (clients s' a) = login_data.truncate ?c"
    by (rule connect_succeeds [OF r _ au]) (use assms(9,10,17) in simp_all)
  then show ?thesis
    using login_fields [of _ ?c] by fastforce
qed

end
