(* ===== verification/Fsd_Feed.thy ===== *)
theory Fsd_Feed
  imports Fsd_Web Dashboard "HOL-Library.Monad_Syntax"
begin

text \<open>
  From the connected clients to the map: the reply of \<open>/online_users\<close> (\<open>fsd/http_service.go\<close>) as the
  text that is sent, the data feed that \<open>web/data.go\<close> makes of it every 15 seconds and keeps in a cache,
  and the dashboard that draws it.

  Parameters are the shortest decimal text of a float64, which JSON has only for finite numbers, the
  float64 nearest to a decimal, and the text of a time in the zone of the machine.
\<close>

subsection \<open>Texts\<close>

text \<open>The encoder replaces every octet that is not part of a character in UTF-8.\<close>

function go_text :: "string \<Rightarrow> string" where
  "go_text [] = []"
| "go_text (c # s) =
     (let n = utf8_len c in
      if n \<noteq> 0 \<and> n \<le> length (c # s) \<and> utf8_seq_ok (take n (c # s))
      then take n (c # s) @ go_text (drop (n - 1) s)
      else [CHR 0xEF, CHR 0xBF, CHR 0xBD] @ go_text s)"
  by pat_completeness auto
termination
  by (relation "measure length") auto

declare go_text.simps(2) [simp del]

lemma go_text_valid: "utf8_valid s \<Longrightarrow> go_text s = s"
proof (induction s rule: utf8_valid.induct)
  case (2 c s)
  then show ?case by (cases "utf8_len c") (simp_all add: go_text.simps Let_def)
qed simp

record 'f wire =
  float_json :: "'f \<Rightarrow> jsnum option"
  json_float :: "jsnum \<Rightarrow> 'f option"
  show_time :: "int \<Rightarrow> string"


subsection \<open>The online users, encoded\<close>

definition general_members :: "'f wire \<Rightarrow> 'f online_user \<Rightarrow> (string \<times> jsval) list option" where
  "general_members wl u =
     do { lat \<leftarrow> float_json wl (fst (on_latlon u));
          lon \<leftarrow> float_json wl (snd (on_latlon u));
          Some [(''callsign'', Str (go_text (on_callsign u))), (''cid'', JInt (on_cid u)), (''name'', Str (go_text (on_name u))),
            (''network_rating'', JInt (on_rating u)), (''max_network_rating'', JInt (on_max_rating u)),
            (''latitude'', Num lat), (''longitude'', Num lon),
            (''logon_time'', Str (show_time wl (on_logon u))), (''last_updated'', Str (show_time wl (on_updated u)))] }"

fun online_members :: "'f wire \<Rightarrow> 'f online \<Rightarrow> (string \<times> jsval) list option" where
  "online_members wl (OnlinePilot u alt gs hdg code) =
     do { ms \<leftarrow> general_members wl u;
          Some (ms @ [(''altitude'', JInt alt), (''groundspeed'', JInt gs), (''heading'', JInt hdg), (''transponder'', Str (go_text code))]) }"
| "online_members wl (OnlineATC u freq fac vis) =
     do { ms \<leftarrow> general_members wl u;
          Some (ms @ [(''frequency'', Str (go_text freq)), (''facility'', JInt fac), (''visual_range'', JInt vis)]) }"

text \<open>
  The body of the reply. Where a value cannot be encoded the encoder has written nothing, and the
  status has already been sent.
\<close>

definition encode_users :: "'f wire \<Rightarrow> 'f online list \<times> 'f online list \<Rightarrow> string" where
  "encode_users wl us =
     (case do { ps \<leftarrow> those (map (online_members wl) (fst us));
                cs \<leftarrow> those (map (online_members wl) (snd us));
                Some (Obj [(''pilots'', Arr (map Obj ps)), (''atc'', Arr (map Obj cs))]) } of
        None \<Rightarrow> []
      | Some v \<Rightarrow> json_text v @ [newline])"

definition service_online_users ::
    "golib \<Rightarrow> ('f, 't) fsdlib \<Rightarrow> 'f wire \<Rightarrow> string option \<Rightarrow> ('f, 't, 'x) net_scheme \<Rightarrow> nat \<times> string" where
  "service_online_users glib lib wl auth s =
     (case service_refusal glib auth s of
        Some status \<Rightarrow> (status, [])
      | None \<Rightarrow> (200, encode_users wl (get_online_users lib s)))"


subsection \<open>The online users, decoded\<close>

definition set_float :: "'f wire \<Rightarrow> jsval \<Rightarrow> 'f \<Rightarrow> 'f option" where
  "set_float wl v x = (case v of Null \<Rightarrow> Some x | Num n \<Rightarrow> json_float wl n | _ \<Rightarrow> None)"

definition set_time_text :: "jsval \<Rightarrow> int \<Rightarrow> int option" where
  "set_time_text v t = (case v of Null \<Rightarrow> Some t | Str s \<Rightarrow> parse_rfc3339 s | _ \<Rightarrow> None)"

definition set_list :: "(jsval \<Rightarrow> 'a option) \<Rightarrow> jsval \<Rightarrow> 'a list \<Rightarrow> 'a list option" where
  "set_list f v xs = (case v of Null \<Rightarrow> Some [] | Arr vs \<Rightarrow> those (map f vs) | _ \<Rightarrow> None)"

definition element_members :: "jsval \<Rightarrow> (string \<times> jsval) list option" where
  "element_members v = (case v of Null \<Rightarrow> Some [] | Obj kvs \<Rightarrow> Some kvs | _ \<Rightarrow> None)"

definition decode_general :: "('f, 't) fsdlib \<Rightarrow> 'f wire \<Rightarrow> (string \<times> jsval) list \<Rightarrow> 'f online_user option" where
  "decode_general lib wl kvs =
     do { cs \<leftarrow> string_field ''callsign'' kvs; cid \<leftarrow> int_field ''cid'' kvs; name \<leftarrow> string_field ''name'' kvs;
          rating \<leftarrow> int_field ''network_rating'' kvs; max_rating \<leftarrow> int_field ''max_network_rating'' kvs;
          lat \<leftarrow> decode_all (set_float wl) (members ''latitude'' kvs) (lit lib 0 0);
          lon \<leftarrow> decode_all (set_float wl) (members ''longitude'' kvs) (lit lib 0 0);
          logon \<leftarrow> decode_all set_time_text (members ''logon_time'' kvs) Fsd_Connection.zero_time;
          updated \<leftarrow> decode_all set_time_text (members ''last_updated'' kvs) Fsd_Connection.zero_time;
          Some \<lparr>on_callsign = cs, on_cid = cid, on_name = name, on_rating = rating, on_max_rating = max_rating,
            on_latlon = (lat, lon), on_logon = logon, on_updated = updated\<rparr> }"

definition decode_pilot :: "('f, 't) fsdlib \<Rightarrow> 'f wire \<Rightarrow> jsval \<Rightarrow> 'f online option" where
  "decode_pilot lib wl v =
     do { kvs \<leftarrow> element_members v; u \<leftarrow> decode_general lib wl kvs; alt \<leftarrow> int_field ''altitude'' kvs;
          gs \<leftarrow> int_field ''groundspeed'' kvs; hdg \<leftarrow> int_field ''heading'' kvs; code \<leftarrow> string_field ''transponder'' kvs;
          Some (OnlinePilot u alt gs hdg code) }"

definition decode_atc :: "('f, 't) fsdlib \<Rightarrow> 'f wire \<Rightarrow> jsval \<Rightarrow> 'f online option" where
  "decode_atc lib wl v =
     do { kvs \<leftarrow> element_members v; u \<leftarrow> decode_general lib wl kvs; freq \<leftarrow> string_field ''frequency'' kvs;
          fac \<leftarrow> int_field ''facility'' kvs; vis \<leftarrow> int_field ''visual_range'' kvs;
          Some (OnlineATC u freq fac vis) }"

definition decode_users :: "('f, 't) fsdlib \<Rightarrow> 'f wire \<Rightarrow> string \<Rightarrow> ('f online list \<times> 'f online list) option" where
  "decode_users lib wl body =
     do { kvs \<leftarrow> body_members (Some body);
          ps \<leftarrow> decode_all (set_list (decode_pilot lib wl)) (members ''pilots'' kvs) [];
          cs \<leftarrow> decode_all (set_list (decode_atc lib wl)) (members ''atc'' kvs) [];
          Some (ps, cs) }"


subsection \<open>The data feed\<close>

record datafeed_cache =
  df_json :: string
  df_etag :: string
  df_updated :: int

record ('f, 't) served = "('f, 't) net" +
  feedCache :: "datafeed_cache option"

definition pilot_extra :: "(string \<times> jsval) list" where
  "pilot_extra =
     [(''server'', Str ''OPENFSD''), (''pilot_rating'', JInt 1), (''military_rating'', JInt 1),
      (''qnh_i_hg'', Num (Dec 2992 2)), (''qnh_mb'', JInt 1013)]"

definition atc_extra :: "(string \<times> jsval) list" where
  "atc_extra = [(''server'', Str ''OPENFSD''), (''text_atis'', Arr [])]"

definition feed_value :: "'f wire \<Rightarrow> int \<Rightarrow> 'f online list \<times> 'f online list \<Rightarrow> jsval option" where
  "feed_value wl now us =
     (let n = int (length (fst us) + length (snd us)) in
      do { ps \<leftarrow> those (map (online_members wl) (fst us));
           cs \<leftarrow> those (map (online_members wl) (snd us));
           Some (Obj
             [(''general'', Obj [(''version'', JInt 3), (''update_timestamp'', Str (show_time wl now)),
                (''connected_clients'', JInt n), (''unique_users'', JInt n)]),
              (''pilots'', Arr (map (\<lambda>ms. Obj (ms @ pilot_extra)) ps)),
              (''controllers'', Arr (map (\<lambda>ms. Obj (ms @ atc_extra)) cs))]) })"

definition make_feed :: "jsval \<Rightarrow> int \<Rightarrow> datafeed_cache" where
  "make_feed v now =
     (let text = json_text v @ [newline]
      in \<lparr>df_json = text, df_etag = hex_encode (md5_sum text), df_updated = now\<rparr>)"

definition generate_datafeed ::
    "golib \<Rightarrow> ('f, 't) fsdlib \<Rightarrow> 'f wire \<Rightarrow> bool \<Rightarrow> ('f, 't, 'x) net_scheme \<Rightarrow> datafeed_cache option \<times> ('f, 't, 'x) net_scheme" where
  "generate_datafeed glib lib wl reachable s =
     (case make_service_token glib s of
        (None, s1) \<Rightarrow> (None, s1)
      | (Some token, s1) \<Rightarrow>
          if \<not> reachable then (None, s1)
          else
            (case service_online_users glib lib wl (Some (''Bearer '' @ token)) s1 of
               (status, body) \<Rightarrow>
                 (if status \<noteq> 200 then None
                  else
                    do { us \<leftarrow> decode_users lib wl body;
                         v \<leftarrow> feed_value wl (wall s1) us;
                         Some (make_feed v (wall s1)) },
                  s1)))"

text \<open>After a failure the cache stays as it is.\<close>

definition update_datafeed ::
    "golib \<Rightarrow> ('f, 't) fsdlib \<Rightarrow> 'f wire \<Rightarrow> bool \<Rightarrow> ('f, 't, 'z) served_scheme \<Rightarrow> ('f, 't, 'z) served_scheme" where
  "update_datafeed glib lib wl reachable s =
     (case generate_datafeed glib lib wl reachable s of
        (None, s1) \<Rightarrow> s1
      | (Some feed, s1) \<Rightarrow> s1\<lparr>feedCache := Some feed\<rparr>)"

definition get_datafeed :: "('f, 't, 'z) served_scheme \<Rightarrow> reply" where
  "get_datafeed s = (case feedCache s of None \<Rightarrow> Reply 500 [] | Some feed \<Rightarrow> Reply 200 (df_json feed))"

text \<open>The seconds of the \<open>Cache-Control\<close> header, at a time in ms, when there is one.\<close>

definition cache_control :: "datafeed_cache \<Rightarrow> int \<Rightarrow> int option" where
  "cache_control feed now =
     (let left = df_updated feed - now in if 0 < left then Some (left div 1000 + 1) else None)"

subsection \<open>Decoding what was encoded\<close>

definition plain_float :: "'f wire \<Rightarrow> 'f \<Rightarrow> bool" where
  "plain_float wl x \<longleftrightarrow> (\<exists>n. float_json wl x = Some n \<and> num_ok n \<and> json_float wl n = Some x)"

definition plain_time :: "'f wire \<Rightarrow> int \<Rightarrow> bool" where
  "plain_time wl t \<longleftrightarrow> parse_rfc3339 (show_time wl t) = Some t"

definition plain_user :: "'f wire \<Rightarrow> 'f online_user \<Rightarrow> bool" where
  "plain_user wl u \<longleftrightarrow>
     utf8_valid (on_callsign u) \<and> utf8_valid (on_name u) \<and> int64 (on_cid u) \<and> int64 (on_rating u) \<and> int64 (on_max_rating u) \<and>
     plain_float wl (fst (on_latlon u)) \<and> plain_float wl (snd (on_latlon u)) \<and>
     plain_time wl (on_logon u) \<and> plain_time wl (on_updated u)"

fun plain_entry :: "'f wire \<Rightarrow> 'f online \<Rightarrow> bool" where
  "plain_entry wl (OnlinePilot u alt gs hdg code) \<longleftrightarrow> plain_user wl u \<and> int64 alt \<and> int64 gs \<and> int64 hdg \<and> utf8_valid code"
| "plain_entry wl (OnlineATC u freq fac vis) \<longleftrightarrow> plain_user wl u \<and> utf8_valid freq \<and> int64 fac \<and> int64 vis"

fun is_pilot :: "'f online \<Rightarrow> bool" where
  "is_pilot (OnlinePilot _ _ _ _ _) = True"
| "is_pilot (OnlineATC _ _ _ _) = False"

lemma wire_keys:
  "ascii_lower ''callsign'' = ''callsign''" "ascii_lower ''cid'' = ''cid''" "ascii_lower ''name'' = ''name''"
  "ascii_lower ''network_rating'' = ''network_rating''" "ascii_lower ''max_network_rating'' = ''max_network_rating''"
  "ascii_lower ''latitude'' = ''latitude''" "ascii_lower ''longitude'' = ''longitude''"
  "ascii_lower ''logon_time'' = ''logon_time''" "ascii_lower ''last_updated'' = ''last_updated''"
  "ascii_lower ''altitude'' = ''altitude''" "ascii_lower ''groundspeed'' = ''groundspeed''" "ascii_lower ''heading'' = ''heading''"
  "ascii_lower ''transponder'' = ''transponder''" "ascii_lower ''frequency'' = ''frequency''"
  "ascii_lower ''facility'' = ''facility''" "ascii_lower ''visual_range'' = ''visual_range''"
  "ascii_lower ''pilots'' = ''pilots''" "ascii_lower ''atc'' = ''atc''"
  by (simp_all add: ascii_lower_def is_upper_def)

lemma members_append: "members k (xs @ ys) = members k xs @ members k ys"
  by (simp add: members_def)

text \<open>The members of a plain user, and what is read back from them before any others.\<close>

definition user_pairs :: "'f wire \<Rightarrow> jsnum \<Rightarrow> jsnum \<Rightarrow> 'f online_user \<Rightarrow> (string \<times> jsval) list" where
  "user_pairs wl lat lon u =
     [(''callsign'', Str (on_callsign u)), (''cid'', JInt (on_cid u)), (''name'', Str (on_name u)),
      (''network_rating'', JInt (on_rating u)), (''max_network_rating'', JInt (on_max_rating u)),
      (''latitude'', Num lat), (''longitude'', Num lon),
      (''logon_time'', Str (show_time wl (on_logon u))), (''last_updated'', Str (show_time wl (on_updated u)))]"

lemma general_members_plain:
  assumes "plain_user wl u"
  shows "\<exists>lat lon. general_members wl u = Some (user_pairs wl lat lon u) \<and> json_ok (Obj (user_pairs wl lat lon u))
     \<and> float_json wl (fst (on_latlon u)) = Some lat \<and> float_json wl (snd (on_latlon u)) = Some lon
     \<and> (\<forall>kvs. (\<forall>k \<in> fst ` set (user_pairs wl lat lon u). members k kvs = [])
           \<longrightarrow> decode_general lib wl (user_pairs wl lat lon u @ kvs) = Some u)"
proof -
  from assms obtain lat lon where f: "float_json wl (fst (on_latlon u)) = Some lat" "float_json wl (snd (on_latlon u)) = Some lon"
      "num_ok lat" "num_ok lon" "json_float wl lat = Some (fst (on_latlon u))" "json_float wl lon = Some (snd (on_latlon u))"
    by (auto simp: plain_user_def plain_float_def)
  have "general_members wl u = Some (user_pairs wl lat lon u)"
    using assms f(1,2) by (simp add: general_members_def go_text_valid plain_user_def user_pairs_def)
  moreover have "json_ok (Obj (user_pairs wl lat lon u))"
    using assms f(3,4) int64_small by (simp add: plain_user_def user_pairs_def)
  moreover have "decode_general lib wl (user_pairs wl lat lon u @ kvs) = Some u"
    if "\<forall>k \<in> fst ` set (user_pairs wl lat lon u). members k kvs = []" for kvs
    using that assms f(5,6)
    by (simp add: decode_general_def members_append user_pairs_def members_simps wire_keys string_field_def int_field_def
        set_float_def set_time_text_def plain_user_def plain_time_def)
  ultimately show ?thesis using f(1,2) by blast
qed

lemma decode_entry:
  assumes "plain_entry wl e"
  shows "\<exists>ms. online_members wl e = Some ms \<and> json_ok (Obj ms)
     \<and> (is_pilot e \<longrightarrow> decode_pilot lib wl (Obj ms) = Some e) \<and> (\<not> is_pilot e \<longrightarrow> decode_atc lib wl (Obj ms) = Some e)"
proof (cases e)
  case (OnlinePilot u alt gs hdg code)
  with assms have v: "plain_user wl u" "int64 alt" "int64 gs" "int64 hdg" "utf8_valid code" by simp_all
  let ?x = "[(''altitude'', JInt alt), (''groundspeed'', JInt gs), (''heading'', JInt hdg), (''transponder'', Str code)]"
  obtain lat lon where m: "general_members wl u = Some (user_pairs wl lat lon u)" "json_ok (Obj (user_pairs wl lat lon u))"
      "decode_general lib wl (user_pairs wl lat lon u @ ?x) = Some u"
    using general_members_plain [OF v(1), of lib] by (fastforce simp: user_pairs_def members_simps wire_keys)
  then have "decode_pilot lib wl (Obj (user_pairs wl lat lon u @ ?x)) = Some e"
    using v(2-5) by (simp add: decode_pilot_def element_members_def members_append user_pairs_def members_simps wire_keys
        int_field_def string_field_def OnlinePilot)
  then show ?thesis
    using m v int64_small by (simp add: OnlinePilot go_text_valid)
next
  case (OnlineATC u freq fac vis)
  with assms have v: "plain_user wl u" "utf8_valid freq" "int64 fac" "int64 vis" by simp_all
  let ?x = "[(''frequency'', Str freq), (''facility'', JInt fac), (''visual_range'', JInt vis)]"
  obtain lat lon where m: "general_members wl u = Some (user_pairs wl lat lon u)" "json_ok (Obj (user_pairs wl lat lon u))"
      "decode_general lib wl (user_pairs wl lat lon u @ ?x) = Some u"
    using general_members_plain [OF v(1), of lib] by (fastforce simp: user_pairs_def members_simps wire_keys)
  then have "decode_atc lib wl (Obj (user_pairs wl lat lon u @ ?x)) = Some e"
    using v(2-4) by (simp add: decode_atc_def element_members_def members_append user_pairs_def members_simps wire_keys
        int_field_def string_field_def OnlineATC)
  then show ?thesis
    using m v int64_small by (simp add: OnlineATC go_text_valid)
qed

lemma those_map_Some: "\<forall>x \<in> set xs. f x = Some (g x) \<Longrightarrow> those (map f xs) = Some (map g xs)"
  by (induction xs) auto

lemma those_map_None: "x \<in> set xs \<Longrightarrow> f x = None \<Longrightarrow> those (map f xs) = None"
  by (induction xs) (auto split: option.splits)

definition plain_users :: "'f wire \<Rightarrow> 'f online list \<times> 'f online list \<Rightarrow> bool" where
  "plain_users wl us \<longleftrightarrow>
     (\<forall>e \<in> set (fst us). plain_entry wl e \<and> is_pilot e) \<and> (\<forall>e \<in> set (snd us). plain_entry wl e \<and> \<not> is_pilot e)"

lemma plain_members:
  assumes "plain_users wl us"
  obtains f where "\<forall>e \<in> set (fst us) \<union> set (snd us). online_members wl e = Some (f e) \<and> json_ok (Obj (f e))"
    "\<forall>e \<in> set (fst us). decode_pilot lib wl (Obj (f e)) = Some e" "\<forall>e \<in> set (snd us). decode_atc lib wl (Obj (f e)) = Some e"
proof -
  have "\<forall>e. \<exists>ms. plain_entry wl e \<longrightarrow> online_members wl e = Some ms \<and> json_ok (Obj ms)
     \<and> (is_pilot e \<longrightarrow> decode_pilot lib wl (Obj ms) = Some e) \<and> (\<not> is_pilot e \<longrightarrow> decode_atc lib wl (Obj ms) = Some e)"
    using decode_entry by blast
  then obtain f where f: "\<And>e. plain_entry wl e \<Longrightarrow> online_members wl e = Some (f e) \<and> json_ok (Obj (f e))
     \<and> (is_pilot e \<longrightarrow> decode_pilot lib wl (Obj (f e)) = Some e) \<and> (\<not> is_pilot e \<longrightarrow> decode_atc lib wl (Obj (f e)) = Some e)"
    by metis
  with assms show thesis by (intro that [of f]) (auto simp: plain_users_def simp del: json_ok.simps)
qed

lemma decode_list: "decode_all (set_list g) [Arr vs] [] = those (map g vs)"
  by (cases "those (map g vs)") (simp_all add: set_list_def)

lemma decode_encode:
  assumes "plain_users wl us"
  shows "decode_users lib wl (encode_users wl us) = Some us"
proof -
  obtain f where f: "\<forall>e \<in> set (fst us) \<union> set (snd us). online_members wl e = Some (f e) \<and> json_ok (Obj (f e))"
    "\<forall>e \<in> set (fst us). decode_pilot lib wl (Obj (f e)) = Some e" "\<forall>e \<in> set (snd us). decode_atc lib wl (Obj (f e)) = Some e"
    using plain_members [OF assms] by blast
  let ?kvs = "[(''pilots'', Arr (map (Obj \<circ> f) (fst us))), (''atc'', Arr (map (Obj \<circ> f) (snd us)))]"
  have "those (map (online_members wl) (fst us)) = Some (map f (fst us))" "those (map (online_members wl) (snd us)) = Some (map f (snd us))"
    using f(1) by (auto intro!: those_map_Some simp del: json_ok.simps)
  then have e: "encode_users wl us = json_text (Obj ?kvs) @ [newline]"
    by (simp add: encode_users_def del: json_text.simps)
  have "json_ok (Obj ?kvs)" using f(1) by (auto simp: list_all_iff)
  then have b: "body_members (Some (encode_users wl us)) = Some ?kvs" unfolding e by (rule body_members_line)
  have d: "those (map (decode_pilot lib wl) (map (Obj \<circ> f) (fst us))) = Some (fst us)"
      "those (map (decode_atc lib wl) (map (Obj \<circ> f) (snd us))) = Some (snd us)"
    using those_map_Some [of "fst us" "decode_pilot lib wl \<circ> (Obj \<circ> f)" id] those_map_Some [of "snd us" "decode_atc lib wl \<circ> (Obj \<circ> f)" id] f(2,3)
    by simp_all
  have m: "members ''pilots'' ?kvs = [Arr (map (Obj \<circ> f) (fst us))]" "members ''atc'' ?kvs = [Arr (map (Obj \<circ> f) (snd us))]"
    by (simp_all add: members_simps wire_keys)
  show ?thesis
    unfolding decode_users_def b by (simp only: Option.bind.bind_lunit m decode_list d prod.collapse)
qed

text \<open>The feed of plain users: a JSON text whose pilots are theirs.\<close>

lemma feed_of_plain:
  assumes "plain_users wl us" "json_ok (Str (show_time wl now))" "length (fst us) + length (snd us) < 10 ^ 20"
  shows "\<exists>kvs ps. feed_value wl now us = Some (Obj kvs) \<and> json_ok (Obj kvs)
     \<and> obj_get ''pilots'' kvs = Arr (map (\<lambda>ms. Obj (ms @ pilot_extra)) ps)
     \<and> list_all2 (\<lambda>e ms. online_members wl e = Some ms) (fst us) ps"
proof -
  obtain f where f: "\<forall>e \<in> set (fst us) \<union> set (snd us). online_members wl e = Some (f e) \<and> json_ok (Obj (f e))"
    by (rule plain_members [OF assms(1)]) (rule that, assumption)
  let ?n = "int (length (fst us) + length (snd us))"
  let ?kvs = "[(''general'', Obj [(''version'', JInt 3), (''update_timestamp'', Str (show_time wl now)),
                (''connected_clients'', JInt ?n), (''unique_users'', JInt ?n)]),
              (''pilots'', Arr (map (\<lambda>ms. Obj (ms @ pilot_extra)) (map f (fst us)))),
              (''controllers'', Arr (map (\<lambda>ms. Obj (ms @ atc_extra)) (map f (snd us))))]"
  have "those (map (online_members wl) (fst us)) = Some (map f (fst us))" "those (map (online_members wl) (snd us)) = Some (map f (snd us))"
    using f(1) by (auto intro!: those_map_Some simp del: json_ok.simps)
  then have "feed_value wl now us = Some (Obj ?kvs)" by (simp add: feed_value_def Let_def)
  moreover have "num_ok (Dec 2992 2)" by code_simp
  then have "json_ok (Obj ?kvs)"
    using f assms(3) by (auto simp: list_all_iff pilot_extra_def atc_extra_def)
  moreover have "obj_get ''pilots'' ?kvs = Arr (map (\<lambda>ms. Obj (ms @ pilot_extra)) (map f (fst us)))"
    by (simp add: obj_get_def)
  moreover have "list_all2 (\<lambda>e ms. online_members wl e = Some ms) (fst us) (map f (fst us))"
    using f by (auto simp: list_all2_conv_all_nth simp del: json_ok.simps)
  ultimately show ?thesis by blast
qed

subsection \<open>From the clients to the cache\<close>

lemma decode_nothing: "decode_users lib wl [] = None"
  by (simp add: decode_users_def body_members_def read_body_def skip_ws_def)

lemma update_datafeed_plain:
  assumes "lib_ok glib" "serving s secret" "plain_users wl (get_online_users lib s)"
    and "feed_value wl (wall s) (get_online_users lib s) = Some v"
  shows "feedCache (update_datafeed glib lib wl True s) = Some (make_feed v (wall s))"
proof -
  obtain token where "make_service_token glib s = (Some token, s\<lparr>draws := Suc (draws s)\<rparr>)"
      "service_refusal glib (Some (''Bearer '' @ token)) (s\<lparr>draws := Suc (draws s)\<rparr>) = None"
    using service_token_accepted [OF assms(1,2)] by blast
  moreover have "get_online_users lib (s\<lparr>draws := n\<rparr>) = get_online_users lib s" for n
    by (simp add: get_online_users_def)
  ultimately show ?thesis
    using assms(4) decode_encode [OF assms(3), where lib = lib]
    by (simp add: update_datafeed_def generate_datafeed_def service_online_users_def)
qed

lemma update_datafeed_failed:
  assumes "decode_users lib wl (encode_users wl (get_online_users lib s)) = None"
  shows "feedCache (update_datafeed glib lib wl reachable s) = feedCache s"
proof -
  obtain token s1 where m: "make_service_token glib s = (token, s1)" by fastforce
  then have s1: "s1 = s\<lparr>draws := Suc (draws s)\<rparr>"
    by (auto simp: make_service_token_def make_jwt_token_def Let_def split: option.splits sum.splits prod.splits)
  then have "get_online_users lib s1 = get_online_users lib s" by (simp add: get_online_users_def)
  then show ?thesis
    using assms decode_nothing [of lib wl]
    by (auto simp: update_datafeed_def generate_datafeed_def service_online_users_def m s1 split: option.split)
qed

text \<open>A position without text leaves the reply empty, which is no JSON.\<close>

lemma unencodable_users:
  assumes "c \<in> (\<lambda>(_, a). clients s a) ` set (clientMap s)" "float_json wl (fst (coords c)) = None \<or> float_json wl (snd (coords c)) = None"
  shows "encode_users wl (get_online_users lib s) = []"
proof -
  have n: "online_members wl (online_entry lib c) = None"
    using assms(2) by (auto simp: online_entry_def general_members_def general_data_def split: option.splits)
  have "online_entry lib c \<in> set (fst (get_online_users lib s)) \<or> online_entry lib c \<in> set (snd (get_online_users lib s))"
    using assms(1) by (cases "isAtc c") (simp_all add: get_online_users_def Let_def case_prod_unfold)
  then show ?thesis
    using those_map_None [where f = "online_members wl", OF _ n] by (auto simp: encode_users_def split: option.splits)
qed


text \<open>The routes of the server, with the cache in place of the parameter.\<close>

lemma feed_answered:
  fixes w :: "('f, 't, 'z) served_scheme"
  assumes "data_feed out = get_datafeed" "feedCache w = Some (make_feed (Obj kvs) now)" "json_ok (Obj kvs)"
    and "obj_get ''pilots'' kvs = Arr pilots"
  shows "feed_answer (web_server glib out) w pilots"
proof -
  have "api_route glib out feed_request w = (get_datafeed w, w)"
    by (simp add: api_route_def feed_request_def assms(1))
  then have "\<exists>ms w1. web_server glib out w feed_request = (Response 200 ''OK'' (json_text (Obj kvs) @ [newline]), ms, w1)"
    using assms(2) by (simp add: web_server_def get_datafeed_def make_feed_def status_text_def Let_def del: json_text.simps)
  then show ?thesis
    using json_parse_line [OF assms(3)] assms(4) by (auto simp: feed_answer_def simp del: json_text.simps)
qed

text \<open>The pilots among the connected clients, and the marker a pilot is to have.\<close>

definition connected_pilots :: "('f, 't, 'x) net_scheme \<Rightarrow> 'f client list" where
  "connected_pilots s = filter (\<lambda>c. \<not> isAtc c) (map (\<lambda>(_, a). clients s a) (clientMap s))"

definition shown_at :: "'f wire \<Rightarrow> 'f client \<Rightarrow> marker \<Rightarrow> bool" where
  "shown_at wl c m \<longleftrightarrow>
     mk_title m = Str (callsign c) \<and> rotationAngle (mk_rotation m) = JInt (sint (heading c)) \<and>
     (\<exists>lat lon. float_json wl (fst (coords c)) = Some lat \<and> float_json wl (snd (coords c)) = Some lon
        \<and> mk_lat m = Num lat \<and> mk_lon m = Num lon)"

lemma pilot_members_shown:
  assumes "online_members wl (online_entry lib c) = Some ms" "plain_entry wl (online_entry lib c)" "\<not> isAtc c"
  shows "pilot_ok (Obj (ms @ pilot_extra)) \<and> shown_at wl c (pilot_marker rating i (Obj (ms @ pilot_extra)))"
proof -
  have u: "plain_user wl (general_data c)" and e: "online_entry lib c = OnlinePilot (general_data c) (sint (altitude c))
      (sint (groundspeed c)) (sint (heading c)) (transponder c)" and v: "utf8_valid (transponder c)"
    using assms(2,3) by (simp_all add: online_entry_def)
  have l: "on_latlon (general_data c) = coords c" by (simp add: general_data_def)
  obtain lat lon where m: "general_members wl (general_data c) = Some (user_pairs wl lat lon (general_data c))"
      "json_ok (Obj (user_pairs wl lat lon (general_data c)))"
      "float_json wl (fst (coords c)) = Some lat" "float_json wl (snd (coords c)) = Some lon"
    using general_members_plain [OF u, where lib = lib, unfolded l] by blast
  have n: "lat \<noteq> NaN" "lon \<noteq> NaN" using m(2) by (auto simp: user_pairs_def)
  have ms: "ms = user_pairs wl lat lon (general_data c) @ [(''altitude'', JInt (sint (altitude c))),
      (''groundspeed'', JInt (sint (groundspeed c))), (''heading'', JInt (sint (heading c))), (''transponder'', Str (transponder c))]"
    using assms(1) v by (simp add: e m(1) go_text_valid)
  have g: "obj_get ''callsign'' (ms @ pilot_extra) = Str (callsign c)" "obj_get ''heading'' (ms @ pilot_extra) = JInt (sint (heading c))"
    "obj_get ''latitude'' (ms @ pilot_extra) = Num lat" "obj_get ''longitude'' (ms @ pilot_extra) = Num lon"
    by (simp_all add: obj_get_def ms user_pairs_def pilot_extra_def general_data_def)
  show ?thesis
    using n m(3,4) by (auto simp: g pilot_marker_def shown_at_def init_rotation_def js_or_def Let_def)
qed


subsection \<open>Properties\<close>

text \<open>A client whose data have a text: names in UTF-8, 64-bit numbers, a position and times that can be read back.\<close>

definition plain_client :: "('f, 't) fsdlib \<Rightarrow> 'f wire \<Rightarrow> 'f client \<Rightarrow> bool" where
  "plain_client lib wl c \<longleftrightarrow> plain_entry wl (online_entry lib c)"

lemma online_users_plain:
  assumes "\<forall>(cs, a) \<in> set (clientMap s). plain_client lib wl (clients s a)"
  shows "plain_users wl (get_online_users lib s)" "fst (get_online_users lib s) = map (online_entry lib) (connected_pilots s)"
proof -
  have "is_pilot (online_entry lib c) \<longleftrightarrow> \<not> isAtc c" for c by (simp add: online_entry_def)
  then show "plain_users wl (get_online_users lib s)"
    using assms by (auto simp: plain_users_def get_online_users_def Let_def plain_client_def)
  show "fst (get_online_users lib s) = map (online_entry lib) (connected_pilots s)"
    by (simp add: get_online_users_def connected_pilots_def Let_def)
qed

text \<open>
  C4. The map shows who is flying. When the data feed has been made while these clients were connected,
  the dashboard shows exactly the pilots among them, in the order of the feed, each once, at the position it last
  reported, under its callsign and turned to its heading, and no controllers; the number under the
  map is theirs. Nothing is lost on the way through the service's reply, the server's cache and the page.
\<close>

theorem connected_pilots_on_map:
  fixes s :: "('f, 't, 'z) served_scheme" and w :: "(('f, 't, 'z) served_scheme, 'y) dashboard_scheme"
  assumes "lib_ok glib" "serving s secret" "\<forall>(cs, a) \<in> set (clientMap s). plain_client lib wl (clients s a)"
    and "length (clientMap s) < 10 ^ 20" "data_feed out = get_datafeed" "dash_ok w"
    and "feedCache (backend w) = feedCache (update_datafeed glib lib wl True s)"
  shows "\<exists>w1. populateMap (web_server glib out) w = (Done (), w1)
     \<and> list_all2 (shown_at wl) (connected_pilots s) (dashboardMarkers w1)
     \<and> texts w1 ''dashboard-connection-count'' ''textContent'' = show_nat (length (connected_pilots s))"
proof -
  note plain = online_users_plain [OF assms(3)]
  let ?us = "get_online_users lib s"
  have "length (fst ?us) + length (snd ?us) = length (clientMap s)"
    using sum_length_filter_compl [of isAtc "map (\<lambda>(_, a). clients s a) (clientMap s)"]
    by (simp add: get_online_users_def Let_def)
  with assms(4) have "length (fst ?us) + length (snd ?us) < 10 ^ 20" by simp
  then obtain kvs ps where v: "feed_value wl (wall s) ?us = Some (Obj kvs)" "json_ok (Obj kvs)"
      "obj_get ''pilots'' kvs = Arr (map (\<lambda>ms. Obj (ms @ pilot_extra)) ps)"
      "list_all2 (\<lambda>e ms. online_members wl e = Some ms) (fst ?us) ps"
    using feed_of_plain [OF plain(1), of "wall s"] by auto
  let ?pilots = "map (\<lambda>ms. Obj (ms @ pilot_extra)) ps"
  have "feedCache (backend w) = Some (make_feed (Obj kvs) (wall s))"
    unfolding assms(7) by (rule update_datafeed_plain [OF assms(1,2) plain(1) v(1)])
  then have feed: "feed_answer (web_server glib out) (backend w) ?pilots"
    by (rule feed_answered [OF assms(5) _ v(2,3)])
  have n: "length ps = length (connected_pilots s)"
    using list_all2_lengthD [OF v(4)] by (simp add: plain(2))
  have each: "pilot_ok (?pilots ! k) \<and> shown_at wl (connected_pilots s ! k) (pilot_marker r i (?pilots ! k))"
    if k: "k < length ps" for k r i
  proof -
    have c: "connected_pilots s ! k \<in> set (connected_pilots s)" using k n by simp
    then have "\<not> isAtc (connected_pilots s ! k)" "plain_entry wl (online_entry lib (connected_pilots s ! k))"
      using assms(3) by (auto simp: connected_pilots_def plain_client_def simp del: nth_mem)
    moreover have "online_members wl (online_entry lib (connected_pilots s ! k)) = Some (ps ! k)"
      using list_all2_nthD2 [OF v(4) k] k n by (simp add: plain(2))
    ultimately show ?thesis using pilot_members_shown k by simp
  qed
  then have "\<forall>p \<in> set ?pilots. pilot_ok p" by (metis in_set_conv_nth length_map)
  from refreshed_map [OF assms(6) feed this] obtain w1 where w1: "populateMap (web_server glib out) w = (Done (), w1)"
      "dashboardMarkers w1 = map2 (pilot_marker (userNetworkRating w)) [next_id w ..< next_id w + length ?pilots] ?pilots"
      "texts w1 = upd2 ''dashboard-connection-count'' ''textContent'' (show_nat (length ?pilots)) (texts w)"
    by blast
  have "list_all2 (shown_at wl) (connected_pilots s) (dashboardMarkers w1)"
    using each n by (simp add: w1(2) list_all2_conv_all_nth)
  then show ?thesis using w1(1,3) n by (simp add: upd2_def)
qed

text \<open>
  C16. One position stops the data feed for everyone. \<open>ParseFloat\<close> takes \<open>NaN\<close> and the infinities for
  numbers, which JSON has no text for. Once a pilot has reported such a position, and for as long as
  it is connected and has not moved, every attempt to renew the feed fails and the old one stays, whoever else
  connects, moves or leaves.
\<close>

theorem one_position_stops_feed:
  fixes s s2 :: "('f, 't, 'z) served_scheme"
  assumes "(cs, a) \<in> set (clientMap s)" "verify_packet packet (callsign (clients s a)) = Accept PacketTypePilotPosition"
    and "parse_lat_lon lib packet 4 5 = Some center" "float_json wl (fst center) = None \<or> float_json wl (snd center) = None"
    and "s1 = handle_packet lib a packet s"
    and "(cs', a) \<in> set (clientMap s2)" "coords (clients s2 a) = coords (clients s1 a)"
  shows "feedCache s1 = feedCache s \<and> feedCache (update_datafeed glib lib wl reachable s1) = feedCache s
     \<and> feedCache (update_datafeed glib lib wl reachable s2) = feedCache s2"
proof -
  have "s1 = handle_pilot_position lib a packet s" by (simp add: assms(5) handle_packet_def assms(2))
  then have acts: "acts a (clients s a) (update_position lib a center (pilot_vis_range lib) s) s1"
    using acts_pilot_position [OF accepted_from [OF assms(2)] assms(3), of a s] by simp
  let ?u = "update_position lib a center (pilot_vis_range lib) s"
  have c: "coords (clients s1 a) = center"
    using acts by (simp add: acts_def update_position_clients)
  have e: "s1 = ?u\<lparr>clients := clients s1, metarRequests := metarRequests s1\<rparr>" using acts by (simp only: acts_def)
  have "feedCache s1 = feedCache ?u" "clientMap s1 = clientMap ?u" by (subst e, simp)+
  then have f: "feedCache s1 = feedCache s" "clientMap s1 = clientMap s"
    by (simp_all add: update_position_def Let_def)
  have stuck: "feedCache (update_datafeed glib lib wl reachable t) = feedCache t"
    if "(k, a) \<in> set (clientMap t)" "coords (clients t a) = center" for t :: "('f, 't, 'z) served_scheme" and k
  proof -
    have "clients t a \<in> (\<lambda>(_, a). clients t a) ` set (clientMap t)" using that(1) by force
    then have "encode_users wl (get_online_users lib t) = []"
      by (rule unencodable_users) (use assms(4) that(2) in simp)
    then show ?thesis by (intro update_datafeed_failed) (simp add: decode_nothing)
  qed
  show ?thesis using stuck [of cs s1] stuck [of cs' s2] assms(1,6,7) c f by simp
qed

text \<open>For the witnesses: the two clients with an empty cache, and texts for whole numbers below a billion.\<close>

definition demo_wire :: "int wire" where
  "demo_wire =
     \<lparr>float_json = (\<lambda>x. if \<bar>x\<bar> < 10 ^ 9 then Some (Dec x 0) else None),
      json_float = (\<lambda>n. case n of Dec m e \<Rightarrow> if e = 0 then Some m else None | _ \<Rightarrow> None),
      show_time = (\<lambda>t. if t = Fsd_Connection.zero_time then ''0001-01-01T00:00:00Z'' else ''1970-01-01T00:16:40Z'')\<rparr>"

definition demo_served :: "(int, (int box \<times> nat) list) served" where
  "demo_served = net.extend demo_two (served.fields None)"

definition demo_feed :: "(int, (int box \<times> nat) list, unit served_ext) net_ext outside" where
  "demo_feed = \<lparr>fsd_kick = kick_over_http demo_lib True, data_feed = get_datafeed, delay = (\<lambda>_. 0)\<rparr>"

lemma demo_served_simps:
  "clients demo_served = clients demo_two" "clientMap demo_served = clientMap demo_two" "wall demo_served = wall demo_two"
  "db_up demo_served = db_up demo_two" "config demo_served = config demo_two" "feedCache demo_served = None"
  by (simp_all add: demo_served_def net.defs served.defs)

lemma demo_pilots_map: "connected_pilots demo_served = [demo_client ''AAL1'' 1 False [''#AANY_TWR:SERVER:Ann:1::3:100'' @ crlf]]"
  unfolding connected_pilots_def demo_served_simps demo_two_simps by (simp add: demo_two_simps demo_two_simps(8) [unfolded One_nat_def])

lemma demo_client_plain: "rating \<in> {1, 3} \<Longrightarrow> utf8_valid cs \<Longrightarrow> plain_client demo_fsdlib demo_wire (demo_client cs rating atc ps)"
proof -
  have t: "parse_rfc3339 ''0001-01-01T00:00:00Z'' = Some (-62135596800000)" "parse_rfc3339 ''1970-01-01T00:16:40Z'' = Some 1000000"
    "utf8_valid ''Ann''" "f_trunc demo_fsdlib (f_mul demo_fsdlib 0 (lit demo_fsdlib 539957 (-9))) = 0" by code_simp+
  assume "rating \<in> {1, 3}" "utf8_valid cs"
  then show ?thesis
    using t by (auto simp: plain_client_def online_entry_def general_data_def demo_client_def plain_user_def plain_float_def
        plain_time_def demo_wire_def Fsd_Connection.zero_time_def int64_def)
qed

theorem connected_pilots_on_map_witness:
  "\<exists>w1. populateMap (web_server demo_lib demo_feed) (empty_map (update_datafeed demo_lib demo_fsdlib demo_wire True demo_served)) = (Done (), w1)
     \<and> map mk_title (dashboardMarkers w1) = [Str ''AAL1''] \<and> texts w1 ''dashboard-connection-count'' ''textContent'' = ''1''"
proof -
  have s: "serving demo_served ''s3cret''"
    by (simp add: serving_def clock_ok_def demo_served_simps demo_two_simps)
  have "utf8_valid ''AAL1''" "utf8_valid ''NY_TWR''" by code_simp+
  then have p: "\<forall>(cs, a) \<in> set (clientMap demo_served). plain_client demo_fsdlib demo_wire (clients demo_served a)"
    unfolding demo_served_simps demo_two_simps
    by (simp add: demo_two_simps demo_two_simps(8) [unfolded One_nat_def] demo_client_plain del: utf8_valid.simps)
  have n: "length (clientMap demo_served) < 10 ^ 20" "data_feed demo_feed = get_datafeed"
    by (simp_all add: demo_served_simps demo_two_simps demo_feed_def)
  let ?w = "empty_map (update_datafeed demo_lib demo_fsdlib demo_wire True demo_served)"
  have "feedCache (backend ?w) = feedCache (update_datafeed demo_lib demo_fsdlib demo_wire True demo_served)"
    by (simp add: empty_map_def sample_page_def page.defs browser.defs dashboard.defs)
  from connected_pilots_on_map [OF demo_lib_ok s p n empty_map_ok this] obtain w1 where
    w1: "populateMap (web_server demo_lib demo_feed) ?w = (Done (), w1)"
      "list_all2 (shown_at demo_wire) (connected_pilots demo_served) (dashboardMarkers w1)"
      "texts w1 ''dashboard-connection-count'' ''textContent'' = show_nat (length (connected_pilots demo_served))" by blast
  have "show_nat 1 = ''1''" by code_simp
  with w1 show ?thesis
    unfolding demo_pilots_map by (auto simp: list_all2_Cons1 shown_at_def)
qed

theorem one_position_stops_feed_witness:
  "let s1 = handle_packet demo_fsdlib 0 (''@N:AAL1:1200:1:9999999999:0:3000:120:0:0'' @ crlf) demo_served
   in feedCache (update_datafeed demo_lib demo_fsdlib demo_wire True s1) = None"
proof -
  let ?p = "''@N:AAL1:1200:1:9999999999:0:3000:120:0:0'' @ crlf"
  have m: "(''AAL1'', 0) \<in> set (clientMap demo_served)" by (simp add: demo_served_simps demo_two_simps)
  have "verify_packet ?p ''AAL1'' = Accept PacketTypePilotPosition" by code_simp
  then have v: "verify_packet ?p (callsign (clients demo_served 0)) = Accept PacketTypePilotPosition"
    by (simp add: demo_served_simps demo_two_known)
  have l: "parse_lat_lon demo_fsdlib ?p 4 5 = Some (9999999999, 0)" by code_simp
  have f: "float_json demo_wire (fst (9999999999, 0 :: int)) = None \<or> float_json demo_wire (snd (9999999999 :: int, 0)) = None"
    by (simp add: demo_wire_def)
  let ?s2 = "demo_served\<lparr>clients := clients (handle_packet demo_fsdlib 0 ?p demo_served)\<rparr>"
  have "(''AAL1'', 0) \<in> set (clientMap ?s2)" "coords (clients ?s2 0) = coords (clients (handle_packet demo_fsdlib 0 ?p demo_served) 0)"
    using m by simp_all
  from one_position_stops_feed [OF m v l f refl this, of demo_lib True] show ?thesis
    by (simp add: Let_def demo_served_simps)
qed

end
