(* ===== verification/Fsd_Challenge_Test.thy ===== *)
theory Fsd_Challenge_Test
  imports Fsd_Challenge
begin

text \<open>
  The first exchange of the program's own test (\<open>fsd/vatsimauth_test.go\<close>), evaluated: the state after
  the initial challenge of a vPilot client, and the answer to the challenge that follows.
\<close>

lemma first_test_vector:
  "hex_encode (run_obfuscation_round 35044 (the (map_of vatsim_auth_keys 35044)) ''30984979d8caed23'') = ''606c261b9c60eec4540e5649cc2aa5a3''"
  by code_simp

lemma first_test_answer:
  "hex_encode (run_obfuscation_round 35044 ''606c261b9c60eec4540e5649cc2aa5a3'' ''de6acb8e'') = ''f8ee97157f66455ed6108fccef6ccf5f''"
  by code_simp

end
