(* ===== verification/Spec2Isabelle.thy ===== *)
theory Spec2Isabelle
  imports Server_Start Account_Book Marker_Rotation Fsd_Feed Fsd_Challenge_Test
begin

text \<open>
  A model of openfsd: the pages of its web frontend (\<open>web/static/js/openfsd\<close>), the API server behind
  them (\<open>web/*.go\<close>), the FSD server flight simulators connect to (\<open>fsd/*.go\<close>), and the database of
  both (\<open>db/*.go\<close>). The pages talk to the API server by JSON over HTTP;
  \<open>Web_Server.web_server\<close> is that server as a function from its state and a request to a response. The
  FSD server is a state of connected clients that \<open>Fsd_Server.net_step\<close> takes from one step to the next.
  The two servers share the database, and the API server asks the FSD server for the clients and to end a
  connection; \<open>Fsd_Web\<close> and \<open>Fsd_Feed\<close> put them together.

  \<^bold>\<open>The values.\<close> \<open>Prelude\<close>: strings, digits, splitting. \<open>Json\<close>, \<open>Json_Text\<close>, \<open>Js_Numbers\<close>: JavaScript
  values, their JSON text and its parser, decimal numbers; printing and parsing are inverse.
  \<open>Encodings\<close>: base64url, percent escapes, UTF-8. \<open>Js_Date\<close>, \<open>Go_Time\<close>: the calendar on both sides.
  \<open>Html\<close>: what the browser makes of pasted markup. \<open>Api_Types\<close>: the JSON both sides exchange. \<open>Md5\<close>:
  the hash, on 32-bit words.

  \<^bold>\<open>The pages.\<close> \<open>Browser\<close>: the state of a page (storage, address, clock, alerts, requests sent) and its
  computations, which return, throw or wait for ever; \<open>Dom\<close> adds the form fields. \<open>Api_Client\<close> is
  \<open>api.js\<close>, \<open>Login_Page\<close> \<open>login.js\<close>, \<open>User_Editor\<close> \<open>usereditor.js\<close>, \<open>Dashboard\<close> \<open>dashboard.js\<close>,
  \<open>Config_Editor\<close> \<open>configeditor.js\<close>, \<open>Marker_Rotation\<close> \<open>leaflet.rotatedmarker.js\<close>. A definition has
  the name of its function, or of its element and event.

  \<^bold>\<open>The API server.\<close> \<open>Go_Lib\<close>: decoding a body into a struct, the claims of a token (\<open>fsd/jwt.go\<close>), and the
  third-party operations as a record of parameters (bcrypt, signed tokens, random numbers, the
  checks of \<open>binding\<close> tags) with the laws their documentation promises, \<open>lib_ok\<close>. \<open>Repositories\<close>: the
  tables and \<open>db/*.go\<close>; \<open>Account_Book\<close> the refinement of an account book with plain passwords.
  \<open>Web_Auth\<close> is \<open>auth.go\<close>, \<open>Web_Users\<close> \<open>user.go\<close>, \<open>Web_Config\<close> \<open>config.go\<close>, \<open>api_tokens.go\<close> and
  \<open>fsdconn.go\<close>, \<open>Web_Status\<close> the status documents of \<open>data.go\<close>, \<open>Web_Server\<close> \<open>routes.go\<close>. A handler maps
  the state (tables and clock) to a reply and the new state. \<open>Web_Pages\<close> joins pages and server.

  \<^bold>\<open>The FSD server.\<close> \<open>Fsd_Packet\<close> is \<open>packet.go\<close> and the field functions of \<open>util.go\<close>, \<open>Fsd_Util\<close> the rest of
  \<open>util.go\<close> that needs no state, \<open>Fsd_Challenge\<close> \<open>vatsimauth.go\<close> with fixed values in \<open>Fsd_Challenge_Test\<close>.
  \<open>Fsd_Post_Office\<close> is \<open>postoffice.go\<close>: the record \<open>net\<close> extends the state of the API server by the clients
  under their addresses, the map of callsigns, the tree of positions and the queue for the weather. What a
  client is sent is a list in its record. \<open>Fsd_Delivery\<close> says what a broadcast does to the clients;
  \<open>Fsd_Handlers\<close> is \<open>handler.go\<close>, one definition per handler, and \<open>Fsd_Effects\<close> classifies what a handler may
  change. \<open>Fsd_Reader\<close> is the event loop of \<open>client.go\<close> with the scanner and its buffer, \<open>Fsd_Connection\<close> \<open>conn.go\<close>, \<open>Fsd_Service\<close>
  \<open>http_service.go\<close> and \<open>metar.go\<close>. \<open>Fsd_Server\<close> is the step relation of all of them and the invariant of every
  state that can be reached; \<open>Fsd_Promises\<close> says who is told what. \<open>Fsd_Web\<close> joins the kick of the pages with
  the service, \<open>Fsd_Feed\<close> the clients with the data feed of \<open>data.go\<close> and the map. \<open>Server_Start\<close> is
  \<open>NewDefaultServer\<close> of \<open>server.go\<close>, with the choice of the repositories.

  \<^bold>\<open>What the lemmas show.\<close> In the theories of the pages: which requests a script sends, what it shows
  on every outcome, what it leaves in the storage. In \<open>Repositories\<close> the contract of a repository
  (\<open>user_repository\<close>, \<open>kv_store\<close>) and that both back ends keep it, as far as they succeed. In the
  theories of the API server: the replies of each route, who may change what, how long a token is
  accepted. In the theories of the FSD server: the effect of every handler, that the map of callsigns and
  the tree agree in every reachable state, that a client acts within its rating, which clients a packet
  reaches. Across them: the password printed at the first start opens the dashboard, the map shows the
  pilots that are connected where they reported to be, the kick button ends a connection, a token of the
  API server opens a connection. Here: a login at the page opens a session both sides agree on, it is
  renewed silently, a user made in the editor can log in, saving a user without a password locks the user
  out, the date picked for a token is the date it ends.

  \<^bold>\<open>Parameters.\<close> \<open>golib\<close>: see above. \<open>fsdlib\<close>: the arithmetic of float64, the R-tree with the law
  \<open>rtree_ok\<close> that a search finds what was inserted and overlaps, and which ready case a \<open>select\<close> takes. \<open>wire\<close>: the
  texts of float64 numbers and times in JSON. \<open>outside\<close>: what the API server is answered from outside, which
  \<open>Fsd_Web\<close> and \<open>Fsd_Feed\<close> replace by the model of the FSD server. \<open>start_env\<close>: the database driver, the
  migration tool, random octets and the order the defaults are walked in, at a start. The witnesses put concrete functions in their places.

  \<^bold>\<open>Bounds and fuel.\<close> The JSON parser has a fuel of the length of the text and one, which every call
  of it consumes at least one character against; \<open>json_parse_text\<close> shows that it is enough for all
  texts the programs write. The scanner terminates by what the socket still delivers, the event loop by the number of octets left, the loop over the
  dots of a token is a \<open>while\<close> whose end is proved. Numbers of the program are 64-bit and are checked
  where they are read; speeds, altitudes and the challenge are words of their width; the buffer of a
  connection has 4096 octets, and what is read when is a parameter, the pieces the socket delivers. \<open>clock_ok\<close> bounds the clock by \<open>10^15\<close> ms so that times fit. Names in
  tokens are ASCII.

  \<^bold>\<open>What is not modelled.\<close> Environment variables, listeners, signals and the other I/O around a start; the HTML
  templates of the pages, the static files and the redirect of \<open>/j\<close>; style sheets and vendored libraries;
  request bodies of \<open>/fsd-jwt\<close> that are forms. A request, a handler of a packet and an operation of the post
  office are one step each: the interleavings considered are those of whole steps, and a client whose
  queue is full does not block its sender. Replies are compared after parsing: the Go encoder escapes a
  few more characters of a string than the text written here. The headers of a reply are left out but
  for the length of time in \<open>Cache-Control\<close>.
\<close>

subsection \<open>The session across the page and the server\<close>

text \<open>
  C3. Logging in at the page. The right CID and password lead to the dashboard with no alert, and
  open a session on which the page and the server agree: for as long as the page takes the
  access token for live, the server accepts it as this user's, and still does so 14 seconds
  later, which is the time a request has to arrive; the page takes it for live until 15 seconds
  before the 15 minutes are over.
\<close>

theorem page_login_opens_session:
  fixes w :: "('x web_scheme, 'y) page_scheme"
  assumes "lib_ok lib" "serving (backend w) secret" "get_user_by_cid cid (backend w) = Inr u" "user_ok u"
    and "1 \<le> cid" "int64 cid" "login_form cid password w" "password \<noteq> []"
    and "verify_password_hash lib password (Password u)" "in_step w"
  shows "\<exists>w1 a. login_submit (web_server lib out) w = (Done (), w1) \<and> in_step w1
     \<and> href w1 = ''/dashboard'' \<and> alerts w1 = alerts w \<and> storage w1 ''access_token'' = Some a
     \<and> (\<forall>t. live_token ''access_token'' a (w1\<lparr>clock := t\<rparr>) \<longleftrightarrow> t div 1000 + 15 \<le> (clock w + 15 * minute) div 1000)
     \<and> (\<forall>t now. live_token ''access_token'' a (w1\<lparr>clock := t\<rparr>) \<and> clock w \<le> now \<and> now \<le> t + 14000
          \<longrightarrow> token_good lib secret ''access'' u now a)"
proof -
  have c: "clock_ok (wall (backend w))" using assms(2) by (simp add: serving_def)
  define a where "a = login_access lib secret u (backend w)"
  have a: "server_token lib secret ''access'' u (wall (backend w)) (15 * minute) a"
    unfolding a_def by (rule login_tokens(1) [OF assms(4) c])
  have t: "clock w = wall (backend w)" using assms(10) by (simp add: in_step_def)
  obtain w1 where w1: "login_submit (web_server lib out) w = (Done (), w1)" "in_step w1" "href w1 = ''/dashboard''"
      "alerts w1 = alerts w" "storage w1 ''access_token'' = Some a"
    using login_accepted [OF assms(1-3,5-9), of out] by (simp add: a_def t in_step_def)
  have "live_token ''access_token'' a (w1\<lparr>clock := n\<rparr>) \<longleftrightarrow> n div 1000 + 15 \<le> (clock w + 15 * minute) div 1000" for n
    using live_server_token(1) [OF assms(1) a, of "''access_token''" "w1\<lparr>clock := n\<rparr>"] w1(5) by (simp add: t)
  moreover have "token_good lib secret ''access'' u now a"
    if "live_token ''access_token'' a (w1\<lparr>clock := n\<rparr>)" "clock w \<le> now" "now \<le> n + 14000" for n now
    using live_margin [OF assms(1) a that(1)] that(2,3) by (simp add: t)
  ultimately show ?thesis using w1 by blast
qed

text \<open>For the witnesses: pages on the server with one user.\<close>

definition demo_page :: "string option \<Rightarrow> string option \<Rightarrow> (string \<Rightarrow> string) \<Rightarrow> web page" where
  "demo_page access refresh form =
     browser.extend (sample_page access refresh demo_web) (page.fields (\<lambda>i p. form i) (\<lambda>_ _. False))"

lemma demo_page_simps [simp]:
  "backend (demo_page a r f) = demo_web" "clock (demo_page a r f) = 1000000" "texts (demo_page a r f) i p = f i"
  "alerts (demo_page a r f) = []" "in_step (demo_page a r f)"
  "storage (demo_page a r f) = (\<lambda>k. if k = ''access_token'' then a else if k = ''refresh_token'' then r else None)"
  by (simp_all add: demo_page_def browser.defs page.defs sample_page_def in_step_def demo_web_def)

definition demo_login :: "string \<Rightarrow> string" where
  "demo_login i = (if i = ''login-input-cid'' then ''1'' else if i = ''login-input-password'' then ''correct horse'' else [])"

lemma demo_login_form: "login_form 1 ''correct horse'' (demo_page a r demo_login)"
proof -
  have "show_int 1 = ''1''" by code_simp
  then show ?thesis by (simp add: login_form_def demo_login_def)
qed

theorem page_login_opens_session_witness:
  "\<exists>w1 a. login_submit (web_server demo_lib demo_outside) (demo_page None None demo_login) = (Done (), w1)
     \<and> href w1 = ''/dashboard'' \<and> storage w1 ''access_token'' = Some a
     \<and> token_good demo_lib ''s3cret'' ''access'' demo_user 1500000 a"
proof -
  have "(1::int) \<le> 1" "int64 1" "''correct horse'' \<noteq> []" by (simp_all add: int64_def)
  with page_login_opens_session [of demo_lib "demo_page None None demo_login" "''s3cret''" 1 demo_user "''correct horse''" demo_outside]
  obtain w1 a where w1: "login_submit (web_server demo_lib demo_outside) (demo_page None None demo_login) = (Done (), w1)"
      "href w1 = ''/dashboard''" "storage w1 ''access_token'' = Some a"
      "\<And>t. live_token ''access_token'' a (w1\<lparr>clock := t\<rparr>) \<longleftrightarrow> t div 1000 + 15 \<le> (1000000 + 15 * minute) div 1000"
      "\<And>t now. live_token ''access_token'' a (w1\<lparr>clock := t\<rparr>) \<and> 1000000 \<le> now \<and> now \<le> t + 14000
          \<Longrightarrow> token_good demo_lib ''s3cret'' ''access'' demo_user now a"
    unfolding demo_page_simps using demo_lib_ok demo_web_serving demo_login_form demo_password demo_page_simps(5) by blast
  have "live_token ''access_token'' a (w1\<lparr>clock := 1500000\<rparr>)" unfolding w1(4) by simp
  with w1(1-3) w1(5) [of 1500000 1500000] show ?thesis by simp
qed

text \<open>
  C12. Silent renewal. When the access token is about to expire and the refresh token is not, the
  next call for a token renews it at the server: the token returned is stored and accepted for
  another 15 minutes, and it carries the user's data as they are in the database now, whatever
  the old tokens said; the page neither alerts nor leaves.
\<close>

theorem renewal_carries_current_data:
  fixes w :: "('x web_scheme, 'y) browser_scheme"
  assumes "lib_ok lib" "serving (backend w) secret" "in_step w"
    and "stale_token ''access_token'' old w" "live_token ''refresh_token'' r w"
    and "server_token lib secret ''refresh'' u0 issued validity r" "issued \<le> wall (backend w) + 30000"
    and "get_user_by_cid (CID u0) (backend w) = Inr u" "user_ok u"
  shows "\<exists>w1 a. getAccessToken (web_server lib out) w = (Done (Str a), w1) \<and> in_step w1
     \<and> storage w1 = (storage w)(''access_token'' \<mapsto> a) \<and> alerts w1 = alerts w \<and> href w1 = href w
     \<and> (\<forall>now. clock w \<le> now \<and> now \<le> clock w + 15 * minute - 1000 \<longrightarrow> token_good lib secret ''access'' u now a)"
proof -
  define v where "v = backend w"
  have t: "clock w = wall v" using assms(3) by (simp add: in_step_def v_def)
  have c: "clock_ok (wall v)" using assms(2) by (simp add: serving_def v_def)
  have "token_good lib secret ''refresh'' u0 (wall v) r"
    using assms(7) by (intro live_margin [OF assms(1,6,5)]) (simp_all add: t v_def)
  then obtain cl where cl: "jwt_parse lib secret (wall v) r = Some cl" "TokenType cl = ''refresh''" "claims_CID cl = CID u0"
    by (auto simp: token_good_def)
  have r: "r \<noteq> []" using assms(5) by (simp add: live_token_def)
  define a where "a = login_access lib secret u v"
  let ?rq = "refresh_request (Str r)"
  let ?w1 = "after out ?rq (v\<lparr>draws := Suc (draws v)\<rparr>) w"
  have "refresh_access_token lib (Some (json_text (refresh_json r))) v
      = (write_success 200 (Obj [(''access_token'', Str a)]), v\<lparr>draws := Suc (draws v)\<rparr>)"
    unfolding a_def
    by (rule refresh_succeeds [OF assms(1) _ r cl(1,2)]) (use assms(2,8) cl(3) v_def in simp_all)
  then have x: "ajax (web_server lib out) ?rq w = (Done (envelope Null (Obj [(''access_token'', Str a)])), ?w1)"
    by (intro ajax_success [where status = 200]) (simp_all add: refresh_route v_def del: json_text.simps)
  have "getAccessToken (web_server lib out) w = (Done (Str a), ?w1\<lparr>storage := (storage w)(''access_token'' \<mapsto> a)\<rparr>)"
    using getAccessToken_renew [OF assms(4,5) x]
    by (simp add: refreshed_token_def envelope_def obj_get_def)
  moreover have "token_good lib secret ''access'' u now a"
    if "clock w \<le> now" "now \<le> clock w + 15 * minute - 1000" for now
    unfolding a_def login_access_def using that
    by (intro token_lifetime(1) [OF assms(1,9) c _ _ ascii_token_types(1)]) (simp_all add: t)
  moreover have "wall (backend w) = wall v" by (simp add: v_def)
  ultimately show ?thesis
    by (intro exI [of _ "?w1\<lparr>storage := (storage w)(''access_token'' \<mapsto> a)\<rparr>"] exI [of _ a] conjI)
      (simp_all add: in_step_def t)
qed

theorem renewal_carries_current_data_witness:
  "\<exists>w1 a. getAccessToken (web_server demo_lib demo_outside)
        (demo_page (Some (jwt_sign demo_lib ''s3cret'' (token_claims demo_lib ''access'' (demo_user\<lparr>NetworkRating := 1\<rparr>) 0 0 1000000)))
          (Some (login_refresh demo_lib ''s3cret'' demo_user False demo_web)) demo_login) = (Done (Str a), w1)
     \<and> token_good demo_lib ''s3cret'' ''access'' demo_user 1000000 a"
proof -
  let ?old = "jwt_sign demo_lib ''s3cret'' (token_claims demo_lib ''access'' (demo_user\<lparr>NetworkRating := 1\<rparr>) 0 0 1000000)"
  let ?r = "login_refresh demo_lib ''s3cret'' demo_user False demo_web"
  let ?w = "demo_page (Some ?old) (Some ?r) demo_login"
  have c: "clock_ok 1000000" and w: "wall demo_web = 1000000" by (simp_all add: clock_ok_def demo_web_def)
  have "user_ok (demo_user\<lparr>NetworkRating := 1\<rparr>)"
    using demo_web_serving(3) by (simp add: user_ok_def int64_def)
  then have old: "server_token demo_lib ''s3cret'' ''access'' (demo_user\<lparr>NetworkRating := 1\<rparr>) 1000000 0 ?old"
    using c ascii_token_types(1) unfolding server_token_def by auto
  have r: "server_token demo_lib ''s3cret'' ''refresh'' demo_user 1000000 (refresh_validity False) ?r"
    using login_tokens(2) [OF demo_web_serving(3), of demo_web demo_lib "''s3cret''" False] c w by simp
  have "stale_token ''access_token'' ?old ?w"
    unfolding live_server_token(2) [OF demo_lib_ok old] by simp
  moreover have "live_token ''refresh_token'' ?r ?w"
    unfolding live_server_token(1) [OF demo_lib_ok r] by (simp add: refresh_validity_def)
  moreover have "CID demo_user = 1" by (simp add: demo_user_def)
  ultimately obtain w1 a where "getAccessToken (web_server demo_lib demo_outside) ?w = (Done (Str a), w1)"
      "\<forall>now. 1000000 \<le> now \<and> now \<le> 1000000 + 15 * minute - 1000 \<longrightarrow> token_good demo_lib ''s3cret'' ''access'' demo_user now a"
    using renewal_carries_current_data [of demo_lib ?w "''s3cret''" ?old ?r demo_user 1000000 "refresh_validity False" demo_user demo_outside]
      demo_lib_ok demo_web_serving r w unfolding demo_page_simps by auto
  then show ?thesis by force
qed

subsection \<open>Users across the pages\<close>

text \<open>
  C14. A user made in the editor can log in. With the session of a supervisor, a password of at
  least eight characters and at most 72 octets without a colon, and a rating other than 0 up to
  the supervisor's, the create form reports the next CID; with that CID and that password the
  login page then leads to the dashboard, from whatever browser and at whatever later time.
\<close>

theorem created_user_can_log_in:
  fixes w :: "('x web_scheme, 'y) page_scheme"
  assumes "lib_ok lib" "session lib secret t c w" "11 \<le> claims_NetworkRating c"
    and "texts w ''create-password'' val = pw" "8 \<le> rune_count pw" "length pw \<le> 72" "CHR '':'' \<notin> set pw"
    and "texts w ''create-network-rating'' val = show_int nr" "-1 \<le> nr" "nr \<le> 12" "nr \<noteq> 0" "nr \<le> claims_NetworkRating c"
    and "0 \<le> last_cid (backend w)" "int64 (last_cid (backend w) + 1)"
  shows "\<exists>w1. create_submit (web_server lib out) w = (Done (), w1)
     \<and> alerts w1 = alerts w @ [''User created successfully. CID: '' @ show_int (last_cid (backend w) + 1)]
     \<and> (\<forall>(lp :: ('x web_scheme, 'z) page_scheme) now. backend lp = (backend w1)\<lparr>wall := now\<rparr> \<and> clock_ok now \<and> login_form (last_cid (backend w) + 1) pw lp
          \<longrightarrow> (\<exists>lp1. login_submit (web_server lib out) lp = (Done (), lp1) \<and> href lp1 = ''/dashboard''
                \<and> storage lp1 ''access_token'' \<noteq> None \<and> alerts lp1 = alerts lp))"
proof -
  define cid where "cid = last_cid (backend w) + 1"
  have cid: "1 \<le> cid" "int64 cid" "pw \<noteq> []" using assms(5,13,14) by (auto simp: cid_def rune_count_def)
  obtain w1 row where w1: "create_submit (web_server lib out) w = (Done (), w1)"
      "alerts w1 = alerts w @ [''User created successfully. CID: '' @ show_int cid]"
      "get_user_by_cid cid (backend w1) = Inr row" "hash_of lib pw (Password row)"
      "db_up (backend w1)" "config (backend w1) ConfigJwtSecretKey = Some secret"
    using create_submit_stores [OF assms(1-12) cid_def cid(2)] by blast
  have "verify_password_hash lib pw (Password row)"
    using hash_row(4) [OF assms(1) w1(4)] by (simp add: verify_password_hash_def)
  with w1(1,2) login_later(1) [OF assms(1) w1(3,5,6) cid] show ?thesis
    unfolding cid_def [symmetric] by blast
qed

text \<open>For the witnesses: the session of a user of the server with one user.\<close>

definition demo_token :: "user \<Rightarrow> string" where
  "demo_token u = jwt_sign demo_lib ''s3cret'' (token_claims demo_lib ''access'' u (15 * minute) 0 1000000)"

lemma demo_session_at:
  assumes "user_ok u" "serving (backend w) ''s3cret''" "wall (backend w) = 1000000" "clock w = 1000000" "storage w ''access_token'' = Some (demo_token u)"
  shows "session demo_lib ''s3cret'' (demo_token u) (token_claims demo_lib ''access'' u (15 * minute) 0 1000000) w"
proof -
  have c: "clock_ok 1000000" by (simp add: clock_ok_def)
  have st: "server_token demo_lib ''s3cret'' ''access'' u 1000000 (15 * minute) (demo_token u)"
    using assms(1) c ascii_token_types(1) unfolding server_token_def demo_token_def by auto
  have "live_token ''access_token'' (demo_token u) w"
    unfolding live_server_token(1) [OF demo_lib_ok st] using assms(4,5) by simp
  moreover have "jwt_parse demo_lib ''s3cret'' 1000000 (demo_token u) = Some (token_claims demo_lib ''access'' u (15 * minute) 0 1000000)"
    unfolding demo_token_def
    using sign_parse [OF demo_lib_ok token_claims_ok [OF demo_lib_ok assms(1) c _ _ ascii_token_types(1)]]
    by (simp add: token_claims_current)
  ultimately show ?thesis
    using assms(2,3) by (simp add: session_def)
qed

lemma demo_session:
  assumes "user_ok u" "backend w = demo_web" "clock w = 1000000" "storage w ''access_token'' = Some (demo_token u)"
  shows "session demo_lib ''s3cret'' (demo_token u) (token_claims demo_lib ''access'' u (15 * minute) 0 1000000) w"
  using assms demo_web_serving(1) by (intro demo_session_at) (simp_all add: demo_web_def)

definition demo_create :: "string \<Rightarrow> string" where
  "demo_create i =
     (if i = ''create-password'' then ''battery staple'' else if i = ''create-network-rating'' then ''3'' else [])"

lemma demo_numbers: "show_int 1 = ''1''" "show_int 2 = ''2''" "show_int 3 = ''3''" "show_int 11 = ''11''" "8 \<le> rune_count ''battery staple''"
  by code_simp+

theorem created_user_can_log_in_witness:
  "\<exists>w1 lp1. create_submit (web_server demo_lib demo_outside) (demo_page (Some (demo_token demo_user)) None demo_create) = (Done (), w1)
     \<and> alerts w1 = [''User created successfully. CID: 2'']
     \<and> login_submit (web_server demo_lib demo_outside)
          ((demo_page None None (\<lambda>i. if i = ''login-input-cid'' then ''2'' else ''battery staple''))
             \<lparr>backend := (backend w1)\<lparr>wall := 2000000\<rparr>\<rparr>) = (Done (), lp1)
     \<and> href lp1 = ''/dashboard''"
proof -
  let ?w = "demo_page (Some (demo_token demo_user)) None demo_create"
  let ?c = "token_claims demo_lib ''access'' demo_user (15 * minute) 0 1000000"
  have s: "session demo_lib ''s3cret'' (demo_token demo_user) ?c ?w"
    by (rule demo_session) (simp_all add: demo_web_serving)
  have l: "last_cid demo_web = 1" by (simp add: demo_web_def)
  obtain w1 where w1: "create_submit (web_server demo_lib demo_outside) ?w = (Done (), w1)"
      "alerts w1 = alerts ?w @ [''User created successfully. CID: '' @ show_int (last_cid (backend ?w) + 1)]"
      "\<forall>(lp :: web page) now. backend lp = (backend w1)\<lparr>wall := now\<rparr> \<and> clock_ok now
          \<and> login_form (last_cid (backend ?w) + 1) ''battery staple'' lp
          \<longrightarrow> (\<exists>lp1. login_submit (web_server demo_lib demo_outside) lp = (Done (), lp1) \<and> href lp1 = ''/dashboard''
                \<and> storage lp1 ''access_token'' \<noteq> None \<and> alerts lp1 = alerts lp)"
    using created_user_can_log_in [OF demo_lib_ok s, of "''battery staple''" 3 demo_outside, where 'z = unit]
    by (auto simp: l demo_create_def demo_numbers int64_def)
  let ?lp = "(demo_page None None (\<lambda>i. if i = ''login-input-cid'' then ''2'' else ''battery staple''))
             \<lparr>backend := (backend w1)\<lparr>wall := 2000000\<rparr>\<rparr>"
  have "login_form 2 ''battery staple'' ?lp" by (simp add: login_form_def demo_numbers demo_page_def browser.defs page.defs)
  with w1(3) [rule_format, of ?lp 2000000] obtain lp1 where "login_submit (web_server demo_lib demo_outside) ?lp = (Done (), lp1)"
      "href lp1 = ''/dashboard''"
    by (auto simp: l clock_ok_def)
  with w1(1,2) show ?thesis by (auto simp: l demo_numbers)
qed

text \<open>
  C18. Saving a user without touching the password locks the user out. With the form as loading the
  user left it, the page reports success; from then on the password that was right is refused at
  the login page, with an alert and no session.
\<close>

theorem blank_save_locks_out:
  fixes w :: "('x web_scheme, 'y) page_scheme"
  assumes "lib_ok lib" "session lib secret t c w" "11 \<le> claims_NetworkRating c"
    and "edit_data w = user_json cid fn ln nr" "int64 cid" "1 \<le> cid" "-1 \<le> nr" "nr \<le> 12"
    and "get_user_by_cid cid (backend w) = Inr target" "row_ok lib cid target" "NetworkRating target \<le> claims_NetworkRating c"
    and "verify_password_hash lib old (Password target)" "distinguishes lib (Password target) old" "old \<noteq> []"
  shows "\<exists>w1. edit_submit (web_server lib out) w = (Done (), w1) \<and> alerts w1 = alerts w @ [''User updated successfully'']
     \<and> (\<forall>(lp :: ('x web_scheme, 'z) page_scheme) now. backend lp = (backend w1)\<lparr>wall := now\<rparr> \<and> clock_ok now \<and> login_form cid old lp
          \<longrightarrow> (\<exists>lp1. login_submit (web_server lib out) lp = (Done (), lp1) \<and> storage lp1 = storage lp
                \<and> alerts lp1 = alerts lp @ [''Unauthorized: Bad CID and/or password'']))"
proof -
  obtain w1 row where w1: "edit_submit (web_server lib out) w = (Done (), w1)" "alerts w1 = alerts w @ [''User updated successfully'']"
      "get_user_by_cid cid (backend w1) = Inr row" "hash_of lib (Password target) (Password row)"
      "db_up (backend w1)" "config (backend w1) ConfigJwtSecretKey = Some secret"
    using edit_submit_blank [OF assms(1-11)] by blast
  have "\<not> verify_password_hash lib old (Password row)"
    using w1(4) assms(13) by (auto simp: hash_of_def distinguishes_def verify_password_hash_def)
  with w1(1,2) login_later(2) [OF assms(1) w1(3,5,6) assms(6,5,14)] show ?thesis by blast
qed

definition demo_edit :: "string \<Rightarrow> string" where
  "demo_edit i =
     (if i = ''edit-cid'' then ''1'' else if i = ''edit-first-name'' then ''Ann''
      else if i = ''edit-network-rating'' then ''11'' else [])"

theorem blank_save_locks_out_witness:
  "\<exists>w1 lp1. edit_submit (web_server demo_lib demo_outside) (demo_page (Some (demo_token demo_user)) None demo_edit) = (Done (), w1)
     \<and> alerts w1 = [''User updated successfully'']
     \<and> login_submit (web_server demo_lib demo_outside)
          ((demo_page None None demo_login)\<lparr>backend := (backend w1)\<lparr>wall := 2000000\<rparr>\<rparr>) = (Done (), lp1)
     \<and> alerts lp1 = [''Unauthorized: Bad CID and/or password'']"
proof -
  let ?w = "demo_page (Some (demo_token demo_user)) None demo_edit"
  let ?c = "token_claims demo_lib ''access'' demo_user (15 * minute) 0 1000000"
  have s: "session demo_lib ''s3cret'' (demo_token demo_user) ?c ?w"
    by (rule demo_session) (simp_all add: demo_web_serving)
  have "parse_int (show_int 1) = Dec 1 0" "parse_int (show_int 11) = Dec 11 0" by (simp_all add: parse_int_show_int)
  then have e: "edit_data ?w = user_json 1 ''Ann'' [] 11"
    by (simp add: edit_data_def demo_edit_def user_json_def demo_numbers)
  have "demo_hash (demo_hash ''correct horse'') \<noteq> demo_hash ''correct horse''" by code_simp
  then have d: "distinguishes demo_lib (Password demo_user) ''correct horse''"
    by (simp add: distinguishes_def demo_lib_def demo_user_def)
  obtain w1 where w1: "edit_submit (web_server demo_lib demo_outside) ?w = (Done (), w1)"
      "alerts w1 = alerts ?w @ [''User updated successfully'']"
      "\<forall>(lp :: web page) now. backend lp = (backend w1)\<lparr>wall := now\<rparr> \<and> clock_ok now \<and> login_form 1 ''correct horse'' lp
          \<longrightarrow> (\<exists>lp1. login_submit (web_server demo_lib demo_outside) lp = (Done (), lp1) \<and> storage lp1 = storage lp
                \<and> alerts lp1 = alerts lp @ [''Unauthorized: Bad CID and/or password''])"
    using blank_save_locks_out [OF demo_lib_ok s _ e _ _ _ _ _ demo_row _ demo_password d, of demo_outside, where 'z = unit]
    by (auto simp: demo_web_serving int64_def)
  let ?lp = "(demo_page None None demo_login)\<lparr>backend := (backend w1)\<lparr>wall := 2000000\<rparr>\<rparr>"
  have "login_form 1 ''correct horse'' ?lp"
    using demo_login_form [of None None] by (simp add: login_form_def demo_page_def browser.defs page.defs)
  with w1(3) [rule_format, of ?lp 2000000] obtain lp1 where "login_submit (web_server demo_lib demo_outside) ?lp = (Done (), lp1)"
      "alerts lp1 = alerts ?lp @ [''Unauthorized: Bad CID and/or password'']"
    by (auto simp: clock_ok_def)
  moreover have "alerts ?lp = []" by (simp add: demo_page_def browser.defs page.defs sample_page_def)
  ultimately show ?thesis using w1(1,2) by auto
qed

text \<open>
  C19. The date picked in the configuration editor is the date the token for programs ends. For every
  day of the calendar up to the year 9999 that is not over, the dialog shows a token that the
  server accepts with the rating of an administrator until midnight UTC at the start of that day
  (292 years at most), less the last second, and refuses from then on.
\<close>

theorem picked_date_is_kept:
  fixes w :: "('x web_scheme, 'y) config_page_scheme"
  assumes "lib_ok lib" "session lib secret t c w" "12 \<le> claims_NetworkRating c" "int64 (claims_CID c)"
    and "texts w ''expiryDate'' val = date_text y m d"
    and "100 \<le> y" "y \<le> 9999" "1 \<le> m" "m \<le> 12" "1 \<le> d" "d \<le> days_in_month y (m - 1)"
    and "e = make_day y (m - 1) d * msPerDay" "wall (backend w) \<le> e"
  shows "\<exists>w1 token. submit_create_token to_local to_utc (web_server lib out) w = (Done (), w1)
     \<and> message_text w1 = ''API Token created:'' \<and> message_token w1 = Some token
     \<and> (\<forall>now. (wall (backend w) \<le> now \<and> now \<le> wall (backend w) + api_validity e (backend w) - 1000
            \<longrightarrow> token_good lib secret ''access'' (api_holder (claims_CID c)) now token)
          \<and> (wall (backend w) + api_validity e (backend w) \<le> now \<longrightarrow> jwt_parse lib secret now token = None))"
proof -
  define v where "v = backend w"
  have sv: "serving v secret" and clk: "clock_ok (wall v)" and now: "wall v \<le> e"
    using assms(2,13) by (simp_all add: session_def serving_def v_def)
  have "0 \<le> e" using clk now by (simp add: clock_ok_def)
  then have e: "e \<noteq> Web_Config.zero_time" by (simp add: Web_Config.zero_time_def)
  have d31: "d \<le> 31" using days_in_month_le [of "m - 1" y] assms(8,9,11) by simp
  have p: "parse_rfc3339 (date_text y m d @ ''T00:00:00.000Z'') = Some e"
    using parse_midnight [OF _ assms(7-11) d31] assms(6) by (simp add: date_text_def assms(12))
  define token where "token = api_token lib secret (claims_CID c) e v"
  have st: "server_token lib secret ''access'' (api_holder (claims_CID c)) (wall v) (api_validity e v) token"
    using api_holder_ok [OF assms(4)] clk api_validity_range [OF now] ascii_token_types(1)
    unfolding server_token_def token_def api_token_def by blast
  note handled = create_api_token_succeeds [OF assms(1) sv assms(3) p e now, folded token_def]
  have "doAPIRequestWithAuth (web_server lib out) ''POST'' ''/api/v1/config/createtoken''
        (expiry_json (date_text y m d @ ''T00:00:00.000Z'')) w
      = (Done (envelope Null (Obj [(''token'', Str token)])), after out (api_request ''POST'' ''/api/v1/config/createtoken'' True
          (Str t) (expiry_json (date_text y m d @ ''T00:00:00.000Z''))) (v\<lparr>draws := Suc (draws v)\<rparr>) w)"
    unfolding expiry_json_def
    by (intro session_request [OF assms(2) editor_routes(3), where status = 201])
      (simp_all add: handled [unfolded expiry_json_def] v_def [symmetric] del: json_text.simps)
  then have "\<exists>w1. submit_create_token to_local to_utc (web_server lib out) w = (Done (), w1)
      \<and> message_text w1 = ''API Token created:'' \<and> message_token w1 = Some token"
    using server_token_read(2) [OF assms(1) st]
    by (simp add: submit_create_token_def text_of_def assms(5) expiry_of_day [OF assms(6-11)] js_monad
        expiry_json_def obj_get_def showMessageModal_def)
  moreover note token_lifetime [where n = "draws v" and secret = secret, OF assms(1) api_holder_ok [OF assms(4)] clk _ _ ascii_token_types(1)]
  ultimately show ?thesis
    using api_validity_range [OF now] unfolding v_def [symmetric] token_def api_token_def by blast
qed

definition demo_config_page :: "web config_page" where
  "demo_config_page =
     page.extend
       (browser.extend (sample_page (Some (demo_token (demo_user\<lparr>NetworkRating := 12\<rparr>))) None demo_web)
         (page.fields (\<lambda>_ _. ''2030-01-01'') (\<lambda>_ _. False)))
       (config_page.fields [] [] None False True None)"

theorem picked_date_is_kept_witness:
  "\<exists>w1 token. submit_create_token id id (web_server demo_lib demo_outside) demo_config_page = (Done (), w1)
     \<and> message_token w1 = Some token
     \<and> token_good demo_lib ''s3cret'' ''access'' (api_holder 1) 1893455999000 token
     \<and> jwt_parse demo_lib ''s3cret'' 1893456000000 token = None"
proof -
  let ?u = "demo_user\<lparr>NetworkRating := 12\<rparr>"
  let ?c = "token_claims demo_lib ''access'' ?u (15 * minute) 0 1000000"
  have p: "backend demo_config_page = demo_web" "clock demo_config_page = 1000000"
      "storage demo_config_page ''access_token'' = Some (demo_token ?u)" "texts demo_config_page ''expiryDate'' val = ''2030-01-01''"
    by (simp_all add: demo_config_page_def page.defs browser.defs sample_page_def)
  have "user_ok ?u" using demo_web_serving(3) by (simp add: user_ok_def int64_def)
  then have s: "session demo_lib ''s3cret'' (demo_token ?u) ?c demo_config_page"
    using p(1-3) by (rule demo_session)
  have k: "date_text 2030 1 1 = ''2030-01-01''" "(1::int) \<le> days_in_month 2030 (1 - 1)" "make_day 2030 (1 - 1) 1 * msPerDay = 1893456000000"
    by code_simp+
  have w: "wall demo_web = 1000000" by (simp add: demo_web_def)
  obtain w1 token where "submit_create_token id id (web_server demo_lib demo_outside) demo_config_page = (Done (), w1)"
      "message_token w1 = Some token"
      "\<forall>now. (1000000 \<le> now \<and> now \<le> 1893456000000 - 1000
            \<longrightarrow> token_good demo_lib ''s3cret'' ''access'' (api_holder 1) now token)
          \<and> (1893456000000 \<le> now \<longrightarrow> jwt_parse demo_lib ''s3cret'' now token = None)"
    using picked_date_is_kept [OF demo_lib_ok s _ _ _ _ _ _ _ _ k(2) k(3) [symmetric], of id id demo_outside] p(4)
    by (auto simp: p(1) k(1) w api_validity_def max_duration_def int64_def)
  then show ?thesis by force
qed

subsection \<open>The FSD server across the pages\<close>

text \<open>
  C9. Kicking from the dashboard. When a supervisor with a live session presses the button of a
  connected client, the request goes through the API, a token for the service and the service's
  guard, and the connection of exactly this client is ended; the page says so.
\<close>

theorem kick_ends_connection:
  fixes w :: "(('f, 't, 'z) net_scheme, 'y) browser_scheme"
  assumes "lib_ok lib" "session lib secret t c w" "NetworkRatingSupervisor \<le> claims_NetworkRating c"
    and "fsd_kick out = kick_over_http lib True" "post_find cs (backend w) = Some b" "cs \<noteq> []"
  shows "\<exists>w1. kickUser (web_server lib out) (Str cs) w = (Done (), w1)
     \<and> alerts w1 = alerts w @ [''User kicked successfully''] \<and> cancelled (clients (backend w1) b)
     \<and> (\<forall>a. a \<noteq> b \<longrightarrow> clients (backend w1) a = clients (backend w) a) \<and> clientMap (backend w1) = clientMap (backend w)"
proof -
  obtain w1 where "kickUser (web_server lib out) (Str cs) w = (Done (), w1)"
      "alerts w1 = alerts w @ [''User kicked successfully'']"
      "clients (backend w1) = clients (cancel_ctx b (backend w))" "clientMap (backend w1) = clientMap (backend w)"
    using kick_button_reaches [OF assms] by blast
  then show ?thesis by (intro exI [of _ w1]) (simp add: cancel_ctx_def)
qed

definition demo_fsd :: "(int, (int box \<times> nat) list, unit) net_ext outside" where
  "demo_fsd = \<lparr>fsd_kick = kick_over_http demo_lib True, data_feed = (\<lambda>_. Reply 200 []), delay = (\<lambda>_. 0)\<rparr>"

lemma demo_two_serving: "serving demo_two ''s3cret''" "wall demo_two = 1000000" "post_find ''AAL1'' demo_two = Some 0"
  by (simp_all add: serving_def clock_ok_def demo_two_simps demo_two_known)

theorem kick_ends_connection_witness:
  "\<exists>w1. kickUser (web_server demo_lib demo_fsd) (Str ''AAL1'') (sample_page (Some (demo_token demo_user)) None demo_two) = (Done (), w1)
     \<and> alerts w1 = [''User kicked successfully''] \<and> cancelled (clients (backend w1) 0)"
proof -
  let ?w = "sample_page (Some (demo_token demo_user)) None demo_two"
  let ?c = "token_claims demo_lib ''access'' demo_user (15 * minute) 0 1000000"
  have "session demo_lib ''s3cret'' (demo_token demo_user) ?c ?w"
    using demo_two_serving by (intro demo_session_at) (simp_all add: demo_web_serving sample_page_def)
  moreover have "fsd_kick demo_fsd = kick_over_http demo_lib True" by (simp add: demo_fsd_def)
  moreover have "11 \<le> claims_NetworkRating ?c" by simp
  moreover have "post_find ''AAL1'' (backend ?w) = Some 0" by (simp add: sample_page_def demo_two_serving)
  ultimately have "\<exists>w1. kickUser (web_server demo_lib demo_fsd) (Str ''AAL1'') ?w = (Done (), w1)
     \<and> alerts w1 = alerts ?w @ [''User kicked successfully''] \<and> cancelled (clients (backend w1) 0)"
    using kick_ends_connection [OF demo_lib_ok] by blast
  then show ?thesis by (simp add: sample_page_def)
qed

text \<open>
  C15. Anyone can connect as anyone. Whoever knows a CID gets a token for the FSD server from the web
  server with any password that is not empty, and the FSD server lets it in under this CID,
  with a callsign of choice and any rating up to that of the account, a supervisor's included.
\<close>

theorem connect_without_password:
  fixes s :: "('f, 't, 'x) net_scheme"
  assumes "lib_ok lib" "signs_compact lib" "serving s secret" "get_user_by_cid cid s = Inr u" "user_ok u" "CID u = cid"
    and "1 \<le> cid" "int64 cid" "guess \<noteq> []" "is_valid_client_callsign cs" "post_find cs s = None"
    and "1 \<le> rating" "rating \<le> NetworkRating u"
  shows "\<exists>token s1 motd s2.
     get_fsd_jwt lib (Some (show_int cid, guess)) s = (fsd_jwt_reply 200 True token [], s1)
     \<and> connect fl lib addr True (Some ''$ID'') (Some (pilot_login cs cid token rating ''nobody'')) s1 = (LoggedIn (next_client s) motd, s2)
     \<and> post_find cs s2 = Some (next_client s) \<and> client_cid (clients s2 (next_client s)) = cid
     \<and> networkRating (clients s2 (next_client s)) = rating"
proof -
  have c: "clock_ok (wall s)" using assms(3) by (simp add: serving_def)
  let ?cl = "token_claims lib ''fsd'' u (5 * minute) (draws s) (wall s)" and ?s1 = "s\<lparr>draws := Suc (draws s)\<rparr>"
  let ?t = "jwt_sign lib secret ?cl"
  have ok: "claims_ok ?cl" by (rule token_claims_ok [OF assms(1,5) c _ _ ascii_token_types(3)]) simp_all
  have good: "token_good lib secret ''fsd'' u (wall ?s1) ?t"
    using token_lifetime(1) [OF assms(1,5) c _ _ ascii_token_types(3), of "5 * minute" "wall s" secret "draws s"] by simp
  have "atoi (show_int cid) = Some cid" using atoi_show_int assms(7,8) by simp
  from fsd_token_made [OF assms(1,3) this assms(7,4) _ assms(9)] assms(12,13)
  have t: "get_fsd_jwt lib (Some (show_int cid, guess)) s = (fsd_jwt_reply 200 True ?t [], ?s1)" by simp
  have s1: "serving ?s1 secret" "post_find cs ?s1 = None" "next_client s = next_client ?s1"
    using assms(3,11) by (simp_all add: serving_def post_find_def)
  have r: "int64 rating" "0 \<le> cid" using assms(5,7,12,13) by (auto simp: user_ok_def int64_def)
  have n: "CHR '':'' \<notin> set ''nobody''" "CHR 0x0A \<notin> set ''nobody''" "count_fields ''$ID'' \<noteq> 9" by code_simp+
  from token_login [OF assms(2) ok refl s1(1) good assms(6) r(2) assms(8,10) s1(2) assms(12,13) r(1) n s1(3)]
  show ?thesis using t by blast
qed

theorem connect_without_password_witness:
  "\<exists>token s1 motd s2.
     get_fsd_jwt demo_lib (Some (show_int 1, ''guess'')) demo_two = (fsd_jwt_reply 200 True token [], s1)
     \<and> connect demo_fsdlib demo_lib [] True (Some ''$ID'') (Some (pilot_login ''EVIL'' 1 token 11 ''nobody'')) s1 = (LoggedIn 2 motd, s2)"
proof -
  have d: "get_user_by_cid 1 demo_two = Inr demo_user" "is_valid_client_callsign ''EVIL''" "post_find ''EVIL'' demo_two = None"
    "next_client demo_two = 2"
    unfolding post_find_def demo_two_simps by code_simp+
  have "(1::int) \<le> 1" "int64 1" "''guess'' \<noteq> []" "(1::int) \<le> 11" "11 \<le> NetworkRating demo_user" by (simp_all add: int64_def)
  with connect_without_password [OF demo_lib_ok demo_signs_compact demo_two_serving(1) d(1) demo_web_serving(3) _ _ _ _ d(2,3), of "''guess''" 11 demo_fsdlib "[]"]
  show ?thesis unfolding d(4) by simp blast
qed

end
